(* ===== verification/Values.thy ===== *)
theory Values
  imports Prelude
begin

text \<open>
  The domain's failures and validated scalars: \<open>crates/workbench-core/src/error.rs\<close> (the closed
  failure taxonomy and \<open>CoreError\<close>) and \<open>crates/workbench-core/src/value.rs\<close> (\<open>Sequence\<close>,
  \<open>Cursor\<close>, \<open>ContentHash\<close>, the configuration identifiers, \<open>NonEmptyText\<close>). A newtype over
  \<open>String\<close> is the string its smart constructor accepted. The correlation identifier of an error
  is a fresh UUID no code branches on; it is the one field left out.
\<close>

section \<open>Failures\<close>

datatype FailureCategory =
    InvalidRequest | UnsupportedVersion | FrameTooLarge | UnauthorizedPeer | SessionNotFound
  | InvalidTransition | CapabilityUnavailable | PolicyDenied | ApprovalRequired
  | ProviderUnavailable | ProviderTimeout | OutcomeUnknown | ClientLagged
  | StorageUnavailable | KeyStoreUnavailable | Internal

fun conditionally_retryable :: "FailureCategory \<Rightarrow> bool" where
  "conditionally_retryable FailureCategory.ProviderUnavailable = True"
| "conditionally_retryable FailureCategory.ProviderTimeout = True"
| "conditionally_retryable FailureCategory.StorageUnavailable = True"
| "conditionally_retryable FailureCategory.ClientLagged = True"
| "conditionally_retryable _ = False"

record CoreError =
  category :: FailureCategory
  message :: string
  retryable :: bool

text \<open>\<open>None\<close> is the panic of \<open>String::truncate\<close> off a character boundary.\<close>

definition with_retryability :: "FailureCategory \<Rightarrow> string \<Rightarrow> bool \<Rightarrow> CoreError option" where
  "with_retryability cat msg requested_retryable =
     (let msg = (if msg = [] then ''operation failed'' else msg) in
      case string_truncate msg 512 of
        None \<Rightarrow> None
      | Some msg \<Rightarrow>
          Some \<lparr>category = cat, message = msg,
                retryable = requested_retryable \<and> conditionally_retryable cat\<rparr>)"

definition CoreError_new :: "FailureCategory \<Rightarrow> string \<Rightarrow> CoreError option" where
  "CoreError_new cat msg = with_retryability cat msg False"

text \<open>The failures of the domain are built from literals of at most 512 bytes, for which
  construction is total and keeps the text.\<close>

abbreviation core_error :: "FailureCategory \<Rightarrow> string \<Rightarrow> CoreError" where
  "core_error cat msg \<equiv> \<lparr>category = cat, message = msg, retryable = False\<rparr>"

lemma CoreError_new_short:
  "msg \<noteq> [] \<Longrightarrow> length msg \<le> 512 \<Longrightarrow> CoreError_new cat msg = Some (core_error cat msg)"
  by (simp add: CoreError_new_def with_retryability_def Let_def)

lemma with_retryability_Some:
  assumes "with_retryability cat msg r = Some e"
  shows "category e = cat" "retryable e \<longleftrightarrow> r \<and> conditionally_retryable cat"
    "0 < length (message e)" "length (message e) \<le> 512"
  using assms
  by (auto simp: with_retryability_def Let_def string_truncate_def split: option.splits if_splits)

lemma with_retryability_panics_iff:
  "with_retryability cat msg r = None \<longleftrightarrow> 512 < length msg \<and> is_continuation (msg ! 512)"
  by (auto simp: with_retryability_def Let_def string_truncate_def is_char_boundary_def
      split: option.splits if_splits)

section \<open>Sequences and cursors\<close>

datatype Sequence = Sequence (sequence_get: u64)

definition Sequence_FIRST :: Sequence where
  "Sequence_FIRST = Sequence 1"

definition Sequence_new :: "u64 \<Rightarrow> CoreError + Sequence" where
  "Sequence_new v =
     (if v = 0
      then Err (core_error InvalidRequest ''session sequence must be greater than zero'')
      else Ok (Sequence v))"

definition checked_next :: "Sequence \<Rightarrow> CoreError + Sequence" where
  "checked_next s =
     (case checked_add (sequence_get s) 1 of
        None \<Rightarrow> Err (core_error Internal ''session sequence is exhausted'')
      | Some v \<Rightarrow>
          (if v = 0 then Err (core_error Internal ''session sequence is exhausted'')
           else Ok (Sequence v)))"

text \<open>The type invariant of \<open>NonZeroU64\<close>.\<close>

definition sequence_wf :: "Sequence \<Rightarrow> bool" where
  "sequence_wf s \<longleftrightarrow> sequence_get s \<noteq> 0"

lemma checked_next_Ok:
  "checked_next s = Ok t \<longleftrightarrow>
     unat (sequence_get s) < 2 ^ 64 - 1 \<and> t = Sequence (sequence_get s + 1)"
proof (cases "unat (sequence_get s) + 1 < 2 ^ 64")
  case True
  then have "unat (sequence_get s + 1) = unat (sequence_get s) + 1"
    using unat_no_overflow [of "sequence_get s" 1] by simp
  then have "sequence_get s + 1 \<noteq> 0" by (metis add_is_0 one_neq_zero unat_0)
  with True show ?thesis by (auto simp: checked_next_def checked_add_def)
next
  case False
  then show ?thesis by (auto simp: checked_next_def checked_add_def)
qed

lemma checked_next_unat:
  "checked_next s = Ok t \<Longrightarrow> unat (sequence_get t) = Suc (unat (sequence_get s))"
  using unat_no_overflow [of "sequence_get s" 1] by (auto simp: checked_next_Ok)

lemma checked_next_wf: "checked_next s = Ok t \<Longrightarrow> sequence_wf t"
  by (metis checked_next_unat nat.simps(3) sequence_wf_def unat_0)

lemma Sequence_new_wf: "Sequence_new v = Ok s \<Longrightarrow> sequence_wf s \<and> sequence_get s = v"
  by (auto simp: Sequence_new_def sequence_wf_def split: if_splits)

type_synonym Cursor = u64

section \<open>Validated strings\<close>

definition ContentHash_parse :: "string \<Rightarrow> CoreError + string" where
  "ContentHash_parse v =
     (if length v = 64 \<and> list_all is_lower_hex v then Ok v
      else Err (core_error InvalidRequest
             ''content hash must be 64 lowercase hexadecimal characters''))"

text \<open>The smart constructor shared by \<open>RoleId\<close>, \<open>ModelAlias\<close>, \<open>ProviderId\<close>, \<open>ToolId\<close>,
  \<open>DataSourceId\<close> and \<open>WorkflowId\<close>.\<close>

definition identifier_parse :: "string \<Rightarrow> CoreError + string" where
  "identifier_parse v =
     (let first_is_valid = (case v of [] \<Rightarrow> False | b # _ \<Rightarrow> is_ascii_lowercase b);
          remainder_is_valid =
            list_all (\<lambda>b. is_ascii_lowercase b \<or> is_ascii_digit b \<or> b = CHR ''-'') (tl v)
      in if first_is_valid \<and> remainder_is_valid \<and> length v \<le> 63 then Ok v
         else Err (core_error InvalidRequest
                ''identifier must match ^[a-z][a-z0-9-]{0,62}$''))"

definition NonEmptyText_parse :: "string \<Rightarrow> CoreError + string" where
  "NonEmptyText_parse v =
     (if v = [] then Err (core_error InvalidRequest ''text must not be empty'') else Ok v)"

type_synonym ToolId = string
type_synonym RoleId = string
type_synonym ProviderId = string
type_synonym WorkflowId = string
type_synonym NonEmptyText = string
type_synonym ContentHash = string

text \<open>The language of the documented pattern \<open>^[a-z][a-z0-9-]{0,62}$\<close>.\<close>

definition identifier_pattern :: "string \<Rightarrow> bool" where
  "identifier_pattern v \<longleftrightarrow>
     (\<exists>b bs. v = b # bs \<and> is_ascii_lowercase b \<and> length bs \<le> 62 \<and>
        (\<forall>c \<in> set bs. is_ascii_lowercase c \<or> is_ascii_digit c \<or> c = CHR ''-''))"

lemma identifier_parse_pattern: "identifier_parse v = Ok w \<longleftrightarrow> w = v \<and> identifier_pattern v"
  by (cases v) (auto simp: identifier_parse_def identifier_pattern_def list_all_iff Let_def)

lemma identifier_parse_self: "identifier_parse v = Ok w \<Longrightarrow> w = v"
  by (simp add: identifier_parse_pattern)

lemma NonEmptyText_parse_Ok [simp]: "NonEmptyText_parse v = Ok w \<longleftrightarrow> v \<noteq> [] \<and> w = v"
  by (auto simp: NonEmptyText_parse_def)

section \<open>Properties\<close>

text \<open>C19: building an error panics exactly when its message is longer than 512 bytes and byte 512 is
  in the middle of a character; otherwise the message has 1 to 512 bytes and the error is
  retryable only if asked for and its category allows it.\<close>

theorem core_error_construction:
  "with_retryability cat msg r =
     (if 512 < length msg \<and> is_continuation (msg ! 512) then None
      else Some \<lparr>category = cat,
                 message = (if msg = [] then ''operation failed'' else take 512 msg),
                 retryable = r \<and> conditionally_retryable cat\<rparr>)"
proof (cases "msg = []")
  case True
  then show ?thesis by (simp add: with_retryability_def)
next
  case False
  then have "with_retryability cat msg r = (case string_truncate msg 512 of None \<Rightarrow> None
      | Some m \<Rightarrow> Some \<lparr>category = cat, message = m, retryable = r \<and> conditionally_retryable cat\<rparr>)"
    by (simp add: with_retryability_def)
  moreover have "string_truncate msg 512 =
      (if 512 < length msg \<and> is_continuation (msg ! 512) then None else Some (take 512 msg))"
    unfolding string_truncate_def is_char_boundary_def by auto
  ultimately show ?thesis using False by simp
qed


end
