(* ===== verification/Attempts.thy ===== *)
theory Attempts
  imports Values
begin

text \<open>
  The lifecycle of one external side effect, from \<open>crates/workbench-core/src/attempt.rs\<close>: the
  declared safety of an operation, the durable progress of an attempt and its reconciliation by a
  human once its outcome is uncertain. Mutating methods return the updated attempt; on an error
  the receiver is unchanged, so the error alone is returned.
\<close>

datatype EffectClass =
    NoEffect | IdempotentRead | IdempotentWrite | PaidInference | NonIdempotentWrite
  | Production | Credential

record OperationPolicy =
  effect_class :: EffectClass
  explicitly_idempotent :: bool
  material_cost :: bool

fun forbidden_idempotency :: "EffectClass \<Rightarrow> bool" where
  "forbidden_idempotency PaidInference = True"
| "forbidden_idempotency NonIdempotentWrite = True"
| "forbidden_idempotency Production = True"
| "forbidden_idempotency Credential = True"
| "forbidden_idempotency _ = False"

definition OperationPolicy_validate :: "OperationPolicy \<Rightarrow> CoreError + unit" where
  "OperationPolicy_validate p =
     (if explicitly_idempotent p \<and> forbidden_idempotency (effect_class p)
      then Err (core_error InvalidRequest ''effect class cannot be declared idempotent'')
      else Ok ())"

definition permits_automatic_retry :: "OperationPolicy \<Rightarrow> bool" where
  "permits_automatic_retry p \<longleftrightarrow>
     effect_class p = IdempotentRead \<and> explicitly_idempotent p \<and> \<not> material_cost p"

datatype AttemptProgress =
    Planned | Started | Acknowledged | Completed | Failed | OutcomeUnknown | Abandoned

fun is_definite_terminal :: "AttemptProgress \<Rightarrow> bool" where
  "is_definite_terminal AttemptProgress.Completed = True"
| "is_definite_terminal AttemptProgress.Failed = True"
| "is_definite_terminal AttemptProgress.Abandoned = True"
| "is_definite_terminal _ = False"

definition dispatch_started :: "AttemptProgress \<Rightarrow> bool" where
  "dispatch_started p \<longleftrightarrow> p \<noteq> AttemptProgress.Planned"

record Attempt =
  att_id :: uuid
  att_operation :: string
  att_policy :: OperationPolicy
  att_progress :: AttemptProgress
  att_predecessor :: "uuid option"

abbreviation invalid_attempt_transition :: CoreError where
  "invalid_attempt_transition \<equiv>
     core_error InvalidTransition ''attempt transition is not allowed''"

text \<open>\<open>new_id\<close> is the identifier drawn by \<open>AttemptId::new\<close>.\<close>

definition Attempt_plan :: "uuid \<Rightarrow> string \<Rightarrow> OperationPolicy \<Rightarrow> CoreError + Attempt" where
  "Attempt_plan new_id operation policy =
     and_then (OperationPolicy_validate policy) (\<lambda>_.
       if operation = []
       then Err (core_error InvalidRequest ''operation must not be empty'')
       else Ok \<lparr>att_id = new_id, att_operation = operation, att_policy = policy,
                att_progress = AttemptProgress.Planned, att_predecessor = None\<rparr>)"

definition advance :: "AttemptProgress \<Rightarrow> AttemptProgress \<Rightarrow> Attempt \<Rightarrow> CoreError + Attempt" where
  "advance expected next_progress a =
     (if att_progress a = expected then Ok (a\<lparr>att_progress := next_progress\<rparr>)
      else Err invalid_attempt_transition)"

definition mark_started :: "Attempt \<Rightarrow> CoreError + Attempt" where
  "mark_started a = advance AttemptProgress.Planned AttemptProgress.Started a"

definition mark_acknowledged :: "Attempt \<Rightarrow> CoreError + Attempt" where
  "mark_acknowledged a = advance AttemptProgress.Started AttemptProgress.Acknowledged a"

definition mark_completed :: "Attempt \<Rightarrow> CoreError + Attempt" where
  "mark_completed a =
     (if att_progress a \<in> {AttemptProgress.Started, AttemptProgress.Acknowledged}
      then Ok (a\<lparr>att_progress := AttemptProgress.Completed\<rparr>)
      else Err invalid_attempt_transition)"

definition mark_failed :: "Attempt \<Rightarrow> CoreError + Attempt" where
  "mark_failed a =
     (if att_progress a \<in>
         {AttemptProgress.Planned, AttemptProgress.Started, AttemptProgress.Acknowledged}
      then Ok (a\<lparr>att_progress := AttemptProgress.Failed\<rparr>)
      else Err invalid_attempt_transition)"

definition mark_outcome_unknown :: "Attempt \<Rightarrow> CoreError + Attempt" where
  "mark_outcome_unknown a =
     (if att_progress a \<in> {AttemptProgress.Started, AttemptProgress.Acknowledged}
      then Ok (a\<lparr>att_progress := AttemptProgress.OutcomeUnknown\<rparr>)
      else Err invalid_attempt_transition)"

definition recover :: "Attempt \<Rightarrow> Attempt" where
  "recover a =
     (if att_progress a \<in> {AttemptProgress.Started, AttemptProgress.Acknowledged}
      then a\<lparr>att_progress := AttemptProgress.OutcomeUnknown\<rparr> else a)"

definition may_retry_automatically :: "Attempt \<Rightarrow> bool" where
  "may_retry_automatically a \<longleftrightarrow>
     att_progress a = AttemptProgress.Planned \<and> permits_automatic_retry (att_policy a)"

datatype ReconciliationResolution = Retry | AcceptResult | Abandon

datatype ReconciliationOutcome = RetryWith Attempt | Accepted | AbandonedOutcome

text \<open>\<open>reconcile\<close> returns the updated attempt beside the outcome; \<open>new_id\<close> is the identifier of a
  replacement attempt.\<close>

definition reconcile ::
  "uuid \<Rightarrow> Attempt \<Rightarrow> ReconciliationResolution \<Rightarrow> CoreError + Attempt \<times> ReconciliationOutcome" where
  "reconcile new_id a resolution =
     (if att_progress a \<noteq> AttemptProgress.OutcomeUnknown then Err invalid_attempt_transition
      else case resolution of
        Retry \<Rightarrow>
          and_then (Attempt_plan new_id (att_operation a) (att_policy a)) (\<lambda>replacement.
            Ok (a, RetryWith (replacement\<lparr>att_predecessor := Some (att_id a)\<rparr>)))
      | AcceptResult \<Rightarrow> Ok (a\<lparr>att_progress := AttemptProgress.Completed\<rparr>, Accepted)
      | Abandon \<Rightarrow> Ok (a\<lparr>att_progress := AttemptProgress.Abandoned\<rparr>, AbandonedOutcome))"

lemmas attempt_ops [step_simps] =
  advance_def mark_started_def mark_acknowledged_def mark_completed_def mark_failed_def
  mark_outcome_unknown_def recover_def

section \<open>The attempt state machine\<close>

text \<open>The type invariant the constructor establishes: the declared policy is a safe one and the
  operation is named.\<close>

definition attempt_wf :: "Attempt \<Rightarrow> bool" where
  "attempt_wf a \<longleftrightarrow> OperationPolicy_validate (att_policy a) = Ok () \<and> att_operation a \<noteq> []"

text \<open>One public call on an attempt, whichever method it is; \<open>reconcile\<close> by a human included.\<close>

inductive attempt_step :: "Attempt \<Rightarrow> Attempt \<Rightarrow> bool" where
  started: "mark_started a = Ok b \<Longrightarrow> attempt_step a b"
| acknowledged: "mark_acknowledged a = Ok b \<Longrightarrow> attempt_step a b"
| completed: "mark_completed a = Ok b \<Longrightarrow> attempt_step a b"
| failed: "mark_failed a = Ok b \<Longrightarrow> attempt_step a b"
| unknown: "mark_outcome_unknown a = Ok b \<Longrightarrow> attempt_step a b"
| recovered: "attempt_step a (recover a)"
| reconciled: "reconcile new_id a r = Ok (b, out) \<Longrightarrow> attempt_step a b"

text \<open>How far an attempt has got; every call keeps or raises it.\<close>

fun progress_rank :: "AttemptProgress \<Rightarrow> nat" where
  "progress_rank AttemptProgress.Planned = 0"
| "progress_rank AttemptProgress.Started = 1"
| "progress_rank AttemptProgress.Acknowledged = 2"
| "progress_rank AttemptProgress.OutcomeUnknown = 3"
| "progress_rank AttemptProgress.Completed = 4"
| "progress_rank AttemptProgress.Failed = 4"
| "progress_rank AttemptProgress.Abandoned = 4"

lemma Attempt_plan_Ok:
  "Attempt_plan i opn pol = Ok a \<longleftrightarrow>
     OperationPolicy_validate pol = Ok () \<and> opn \<noteq> [] \<and>
     a = \<lparr>att_id = i, att_operation = opn, att_policy = pol,
          att_progress = AttemptProgress.Planned, att_predecessor = None\<rparr>"
  by (auto simp: Attempt_plan_def and_then_Ok_iff)

lemma attempt_step_frame:
  "attempt_step a b \<Longrightarrow>
     att_id b = att_id a \<and> att_operation b = att_operation a \<and> att_policy b = att_policy a \<and>
     att_predecessor b = att_predecessor a"
  by (induction rule: attempt_step.induct)
     (auto simp: step_simps reconcile_def split: if_splits ReconciliationResolution.splits)

lemma attempt_step_wf [inv_intros]: "attempt_step a b \<Longrightarrow> attempt_wf a \<Longrightarrow> attempt_wf b"
  by (auto simp: attempt_wf_def dest: attempt_step_frame)

lemma attempt_step_rank:
  "attempt_step a b \<Longrightarrow>
     b = a \<or> progress_rank (att_progress a) < progress_rank (att_progress b)"
  by (induction rule: attempt_step.induct)
     (auto simp: step_simps reconcile_def split: if_splits ReconciliationResolution.splits)

lemma attempt_step_terminal:
  "attempt_step a b \<Longrightarrow> is_definite_terminal (att_progress a) \<Longrightarrow> b = a"
  by (induction rule: attempt_step.induct)
     (auto simp: step_simps reconcile_def split: if_splits ReconciliationResolution.splits)

lemma attempt_steps_rank:
  "attempt_step\<^sup>*\<^sup>* a b \<Longrightarrow>
     progress_rank (att_progress a) \<le> progress_rank (att_progress b)"
  by (induction rule: rtranclp_induct) (auto dest!: attempt_step_rank)

lemma attempt_steps_frame: "attempt_step\<^sup>*\<^sup>* a b \<Longrightarrow> att_policy b = att_policy a"
  by (induction rule: rtranclp_induct) (auto dest: attempt_step_frame)

lemma attempt_steps_terminal:
  "attempt_step\<^sup>*\<^sup>* a b \<Longrightarrow> is_definite_terminal (att_progress a) \<Longrightarrow> b = a"
  by (induction rule: rtranclp_induct) (auto dest: attempt_step_terminal)

lemma recover_idem: "recover (recover a) = recover a"
  by (simp add: recover_def)

section \<open>Properties\<close>

text \<open>C16: once the outcome of an attempt is definite (completed, failed or abandoned), no sequence
  of calls on it, recovery and human reconciliation included, changes it any more.\<close>

theorem attempt_outcome_final:
  assumes "attempt_step\<^sup>*\<^sup>* a b" "is_definite_terminal (att_progress a)"
  shows "b = a"
  using assms by (rule attempt_steps_terminal)

theorem attempt_outcome_final_witness:
  "\<exists>a. mark_failed a \<noteq> Ok a \<and> is_definite_terminal (att_progress a) \<and> recover a = a"
proof -
  define a where "a = \<lparr>att_id = 1, att_operation = ''op'',
    att_policy = \<lparr>effect_class = NoEffect, explicitly_idempotent = False, material_cost = False\<rparr>,
    att_progress = AttemptProgress.Completed, att_predecessor = None\<rparr>"
  have "attempt_step\<^sup>*\<^sup>* a (recover a)" by (blast intro: attempt_step.recovered)
  moreover have "is_definite_terminal (att_progress a)" by (simp add: a_def)
  ultimately have "recover a = a" by (rule attempt_outcome_final)
  then show ?thesis by (intro exI [of _ a]) (simp add: a_def mark_failed_def)
qed



end
