(* ===== verification/Policies.thy ===== *)
theory Policies
  imports Attempts
begin

text \<open>
  Tool permissions and approvals, from \<open>crates/workbench-core/src/policy.rs\<close>: the permission
  modes with their restriction rank, the intersection of policy layers, the mandatory protection
  of external effects and the durable record of a human decision. The restriction rank makes the
  modes a linear order, in which intersecting layers is taking a maximum.
\<close>

datatype PermissionMode = ReadOnly | ApprovalRequired | Denied

fun restriction_rank :: "PermissionMode \<Rightarrow> u8" where
  "restriction_rank PermissionMode.ReadOnly = 0"
| "restriction_rank PermissionMode.ApprovalRequired = 1"
| "restriction_rank PermissionMode.Denied = 2"

definition PermissionMode_intersect :: "PermissionMode \<Rightarrow> PermissionMode \<Rightarrow> PermissionMode" where
  "PermissionMode_intersect m m' =
     (if restriction_rank m' \<le> restriction_rank m then m else m')"

datatype PolicySource =
  BuiltIn | User | Repository | Session | Role | Workflow | EffectClass

record PolicyLayer =
  pl_source :: PolicySource
  pl_default_mode :: PermissionMode
  pl_tool_modes :: "PermissionMode btree"
  pl_denied_tools :: "ToolId list"

record PolicyDecision =
  mode :: PermissionMode
  authoritative_source :: PolicySource

definition proposed_mode :: "ToolId \<Rightarrow> PolicyLayer \<Rightarrow> PermissionMode" where
  "proposed_mode tool layer =
     (if tool \<in> set (pl_denied_tools layer) then PermissionMode.Denied
      else case map_of (pl_tool_modes layer) tool of
             Some m \<Rightarrow> m
           | None \<Rightarrow> pl_default_mode layer)"

text \<open>The body of the loop of \<open>resolve_tool_policy\<close>, then the loop.\<close>

definition resolve_layer :: "ToolId \<Rightarrow> PolicyLayer \<Rightarrow> PolicyDecision \<Rightarrow> PolicyDecision" where
  "resolve_layer tool layer decision =
     (let intersected = PermissionMode_intersect (mode decision) (proposed_mode tool layer) in
      if intersected \<noteq> mode decision
      then \<lparr>mode = intersected, authoritative_source = pl_source layer\<rparr>
      else decision)"

definition resolve_tool_policy :: "ToolId \<Rightarrow> PolicyLayer list \<Rightarrow> PolicyDecision" where
  "resolve_tool_policy tool layers =
     fold (resolve_layer tool) layers
       \<lparr>mode = PermissionMode.ReadOnly, authoritative_source = PolicySource.BuiltIn\<rparr>"

definition mandatory_mode :: "EffectClass \<Rightarrow> bool \<Rightarrow> PermissionMode" where
  "mandatory_mode effect cost =
     (if effect \<in> {NoEffect, IdempotentRead} \<and> \<not> cost then PermissionMode.ReadOnly
      else PermissionMode.ApprovalRequired)"

definition protect_effect :: "PolicyDecision \<Rightarrow> EffectClass \<Rightarrow> bool \<Rightarrow> PolicyDecision" where
  "protect_effect current effect cost =
     (let protected = PermissionMode_intersect (mode current) (mandatory_mode effect cost) in
      if protected = mode current then current
      else \<lparr>mode = protected, authoritative_source = PolicySource.EffectClass\<rparr>)"

datatype ApprovalDecision = Grant | Deny

record ApprovalRecord =
  ar_approval_id :: uuid
  ar_actor :: NonEmptyText
  ar_decision :: ApprovalDecision

record PendingApproval =
  pa_id :: uuid
  pa_recorded :: "ApprovalRecord option"

definition PendingApproval_new :: "uuid \<Rightarrow> PendingApproval" where
  "PendingApproval_new new_id = \<lparr>pa_id = new_id, pa_recorded = None\<rparr>"

definition PendingApproval_resolve ::
  "PendingApproval \<Rightarrow> NonEmptyText \<Rightarrow> ApprovalDecision
     \<Rightarrow> PendingApproval \<times> (CoreError + ApprovalRecord)" where
  "PendingApproval_resolve p actor decision =
     (case pa_recorded p of
        Some recorded \<Rightarrow>
          (if ar_decision recorded = decision then (p, Ok recorded)
           else (p, Err (core_error InvalidTransition
                      ''approval already has a conflicting decision'')))
      | None \<Rightarrow>
          (let r = \<lparr>ar_approval_id = pa_id p, ar_actor = actor, ar_decision = decision\<rparr>
           in (p\<lparr>pa_recorded := Some r\<rparr>, Ok r)))"

section \<open>Modes as a linear order\<close>

instantiation PermissionMode :: linorder
begin

definition less_eq_PermissionMode :: "PermissionMode \<Rightarrow> PermissionMode \<Rightarrow> bool" where
  "m \<le> m' \<longleftrightarrow> restriction_rank m \<le> restriction_rank m'"

definition less_PermissionMode :: "PermissionMode \<Rightarrow> PermissionMode \<Rightarrow> bool" where
  "m < m' \<longleftrightarrow> restriction_rank m < restriction_rank m'"

instance
proof
  fix x y z :: PermissionMode
  show "x < y \<longleftrightarrow> x \<le> y \<and> \<not> y \<le> x" by (auto simp: less_eq_PermissionMode_def less_PermissionMode_def)
  show "x \<le> x" by (simp add: less_eq_PermissionMode_def)
  show "x \<le> y \<Longrightarrow> y \<le> z \<Longrightarrow> x \<le> z" by (simp add: less_eq_PermissionMode_def)
  show "x \<le> y \<Longrightarrow> y \<le> x \<Longrightarrow> x = y"
    by (cases x; cases y) (simp_all add: less_eq_PermissionMode_def word_le_nat_alt)
  show "x \<le> y \<or> y \<le> x" by (auto simp: less_eq_PermissionMode_def)
qed

end

lemmas mode_order = less_eq_PermissionMode_def less_PermissionMode_def

instantiation PermissionMode :: order_bot
begin

definition bot_PermissionMode :: PermissionMode where
  "bot = PermissionMode.ReadOnly"

instance
  by standard (simp add: bot_PermissionMode_def less_eq_PermissionMode_def)

end

instantiation PermissionMode :: order_top
begin

definition top_PermissionMode :: PermissionMode where
  "top = PermissionMode.Denied"

instance
proof
  fix m :: PermissionMode
  show "m \<le> top" by (cases m) (simp_all add: top_PermissionMode_def less_eq_PermissionMode_def)
qed

end

lemma ReadOnly_le [simp]: "PermissionMode.ReadOnly \<le> m"
  using bot_least [of m] by (simp add: bot_PermissionMode_def)

lemma le_Denied [simp]: "m \<le> PermissionMode.Denied"
  using top_greatest [of m] by (simp add: top_PermissionMode_def)

lemma intersect_max: "PermissionMode_intersect m m' = max m m'"
  by (simp add: PermissionMode_intersect_def max_def mode_order) (cases m; cases m'; simp)

lemma resolve_layer_mode:
  "mode (resolve_layer tool layer d) = max (mode d) (proposed_mode tool layer)"
  by (simp add: resolve_layer_def Let_def intersect_max)

lemma fold_resolve_mode:
  "mode (fold (resolve_layer tool) layers d) =
     fold max (map (proposed_mode tool) layers) (mode d)"
  by (induction layers arbitrary: d) (simp_all add: resolve_layer_mode max.commute)

lemma resolve_mode_fold:
  "mode (resolve_tool_policy tool layers) =
     fold max (map (proposed_mode tool) layers) PermissionMode.ReadOnly"
  by (simp add: resolve_tool_policy_def fold_resolve_mode)

lemma resolve_mode_Max:
  "mode (resolve_tool_policy tool layers) =
     Max (insert PermissionMode.ReadOnly (proposed_mode tool ` set layers))"
  using Max.set_eq_fold [of PermissionMode.ReadOnly "map (proposed_mode tool) layers"]
  by (simp add: resolve_mode_fold)

lemma proposed_le_resolved:
  "layer \<in> set layers \<Longrightarrow> proposed_mode tool layer \<le> mode (resolve_tool_policy tool layers)"
  by (simp add: resolve_mode_Max)

lemma resolve_mode_mono:
  "set layers \<subseteq> set layers' \<Longrightarrow>
     mode (resolve_tool_policy tool layers) \<le> mode (resolve_tool_policy tool layers')"
  unfolding resolve_mode_Max by (rule Max_mono) auto

text \<open>Who is authoritative: the fold keeps a decision that stands for a strict prefix maximum.\<close>

definition explains :: "ToolId \<Rightarrow> PolicyLayer list \<Rightarrow> PolicyDecision \<Rightarrow> bool" where
  "explains tool layers d \<longleftrightarrow>
     (if mode d = PermissionMode.ReadOnly then authoritative_source d = PolicySource.BuiltIn
      else \<exists>pre layer post. layers = pre @ layer # post \<and> pl_source layer = authoritative_source d \<and>
             proposed_mode tool layer = mode d \<and>
             (\<forall>l \<in> set pre. proposed_mode tool l < mode d))"

lemma resolve_snoc:
  "resolve_tool_policy tool (layers @ [layer]) =
     resolve_layer tool layer (resolve_tool_policy tool layers)"
  by (simp add: resolve_tool_policy_def)

lemma explains_snoc:
  assumes "explains tool layers (resolve_tool_policy tool layers)"
  shows "explains tool (layers @ [layer]) (resolve_tool_policy tool (layers @ [layer]))"
proof (cases "proposed_mode tool layer \<le> mode (resolve_tool_policy tool layers)")
  case True
  then have "resolve_tool_policy tool (layers @ [layer]) = resolve_tool_policy tool layers"
    by (simp add: resolve_snoc resolve_layer_def intersect_max Let_def)
  with assms show ?thesis by (fastforce simp: explains_def)
next
  case False
  let ?m = "proposed_mode tool layer"
  from False have new: "resolve_tool_policy tool (layers @ [layer]) =
      \<lparr>mode = ?m, authoritative_source = pl_source layer\<rparr>"
    by (auto simp: resolve_snoc resolve_layer_def intersect_max Let_def max_def)
  have "\<forall>l \<in> set layers. proposed_mode tool l < ?m"
    using False proposed_le_resolved [of _ layers tool] by (meson le_less_trans not_le)
  moreover from False have "?m \<noteq> PermissionMode.ReadOnly" by auto
  ultimately show ?thesis by (auto simp: new explains_def)
qed

lemma resolve_explained: "explains tool layers (resolve_tool_policy tool layers)"
proof (induction layers rule: rev_induct)
  case Nil
  then show ?case by (simp add: explains_def resolve_tool_policy_def)
next
  case (snoc layer layers)
  then show ?case by (rule explains_snoc)
qed

lemma protect_effect_mode:
  "mode (protect_effect d effect cost) = max (mode d) (mandatory_mode effect cost)"
  by (simp add: protect_effect_def Let_def intersect_max)

lemma protect_effect_widens_never: "mode d \<le> mode (protect_effect d effect cost)"
  by (simp add: protect_effect_mode)

section \<open>A recorded decision is final\<close>

text \<open>Any sequence of later calls, whoever makes them.\<close>

fun resolve_all ::
  "PendingApproval \<Rightarrow> (NonEmptyText \<times> ApprovalDecision) list \<Rightarrow> PendingApproval" where
  "resolve_all p [] = p"
| "resolve_all p ((actor, decision) # calls) =
     resolve_all (fst (PendingApproval_resolve p actor decision)) calls"

lemma PendingApproval_resolve_recorded:
  "pa_recorded p = Some r \<Longrightarrow> fst (PendingApproval_resolve p actor decision) = p"
  by (simp add: PendingApproval_resolve_def)

lemma resolve_all_recorded: "pa_recorded p = Some r \<Longrightarrow> resolve_all p calls = p"
  by (induction p calls rule: resolve_all.induct) (simp_all add: PendingApproval_resolve_recorded)

section \<open>Properties\<close>

text \<open>C13: the resolved permission of a tool is the most restrictive of the modes its layers propose,
  whatever their order; a more restrictive layer is never widened by another one.\<close>

theorem tool_policy_most_restrictive:
  "mode (resolve_tool_policy tool layers) =
     Max (insert PermissionMode.ReadOnly (proposed_mode tool ` set layers))"
  by (rule resolve_mode_Max)

text \<open>The decision names who is responsible for it. A read-only decision is the built-in
  default; any other one is attributed to the first layer, in order, that proposed the resulting
  mode, and every layer before it proposed a strictly weaker one.\<close>

theorem tool_policy_attribution:
  "let d = resolve_tool_policy tool layers in
     if mode d = PermissionMode.ReadOnly then authoritative_source d = PolicySource.BuiltIn
     else \<exists>pre layer post. layers = pre @ layer # post \<and> pl_source layer = authoritative_source d \<and>
            proposed_mode tool layer = mode d \<and>
            list_all (\<lambda>l. proposed_mode tool l < mode d) pre"
  using resolve_explained [of tool layers] by (auto simp: explains_def Let_def list_all_iff)

text \<open>Effect protection only ever restricts. After it, an operation that writes, costs money or
  touches production or credentials is at least subject to approval, and the decision stays
  read-only only for a free read under a read-only policy.\<close>

theorem effect_protection_restricts:
  "mode d \<le> mode (protect_effect d effect cost) \<and>
   (mode (protect_effect d effect cost) = PermissionMode.ReadOnly \<longleftrightarrow>
      mode d = PermissionMode.ReadOnly \<and> effect \<in> {NoEffect, IdempotentRead} \<and> \<not> cost)"
proof -
  have "m = PermissionMode.ReadOnly \<longleftrightarrow> m \<le> PermissionMode.ReadOnly" for m
    using ReadOnly_le [of m] by (metis order_antisym)
  then show ?thesis by (auto simp: protect_effect_mode mandatory_mode_def)
qed

text \<open>C14: an approval is decided once. Whatever calls follow the first decision, whoever makes them,
  the recorded decision stays; a call that agrees is told the recorded decision and a call that
  disagrees is refused.\<close>

theorem approval_decided_once:
  assumes "PendingApproval_resolve (PendingApproval_new i) actor decision = (p, r)"
  shows "r = Ok \<lparr>ar_approval_id = i, ar_actor = actor, ar_decision = decision\<rparr> \<and>
    snd (PendingApproval_resolve (resolve_all p calls) actor' decision') =
      (if decision' = decision then r
       else Err (core_error InvalidTransition ''approval already has a conflicting decision''))"
proof -
  let ?r = "\<lparr>ar_approval_id = i, ar_actor = actor, ar_decision = decision\<rparr>"
  from assms have r: "r = Ok ?r" and p: "pa_recorded p = Some ?r"
    by (auto simp: PendingApproval_resolve_def PendingApproval_new_def Let_def)
  show ?thesis
    unfolding resolve_all_recorded [OF p] using r p by (auto simp: PendingApproval_resolve_def)
qed

theorem approval_decided_once_witness:
  "snd (PendingApproval_resolve
      (resolve_all (fst (PendingApproval_resolve (PendingApproval_new 7) ''ann'' Deny))
         [(''bob'', Grant), (''ann'', Deny)]) ''bob'' Grant) =
     Err (core_error InvalidTransition ''approval already has a conflicting decision'')"
  using approval_decided_once [of 7 "''ann''" Deny, OF surjective_pairing,
      of "[(''bob'', Grant), (''ann'', Deny)]" "''bob''" Grant] by simp

end
