(* ===== verification/Routing.thy ===== *)
theory Routing
  imports Values Complex_Main
begin

text \<open>
  The ordered router of \<open>crates/workbench-core/src/routing.rs\<close>. A confidence is an \<open>f64\<close>: a NaN,
  an infinity or a finite (here: rational) value, with the comparisons the code uses, which are
  false as soon as an operand is NaN.
\<close>

datatype f64 = NaN | Inf bool | Fin rat

fun f64_le :: "f64 \<Rightarrow> f64 \<Rightarrow> bool" where
  "f64_le NaN _ = False"
| "f64_le _ NaN = False"
| "f64_le (Fin x) (Fin y) = (x \<le> y)"
| "f64_le (Inf neg) (Fin _) = neg"
| "f64_le (Fin _) (Inf neg) = (\<not> neg)"
| "f64_le (Inf neg) (Inf neg') = (neg \<or> \<not> neg')"

definition f64_is_nan :: "f64 \<Rightarrow> bool" where
  "f64_is_nan x \<longleftrightarrow> x = NaN"

text \<open>\<open>(0.0..=1.0).contains(&x)\<close>\<close>

definition unit_interval_contains :: "f64 \<Rightarrow> bool" where
  "unit_interval_contains x \<longleftrightarrow> f64_le (Fin 0) x \<and> f64_le x (Fin 1)"

datatype Risk = Low | Medium | High

datatype PermissionScope = ReadOnly | ApprovalRequired | Denied

record RouteDestination =
  rd_role :: RoleId
  rd_model_alias :: string
  rd_provider :: ProviderId
  rd_runtime_model :: string

record RouteContext =
  rc_tools :: "ToolId list"
  rc_data_sources :: "string list"
  rc_permission :: PermissionScope

datatype SelectedRule = Explicit | Workflow | Resolver | Coordinator

record RoutingPlan =
  rp_intent :: string
  rp_destination :: RouteDestination
  rp_context :: RouteContext
  rp_risk :: Risk
  rp_confidence :: f64
  rp_selected_by :: SelectedRule

record RouteCandidate =
  cand_intent :: string
  cand_destination :: RouteDestination
  cand_context :: RouteContext
  cand_risk :: Risk
  cand_confidence :: f64

definition RouteCandidate_new ::
  "string \<Rightarrow> RouteDestination \<Rightarrow> RouteContext \<Rightarrow> Risk \<Rightarrow> f64 \<Rightarrow> CoreError + RouteCandidate" where
  "RouteCandidate_new intent destination ctxt risk confidence =
     (if intent = [] \<or> \<not> unit_interval_contains confidence \<or> f64_is_nan confidence
      then Err (core_error InvalidRequest ''route intent and confidence are invalid'')
      else Ok \<lparr>cand_intent = intent, cand_destination = destination, cand_context = ctxt,
               cand_risk = risk, cand_confidence = confidence\<rparr>)"

definition into_plan :: "RouteCandidate \<Rightarrow> SelectedRule \<Rightarrow> RoutingPlan" where
  "into_plan c selected_by =
     \<lparr>rp_intent = cand_intent c, rp_destination = cand_destination c,
      rp_context = cand_context c, rp_risk = cand_risk c,
      rp_confidence = cand_confidence c, rp_selected_by = selected_by\<rparr>"

record RoutingInputs =
  ri_explicit :: "RouteCandidate option"
  ri_workflow :: "RouteCandidate option"
  ri_deterministic :: "RouteCandidate option"
  ri_coordinator :: "RouteCandidate option"

datatype RoutingOutcome = Selected RoutingPlan | NeedsClarification string "f64 option"

record OrderedRouter =
  confidence_threshold :: f64

definition OrderedRouter_new :: "f64 \<Rightarrow> CoreError + OrderedRouter" where
  "OrderedRouter_new threshold =
     (if unit_interval_contains threshold \<and> \<not> f64_is_nan threshold
      then Ok \<lparr>confidence_threshold = threshold\<rparr>
      else Err (core_error InvalidRequest ''routing threshold must be between zero and one''))"

definition OrderedRouter_resolve :: "OrderedRouter \<Rightarrow> RoutingInputs \<Rightarrow> RoutingOutcome" where
  "OrderedRouter_resolve router inputs =
     (case ri_explicit inputs of Some c \<Rightarrow> Selected (into_plan c SelectedRule.Explicit) | None \<Rightarrow>
     (case ri_workflow inputs of Some c \<Rightarrow> Selected (into_plan c SelectedRule.Workflow) | None \<Rightarrow>
     (case ri_deterministic inputs of Some c \<Rightarrow> Selected (into_plan c SelectedRule.Resolver) | None \<Rightarrow>
     (case ri_coordinator inputs of
        Some c \<Rightarrow>
          (if f64_le (confidence_threshold router) (cand_confidence c)
           then Selected (into_plan c SelectedRule.Coordinator)
           else NeedsClarification ''coordinator confidence is below the configured threshold''
                  (Some (cand_confidence c)))
      | None \<Rightarrow> NeedsClarification ''no routing rule selected an executor'' None))))"

section \<open>Routing is ordered and never broadcasts\<close>

text \<open>The candidates in the documented order, each with the rule that proposes it.\<close>

definition rule_chain :: "RoutingInputs \<Rightarrow> (SelectedRule \<times> RouteCandidate option) list" where
  "rule_chain inputs =
     [(SelectedRule.Explicit, ri_explicit inputs), (SelectedRule.Workflow, ri_workflow inputs),
      (SelectedRule.Resolver, ri_deterministic inputs),
      (SelectedRule.Coordinator, ri_coordinator inputs)]"

lemma unit_interval_Fin:
  "unit_interval_contains x \<longleftrightarrow> (\<exists>r. x = Fin r \<and> 0 \<le> r \<and> r \<le> 1)"
  by (cases x) (auto simp: unit_interval_contains_def)

lemma RouteCandidate_new_Ok:
  "RouteCandidate_new i d c k f = Ok cand \<Longrightarrow>
     cand_intent cand \<noteq> [] \<and> unit_interval_contains (cand_confidence cand)"
  by (auto simp: RouteCandidate_new_def split: if_splits)

lemma OrderedRouter_new_Ok:
  "OrderedRouter_new t = Ok r \<Longrightarrow> unit_interval_contains (confidence_threshold r)"
  by (auto simp: OrderedRouter_new_def split: if_splits)

definition first_proposal :: "RoutingInputs \<Rightarrow> (SelectedRule \<times> RouteCandidate option) option" where
  "first_proposal inputs = find (\<lambda>(_, proposal). proposal \<noteq> None) (rule_chain inputs)"

lemma resolve_first_proposal:
  "OrderedRouter_resolve router inputs = Selected plan \<longleftrightarrow>
     (\<exists>rule c. first_proposal inputs = Some (rule, Some c) \<and> plan = into_plan c rule \<and>
        (rule = SelectedRule.Coordinator \<longrightarrow>
           f64_le (confidence_threshold router) (cand_confidence c)))"
  by (auto simp: OrderedRouter_resolve_def first_proposal_def rule_chain_def
      split: option.splits if_splits)

lemma length_rule_chain [simp]: "length (rule_chain inputs) = 4"
  by (simp add: rule_chain_def)

lemma first_proposal_Some:
  "first_proposal inputs = Some (rule, Some c) \<longleftrightarrow>
     (\<exists>i < 4. rule_chain inputs ! i = (rule, Some c) \<and> (\<forall>j < i. snd (rule_chain inputs ! j) = None))"
  unfolding first_proposal_def find_Some_iff split_beta length_rule_chain
  by (metis option.distinct(1) snd_conv)

section \<open>Properties\<close>

lemma list_all_upt: "list_all P [0..<i] \<longleftrightarrow> (\<forall>j < i. P j)"
  by (auto simp: list_all_iff)

text \<open>Routing follows its documented order and selects one executor. A plan is selected exactly
  when some rule proposes a candidate, all rules before it are silent, the plan is that
  candidate's under that rule and, if it is the coordinator's, its confidence reaches the
  threshold.\<close>

theorem routing_order:
  "OrderedRouter_resolve router inputs = Selected plan \<longleftrightarrow>
     (\<exists>i < 4. \<exists>rule c. rule_chain inputs ! i = (rule, Some c) \<and>
        list_all (\<lambda>j. snd (rule_chain inputs ! j) = None) [0..<i] \<and> plan = into_plan c rule \<and>
        (rule \<noteq> SelectedRule.Coordinator \<or>
         f64_le (confidence_threshold router) (cand_confidence c)))"
proof
  assume "OrderedRouter_resolve router inputs = Selected plan"
  then obtain rule c where sel: "first_proposal inputs = Some (rule, Some c)" "plan = into_plan c rule"
      "rule = SelectedRule.Coordinator \<longrightarrow> f64_le (confidence_threshold router) (cand_confidence c)"
    unfolding resolve_first_proposal by (elim exE conjE) rule
  then obtain i where "i < 4" "rule_chain inputs ! i = (rule, Some c)"
      "\<forall>j < i. snd (rule_chain inputs ! j) = None" unfolding first_proposal_Some by (elim exE conjE) rule
  with sel(2,3) show "\<exists>i < 4. \<exists>rule c. rule_chain inputs ! i = (rule, Some c) \<and>
        list_all (\<lambda>j. snd (rule_chain inputs ! j) = None) [0..<i] \<and> plan = into_plan c rule \<and>
        (rule \<noteq> SelectedRule.Coordinator \<or>
         f64_le (confidence_threshold router) (cand_confidence c))"
    by (intro exI [of _ i] exI [of _ rule] exI [of _ c]) (simp add: list_all_upt)
next
  assume "\<exists>i < 4. \<exists>rule c. rule_chain inputs ! i = (rule, Some c) \<and>
        list_all (\<lambda>j. snd (rule_chain inputs ! j) = None) [0..<i] \<and> plan = into_plan c rule \<and>
        (rule \<noteq> SelectedRule.Coordinator \<or>
         f64_le (confidence_threshold router) (cand_confidence c))"
  then obtain i rule c where "i < 4" "rule_chain inputs ! i = (rule, Some c)"
      "\<forall>j < i. snd (rule_chain inputs ! j) = None" and plan: "plan = into_plan c rule"
      "rule \<noteq> SelectedRule.Coordinator \<or> f64_le (confidence_threshold router) (cand_confidence c)"
    unfolding list_all_upt by (elim exE conjE) rule
  then have "first_proposal inputs = Some (rule, Some c)"
    unfolding first_proposal_Some by (intro exI [of _ i]) simp
  with plan show "OrderedRouter_resolve router inputs = Selected plan"
    unfolding resolve_first_proposal by (intro exI [of _ rule] exI [of _ c]) simp
qed

theorem routing_order_witness:
  "\<exists>router inputs plan. OrderedRouter_resolve router inputs = Selected plan \<and>
     rp_selected_by plan = SelectedRule.Coordinator \<and> ri_explicit inputs = None"
proof -
  let ?c = "\<lparr>cand_intent = ''fix'',
      cand_destination = \<lparr>rd_role = ''dev'', rd_model_alias = ''m'', rd_provider = ''p'',
        rd_runtime_model = ''r''\<rparr>,
      cand_context = \<lparr>rc_tools = [], rc_data_sources = [], rc_permission = PermissionScope.ReadOnly\<rparr>,
      cand_risk = Low, cand_confidence = Fin (1/2)\<rparr>"
  let ?in = "\<lparr>ri_explicit = None, ri_workflow = None, ri_deterministic = None, ri_coordinator = Some ?c\<rparr>"
  let ?router = "\<lparr>confidence_threshold = Fin (1/2)\<rparr>"
  let ?plan = "into_plan ?c SelectedRule.Coordinator"
  have "OrderedRouter_resolve ?router ?in = Selected ?plan"
    unfolding routing_order
    by (intro exI [of _ 3] conjI exI [of _ "SelectedRule.Coordinator"] exI [of _ ?c])
       (simp_all add: rule_chain_def upt_rec numeral_3_eq_3)
  then show ?thesis
    by (intro exI [of _ ?router] exI [of _ ?in] exI [of _ ?plan]) (simp add: into_plan_def)
qed

end
