(* ===== verification/Events.thy ===== *)
theory Events
  imports Policies Routing
begin

text \<open>
  The immutable event model of \<open>crates/workbench-core/src/event.rs\<close>: every payload with its fields
  in source order, its stable kind, whether storage must treat it as sensitive, the attempt it
  belongs to, and the new and persisted event records. Identifiers are UUIDs and a timestamp
  (\<open>OffsetDateTime\<close>) is its number of nanoseconds since the epoch.
\<close>

type_synonym OffsetDateTime = int

datatype EventKind =
    SessionCreated
  | ConfigurationResolved
  | InputRecorded
  | RoutingPlanned
  | ClarificationRequested
  | ApprovalRequested
  | ApprovalRecorded
  | DispatchPlanned
  | DispatchStarted
  | DispatchAcknowledged
  | ProviderEvent
  | ToolEvent
  | PauseRequested
  | SessionPaused
  | SessionResumed
  | SessionRedirected
  | CancelRequested
  | CancelConfirmed
  | OutcomeUnknown
  | OutcomeReconciled
  | SessionCompleted
  | SessionFailed
  | SessionCancelled
  | SessionAbandoned
  | SessionExported
  | SessionDeletionRequested
  | SessionDeleted
  | WorkflowTransition

record RoleMapping =
  rm_role :: RoleId
  rm_provider :: ProviderId
  rm_runtime_model :: string

datatype EventPayload =
    SessionCreated ContentHash ContentHash
  | ConfigurationResolved ContentHash "string list" "RoleMapping list"
  | InputRecorded uuid NonEmptyText
  | RoutingPlanned RoutingPlan
  | ClarificationRequested NonEmptyText string
  | ApprovalRequested uuid string string "string list"
  | ApprovalRecorded uuid NonEmptyText ApprovalDecision
  | DispatchPlanned uuid EffectClass string bool
  | DispatchStarted uuid "string option"
  | DispatchAcknowledged uuid "string option"
  | ProviderEvent uuid string NonEmptyText
  | ToolEvent uuid string NonEmptyText
  | PauseRequested uuid NonEmptyText
  | SessionPaused uuid NonEmptyText
  | SessionResumed uuid NonEmptyText
  | SessionRedirected uuid NonEmptyText NonEmptyText
  | CancelRequested uuid NonEmptyText
  | CancelConfirmed uuid
  | OutcomeUnknown uuid string "ReconciliationResolution list"
  | OutcomeReconciled uuid ReconciliationResolution "uuid option"
  | SessionCompleted "uuid option" string uuid
  | SessionFailed "uuid option" string uuid
  | SessionCancelled "uuid option" string uuid
  | SessionAbandoned uuid string uuid
  | SessionExported uuid "string list"
  | SessionDeletionRequested uuid NonEmptyText
  | SessionDeleted uuid bool
  | WorkflowTransition WorkflowId NonEmptyText NonEmptyText u32 string string

fun kind :: "EventPayload \<Rightarrow> EventKind" where
  "kind (EventPayload.SessionCreated _ _) = EventKind.SessionCreated"
| "kind (EventPayload.ConfigurationResolved _ _ _) = EventKind.ConfigurationResolved"
| "kind (EventPayload.InputRecorded _ _) = EventKind.InputRecorded"
| "kind (EventPayload.RoutingPlanned _) = EventKind.RoutingPlanned"
| "kind (EventPayload.ClarificationRequested _ _) = EventKind.ClarificationRequested"
| "kind (EventPayload.ApprovalRequested _ _ _ _) = EventKind.ApprovalRequested"
| "kind (EventPayload.ApprovalRecorded _ _ _) = EventKind.ApprovalRecorded"
| "kind (EventPayload.DispatchPlanned _ _ _ _) = EventKind.DispatchPlanned"
| "kind (EventPayload.DispatchStarted _ _) = EventKind.DispatchStarted"
| "kind (EventPayload.DispatchAcknowledged _ _) = EventKind.DispatchAcknowledged"
| "kind (EventPayload.ProviderEvent _ _ _) = EventKind.ProviderEvent"
| "kind (EventPayload.ToolEvent _ _ _) = EventKind.ToolEvent"
| "kind (EventPayload.PauseRequested _ _) = EventKind.PauseRequested"
| "kind (EventPayload.SessionPaused _ _) = EventKind.SessionPaused"
| "kind (EventPayload.SessionResumed _ _) = EventKind.SessionResumed"
| "kind (EventPayload.SessionRedirected _ _ _) = EventKind.SessionRedirected"
| "kind (EventPayload.CancelRequested _ _) = EventKind.CancelRequested"
| "kind (EventPayload.CancelConfirmed _) = EventKind.CancelConfirmed"
| "kind (EventPayload.OutcomeUnknown _ _ _) = EventKind.OutcomeUnknown"
| "kind (EventPayload.OutcomeReconciled _ _ _) = EventKind.OutcomeReconciled"
| "kind (EventPayload.SessionCompleted _ _ _) = EventKind.SessionCompleted"
| "kind (EventPayload.SessionFailed _ _ _) = EventKind.SessionFailed"
| "kind (EventPayload.SessionCancelled _ _ _) = EventKind.SessionCancelled"
| "kind (EventPayload.SessionAbandoned _ _ _) = EventKind.SessionAbandoned"
| "kind (EventPayload.SessionExported _ _) = EventKind.SessionExported"
| "kind (EventPayload.SessionDeletionRequested _ _) = EventKind.SessionDeletionRequested"
| "kind (EventPayload.SessionDeleted _ _) = EventKind.SessionDeleted"
| "kind (EventPayload.WorkflowTransition _ _ _ _ _ _) = EventKind.WorkflowTransition"

fun is_sensitive :: "EventPayload \<Rightarrow> bool" where
  "is_sensitive (EventPayload.ConfigurationResolved _ _ _) = True"
| "is_sensitive (EventPayload.InputRecorded _ _) = True"
| "is_sensitive (EventPayload.RoutingPlanned _) = True"
| "is_sensitive (EventPayload.ClarificationRequested _ _) = True"
| "is_sensitive (EventPayload.ApprovalRequested _ _ _ _) = True"
| "is_sensitive (EventPayload.ProviderEvent _ _ _) = True"
| "is_sensitive (EventPayload.ToolEvent _ _ _) = True"
| "is_sensitive (EventPayload.SessionRedirected _ _ _) = True"
| "is_sensitive (EventPayload.SessionCompleted _ _ _) = True"
| "is_sensitive (EventPayload.SessionFailed _ _ _) = True"
| "is_sensitive (EventPayload.SessionCancelled _ _ _) = True"
| "is_sensitive (EventPayload.SessionAbandoned _ _ _) = True"
| "is_sensitive _ = False"

fun attempt_id :: "EventPayload \<Rightarrow> uuid option" where
  "attempt_id (EventPayload.DispatchPlanned a _ _ _) = Some a"
| "attempt_id (EventPayload.DispatchStarted a _) = Some a"
| "attempt_id (EventPayload.DispatchAcknowledged a _) = Some a"
| "attempt_id (EventPayload.ProviderEvent a _ _) = Some a"
| "attempt_id (EventPayload.ToolEvent a _ _) = Some a"
| "attempt_id (EventPayload.OutcomeUnknown a _ _) = Some a"
| "attempt_id (EventPayload.OutcomeReconciled a _ _) = Some a"
| "attempt_id (EventPayload.SessionAbandoned a _ _) = Some a"
| "attempt_id (EventPayload.SessionCompleted a _ _) = a"
| "attempt_id (EventPayload.SessionFailed a _ _) = a"
| "attempt_id (EventPayload.SessionCancelled a _ _) = a"
| "attempt_id _ = None"

record NewEvent =
  ne_session_id :: uuid
  ne_causation_request_id :: "uuid option"
  ne_payload :: EventPayload

record PersistedEvent =
  pe_event_id :: uuid
  pe_session_id :: uuid
  pe_sequence :: Sequence
  pe_causation_request_id :: "uuid option"
  pe_occurred_at :: OffsetDateTime
  pe_payload :: EventPayload

definition PersistedEvent_kind :: "PersistedEvent \<Rightarrow> EventKind" where
  "PersistedEvent_kind e = kind (pe_payload e)"

text \<open>The kinds that carry an attempt are those the storage schema constrains per attempt.\<close>

lemma attempt_id_kind:
  "attempt_id p \<noteq> None \<Longrightarrow>
     kind p \<in> {EventKind.DispatchPlanned, EventKind.DispatchStarted, EventKind.DispatchAcknowledged,
       EventKind.ProviderEvent, EventKind.ToolEvent, EventKind.OutcomeUnknown,
       EventKind.OutcomeReconciled, EventKind.SessionAbandoned, EventKind.SessionCompleted,
       EventKind.SessionFailed, EventKind.SessionCancelled}"
  by (cases p) simp_all

text \<open>What the types of the fields guarantee: a digest, an identifier or a text was parsed by its
  constructor. A confidence that is not finite has no JSON form.\<close>

definition content_hash_valid :: "ContentHash \<Rightarrow> bool" where
  "content_hash_valid h \<longleftrightarrow> ContentHash_parse h = Ok h"

definition identifier_valid :: "string \<Rightarrow> bool" where
  "identifier_valid i \<longleftrightarrow> identifier_parse i = Ok i"

definition role_mapping_valid :: "RoleMapping \<Rightarrow> bool" where
  "role_mapping_valid m \<longleftrightarrow> identifier_valid (rm_role m) \<and> identifier_valid (rm_provider m)"

definition plan_valid :: "RoutingPlan \<Rightarrow> bool" where
  "plan_valid p \<longleftrightarrow>
     identifier_valid (rd_role (rp_destination p)) \<and> identifier_valid (rd_model_alias (rp_destination p)) \<and>
     identifier_valid (rd_provider (rp_destination p)) \<and>
     list_all identifier_valid (rc_tools (rp_context p)) \<and>
     list_all identifier_valid (rc_data_sources (rp_context p)) \<and>
     (\<exists>q. rp_confidence p = Fin q)"

fun payload_valid :: "EventPayload \<Rightarrow> bool" where
  "payload_valid (EventPayload.SessionCreated a b) \<longleftrightarrow> content_hash_valid a \<and> content_hash_valid b"
| "payload_valid (EventPayload.ConfigurationResolved a _ c) \<longleftrightarrow> content_hash_valid a \<and> list_all role_mapping_valid c"
| "payload_valid (EventPayload.InputRecorded _ b) \<longleftrightarrow> b \<noteq> []"
| "payload_valid (EventPayload.RoutingPlanned a) \<longleftrightarrow> plan_valid a"
| "payload_valid (EventPayload.ClarificationRequested a _) \<longleftrightarrow> a \<noteq> []"
| "payload_valid (EventPayload.ApprovalRecorded _ b _) \<longleftrightarrow> b \<noteq> []"
| "payload_valid (EventPayload.ProviderEvent _ _ c) \<longleftrightarrow> c \<noteq> []"
| "payload_valid (EventPayload.ToolEvent _ _ c) \<longleftrightarrow> c \<noteq> []"
| "payload_valid (EventPayload.PauseRequested _ b) \<longleftrightarrow> b \<noteq> []"
| "payload_valid (EventPayload.SessionPaused _ b) \<longleftrightarrow> b \<noteq> []"
| "payload_valid (EventPayload.SessionResumed _ b) \<longleftrightarrow> b \<noteq> []"
| "payload_valid (EventPayload.SessionRedirected _ b c) \<longleftrightarrow> b \<noteq> [] \<and> c \<noteq> []"
| "payload_valid (EventPayload.CancelRequested _ b) \<longleftrightarrow> b \<noteq> []"
| "payload_valid (EventPayload.SessionDeletionRequested _ b) \<longleftrightarrow> b \<noteq> []"
| "payload_valid (EventPayload.WorkflowTransition a b c _ _ _) \<longleftrightarrow> identifier_valid a \<and> b \<noteq> [] \<and> c \<noteq> []"
| "payload_valid _ \<longleftrightarrow> True"

end
