(* ===== verification/Sessions.thy ===== *)
theory Sessions
  imports Events
begin

text \<open>
  The session state machine of \<open>crates/workbench-core/src/session.rs\<close>: the transition a payload
  makes, the fold of a history with its sequence check, and the decision of a user control.
\<close>

datatype SessionState =
    Ready | Running | Pausing | Paused | AwaitingClarification | AwaitingApproval
  | CancelRequested | OutcomeUnknown | Completed | Failed | Cancelled | Abandoned
  | Deleting | Deleted

definition permits_new_action :: "SessionState \<Rightarrow> bool" where
  "permits_new_action s \<longleftrightarrow> s = SessionState.Ready"

fun is_terminal :: "SessionState \<Rightarrow> bool" where
  "is_terminal SessionState.Completed = True"
| "is_terminal SessionState.Failed = True"
| "is_terminal SessionState.Cancelled = True"
| "is_terminal SessionState.Abandoned = True"
| "is_terminal SessionState.Deleted = True"
| "is_terminal _ = False"

abbreviation invalid_transition :: CoreError where
  "invalid_transition \<equiv> core_error InvalidTransition ''session transition is not allowed''"

text \<open>The arms of \<open>transition\<close> that name both the current state and the payload, in source order
  per payload; \<open>None\<close> is falling through to the last two arms.\<close>

fun transition_arm :: "SessionState \<Rightarrow> EventPayload \<Rightarrow> SessionState option" where
  "transition_arm s (EventPayload.DispatchStarted _ _) =
     (if s \<in> {SessionState.Ready, SessionState.Running} then Some SessionState.Running else None)"
| "transition_arm s (EventPayload.ClarificationRequested _ _) =
     (if s = SessionState.Ready then Some SessionState.AwaitingClarification else None)"
| "transition_arm s (EventPayload.ApprovalRequested _ _ _ _) =
     (if s \<in> {SessionState.Ready, SessionState.Running} then Some SessionState.AwaitingApproval
      else None)"
| "transition_arm s (EventPayload.ApprovalRecorded _ _ d) =
     (if s = SessionState.AwaitingApproval
      then Some (case d of Grant \<Rightarrow> SessionState.Running | Deny \<Rightarrow> SessionState.Paused)
      else None)"
| "transition_arm s (EventPayload.PauseRequested _ _) =
     (if s = SessionState.Running then Some SessionState.Pausing else None)"
| "transition_arm s (EventPayload.SessionPaused _ _) =
     (if s = SessionState.Pausing then Some SessionState.Paused else None)"
| "transition_arm s (EventPayload.SessionResumed _ _) =
     (if s = SessionState.Paused then Some SessionState.Running else None)"
| "transition_arm s (EventPayload.SessionRedirected _ _ _) =
     (if s = SessionState.Paused then Some SessionState.Paused
      else if s = SessionState.AwaitingClarification then Some SessionState.Ready else None)"
| "transition_arm s (EventPayload.CancelRequested _ _) =
     (if s \<in> {SessionState.Ready, SessionState.Running, SessionState.Pausing, SessionState.Paused,
              SessionState.AwaitingClarification, SessionState.AwaitingApproval}
      then Some SessionState.CancelRequested else None)"
| "transition_arm s (EventPayload.CancelConfirmed _) =
     (if s = SessionState.CancelRequested then Some SessionState.CancelRequested else None)"
| "transition_arm s (EventPayload.SessionCancelled _ _ _) =
     (if s = SessionState.CancelRequested then Some SessionState.Cancelled else None)"
| "transition_arm s (EventPayload.OutcomeUnknown _ _ _) =
     (if s \<in> {SessionState.Running, SessionState.CancelRequested}
      then Some SessionState.OutcomeUnknown else None)"
| "transition_arm s (EventPayload.OutcomeReconciled _ r _) =
     (if s = SessionState.OutcomeUnknown
      then Some (case r of Retry \<Rightarrow> SessionState.Running
                         | AcceptResult \<Rightarrow> SessionState.Completed
                         | Abandon \<Rightarrow> SessionState.Abandoned)
      else None)"
| "transition_arm s (EventPayload.SessionCompleted _ _ _) =
     (if s = SessionState.Running then Some SessionState.Completed else None)"
| "transition_arm s (EventPayload.SessionFailed _ _ _) =
     (if s = SessionState.Running then Some SessionState.Failed else None)"
| "transition_arm s (EventPayload.SessionAbandoned _ _ _) =
     (if s = SessionState.OutcomeUnknown then Some SessionState.Abandoned else None)"
| "transition_arm s (EventPayload.SessionDeletionRequested _ _) =
     (if s \<in> {SessionState.Completed, SessionState.Failed, SessionState.Cancelled,
              SessionState.Abandoned}
      then Some SessionState.Deleting else None)"
| "transition_arm s (EventPayload.SessionDeleted _ _) =
     (if s = SessionState.Deleting then Some SessionState.Deleted else None)"
| "transition_arm _ _ = None"

definition is_non_transitioning :: "SessionState \<Rightarrow> EventPayload \<Rightarrow> bool" where
  "is_non_transitioning s p \<longleftrightarrow>
     s = SessionState.Ready \<and>
       kind p \<in> {EventKind.ConfigurationResolved, EventKind.InputRecorded,
                  EventKind.RoutingPlanned, EventKind.DispatchPlanned} \<or>
     s = SessionState.Running \<and>
       kind p \<in> {EventKind.DispatchPlanned, EventKind.DispatchAcknowledged,
                  EventKind.ProviderEvent, EventKind.ToolEvent, EventKind.WorkflowTransition,
                  EventKind.RoutingPlanned, EventKind.InputRecorded} \<or>
     s \<in> {SessionState.Ready, SessionState.Paused} \<and> kind p = EventKind.WorkflowTransition \<or>
     s \<noteq> SessionState.Deleted \<and> kind p = EventKind.SessionExported"

definition transition ::
  "SessionState option \<Rightarrow> EventPayload \<Rightarrow> CoreError + SessionState" where
  "transition current payload =
     (case current of
        None \<Rightarrow>
          (case payload of
             EventPayload.SessionCreated _ _ \<Rightarrow> Ok SessionState.Ready
           | _ \<Rightarrow> Err invalid_transition)
      | Some s \<Rightarrow>
          (case transition_arm s payload of
             Some next_state \<Rightarrow> Ok next_state
           | None \<Rightarrow> if is_non_transitioning s payload then Ok s else Err invalid_transition))"

definition fold_event ::
  "SessionState option \<Rightarrow> PersistedEvent \<Rightarrow> CoreError + SessionState" where
  "fold_event current event = transition current (pe_payload event)"

text \<open>The loop of \<open>fold_history\<close>, with its two variables.\<close>

fun fold_history_loop ::
  "SessionState option \<Rightarrow> Sequence option \<Rightarrow> PersistedEvent list
     \<Rightarrow> CoreError + SessionState option" where
  "fold_history_loop state previous [] = Ok state"
| "fold_history_loop state previous (event # events) =
     and_then
       (case previous of
          None \<Rightarrow> Ok ()
        | Some p \<Rightarrow>
            and_then (checked_next p) (\<lambda>expected.
              if pe_sequence event \<noteq> expected
              then Err (core_error StorageUnavailable ''session history contains a sequence gap'')
              else Ok ()))
       (\<lambda>_. and_then (fold_event state event) (\<lambda>s.
          fold_history_loop (Some s) (Some (pe_sequence event)) events))"

definition fold_history :: "PersistedEvent list \<Rightarrow> CoreError + SessionState" where
  "fold_history events =
     and_then (fold_history_loop None None events) (\<lambda>state.
       ok_or (core_error SessionNotFound ''session history is empty'') state)"

datatype SessionControl =
    Pause NonEmptyText | Resume NonEmptyText | Redirect NonEmptyText NonEmptyText
  | Cancel NonEmptyText

datatype ControlOutcome = Append EventPayload | AlreadyApplied

text \<open>\<open>control_id\<close> is the identifier drawn by \<open>ControlId::new\<close>.\<close>

definition decide_control ::
  "uuid \<Rightarrow> SessionState \<Rightarrow> SessionControl \<Rightarrow> CoreError + ControlOutcome" where
  "decide_control control_id state control =
     (case control of
        Pause actor \<Rightarrow>
          (if state = SessionState.Running
           then Ok (Append (EventPayload.PauseRequested control_id actor))
           else if state \<in> {SessionState.Pausing, SessionState.Paused} then Ok AlreadyApplied
           else Err invalid_transition)
      | Resume actor \<Rightarrow>
          (if state = SessionState.Paused
           then Ok (Append (EventPayload.SessionResumed control_id actor))
           else if state = SessionState.Running then Ok AlreadyApplied
           else Err invalid_transition)
      | Redirect actor instruction \<Rightarrow>
          (if state \<in> {SessionState.Paused, SessionState.AwaitingClarification}
           then Ok (Append (EventPayload.SessionRedirected control_id actor instruction))
           else Err invalid_transition)
      | Cancel actor \<Rightarrow>
          (if \<not> is_terminal state \<and>
              state \<notin> {SessionState.Deleting, SessionState.OutcomeUnknown}
           then if state = SessionState.CancelRequested then Ok AlreadyApplied
                else Ok (Append (EventPayload.CancelRequested control_id actor))
           else Err invalid_transition))"

section \<open>Histories as paths of the state machine\<close>

text \<open>One legal event, as a step relation on states.\<close>

inductive session_step :: "SessionState \<Rightarrow> EventPayload \<Rightarrow> SessionState \<Rightarrow> bool" where
  "transition (Some s) p = Ok s' \<Longrightarrow> session_step s p s'"

inductive session_path :: "SessionState \<Rightarrow> EventPayload list \<Rightarrow> SessionState \<Rightarrow> bool" where
  path_nil: "session_path s [] s"
| path_cons: "session_step s p s' \<Longrightarrow> session_path s' ps s'' \<Longrightarrow> session_path s (p # ps) s''"

inductive_simps session_path_Nil [simp]: "session_path s [] t"
inductive_simps session_path_Cons: "session_path s (p # ps) t"

lemma session_path_append:
  "session_path s (ps @ qs) t \<longleftrightarrow> (\<exists>u. session_path s ps u \<and> session_path u qs t)"
  by (induction ps arbitrary: s) (auto simp: session_path_Cons)

lemma session_path_unique:
  "session_path s ps t \<Longrightarrow> session_path s ps u \<Longrightarrow> u = t"
  by (induction arbitrary: u rule: session_path.induct)
     (auto simp: session_path_Cons session_step.simps)

lemma session_step_iff [simp]: "session_step s p s' \<longleftrightarrow> transition (Some s) p = Ok s'"
  by (auto simp: session_step.simps)

text \<open>Consecutive events carry consecutive sequence numbers.\<close>

fun contiguous :: "PersistedEvent list \<Rightarrow> bool" where
  "contiguous (a # b # events) \<longleftrightarrow>
     unat (sequence_get (pe_sequence b)) = Suc (unat (sequence_get (pe_sequence a))) \<and>
     contiguous (b # events)"
| "contiguous [e] \<longleftrightarrow> True"
| "contiguous [] \<longleftrightarrow> True"

lemma checked_next_eq_iff:
  "checked_next p = Ok q \<longleftrightarrow> unat (sequence_get q) = Suc (unat (sequence_get p))"
proof
  show "checked_next p = Ok q \<Longrightarrow> unat (sequence_get q) = Suc (unat (sequence_get p))"
    by (rule checked_next_unat)
next
  assume next_eq: "unat (sequence_get q) = Suc (unat (sequence_get p))"
  have "unat (sequence_get q) < 2 ^ 64" using unsigned_less [of "sequence_get q"] by simp
  with next_eq have "unat (sequence_get p) < 2 ^ 64 - 1" by simp
  then have "checked_next p = Ok (Sequence (sequence_get p + 1))" by (simp add: checked_next_Ok)
  moreover from this have "sequence_get q = sequence_get p + 1"
    using next_eq checked_next_unat [of p] by (metis Sequence.sel word_unat_eq_iff)
  ultimately show "checked_next p = Ok q" by (metis Sequence.exhaust_sel)
qed

lemma transition_None_Ok:
  "transition None p = Ok s \<longleftrightarrow> kind p = EventKind.SessionCreated \<and> s = SessionState.Ready"
  by (cases p) (auto simp: transition_def)

lemma fold_history_loop_Some:
  "fold_history_loop (Some s) (Some q) events = Ok r \<longleftrightarrow>
     contiguous (e\<lparr>pe_sequence := q\<rparr> # events) \<and>
     (\<exists>t. r = Some t \<and> session_path s (map pe_payload events) t)"
proof (induction events arbitrary: s q e)
  case Nil
  then show ?case by auto
next
  case (Cons event events)
  have unchanged: "event\<lparr>pe_sequence := pe_sequence event\<rparr> = event" by simp
  have seq: "and_then (checked_next q) (\<lambda>expected.
      if pe_sequence event \<noteq> expected
      then Err (core_error StorageUnavailable ''session history contains a sequence gap'')
      else Ok ()) = Ok () \<longleftrightarrow>
      unat (sequence_get (pe_sequence event)) = Suc (unat (sequence_get q))"
    by (auto simp: and_then_Ok_iff simp flip: checked_next_eq_iff)
  show ?case
    using Cons.IH [where e = event and q = "pe_sequence event"] seq
    by (auto simp: and_then_Ok_iff session_path_Cons fold_event_def unchanged)
qed

lemma fold_history_Ok_iff:
  "fold_history events = Ok t \<longleftrightarrow>
     (\<exists>e es. events = e # es \<and> kind (pe_payload e) = EventKind.SessionCreated \<and>
        contiguous events \<and> session_path SessionState.Ready (map pe_payload es) t)"
proof (cases events)
  case Nil
  then show ?thesis by (simp add: fold_history_def)
next
  case (Cons e es)
  then show ?thesis
    using fold_history_loop_Some [where e = e and q = "pe_sequence e" and events = es and
        s = SessionState.Ready]
    by (auto simp: fold_history_def and_then_Ok_iff fold_event_def transition_None_Ok)
qed

lemma contiguous_append:
  "contiguous (xs @ ys) \<longleftrightarrow> contiguous xs \<and> contiguous ys \<and>
     (xs \<noteq> [] \<and> ys \<noteq> [] \<longrightarrow>
        unat (sequence_get (pe_sequence (hd ys))) = Suc (unat (sequence_get (pe_sequence (last xs)))))"
proof (induction xs rule: contiguous.induct)
  case (2 e)
  then show ?case by (cases ys) auto
qed auto

text \<open>Folding is incremental: a longer history folds exactly when its prefix does and the last
  event is the legal, consecutive next one.\<close>

lemma fold_history_snoc:
  assumes "events \<noteq> []"
  shows "fold_history (events @ [e]) = Ok t \<longleftrightarrow>
     (\<exists>s. fold_history events = Ok s \<and> transition (Some s) (pe_payload e) = Ok t \<and>
        unat (sequence_get (pe_sequence e)) =
          Suc (unat (sequence_get (pe_sequence (last events)))))"
  using assms
  by (cases events) (auto simp: fold_history_Ok_iff contiguous_append [of "_ # _", simplified]
      session_path_append session_path_Cons)

section \<open>Terminal states and controls\<close>

lemmas transition_defs = transition_def is_non_transitioning_def

text \<open>Once the outcome of a session is definite, only an export or its deletion is recorded.\<close>

definition after_terminal :: "EventPayload \<Rightarrow> bool" where
  "after_terminal p \<longleftrightarrow>
     kind p \<in> {EventKind.SessionExported, EventKind.SessionDeletionRequested, EventKind.SessionDeleted}"

definition closed_state :: "SessionState \<Rightarrow> bool" where
  "closed_state s \<longleftrightarrow> is_terminal s \<or> s = SessionState.Deleting"

lemma closed_state_step:
  "transition (Some s) p = Ok s' \<Longrightarrow> closed_state s \<Longrightarrow> closed_state s' \<and> after_terminal p"
  by (cases s; cases p)
     (simp_all add: transition_defs closed_state_def after_terminal_def)

lemma closed_state_path:
  "session_path s ps t \<Longrightarrow> closed_state s \<Longrightarrow> closed_state t \<and> (\<forall>p \<in> set ps. after_terminal p)"
  by (induction rule: session_path.induct) (auto dest: closed_state_step)

lemma Deleted_final: "transition (Some SessionState.Deleted) p = Err invalid_transition"
  by (cases p) (simp_all add: transition_defs)

section \<open>Properties\<close>

text \<open>C9: folding a history accepts exactly the legal ones. It succeeds with a state when the
  history starts with the creation of the session, carries consecutive sequence numbers and its
  remaining events are a path of the state machine from ready to that state.\<close>

theorem fold_history_accepts:
  "fold_history events = Ok t \<longleftrightarrow>
     (\<exists>e es. events = e # es \<and> kind (pe_payload e) = EventKind.SessionCreated \<and>
        contiguous events \<and> session_path SessionState.Ready (map pe_payload es) t)"
  by (rule fold_history_Ok_iff)

text \<open>C10: the outcome of a session is final. If a prefix of an accepted history has folded to a
  terminal or deleting state, every later event only exports or deletes the session, and the
  history never leaves those states.\<close>

theorem session_outcome_final:
  assumes "fold_history events = Ok s" "closed_state s" "fold_history (events @ later) = Ok t"
  shows "closed_state t \<and> list_all (\<lambda>e. after_terminal (pe_payload e)) later"
proof -
  from assms(1,3) obtain e es where "events = e # es"
      "session_path SessionState.Ready (map pe_payload es) s"
      "session_path SessionState.Ready (map pe_payload es @ map pe_payload later) t"
    by (auto simp: fold_history_Ok_iff)
  moreover from this have "session_path s (map pe_payload later) t"
    using session_path_unique unfolding session_path_append by metis
  ultimately show ?thesis using closed_state_path assms(2) by (auto simp: list_all_iff)
qed

theorem session_outcome_final_witness:
  "let e = (\<lambda>n p. \<lparr>pe_event_id = 0, pe_session_id = 1, pe_sequence = Sequence n,
       pe_causation_request_id = None, pe_occurred_at = 0, pe_payload = p\<rparr>);
     events = [e 1 (EventPayload.SessionCreated [] []), e 2 (EventPayload.DispatchStarted 9 None),
       e 3 (EventPayload.SessionCompleted (Some 9) ''done'' 0)];
     later = [e 4 (EventPayload.SessionExported 5 [])]
   in fold_history events = Ok SessionState.Completed \<and>
      fold_history (events @ later) = Ok SessionState.Completed \<and>
      list_all (\<lambda>e. after_terminal (pe_payload e)) later"
proof -
  define e where "e = (\<lambda>n p. \<lparr>pe_event_id = 0, pe_session_id = 1, pe_sequence = Sequence n,
       pe_causation_request_id = None, pe_occurred_at = 0, pe_payload = p\<rparr>)"
  define events where "events = [e 1 (EventPayload.SessionCreated [] []),
    e 2 (EventPayload.DispatchStarted 9 None),
    e 3 (EventPayload.SessionCompleted (Some 9) ''done'' 0)]"
  define later where "later = [e 4 (EventPayload.SessionExported 5 [])]"
  have 1: "fold_history events = Ok SessionState.Completed"
    by (simp add: fold_history_Ok_iff events_def e_def session_path_Cons transition_defs)
  have 2: "fold_history (events @ later) = Ok SessionState.Completed"
    by (simp add: fold_history_Ok_iff events_def later_def e_def session_path_Cons transition_defs)
  have "closed_state SessionState.Completed" by (simp add: closed_state_def)
  from session_outcome_final [OF 1 this 2] 1 2 show ?thesis
    unfolding events_def later_def e_def Let_def by blast
qed

text \<open>C11: a control the domain accepts is a legal event, and it is idempotent. Whatever event is to
  be appended for a pause, resume or cancel leads to a state in which the same control is already
  applied; a redirect is accepted only where its event is legal.\<close>

theorem control_sound:
  assumes "decide_control i s control = Ok (Append p)"
  shows "\<exists>s'. transition (Some s) p = Ok s' \<and>
    (case control of Redirect _ _ \<Rightarrow> s' \<in> {SessionState.Paused, SessionState.Ready}
     | _ \<Rightarrow> decide_control j s' control = Ok AlreadyApplied)"
proof (cases control)
  case (Pause actor)
  with assms have "s = SessionState.Running" "p = EventPayload.PauseRequested i actor"
    by (auto simp: decide_control_def split: if_splits)
  with Pause show ?thesis by (simp add: decide_control_def transition_defs)
next
  case (Resume actor)
  with assms have "s = SessionState.Paused" "p = EventPayload.SessionResumed i actor"
    by (auto simp: decide_control_def split: if_splits)
  with Resume show ?thesis by (simp add: decide_control_def transition_defs)
next
  case (Redirect actor instruction)
  with assms have "s \<in> {SessionState.Paused, SessionState.AwaitingClarification}"
      "p = EventPayload.SessionRedirected i actor instruction"
    by (auto simp: decide_control_def split: if_splits)
  with Redirect show ?thesis by (auto simp: transition_defs)
next
  case (Cancel actor)
  with assms have p: "p = EventPayload.CancelRequested i actor"
      and s: "\<not> is_terminal s" "s \<notin> {SessionState.Deleting, SessionState.OutcomeUnknown,
        SessionState.CancelRequested}"
    by (auto simp: decide_control_def split: if_splits)
  from s have "transition (Some s) p = Ok SessionState.CancelRequested"
    unfolding p by (cases s) (simp_all add: transition_defs)
  with Cancel show ?thesis by (simp add: decide_control_def)
qed

theorem control_sound_witness:
  "decide_control 5 SessionState.Running (Cancel ''ann'') =
      Ok (Append (EventPayload.CancelRequested 5 ''ann'')) \<and>
   (\<exists>s'. transition (Some SessionState.Running) (EventPayload.CancelRequested 5 ''ann'') = Ok s' \<and>
      decide_control 6 s' (Cancel ''ann'') = Ok AlreadyApplied)"
proof -
  have d: "decide_control 5 SessionState.Running (Cancel ''ann'') =
      Ok (Append (EventPayload.CancelRequested 5 ''ann''))" by (simp add: decide_control_def)
  show ?thesis using control_sound [OF d, of 6] d by simp
qed

text \<open>C12: no session is stuck. From every state there is a legal sequence of events after which the
  session is deleted.\<close>

theorem session_can_be_deleted:
  "\<exists>ps. session_path s ps SessionState.Deleted"
proof -
  let ?deletable = "\<lambda>s. \<exists>ps. session_path s ps SessionState.Deleted"
  have step: "?deletable s" if "transition (Some s) p = Ok t" "?deletable t" for s p t
    using that by (meson path_cons session_step.intros)
  have deleted: "?deletable SessionState.Deleted" by (rule exI [of _ "[]"]) simp
  have deleting: "?deletable SessionState.Deleting"
    by (rule step [OF _ deleted, of _ "EventPayload.SessionDeleted 0 True"]) (simp add: transition_defs)
  have closed: "?deletable t"
    if "t \<in> {SessionState.Completed, SessionState.Failed, SessionState.Cancelled, SessionState.Abandoned}" for t
    by (rule step [OF _ deleting, of _ "EventPayload.SessionDeletionRequested 0 ''a''"])
       (use that in \<open>auto simp: transition_defs\<close>)
  have cancelling: "?deletable SessionState.CancelRequested"
    by (rule step [OF _ closed [of SessionState.Cancelled], of _ "EventPayload.SessionCancelled None ''s'' 0"])
       (simp_all add: transition_defs)
  have unknown: "?deletable SessionState.OutcomeUnknown"
    by (rule step [OF _ closed [of SessionState.Abandoned], of _ "EventPayload.SessionAbandoned 0 ''s'' 0"])
       (simp_all add: transition_defs)
  have "?deletable t"
    if "t \<in> {SessionState.Ready, SessionState.Running, SessionState.Pausing, SessionState.Paused,
      SessionState.AwaitingClarification, SessionState.AwaitingApproval}" for t
    by (rule step [OF _ cancelling, of _ "EventPayload.CancelRequested 0 ''a''"])
       (use that in \<open>auto simp: transition_defs\<close>)
  with deleted deleting closed cancelling unknown show ?thesis by (cases s) simp_all
qed

end
