(* ===== verification/Workflows.thy ===== *)
theory Workflows
  imports Values
begin

text \<open>
  The workflow run of \<open>crates/workbench-core/src/workflow.rs\<close>: its phases, one definition per
  method, the invariant the constructor establishes, and the measure that bounds automatic
  progress. A \<open>usize\<close> index is a \<open>nat\<close>: an index of a vector in memory never reaches the end of
  the machine type. On an error a method leaves the run unchanged, so the error alone is returned.
\<close>

datatype WorkflowPhase =
  Planned | Running | Paused | AwaitingHuman | Completed | Cancelled | Failed

definition MAX_CORRECTION_ITERATIONS :: u32 where
  "MAX_CORRECTION_ITERATIONS = 8"

definition permits_dispatch :: "WorkflowPhase \<Rightarrow> bool" where
  "permits_dispatch p \<longleftrightarrow> p = WorkflowPhase.Running"

definition phase_is_terminal :: "WorkflowPhase \<Rightarrow> bool" where
  "phase_is_terminal p \<longleftrightarrow>
     p \<in> {WorkflowPhase.Completed, WorkflowPhase.Cancelled, WorkflowPhase.Failed}"

record WorkflowRun =
  wr_workflow_id :: WorkflowId
  wr_run_id :: NonEmptyText
  step_ids :: "NonEmptyText list"
  active_step_index :: nat
  iteration :: u32
  phase :: WorkflowPhase
  max_iterations :: u32
  on_findings_step_index :: "nat option"

abbreviation workflow_invalid_transition :: CoreError where
  "workflow_invalid_transition \<equiv>
     core_error InvalidTransition ''illegal workflow run transition''"

definition WorkflowRun_start ::
  "WorkflowId \<Rightarrow> NonEmptyText \<Rightarrow> NonEmptyText list \<Rightarrow> u32 \<Rightarrow> nat option
     \<Rightarrow> CoreError + WorkflowRun" where
  "WorkflowRun_start workflow_id run_id steps max_its findings =
     (if steps = [] then Err (core_error InvalidRequest ''workflow has no steps'')
      else if max_its = 0 \<or> max_its > MAX_CORRECTION_ITERATIONS
      then Err (core_error InvalidRequest ''workflow max_iterations must be between 1 and 8'')
      else if (case findings of Some index \<Rightarrow> index \<ge> length steps | None \<Rightarrow> False)
      then Err (core_error InvalidRequest ''on_findings step index is out of range'')
      else Ok \<lparr>wr_workflow_id = workflow_id, wr_run_id = run_id, step_ids = steps,
               active_step_index = 0, iteration = 1, phase = WorkflowPhase.Running,
               max_iterations = max_its, on_findings_step_index = findings\<rparr>)"

definition active_step_id :: "WorkflowRun \<Rightarrow> NonEmptyText option" where
  "active_step_id run = slice_get (step_ids run) (active_step_index run)"

definition require_running :: "WorkflowRun \<Rightarrow> CoreError + unit" where
  "require_running run =
     (if permits_dispatch (phase run) then Ok () else Err workflow_invalid_transition)"

definition advance_after_success :: "WorkflowRun \<Rightarrow> CoreError + WorkflowRun" where
  "advance_after_success run =
     and_then (require_running run) (\<lambda>_.
       if active_step_index run + 1 \<ge> length (step_ids run)
       then Ok (run\<lparr>phase := WorkflowPhase.Completed\<rparr>)
       else Ok (run\<lparr>active_step_index := active_step_index run + 1\<rparr>))"

definition reset_iteration :: "WorkflowRun \<Rightarrow> WorkflowRun" where
  "reset_iteration run = run\<lparr>iteration := 1\<rparr>"

definition apply_findings :: "WorkflowRun \<Rightarrow> CoreError + WorkflowRun" where
  "apply_findings run =
     and_then (require_running run) (\<lambda>_.
       case on_findings_step_index run of
         None \<Rightarrow> Err (core_error InvalidRequest ''active step has no on_findings target'')
       | Some target \<Rightarrow>
           (if iteration run \<ge> max_iterations run
            then Ok (run\<lparr>phase := WorkflowPhase.AwaitingHuman\<rparr>)
            else Ok (run\<lparr>active_step_index := target,
                         iteration := saturating_add (iteration run) 1\<rparr>)))"

definition WorkflowRun_pause :: "WorkflowRun \<Rightarrow> CoreError + WorkflowRun" where
  "WorkflowRun_pause run =
     (if phase_is_terminal (phase run) then Err workflow_invalid_transition
      else if phase run = WorkflowPhase.Paused then Ok run
      else Ok (run\<lparr>phase := WorkflowPhase.Paused\<rparr>))"

definition WorkflowRun_resume :: "WorkflowRun \<Rightarrow> CoreError + WorkflowRun" where
  "WorkflowRun_resume run =
     (if phase_is_terminal (phase run) then Err workflow_invalid_transition
      else if phase run \<notin> {WorkflowPhase.Paused, WorkflowPhase.AwaitingHuman}
      then Err workflow_invalid_transition
      else Ok (run\<lparr>phase := WorkflowPhase.Running\<rparr>))"

definition WorkflowRun_cancel :: "WorkflowRun \<Rightarrow> CoreError + WorkflowRun" where
  "WorkflowRun_cancel run =
     (if phase run = WorkflowPhase.Cancelled then Ok run
      else if phase_is_terminal (phase run) then Err workflow_invalid_transition
      else Ok (run\<lparr>phase := WorkflowPhase.Cancelled\<rparr>))"

definition WorkflowRun_fail :: "WorkflowRun \<Rightarrow> CoreError + WorkflowRun" where
  "WorkflowRun_fail run =
     (if phase_is_terminal (phase run) then Err workflow_invalid_transition
      else Ok (run\<lparr>phase := WorkflowPhase.Failed\<rparr>))"

lemmas workflow_ops [step_simps] =
  advance_after_success_def reset_iteration_def apply_findings_def WorkflowRun_pause_def
  WorkflowRun_resume_def WorkflowRun_cancel_def WorkflowRun_fail_def require_running_def

section \<open>The run invariant and bounded progress\<close>

definition run_inv :: "WorkflowRun \<Rightarrow> bool" where
  "run_inv run \<longleftrightarrow>
     active_step_index run < length (step_ids run) \<and>
     1 \<le> iteration run \<and> iteration run \<le> max_iterations run \<and>
     max_iterations run \<le> MAX_CORRECTION_ITERATIONS \<and>
     (\<forall>i. on_findings_step_index run = Some i \<longrightarrow> i < length (step_ids run))"

text \<open>The automatic steps, then every public call.\<close>

inductive automatic_step :: "WorkflowRun \<Rightarrow> WorkflowRun \<Rightarrow> bool" where
  "advance_after_success r = Ok r' \<Longrightarrow> automatic_step r r'"
| "apply_findings r = Ok r' \<Longrightarrow> automatic_step r r'"

inductive workflow_step :: "WorkflowRun \<Rightarrow> WorkflowRun \<Rightarrow> bool" where
  "automatic_step r r' \<Longrightarrow> workflow_step r r'"
| "workflow_step r (reset_iteration r)"
| "WorkflowRun_pause r = Ok r' \<Longrightarrow> workflow_step r r'"
| "WorkflowRun_resume r = Ok r' \<Longrightarrow> workflow_step r r'"
| "WorkflowRun_cancel r = Ok r' \<Longrightarrow> workflow_step r r'"
| "WorkflowRun_fail r = Ok r' \<Longrightarrow> workflow_step r r'"

lemma one_le_word: "(x::u32) \<noteq> 0 \<Longrightarrow> 1 \<le> x"
  by (simp add: word_le_nat_alt Suc_le_eq unat_gt_0)

lemma unat_saturating_add_one: "(x::u32) < y \<Longrightarrow> unat (saturating_add x 1) = Suc (unat x)"
  using unsigned_less [of y, where ?'a = nat] by (simp add: unat_saturating_add word_less_nat_alt)

lemma saturating_add_one_le:
  assumes "(x::u32) \<le> y" "y \<noteq> x"
  shows "saturating_add x 1 \<le> y" "1 \<le> saturating_add x 1"
proof -
  from assms have "x < y" by simp
  with unat_saturating_add_one [OF this]
  show "saturating_add x 1 \<le> y" "1 \<le> saturating_add x 1"
    by (simp_all add: word_le_nat_alt word_less_nat_alt)
qed

lemma WorkflowRun_start_inv:
  "WorkflowRun_start w i steps m f = Ok r \<Longrightarrow> run_inv r \<and> phase r = WorkflowPhase.Running"
  by (auto simp: WorkflowRun_start_def run_inv_def not_less not_le intro: one_le_word
      split: if_splits option.splits)

lemma automatic_step_inv: "automatic_step r r' \<Longrightarrow> run_inv r \<Longrightarrow> run_inv r'"
  by (induction rule: automatic_step.induct)
     (auto simp: step_simps run_inv_def not_le intro: saturating_add_one_le
       split: if_splits option.splits)

lemma workflow_step_inv [inv_intros]: "workflow_step r r' \<Longrightarrow> run_inv r \<Longrightarrow> run_inv r'"
  by (induction rule: workflow_step.induct)
     (auto dest: automatic_step_inv simp: step_simps run_inv_def split: if_splits)

definition remaining_work :: "WorkflowRun \<Rightarrow> nat" where
  "remaining_work r =
     (if phase r = WorkflowPhase.Running
      then (unat (max_iterations r) - unat (iteration r)) * length (step_ids r)
           + (length (step_ids r) - active_step_index r)
      else 0)"

lemma advance_decreases:
  assumes "advance_after_success r = Ok r'" "run_inv r"
  shows "remaining_work r' < remaining_work r"
  using assms
  by (auto simp: step_simps remaining_work_def run_inv_def permits_dispatch_def split: if_splits)

lemma findings_decreases:
  assumes "apply_findings r = Ok r'" "run_inv r"
  shows "remaining_work r' < remaining_work r"
proof (cases "iteration r < max_iterations r")
  case True
  from assms True obtain target where r': "r' = r\<lparr>active_step_index := target,
      iteration := saturating_add (iteration r) 1\<rparr>" and running: "phase r = WorkflowPhase.Running"
    by (auto simp: step_simps permits_dispatch_def split: if_splits option.splits)
  let ?n = "length (step_ids r)"
  obtain k where k: "unat (max_iterations r) - unat (iteration r) = Suc k"
    using True by (metis word_less_nat_alt zero_less_diff gr0_implies_Suc)
  then have "unat (max_iterations r) - Suc (unat (iteration r)) = k" by simp
  moreover have "active_step_index r < ?n" using assms(2) by (simp add: run_inv_def)
  ultimately show ?thesis
    using k unat_saturating_add_one [OF True] by (simp add: r' remaining_work_def running)
next
  case False
  with assms show ?thesis
    by (auto simp: step_simps remaining_work_def run_inv_def permits_dispatch_def
        split: if_splits option.splits)
qed

lemma automatic_step_decreases:
  "automatic_step r r' \<Longrightarrow> run_inv r \<Longrightarrow> remaining_work r' < remaining_work r"
  by (auto elim!: automatic_step.cases dest: advance_decreases findings_decreases)

lemma automatic_steps_bound:
  "(automatic_step ^^ n) r r' \<Longrightarrow> run_inv r \<Longrightarrow> n + remaining_work r' \<le> remaining_work r \<and> run_inv r'"
proof (induction n arbitrary: r')
  case 0
  then show ?case by simp
next
  case (Suc n)
  then obtain s where "(automatic_step ^^ n) r s" "automatic_step s r'" by auto
  with Suc show ?case using automatic_step_decreases automatic_step_inv by fastforce
qed

lemma remaining_work_bound:
  assumes "run_inv r" shows "remaining_work r \<le> 8 * length (step_ids r)"
proof -
  have max8: "unat (max_iterations r) \<le> 8"
    using assms by (simp add: run_inv_def word_le_nat_alt MAX_CORRECTION_ITERATIONS_def)
  have "1 \<le> unat (iteration r)" using assms by (simp add: run_inv_def word_le_nat_alt)
  with max8 have "unat (max_iterations r) - unat (iteration r) \<le> 7" by simp
  then have "(unat (max_iterations r) - unat (iteration r)) * length (step_ids r)
      \<le> 7 * length (step_ids r)" by (rule mult_right_mono) simp
  then have "(unat (max_iterations r) - unat (iteration r)) * length (step_ids r)
      + (length (step_ids r) - active_step_index r) \<le> 8 * length (step_ids r)" by linarith
  then show ?thesis unfolding remaining_work_def by simp
qed

text \<open>A terminal phase is final under every call.\<close>

lemma terminal_phase_final:
  "workflow_step r r' \<Longrightarrow> phase_is_terminal (phase r) \<Longrightarrow> phase r' = phase r"
  by (induction rule: workflow_step.induct)
     (auto elim!: automatic_step.cases
       simp: step_simps phase_is_terminal_def permits_dispatch_def split: if_splits option.splits)

section \<open>Properties\<close>





end
