(* ===== verification/Orchestration.thy ===== *)
theory Orchestration
  imports Sessions
begin

text \<open>
  The persist-before-effect service of \<open>crates/workbench-core/src/orchestrator.rs\<close> with the ports it
  uses (\<open>crates/workbench-core/src/ports.rs\<close>). A world is the state of the event store and the
  trace of what has happened so far: durable appends and calls of the provider adapter, in order.
  The adapter is a parameter: the answer of each call, and the items its stream yields one poll
  after another. A stream may go on for ever, so the loop over it runs on fuel, one unit per poll;
  the result is \<open>None\<close> while it is still streaming, and the world is the one reached so far, so
  what is shown of every amount of fuel holds at every moment of an execution.
\<close>

section \<open>Ports\<close>

record ProviderFailure =
  pf_category :: FailureCategory
  pf_user_safe_message :: string
  pf_definite :: bool

datatype ProviderOutput =
    Acknowledged "string option"
  | Content string NonEmptyText
  | Tool string NonEmptyText
  | Completed string

record ProviderPrompt =
  pp_session_id :: uuid
  pp_attempt_id :: uuid
  pp_runtime_model :: string
  pp_content :: NonEmptyText

type_synonym ProviderSessionHandle = string

definition ProviderSessionHandle_new :: "string \<Rightarrow> CoreError + ProviderSessionHandle" where
  "ProviderSessionHandle_new v =
     (if v = []
      then Err (core_error ProviderUnavailable ''provider returned an empty session handle'')
      else Ok v)"

type_synonym ProviderStream = "nat \<Rightarrow> (ProviderFailure + ProviderOutput) option"

record ProviderAdapter =
  start_session :: "ProviderFailure + ProviderSessionHandle"
  prompt_stream :: "ProviderSessionHandle \<Rightarrow> ProviderPrompt \<Rightarrow> ProviderFailure + ProviderStream"

datatype Effect =
    Persisted PersistedEvent
  | StartSession
  | PromptStream ProviderPrompt
  | Polled nat

type_synonym 's world = "'s \<times> Effect list"

type_synonym 's appender =
  "NewEvent \<Rightarrow> OffsetDateTime \<Rightarrow> 's \<Rightarrow> (CoreError + PersistedEvent) \<times> 's"

section \<open>The service\<close>

datatype ExecutionOutcome = Completed | Failed | OutcomeUnknown

record ExecutionRequest =
  er_session_id :: uuid
  er_request_id :: uuid
  er_content :: NonEmptyText
  er_plan :: RoutingPlan
  er_operation :: string
  er_operation_policy :: OperationPolicy
  er_adapter :: ProviderAdapter

text \<open>What the service draws from its surroundings: the store, the clock (read once per append,
  indexed by the length of the trace) and the fresh identifiers of one execution.\<close>

record 's Orchestrator =
  events :: "'s appender"
  clock :: "nat \<Rightarrow> OffsetDateTime"
  new_input_id :: uuid
  new_attempt_id :: uuid
  new_correlation_id :: uuid

text \<open>\<open>?\<close> on an append: stop with the error, or go on in the new world.\<close>

definition try_io ::
  "(CoreError + 'a) \<times> 'w \<Rightarrow> ('a \<Rightarrow> 'w \<Rightarrow> (CoreError + 'b) option \<times> 'w)
     \<Rightarrow> (CoreError + 'b) option \<times> 'w" where
  "try_io r k = (case r of (Err e, w) \<Rightarrow> (Some (Err e), w) | (Ok x, w) \<Rightarrow> k x w)"

lemma try_io_simps [simp]:
  "try_io (Ok x, w) k = k x w"
  "try_io (Err e, w) k = (Some (Err e), w)"
  by (simp_all add: try_io_def)

definition orch_append ::
  "'s Orchestrator \<Rightarrow> uuid \<Rightarrow> uuid \<Rightarrow> EventPayload \<Rightarrow> 's world
     \<Rightarrow> (CoreError + PersistedEvent) \<times> 's world" where
  "orch_append orch session_id request_id payload w =
     (case events orch
             \<lparr>ne_session_id = session_id, ne_causation_request_id = Some request_id,
              ne_payload = payload\<rparr>
             (clock orch (length (snd w))) (fst w) of
        (Ok e, s) \<Rightarrow> (Ok e, (s, snd w @ [Persisted e]))
      | (Err e, s) \<Rightarrow> (Err e, (s, snd w)))"

definition record_unknown ::
  "'s Orchestrator \<Rightarrow> uuid \<Rightarrow> uuid \<Rightarrow> uuid \<Rightarrow> string \<Rightarrow> 's world
     \<Rightarrow> (CoreError + ExecutionOutcome) option \<times> 's world" where
  "record_unknown orch session_id request_id attempt reason w =
     try_io (orch_append orch session_id request_id
               (EventPayload.OutcomeUnknown attempt reason [Retry, AcceptResult, Abandon]) w)
       (\<lambda>_ w. (Some (Ok ExecutionOutcome.OutcomeUnknown), w))"

definition record_stream_failure ::
  "'s Orchestrator \<Rightarrow> uuid \<Rightarrow> uuid \<Rightarrow> uuid \<Rightarrow> ProviderFailure \<Rightarrow> 's world
     \<Rightarrow> (CoreError + ExecutionOutcome) option \<times> 's world" where
  "record_stream_failure orch session_id request_id attempt failure w =
     (if pf_definite failure
      then try_io (orch_append orch session_id request_id
                     (EventPayload.SessionFailed (Some attempt) (pf_user_safe_message failure)
                        (new_correlation_id orch)) w)
             (\<lambda>_ w. (Some (Ok ExecutionOutcome.Failed), w))
      else record_unknown orch session_id request_id attempt (pf_user_safe_message failure) w)"

definition record_provider_setup_failure ::
  "'s Orchestrator \<Rightarrow> uuid \<Rightarrow> uuid \<Rightarrow> uuid \<Rightarrow> ProviderFailure \<Rightarrow> 's world
     \<Rightarrow> (CoreError + ExecutionOutcome) option \<times> 's world" where
  "record_provider_setup_failure = record_stream_failure"

text \<open>The event a streamed item is recorded as.\<close>

fun output_payload :: "'s Orchestrator \<Rightarrow> uuid \<Rightarrow> ProviderOutput \<Rightarrow> EventPayload" where
  "output_payload orch attempt (ProviderOutput.Acknowledged r) =
     EventPayload.DispatchAcknowledged attempt r"
| "output_payload orch attempt (ProviderOutput.Content t c) = EventPayload.ProviderEvent attempt t c"
| "output_payload orch attempt (ProviderOutput.Tool t c) = EventPayload.ToolEvent attempt t c"
| "output_payload orch attempt (ProviderOutput.Completed summary) =
     EventPayload.SessionCompleted (Some attempt) summary (new_correlation_id orch)"

fun stream_loop ::
  "nat \<Rightarrow> 's Orchestrator \<Rightarrow> uuid \<Rightarrow> uuid \<Rightarrow> uuid \<Rightarrow> ProviderStream \<Rightarrow> nat \<Rightarrow> 's world
     \<Rightarrow> (CoreError + ExecutionOutcome) option \<times> 's world" where
  "stream_loop 0 orch session_id request_id attempt stream i w = (None, w)"
| "stream_loop (Suc fuel) orch session_id request_id attempt stream i w =
     (let w = (fst w, snd w @ [Polled i]) in
      case stream i of
        None \<Rightarrow>
          record_unknown orch session_id request_id attempt
            ''provider stream ended without a definite terminal result'' w
      | Some (Err failure) \<Rightarrow> record_stream_failure orch session_id request_id attempt failure w
      | Some (Ok item) \<Rightarrow>
          try_io (orch_append orch session_id request_id (output_payload orch attempt item) w)
            (\<lambda>_ w. case item of
                ProviderOutput.Completed _ \<Rightarrow> (Some (Ok ExecutionOutcome.Completed), w)
              | _ \<Rightarrow> stream_loop fuel orch session_id request_id attempt stream (Suc i) w))"

text \<open>From the started attempt on: the provider session, the prompt, the stream.\<close>

definition run_provider ::
  "nat \<Rightarrow> 's Orchestrator \<Rightarrow> ExecutionRequest \<Rightarrow> uuid \<Rightarrow> 's world
     \<Rightarrow> (CoreError + ExecutionOutcome) option \<times> 's world" where
  "run_provider fuel orch req attempt w =
     (let sid = er_session_id req; rid = er_request_id req;
          w = (fst w, snd w @ [StartSession]) in
      case start_session (er_adapter req) of
        Err failure \<Rightarrow> record_provider_setup_failure orch sid rid attempt failure w
      | Ok handle \<Rightarrow>
          (let prompt = \<lparr>pp_session_id = sid, pp_attempt_id = attempt,
                         pp_runtime_model = rd_runtime_model (rp_destination (er_plan req)),
                         pp_content = er_content req\<rparr>;
               w = (fst w, snd w @ [PromptStream prompt]) in
           case prompt_stream (er_adapter req) handle prompt of
             Err failure \<Rightarrow> record_provider_setup_failure orch sid rid attempt failure w
           | Ok stream \<Rightarrow> stream_loop fuel orch sid rid attempt stream 0 w))"

definition dispatch ::
  "nat \<Rightarrow> 's Orchestrator \<Rightarrow> ExecutionRequest \<Rightarrow> 's world
     \<Rightarrow> (CoreError + ExecutionOutcome) option \<times> 's world" where
  "dispatch fuel orch req w =
     (case Attempt_plan (new_attempt_id orch) (er_operation req) (er_operation_policy req) of
        Err e \<Rightarrow> (Some (Err e), w)
      | Ok attempt \<Rightarrow>
          try_io (orch_append orch (er_session_id req) (er_request_id req)
                    (EventPayload.DispatchPlanned (att_id attempt) (effect_class (att_policy attempt))
                       (att_operation attempt) (explicitly_idempotent (att_policy attempt))) w)
            (\<lambda>_ w. case mark_started attempt of
                Err e \<Rightarrow> (Some (Err e), w)
              | Ok attempt \<Rightarrow>
                  try_io (orch_append orch (er_session_id req) (er_request_id req)
                            (EventPayload.DispatchStarted (att_id attempt) None) w)
                    (\<lambda>_ w. run_provider fuel orch req (att_id attempt) w)))"

definition execute ::
  "nat \<Rightarrow> 's Orchestrator \<Rightarrow> ExecutionRequest \<Rightarrow> 's world
     \<Rightarrow> (CoreError + ExecutionOutcome) option \<times> 's world" where
  "execute fuel orch req w =
     try_io (orch_append orch (er_session_id req) (er_request_id req)
               (EventPayload.InputRecorded (new_input_id orch) (er_content req)) w) (\<lambda>_ w.
     try_io (orch_append orch (er_session_id req) (er_request_id req)
               (EventPayload.RoutingPlanned (er_plan req)) w) (\<lambda>_ w.
     case rc_permission (rp_context (er_plan req)) of
       PermissionScope.Denied \<Rightarrow>
         (Some (Err (core_error PolicyDenied ''route is denied by effective policy'')), w)
     | PermissionScope.ApprovalRequired \<Rightarrow>
         (Some (Err (core_error FailureCategory.ApprovalRequired
            ''route requires recorded approval before dispatch'')), w)
     | PermissionScope.ReadOnly \<Rightarrow> dispatch fuel orch req w))"

section \<open>The order of effects\<close>

text \<open>Facts about the trace hold whatever the store does.\<close>

fun is_provider_call :: "Effect \<Rightarrow> bool" where
  "is_provider_call (Persisted _) = False"
| "is_provider_call _ = True"

definition persisted :: "Effect list \<Rightarrow> PersistedEvent list" where
  "persisted tr = [e. Persisted e \<leftarrow> tr]"

lemma persisted_simps [simp]:
  "persisted [] = []"
  "persisted (x # tr) = (case x of Persisted e \<Rightarrow> e # persisted tr | _ \<Rightarrow> persisted tr)"
  "persisted (tr @ tr') = persisted tr @ persisted tr'"
  by (simp_all add: persisted_def split: Effect.splits)

definition prompts :: "Effect list \<Rightarrow> ProviderPrompt list" where
  "prompts tr = [p. PromptStream p \<leftarrow> tr]"

lemma prompts_simps [simp]:
  "prompts [] = []"
  "prompts (x # tr) = (case x of PromptStream p \<Rightarrow> p # prompts tr | _ \<Rightarrow> prompts tr)"
  "prompts (tr @ tr') = prompts tr @ prompts tr'"
  by (simp_all add: prompts_def split: Effect.splits)

text \<open>A later world whose additional effects send no prompt.\<close>

definition extends :: "'s world \<Rightarrow> 's world \<Rightarrow> bool" where
  "extends w w' \<longleftrightarrow> (\<exists>new. snd w' = snd w @ new \<and> prompts new = [])"

lemma extends_trans [trans]: "extends w w' \<Longrightarrow> extends w' w'' \<Longrightarrow> extends w w''"
  by (auto simp: extends_def)

lemma extends_refl [simp]: "extends w w"
  by (simp add: extends_def)

lemma extends_snoc [simp]: "prompts xs = [] \<Longrightarrow> extends w (s, snd w @ xs)"
  by (simp add: extends_def)

lemma orch_append_trace:
  "orch_append orch sid rid p w = (r, w') \<Longrightarrow>
     snd w' = snd w @ (case r of Ok e \<Rightarrow> [Persisted e] | Err _ \<Rightarrow> [])"
  by (auto simp: orch_append_def split: prod.splits sum.splits)

lemma try_append_extends:
  assumes "\<And>e w'. extends w w' \<Longrightarrow> extends w' (snd (k e w'))"
  shows "extends w (snd (try_io (orch_append orch sid rid p w) k))"
proof -
  obtain r w' where step: "orch_append orch sid rid p w = (r, w')" by (rule prod.exhaust)
  then have "extends w w'" by (auto dest!: orch_append_trace simp: extends_def split: sum.splits)
  with step assms [of w'] show ?thesis by (cases r) (auto intro: extends_trans)
qed

lemma record_unknown_extends: "extends w (snd (record_unknown orch sid rid a reason w))"
  unfolding record_unknown_def by (rule try_append_extends) simp

lemma record_stream_failure_extends:
  "extends w (snd (record_stream_failure orch sid rid a failure w))"
  unfolding record_stream_failure_def
  by (auto intro: record_unknown_extends try_append_extends)

lemma stream_loop_extends: "extends w (snd (stream_loop fuel orch sid rid a stream i w))"
proof (induction fuel orch sid rid a stream i w rule: stream_loop.induct)
  case (1 orch sid rid a stream i w)
  then show ?case by simp
next
  case (2 fuel orch sid rid a stream i w)
  let ?w = "(fst w, snd w @ [Polled i])"
  have "extends ?w (snd (stream_loop (Suc fuel) orch sid rid a stream i w))"
    using 2
    by (auto simp: Let_def intro!: record_unknown_extends record_stream_failure_extends
        try_append_extends split: option.splits sum.splits ProviderOutput.splits)
  then show ?case by (rule extends_trans [rotated]) simp
qed

lemma run_provider_trace:
  "\<exists>new. snd (snd (run_provider fuel orch req a w)) = snd w @ new \<and>
     prompts new \<in> {[], [\<lparr>pp_session_id = er_session_id req, pp_attempt_id = a,
        pp_runtime_model = rd_runtime_model (rp_destination (er_plan req)),
        pp_content = er_content req\<rparr>]}"
proof -
  let ?prompt = "\<lparr>pp_session_id = er_session_id req, pp_attempt_id = a,
      pp_runtime_model = rd_runtime_model (rp_destination (er_plan req)),
      pp_content = er_content req\<rparr>"
  let ?r = "run_provider fuel orch req a w"
  have "extends (fst w, snd w @ [StartSession]) (snd ?r) \<or>
      extends (fst w, snd w @ [StartSession, PromptStream ?prompt]) (snd ?r)"
    unfolding run_provider_def record_provider_setup_failure_def Let_def
    by (auto simp: record_stream_failure_extends stream_loop_extends split: sum.splits)
  then show ?thesis
  proof
    assume "extends (fst w, snd w @ [StartSession]) (snd ?r)"
    then obtain new where "snd (snd ?r) = snd w @ StartSession # new" "prompts new = []"
      by (auto simp: extends_def)
    then show ?thesis by (intro exI [of _ "StartSession # new"]) simp
  next
    assume "extends (fst w, snd w @ [StartSession, PromptStream ?prompt]) (snd ?r)"
    then obtain new where "snd (snd ?r) = snd w @ StartSession # PromptStream ?prompt # new"
        "prompts new = []"
      by (auto simp: extends_def)
    then show ?thesis by (intro exI [of _ "StartSession # PromptStream ?prompt # new"]) simp
  qed
qed

text \<open>Every call of the provider comes after the durable start of its attempt, and the attempt
  was durably planned before that.\<close>

definition started_before :: "uuid \<Rightarrow> Effect list \<Rightarrow> bool" where
  "started_before a tr \<longleftrightarrow>
     (\<exists>pre e1 mid e2 post. tr = pre @ Persisted e1 # mid @ Persisted e2 # post \<and>
        kind (pe_payload e1) = EventKind.DispatchPlanned \<and> attempt_id (pe_payload e1) = Some a \<and>
        pe_payload e2 = EventPayload.DispatchStarted a None)"

lemma call_after_prefix:
  assumes "xs @ ys = pre @ x # post" "is_provider_call x" "\<forall>y \<in> set xs. \<not> is_provider_call y"
  shows "\<exists>us. pre = xs @ us"
proof -
  from assms(1) consider us where "pre = xs @ us" | us where "xs = pre @ us" "us @ ys = x # post"
    by (auto simp: append_eq_append_conv2)
  then show ?thesis
  proof cases
    case 1
    then show ?thesis by simp
  next
    case 2
    with assms(2,3) show ?thesis by (cases us) auto
  qed
qed

section \<open>An execution returns once its stream is definite\<close>

definition definite_item :: "(ProviderFailure + ProviderOutput) option \<Rightarrow> bool" where
  "definite_item item \<longleftrightarrow>
     (case item of
        None \<Rightarrow> True
      | Some (Err _) \<Rightarrow> True
      | Some (Ok out) \<Rightarrow> (case out of ProviderOutput.Completed _ \<Rightarrow> True | _ \<Rightarrow> False))"

definition returned :: "'r option \<times> 'w \<Rightarrow> bool" where
  "returned r \<longleftrightarrow> fst r \<noteq> None"

lemma returned_Some [simp]: "returned (Some x, w)"
  by (simp add: returned_def)

lemma try_io_returns: "(\<And>x w. returned (k x w)) \<Longrightarrow> returned (try_io r k)"
  by (auto simp: try_io_def split: prod.splits sum.splits)

lemma record_unknown_returns: "returned (record_unknown orch sid rid a reason w)"
  unfolding record_unknown_def by (rule try_io_returns) simp

lemma record_stream_failure_returns: "returned (record_stream_failure orch sid rid a failure w)"
  unfolding record_stream_failure_def by (auto intro!: try_io_returns record_unknown_returns)

lemma stream_loop_returns:
  "definite_item (stream n) \<Longrightarrow> i \<le> n \<Longrightarrow> n < i + fuel \<Longrightarrow>
     returned (stream_loop fuel orch sid rid a stream i w)"
proof (induction fuel arbitrary: i w)
  case 0
  then show ?case by simp
next
  case (Suc fuel)
  have IH: "returned (stream_loop fuel orch sid rid a stream (Suc i) w')"
    if "\<not> definite_item (stream i)" for w'
    using Suc that by (cases "i = n") auto
  show ?case
    by (auto simp: Let_def definite_item_def split: option.splits sum.splits ProviderOutput.splits
        intro!: try_io_returns record_unknown_returns record_stream_failure_returns IH)
qed

definition stream_definite :: "nat \<Rightarrow> ExecutionRequest \<Rightarrow> bool" where
  "stream_definite n req \<longleftrightarrow>
     (\<forall>handle prompt stream. prompt_stream (er_adapter req) handle prompt = Ok stream \<longrightarrow>
        (\<exists>m < n. definite_item (stream m)))"

lemma run_provider_returns:
  assumes "stream_definite fuel req" shows "returned (run_provider fuel orch req a w)"
proof -
  have "returned (stream_loop fuel orch sid rid a stream 0 w')"
    if "prompt_stream (er_adapter req) handle prompt = Ok stream" for handle prompt stream sid rid w'
  proof -
    from assms that obtain m where "m < fuel" "definite_item (stream m)"
      unfolding stream_definite_def by blast
    then show ?thesis by (intro stream_loop_returns) auto
  qed
  then show ?thesis
    unfolding run_provider_def record_provider_setup_failure_def Let_def
    by (auto intro!: record_stream_failure_returns split: sum.splits)
qed

lemma execute_returns: "stream_definite fuel req \<Longrightarrow> returned (execute fuel orch req w)"
  unfolding execute_def dispatch_def
  by (auto intro!: try_io_returns run_provider_returns split: PermissionScope.splits sum.splits)

section \<open>The contract of the event store\<close>

text \<open>The state a session is in after each outcome.\<close>

fun outcome_state :: "ExecutionOutcome \<Rightarrow> SessionState" where
  "outcome_state ExecutionOutcome.Completed = SessionState.Completed"
| "outcome_state ExecutionOutcome.Failed = SessionState.Failed"
| "outcome_state ExecutionOutcome.OutcomeUnknown = SessionState.OutcomeUnknown"

text \<open>The types of a provider's outputs and of a request guarantee that texts are not empty.\<close>

fun output_valid :: "ProviderOutput \<Rightarrow> bool" where
  "output_valid (ProviderOutput.Content _ c) \<longleftrightarrow> c \<noteq> []"
| "output_valid (ProviderOutput.Tool _ c) \<longleftrightarrow> c \<noteq> []"
| "output_valid _ \<longleftrightarrow> True"

definition stream_valid :: "ProviderStream \<Rightarrow> bool" where
  "stream_valid stream \<longleftrightarrow> (\<forall>i out. stream i = Some (Ok out) \<longrightarrow> output_valid out)"

definition request_valid :: "ExecutionRequest \<Rightarrow> bool" where
  "request_valid req \<longleftrightarrow> er_content req \<noteq> [] \<and>
     (\<forall>handle prompt stream. prompt_stream (er_adapter req) handle prompt = Ok stream \<longrightarrow> stream_valid stream)"

text \<open>What the service relies on of its store: a successful append of a payload the store can
  represent returns that payload and adds exactly the event it returns at the end of a readable
  log, with the next sequence number, and touches no other session; a failed append adds nothing.
  \<open>storable\<close> are the payloads the store can represent.\<close>

locale event_store =
  fixes append :: "'s appender"
    and log :: "'s \<Rightarrow> uuid \<Rightarrow> PersistedEvent list"
    and storable :: "EventPayload \<Rightarrow> bool"
    and store_inv :: "'s \<Rightarrow> bool"
  assumes append_inv: "store_inv s \<Longrightarrow> store_inv (snd (append ev now s))"
    and append_payload: "store_inv s \<Longrightarrow> storable (ne_payload ev) \<Longrightarrow> append ev now s = (Ok p, s') \<Longrightarrow>
      pe_payload p = ne_payload ev \<and> pe_session_id p = ne_session_id ev \<and> pe_occurred_at p = now \<and>
      pe_causation_request_id p = ne_causation_request_id ev"
    and append_log: "store_inv s \<Longrightarrow> storable (ne_payload ev) \<Longrightarrow> append ev now s = (Ok p, s') \<Longrightarrow>
      log s (ne_session_id ev) \<noteq> [] \<Longrightarrow>
      log s' (ne_session_id ev) = log s (ne_session_id ev) @ [p] \<and>
      unat (sequence_get (pe_sequence p)) =
        Suc (unat (sequence_get (pe_sequence (last (log s (ne_session_id ev))))))"
    and append_frame: "store_inv s \<Longrightarrow> append ev now s = (r, s') \<Longrightarrow> sid \<noteq> ne_session_id ev \<Longrightarrow>
      log s' sid = log s sid"
    and append_Err: "store_inv s \<Longrightarrow> storable (ne_payload ev) \<Longrightarrow> append ev now s = (Err e, s') \<Longrightarrow>
      log s' = log s"
begin

text \<open>Every payload but a routing plan consists of texts, which a store represents exactly.\<close>

definition stores_texts :: bool where
  "stores_texts \<longleftrightarrow>
     (\<forall>payload. payload_valid payload \<and> kind payload \<noteq> EventKind.RoutingPlanned \<longrightarrow> storable payload)"

lemma storable_text:
  "stores_texts \<Longrightarrow> payload_valid payload \<Longrightarrow> kind payload \<noteq> EventKind.RoutingPlanned \<Longrightarrow> storable payload"
  by (simp add: stores_texts_def)

text \<open>The execution has reached a state: the session's log is the initial one followed by the
  persisted part of the trace, and it folds to that state; other sessions are untouched.\<close>

definition at_state :: "uuid \<Rightarrow> 's \<Rightarrow> SessionState \<Rightarrow> 's world \<Rightarrow> bool" where
  "at_state sid s0 st w \<longleftrightarrow>
     store_inv (fst w) \<and> log (fst w) sid = log s0 sid @ persisted (snd w) \<and>
     (\<forall>other. other \<noteq> sid \<longrightarrow> log (fst w) other = log s0 other) \<and>
     fold_history (log (fst w) sid) = Ok st"

lemma at_state_call [simp]:
  "is_provider_call x \<Longrightarrow>
     at_state sid s0 st (s, tr @ [x]) \<longleftrightarrow> at_state sid s0 st (s, tr)"
  by (cases x) (simp_all add: at_state_def)

lemma append_step:
  assumes "events orch = append" "at_state sid s0 st w" "storable p"
    and "transition (Some st) p = Ok st'" "orch_append orch sid rid p w = (r, w')"
  shows "(\<exists>e. r = Ok e \<and> pe_payload e = p \<and> snd w' = snd w @ [Persisted e] \<and>
            at_state sid s0 st' w') \<or>
         (\<exists>e. r = Err e \<and> snd w' = snd w \<and> at_state sid s0 st w')"
proof -
  let ?ev = "\<lparr>ne_session_id = sid, ne_causation_request_id = Some rid, ne_payload = p\<rparr>"
  let ?now = "clock orch (length (snd w))"
  obtain q s where step: "append ?ev ?now (fst w) = (q, s)" by (rule prod.exhaust)
  from assms(2) have inv: "store_inv (fst w)" and folds: "fold_history (log (fst w) sid) = Ok st"
    by (auto simp only: at_state_def)
  have inv': "store_inv s" using append_inv [OF inv, of ?ev ?now] step by simp
  show ?thesis
  proof (cases q)
    case (Inl e)
    have "log s = log (fst w)" using append_Err [OF inv _ step [unfolded Inl]] assms(3) by simp
    then have "at_state sid s0 st (s, snd w)" using assms(2) inv' folds by (auto simp: at_state_def)
    with Inl step assms(1,5) show ?thesis by (auto simp: orch_append_def)
  next
    case (Inr e)
    from folds have nonempty: "log (fst w) sid \<noteq> []" by (auto simp: fold_history_Ok_iff)
    have stored: "log s sid = log (fst w) sid @ [e]" "pe_payload e = p"
      using append_payload [OF inv _ step [unfolded Inr]] append_log [OF inv _ step [unfolded Inr]]
        assms(3) nonempty by simp_all
    have "unat (sequence_get (pe_sequence e)) =
        Suc (unat (sequence_get (pe_sequence (last (log (fst w) sid)))))"
      using append_log [OF inv _ step [unfolded Inr]] assms(3) nonempty by simp
    then have "fold_history (log s sid) = Ok st'"
      unfolding stored(1) fold_history_snoc [OF nonempty] using folds assms(4) stored(2) by simp
    moreover have "log s sid = log s0 sid @ persisted (snd w @ [Persisted e])"
      using assms(2) stored(1) unfolding at_state_def by simp
    moreover have "\<forall>other. other \<noteq> sid \<longrightarrow> log s other = log s0 other"
      using assms(2) append_frame [OF inv step] unfolding at_state_def by simp
    ultimately have "at_state sid s0 st' (s, snd w @ [Persisted e])"
      unfolding at_state_def using inv' by simp
    with Inr step assms(1,5) stored(2) show ?thesis by (auto simp: orch_append_def)
  qed
qed

lemma try_append:
  assumes "events orch = append" "at_state sid s0 st w" "storable p"
    and "transition (Some st) p = Ok st'"
    and "\<And>e w'. at_state sid s0 st' w' \<Longrightarrow> pe_payload e = p \<Longrightarrow>
           snd w' = snd w @ [Persisted e] \<Longrightarrow> Post (k e w')"
    and "\<And>e w'. at_state sid s0 st w' \<Longrightarrow> snd w' = snd w \<Longrightarrow> Post (Some (Err e), w')"
  shows "Post (try_io (orch_append orch sid rid p w) k)"
proof -
  obtain r w' where step: "orch_append orch sid rid p w = (r, w')" by (rule prod.exhaust)
  from append_step [OF assms(1-4) step] show ?thesis
    by (elim disjE exE conjE) (simp_all add: step assms(5,6))
qed

text \<open>What holds whenever the service stops, or is stopped while streaming.\<close>

definition settled ::
  "uuid \<Rightarrow> 's \<Rightarrow> (CoreError + ExecutionOutcome) option \<times> 's world \<Rightarrow> bool" where
  "settled sid s0 r \<longleftrightarrow>
     (case fst r of
        None \<Rightarrow> at_state sid s0 SessionState.Running (snd r)
      | Some (Ok outcome) \<Rightarrow> at_state sid s0 (outcome_state outcome) (snd r)
      | Some (Err _) \<Rightarrow> at_state sid s0 SessionState.Ready (snd r) \<or>
                        at_state sid s0 SessionState.Running (snd r))"

lemma settled_simps [simp]:
  "settled sid s0 (None, w) \<longleftrightarrow> at_state sid s0 SessionState.Running w"
  "settled sid s0 (Some (Ok oc), w) \<longleftrightarrow> at_state sid s0 (outcome_state oc) w"
  "settled sid s0 (Some (Err e), w) \<longleftrightarrow>
     at_state sid s0 SessionState.Ready w \<or> at_state sid s0 SessionState.Running w"
  by (simp_all add: settled_def)

lemma record_unknown_settled:
  assumes "stores_texts" "events orch = append" "at_state sid s0 SessionState.Running w"
  shows "settled sid s0 (record_unknown orch sid rid a reason w)"
  unfolding record_unknown_def
  by (rule try_append [OF assms(2,3) storable_text [OF assms(1)], where st' = SessionState.OutcomeUnknown])
     (simp_all add: transition_defs)

lemma record_stream_failure_settled:
  assumes "stores_texts" "events orch = append" "at_state sid s0 SessionState.Running w"
  shows "settled sid s0 (record_stream_failure orch sid rid a failure w)"
proof (cases "pf_definite failure")
  case True
  show ?thesis
    unfolding record_stream_failure_def if_P [OF True]
    by (rule try_append [OF assms(2,3) storable_text [OF assms(1)], where st' = SessionState.Failed])
       (simp_all add: transition_defs)
next
  case False
  then show ?thesis
    using record_unknown_settled [OF assms] by (simp add: record_stream_failure_def)
qed

lemma output_transition:
  "transition (Some SessionState.Running) (output_payload orch a out) =
     Ok (case out of ProviderOutput.Completed _ \<Rightarrow> SessionState.Completed
                   | _ \<Rightarrow> SessionState.Running)"
  by (cases out) (simp_all add: transition_defs)

lemma output_storable: "stores_texts \<Longrightarrow> output_valid out \<Longrightarrow> storable (output_payload orch a out)"
  by (erule storable_text) (cases out; simp)+

lemma stream_loop_settled:
  assumes texts: "stores_texts" and orch: "events orch = append" and valid: "stream_valid stream"
  shows "at_state sid s0 SessionState.Running w \<Longrightarrow>
     settled sid s0 (stream_loop fuel orch sid rid a stream i w)"
proof (induction fuel arbitrary: i w)
  case 0
  then show ?case by simp
next
  case (Suc fuel)
  let ?w = "(fst w, snd w @ [Polled i])"
  have run: "at_state sid s0 SessionState.Running ?w" using Suc.prems by simp
  consider "stream i = None" | failure where "stream i = Some (Err failure)"
    | out where "stream i = Some (Ok out)"
    by (cases "stream i"; cases "the (stream i)") auto
  then show ?case
  proof cases
    case 1
    then show ?thesis using record_unknown_settled [OF texts orch run] by (simp add: Let_def)
  next
    case 2
    then show ?thesis using record_stream_failure_settled [OF texts orch run] by (simp add: Let_def)
  next
    case 3
    then have "output_valid out" using valid by (simp add: stream_valid_def)
    note fits = output_storable [OF texts this]
    have "settled sid s0 (try_io (orch_append orch sid rid (output_payload orch a out) ?w)
        (\<lambda>_ w. case out of
            ProviderOutput.Completed _ \<Rightarrow> (Some (Ok ExecutionOutcome.Completed), w)
          | _ \<Rightarrow> stream_loop fuel orch sid rid a stream (Suc i) w))"
      by (rule try_append [OF orch run fits output_transition])
         (simp_all add: Suc.IH split: ProviderOutput.splits)
    with 3 show ?thesis by (simp add: Let_def)
  qed
qed

lemma run_provider_settled:
  assumes texts: "stores_texts" and orch: "events orch = append" and valid: "request_valid req"
    and run: "at_state (er_session_id req) s0 SessionState.Running w"
  shows "settled (er_session_id req) s0 (run_provider fuel orch req a w)"
proof -
  have started: "at_state (er_session_id req) s0 SessionState.Running (fst w, snd w @ [StartSession])"
    using run by simp
  then have "at_state (er_session_id req) s0 SessionState.Running
      (fst w, (snd w @ [StartSession]) @ [PromptStream prompt])" for prompt
    by (simp only: at_state_call is_provider_call.simps)
  with started show ?thesis
    unfolding run_provider_def record_provider_setup_failure_def Let_def
    using valid by (auto intro!: record_stream_failure_settled [OF texts orch] stream_loop_settled [OF texts orch]
        simp: request_valid_def split: sum.splits)
qed

lemma dispatch_settled:
  assumes texts: "stores_texts" and orch: "events orch = append" and valid: "request_valid req"
    and ready: "at_state (er_session_id req) s0 SessionState.Ready w"
  shows "settled (er_session_id req) s0 (dispatch fuel orch req w)"
proof (cases "Attempt_plan (new_attempt_id orch) (er_operation req) (er_operation_policy req)")
  case (Inl e)
  with ready show ?thesis by (simp add: dispatch_def)
next
  case (Inr attempt)
  have started: "settled (er_session_id req) s0 (try_io
      (orch_append orch (er_session_id req) (er_request_id req)
         (EventPayload.DispatchStarted b None) w')
      (\<lambda>_ w. run_provider fuel orch req b w))"
    if "at_state (er_session_id req) s0 SessionState.Ready w'" for w' b
    by (rule try_append [OF orch that storable_text [OF texts], where st' = SessionState.Running])
       (simp_all add: transition_defs run_provider_settled [OF texts orch valid])
  show ?thesis
    unfolding dispatch_def Inr sum.case
    by (rule try_append [OF orch ready storable_text [OF texts], where st' = SessionState.Ready])
       (auto simp: transition_defs started split: sum.splits)
qed

lemma execute_settled:
  assumes texts: "stores_texts" and orch: "events orch = append" and valid: "request_valid req"
    and ready: "at_state (er_session_id req) s0 SessionState.Ready w"
    and plan: "storable (EventPayload.RoutingPlanned (er_plan req))"
  shows "settled (er_session_id req) s0 (execute fuel orch req w)"
proof -
  have routed: "settled (er_session_id req) s0 (try_io
      (orch_append orch (er_session_id req) (er_request_id req)
         (EventPayload.RoutingPlanned (er_plan req)) w')
      (\<lambda>_ w. case rc_permission (rp_context (er_plan req)) of
         PermissionScope.Denied \<Rightarrow> (Some (Err d), w)
       | PermissionScope.ApprovalRequired \<Rightarrow> (Some (Err d'), w)
       | PermissionScope.ReadOnly \<Rightarrow> dispatch fuel orch req w))"
    if "at_state (er_session_id req) s0 SessionState.Ready w'" for w' d d'
    by (rule try_append [OF orch that plan, where st' = SessionState.Ready])
       (simp_all add: transition_defs dispatch_settled [OF texts orch valid] split: PermissionScope.splits)
  show ?thesis
    unfolding execute_def
    by (rule try_append [OF orch ready storable_text [OF texts], where st' = SessionState.Ready])
       (use valid in \<open>simp_all add: transition_defs routed request_valid_def\<close>)
qed

text \<open>The same for the order of effects, where only the payload of an append matters.\<close>

lemma try_append_trace:
  assumes "events orch = append" "store_inv (fst w)" "storable p"
    and "\<And>e w'. store_inv (fst w') \<Longrightarrow> pe_payload e = p \<Longrightarrow>
           snd w' = snd w @ [Persisted e] \<Longrightarrow> Post (k e w')"
    and "\<And>e w'. snd w' = snd w \<Longrightarrow> Post (Some (Err e), w')"
  shows "Post (try_io (orch_append orch sid rid p w) k)"
proof -
  let ?ev = "\<lparr>ne_session_id = sid, ne_causation_request_id = Some rid, ne_payload = p\<rparr>"
  obtain q s where step: "append ?ev (clock orch (length (snd w))) (fst w) = (q, s)"
    by (rule prod.exhaust)
  have inv': "store_inv s" using append_inv [OF assms(2), of ?ev] step by (metis snd_conv)
  show ?thesis
  proof (cases q)
    case (Inl e)
    then show ?thesis using step assms(1) by (simp add: orch_append_def assms(5))
  next
    case (Inr e)
    then have "pe_payload e = p" using append_payload [OF assms(2) _ step [unfolded Inr]] assms(3) by simp
    with Inr inv' show ?thesis using step assms(1) by (simp add: orch_append_def assms(4))
  qed
qed

definition ordered :: "uuid \<Rightarrow> 'r \<times> 's world \<Rightarrow> bool" where
  "ordered a r \<longleftrightarrow>
     (\<forall>pre x post. snd (snd r) = pre @ x # post \<and> is_provider_call x \<longrightarrow> started_before a pre)"

lemma ordered_persisted: "\<forall>x \<in> set (snd w). \<not> is_provider_call x \<Longrightarrow> ordered a (r, w)"
  by (auto simp: ordered_def)

lemma run_provider_ordered:
  assumes "started_before a (snd w)" "\<forall>x \<in> set (snd w). \<not> is_provider_call x"
  shows "ordered a (run_provider fuel orch req a w)"
proof -
  obtain new where new: "snd (snd (run_provider fuel orch req a w)) = snd w @ new"
    using run_provider_trace by blast
  have "started_before a (snd w @ us)" for us
    using assms(1) unfolding started_before_def by (metis append.assoc append_Cons)
  then show ?thesis
    using call_after_prefix [OF _ _ assms(2)] unfolding ordered_def new by metis
qed

lemma dispatch_ordered:
  assumes texts: "stores_texts" and orch: "events orch = append" and inv: "store_inv (fst w)"
    and quiet: "\<forall>x \<in> set (snd w). \<not> is_provider_call x"
  shows "ordered (new_attempt_id orch) (dispatch fuel orch req w)"
proof (cases "Attempt_plan (new_attempt_id orch) (er_operation req) (er_operation_policy req)")
  case (Inl e)
  with quiet show ?thesis by (simp add: dispatch_def ordered_persisted)
next
  case (Inr attempt)
  let ?a = "new_attempt_id orch"
  have ids: "att_id attempt = ?a" "mark_started attempt = Ok attempt' \<Longrightarrow> att_id attempt' = ?a"
    for attempt' using Inr by (auto simp: Attempt_plan_Ok step_simps split: if_splits)
  have started: "ordered ?a (try_io
      (orch_append orch (er_session_id req) (er_request_id req)
         (EventPayload.DispatchStarted ?a None) w')
      (\<lambda>_ w. run_provider fuel orch req ?a w))"
    if "store_inv (fst w')" "snd w' = snd w @ [Persisted e]"
       "kind (pe_payload e) = EventKind.DispatchPlanned" "attempt_id (pe_payload e) = Some ?a"
    for w' e
  proof (rule try_append_trace [OF orch that(1) storable_text [OF texts]], simp, simp)
    fix e' and w'' :: "'s world" assume "pe_payload e' = EventPayload.DispatchStarted ?a None"
      and tr: "snd w'' = snd w' @ [Persisted e']"
    then have "started_before ?a (snd w'')"
      using that unfolding started_before_def
      by (intro exI [of _ "snd w"] exI [of _ e] exI [of _ "[]"] exI [of _ e']) simp
    then show "ordered ?a (run_provider fuel orch req ?a w'')"
      by (rule run_provider_ordered) (use quiet tr that in auto)
  qed (use quiet that in \<open>auto intro!: ordered_persisted\<close>)
  show ?thesis
    unfolding dispatch_def Inr sum.case
    by (rule try_append_trace [OF orch inv storable_text [OF texts]])
       (use quiet ids in \<open>auto intro!: ordered_persisted started split: sum.splits\<close>)
qed

lemma execute_ordered:
  assumes texts: "stores_texts" and orch: "events orch = append" and inv: "store_inv s"
    and content: "er_content req \<noteq> []"
    and plan: "storable (EventPayload.RoutingPlanned (er_plan req))"
  shows "ordered (new_attempt_id orch) (execute fuel orch req (s, []))"
proof -
  have routed: "ordered (new_attempt_id orch) (try_io
      (orch_append orch (er_session_id req) (er_request_id req)
         (EventPayload.RoutingPlanned (er_plan req)) w')
      (\<lambda>_ w. case rc_permission (rp_context (er_plan req)) of
         PermissionScope.Denied \<Rightarrow> (Some (Err d), w)
       | PermissionScope.ApprovalRequired \<Rightarrow> (Some (Err d'), w)
       | PermissionScope.ReadOnly \<Rightarrow> dispatch fuel orch req w))"
    if "store_inv (fst w')" "snd w' = [Persisted e]" for w' e d d'
    by (rule try_append_trace [OF orch that(1) plan])
       (auto simp: that intro!: ordered_persisted dispatch_ordered [OF texts orch]
         split: PermissionScope.splits)
  have "store_inv (fst (s, []))" using inv by simp
  then show ?thesis
    unfolding execute_def
    by (rule try_append_trace [OF orch _ storable_text [OF texts]])
       (auto simp: content intro!: ordered_persisted routed)
qed

end

text \<open>A route that is not permitted makes no call of the provider, whatever the store does.\<close>

lemma try_append_quiet:
  assumes "\<forall>x \<in> set (snd w). \<not> is_provider_call x"
    and "\<And>e w'. \<forall>x \<in> set (snd w'). \<not> is_provider_call x \<Longrightarrow> Post (k e w')"
    and "\<And>e w'. \<forall>x \<in> set (snd w'). \<not> is_provider_call x \<Longrightarrow> Post (Some (Err e), w')"
  shows "Post (try_io (orch_append orch sid rid p w) k)"
proof -
  obtain r w' where step: "orch_append orch sid rid p w = (r, w')" by (rule prod.exhaust)
  then have "\<forall>x \<in> set (snd w'). \<not> is_provider_call x"
    using assms(1) orch_append_trace [OF step] by (auto split: sum.splits)
  with assms(2,3) show ?thesis by (cases r) (simp_all add: step)
qed

definition refused :: "(CoreError + 'r) option \<times> 's world \<Rightarrow> bool" where
  "refused r \<longleftrightarrow> (\<exists>e. fst r = Some (Err e)) \<and> (\<forall>x \<in> set (snd (snd r)). \<not> is_provider_call x)"

lemma refused_Err: "\<forall>x \<in> set (snd w). \<not> is_provider_call x \<Longrightarrow> refused (Some (Err e), w)"
  by (simp add: refused_def)

lemma execute_refused:
  assumes "rc_permission (rp_context (er_plan req)) \<noteq> PermissionScope.ReadOnly"
  shows "refused (execute fuel orch req (s, []))"
proof -
  obtain e where denied: "(case rc_permission (rp_context (er_plan req)) of
       PermissionScope.Denied \<Rightarrow>
         (Some (Err (core_error PolicyDenied ''route is denied by effective policy'')), w)
     | PermissionScope.ApprovalRequired \<Rightarrow>
         (Some (Err (core_error FailureCategory.ApprovalRequired
            ''route requires recorded approval before dispatch'')), w)
     | PermissionScope.ReadOnly \<Rightarrow> dispatch fuel orch req w) = (Some (Err e), w)" for w
    using assms by (cases "rc_permission (rp_context (er_plan req))") auto
  show ?thesis
    unfolding execute_def denied
    by (rule try_append_quiet, simp)
       (auto intro!: refused_Err try_append_quiet [where Post = refused])
qed

text \<open>One execution sends at most one prompt, and only for its own attempt.\<close>

lemma quiet_prompts: "\<forall>x \<in> set tr. \<not> is_provider_call x \<Longrightarrow> prompts tr = []"
  by (induction tr) (auto split: Effect.splits)

definition own_prompt :: "'s Orchestrator \<Rightarrow> ExecutionRequest \<Rightarrow> 'r \<times> 's world \<Rightarrow> bool" where
  "own_prompt orch req r \<longleftrightarrow>
     prompts (snd (snd r)) \<in> {[], [\<lparr>pp_session_id = er_session_id req, pp_attempt_id = new_attempt_id orch,
        pp_runtime_model = rd_runtime_model (rp_destination (er_plan req)), pp_content = er_content req\<rparr>]}"

lemma own_prompt_quiet: "\<forall>x \<in> set (snd w). \<not> is_provider_call x \<Longrightarrow> own_prompt orch req (r, w)"
  by (simp add: own_prompt_def quiet_prompts)

lemma run_provider_prompt:
  assumes "\<forall>x \<in> set (snd w). \<not> is_provider_call x"
  shows "own_prompt orch req (run_provider fuel orch req (new_attempt_id orch) w)"
proof -
  obtain new where "snd (snd (run_provider fuel orch req (new_attempt_id orch) w)) = snd w @ new"
    "prompts new \<in> {[], [\<lparr>pp_session_id = er_session_id req, pp_attempt_id = new_attempt_id orch,
        pp_runtime_model = rd_runtime_model (rp_destination (er_plan req)), pp_content = er_content req\<rparr>]}"
    using run_provider_trace by blast
  then show ?thesis by (simp add: own_prompt_def quiet_prompts [OF assms])
qed

lemma dispatch_prompt:
  assumes "\<forall>x \<in> set (snd w). \<not> is_provider_call x"
  shows "own_prompt orch req (dispatch fuel orch req w)"
proof (cases "Attempt_plan (new_attempt_id orch) (er_operation req) (er_operation_policy req)")
  case (Inl e)
  then show ?thesis using assms by (simp add: dispatch_def own_prompt_quiet)
next
  case (Inr attempt)
  have ids: "att_id attempt = new_attempt_id orch"
    "mark_started attempt = Ok attempt' \<Longrightarrow> att_id attempt' = new_attempt_id orch" for attempt'
    using Inr by (auto simp: Attempt_plan_Ok step_simps split: if_splits)
  have started: "own_prompt orch req (try_io
      (orch_append orch (er_session_id req) (er_request_id req)
         (EventPayload.DispatchStarted (new_attempt_id orch) None) w')
      (\<lambda>_ w. run_provider fuel orch req (new_attempt_id orch) w))"
    if "\<forall>x \<in> set (snd w'). \<not> is_provider_call x" for w'
    by (rule try_append_quiet [where Post = "own_prompt orch req", OF that])
       (auto intro!: run_provider_prompt own_prompt_quiet)
  show ?thesis
    unfolding dispatch_def Inr sum.case
    by (rule try_append_quiet [where Post = "own_prompt orch req", OF assms])
       (use ids in \<open>auto intro!: own_prompt_quiet started split: sum.splits\<close>)
qed

lemma execute_prompt: "own_prompt orch req (execute fuel orch req (s, []))"
  unfolding execute_def
  by (rule try_append_quiet [where Post = "own_prompt orch req"], simp)
     (auto intro!: own_prompt_quiet dispatch_prompt try_append_quiet [where Post = "own_prompt orch req"]
       split: PermissionScope.splits)

end
