(* ===== verification/Json.thy ===== *)
theory Json
  imports Prelude Routing "HOL-Library.List_Lexorder" "HOL-Library.Char_ord"
begin

text \<open>
  JSON values as \<open>serde_json::Value\<close> has them (an object is a \<open>BTreeMap\<close>: its entries in key order,
  one per key), sorted-map insertion, and the canonical form of
  \<open>crates/workbench-storage/src/sqlite.rs\<close> under which command parameters are hashed.
\<close>

datatype number = PosInt u64 | NegInt int | Float f64

datatype json =
    JNull
  | JBool bool
  | JNumber number
  | JString string
  | JArray "json list"
  | JObject "(string \<times> json) list"

section \<open>Sorted maps\<close>

fun btree_insert :: "string \<Rightarrow> 'v \<Rightarrow> 'v btree \<Rightarrow> 'v btree" where
  "btree_insert k v [] = [(k, v)]"
| "btree_insert k v ((k', v') # m) =
     (if k < k' then (k, v) # (k', v') # m
      else if k = k' then (k, v) # m
      else (k', v') # btree_insert k v m)"

definition btree_wf :: "'v btree \<Rightarrow> bool" where
  "btree_wf m \<longleftrightarrow> sorted_wrt (<) (map fst m)"

lemma btree_wf_simps [simp]:
  "btree_wf []"
  "btree_wf ((k, v) # m) \<longleftrightarrow> (\<forall>k' \<in> fst ` set m. k < k') \<and> btree_wf m"
  by (auto simp: btree_wf_def)

lemma btree_insert_keys [simp]: "fst ` set (btree_insert k v m) = insert k (fst ` set m)"
  by (induction k v m rule: btree_insert.induct) auto

lemma btree_insert_wf [simp]: "btree_wf m \<Longrightarrow> btree_wf (btree_insert k v m)"
  by (induction k v m rule: btree_insert.induct) (auto simp: image_iff)

lemma map_of_btree_insert: "btree_wf m \<Longrightarrow> map_of (btree_insert k v m) = (map_of m)(k \<mapsto> v)"
proof (induction k v m rule: btree_insert.induct)
  case (2 k v k' v' m)
  then show ?case by (auto simp: fun_eq_iff)
qed auto

lemma btree_insert_greater: "\<forall>k' \<in> fst ` set m. k' < k \<Longrightarrow> btree_insert k v m = m @ [(k, v)]"
  by (induction k v m rule: btree_insert.induct) auto

lemma btree_distinct: "btree_wf m \<Longrightarrow> distinct (map fst m)"
  by (induction m) fastforce+

section \<open>Canonical form\<close>

text \<open>\<open>keys.sort_unstable()\<close> on the keys of an object, then one insertion per key.\<close>

definition build_sorted :: "'v btree \<Rightarrow> 'v btree" where
  "build_sorted m =
     fold (\<lambda>k acc. btree_insert k (the (map_of m k)) acc) (sort (map fst m)) []"

fun canonicalize :: "json \<Rightarrow> json" where
  "canonicalize (JObject kvs) = JObject (build_sorted (map (\<lambda>(k, v). (k, canonicalize v)) kvs))"
| "canonicalize (JArray vs) = JArray (map canonicalize vs)"
| "canonicalize v = v"

text \<open>The values \<open>serde_json\<close> builds: object entries in key order, one per key.\<close>

fun json_wf :: "json \<Rightarrow> bool" where
  "json_wf (JObject kvs) \<longleftrightarrow> btree_wf kvs \<and> list_all (\<lambda>(_, v). json_wf v) kvs"
| "json_wf (JArray vs) \<longleftrightarrow> list_all json_wf vs"
| "json_wf _ \<longleftrightarrow> True"

text \<open>Values without a floating-point number, which JSON text represents exactly.\<close>

fun json_exact :: "json \<Rightarrow> bool" where
  "json_exact (JObject kvs) \<longleftrightarrow> list_all (\<lambda>(_, v). json_exact v) kvs"
| "json_exact (JArray vs) \<longleftrightarrow> list_all json_exact vs"
| "json_exact (JNumber (Float _)) \<longleftrightarrow> False"
| "json_exact _ \<longleftrightarrow> True"

lemma build_sorted_fold:
  assumes "btree_wf m" "\<forall>(k, v) \<in> set m. map_of full k = Some v"
  shows "fold (\<lambda>k acc. btree_insert k (the (map_of full k)) acc) (map fst m) [] = m"
  using assms
proof (induction m rule: rev_induct)
  case Nil
  then show ?case by simp
next
  case (snoc kv m)
  then have "btree_wf m" "\<forall>k' \<in> fst ` set m. k' < fst kv"
    by (auto simp: btree_wf_def sorted_wrt_append)
  with snoc show ?case by (cases kv) (simp add: btree_insert_greater)
qed

lemma build_sorted_wf: "btree_wf m \<Longrightarrow> build_sorted m = m"
proof -
  assume wf: "btree_wf m"
  then have "sorted (map fst m)" unfolding btree_wf_def by (simp add: strict_sorted_imp_sorted)
  then have "sort (map fst m) = map fst m" by (simp add: sort_key_id_if_sorted)
  moreover have "\<forall>(k, v) \<in> set m. map_of m k = Some v" using btree_distinct [OF wf] by auto
  ultimately show ?thesis using build_sorted_fold [OF wf] by (simp add: build_sorted_def)
qed

lemma btree_wf_map [simp]: "btree_wf (map (\<lambda>(k, v). (k, f v)) m) \<longleftrightarrow> btree_wf m"
  by (simp add: btree_wf_def case_prod_beta comp_def)

lemma canonicalize_wf: "json_wf v \<Longrightarrow> canonicalize v = v"
proof (induction v)
  case (JObject kvs)
  then have "map (\<lambda>(k, v). (k, canonicalize v)) kvs = kvs"
    by (auto simp: list_all_iff intro!: map_idI)
  with JObject show ?case by (simp add: build_sorted_wf)
next
  case (JArray vs)
  then show ?case by (auto simp: list_all_iff intro!: map_idI)
qed auto

end
