(* ===== verification/Externals.thy ===== *)
theory Externals
  imports Json
begin

text \<open>
  What the crates call outside the repository, as one record of functions: the AEAD
  (\<open>chacha20poly1305\<close>), base64, the JSON text of \<open>serde_json\<close>, BLAKE3, UUIDs as text and times in
  the format of RFC 3339. The
  laws the code relies on are the two predicates at the end. The encrypted payload of
  \<open>crates/workbench-storage/src/crypto.rs\<close> is built on them; a nonce is drawn by the caller.
\<close>

type_synonym bytes = string
type_synonym SecretKey = bytes

datatype StorageError =
    InvalidInput string | StorageUnavailable | KeyStoreUnavailable | AuthenticationFailed
  | SessionNotFound | RequestConflict | UnsafeExportPath

record AssociatedData =
  ad_schema_version :: u32
  ad_session_id :: uuid
  ad_object_id :: string
  ad_sequence :: u64
  ad_kind :: string

record EncryptedPayload =
  ep_nonce :: bytes
  ep_ciphertext :: bytes

record SessionKeyEnvelope =
  env_schema_version :: u32
  env_session_id :: uuid
  env_key_id :: string
  env_root_key_id :: string
  env_algorithm :: string
  env_nonce :: string
  env_wrapped_key :: string

record RootKeyRecord =
  root_schema_version :: u32
  root_current :: string
  root_previous :: "string option"

record Externals =
  aead_encrypt :: "bytes \<Rightarrow> bytes \<Rightarrow> bytes \<Rightarrow> bytes \<Rightarrow> bytes option"
  aead_decrypt :: "bytes \<Rightarrow> bytes \<Rightarrow> bytes \<Rightarrow> bytes \<Rightarrow> bytes option"
  aad_to_vec :: "AssociatedData \<Rightarrow> bytes"
  base64_encode :: "bytes \<Rightarrow> string"
  base64_decode :: "string \<Rightarrow> bytes option"
  envelope_to_vec :: "SessionKeyEnvelope \<Rightarrow> bytes"
  envelope_from_slice :: "bytes \<Rightarrow> SessionKeyEnvelope option"
  root_to_vec :: "RootKeyRecord \<Rightarrow> bytes"
  root_from_slice :: "bytes \<Rightarrow> RootKeyRecord option"
  json_to_vec :: "json \<Rightarrow> bytes"
  json_from_slice :: "bytes \<Rightarrow> json option"
  blake3_hex :: "bytes \<Rightarrow> string"
  uuid_text :: "uuid \<Rightarrow> string"
  uuid_parse :: "string \<Rightarrow> uuid option"
  rfc3339 :: "int \<Rightarrow> string option"

definition KEY_BYTES :: nat where
  "KEY_BYTES = 32"

definition NONCE_BYTES :: nat where
  "NONCE_BYTES = 24"

definition SecretKey_from_slice :: "bytes \<Rightarrow> StorageError + SecretKey" where
  "SecretKey_from_slice b =
     (if length b = KEY_BYTES then Ok b else Err (InvalidInput ''key must be 256 bits''))"

definition EncryptedPayload_encrypt ::
  "Externals \<Rightarrow> bytes \<Rightarrow> SecretKey \<Rightarrow> bytes \<Rightarrow> AssociatedData \<Rightarrow> StorageError + EncryptedPayload" where
  "EncryptedPayload_encrypt x fresh_nonce key plaintext ad =
     (case aead_encrypt x key fresh_nonce (aad_to_vec x ad) plaintext of
        None \<Rightarrow> Err AuthenticationFailed
      | Some c \<Rightarrow> Ok \<lparr>ep_nonce = fresh_nonce, ep_ciphertext = c\<rparr>)"

definition EncryptedPayload_decrypt ::
  "Externals \<Rightarrow> EncryptedPayload \<Rightarrow> SecretKey \<Rightarrow> AssociatedData \<Rightarrow> StorageError + bytes" where
  "EncryptedPayload_decrypt x p key ad =
     (if length (ep_nonce p) \<noteq> NONCE_BYTES then Err AuthenticationFailed
      else case aead_decrypt x key (ep_nonce p) (aad_to_vec x ad) (ep_ciphertext p) of
        None \<Rightarrow> Err AuthenticationFailed
      | Some m \<Rightarrow> Ok m)"

text \<open>Documented behaviour of those libraries: an AEAD opens what it sealed and adds a tag of 16
  bytes; the codecs decode what they encoded (JSON text is exact up to floating-point numbers);
  the JSON text of a root record is longer than a bare key; a UUID parses from its text.\<close>

definition externals_ok :: "Externals \<Rightarrow> bool" where
  "externals_ok x \<longleftrightarrow>
     (\<forall>k n a m c. aead_encrypt x k n a m = Some c \<longrightarrow>
        aead_decrypt x k n a c = Some m \<and> length c = length m + 16) \<and>
     (\<forall>b. base64_decode x (base64_encode x b) = Some b) \<and>
     (\<forall>e. envelope_from_slice x (envelope_to_vec x e) = Some e) \<and>
     (\<forall>r. root_from_slice x (root_to_vec x r) = Some r \<and> length (root_to_vec x r) \<noteq> KEY_BYTES) \<and>
     (\<forall>v. json_exact v \<longrightarrow> json_from_slice x (json_to_vec x v) = Some v) \<and>
     (\<forall>i. uuid_parse x (uuid_text x i) = Some i)"

text \<open>The tag computed under one key is rejected under every other key.\<close>

definition keys_separated :: "Externals \<Rightarrow> bool" where
  "keys_separated x \<longleftrightarrow>
     (\<forall>k k' n a m c. aead_encrypt x k n a m = Some c \<longrightarrow> k' \<noteq> k \<longrightarrow>
        aead_decrypt x k' n a c = None)"

lemma externals_okD:
  assumes "externals_ok x"
  shows "aead_encrypt x k n a m = Some c \<Longrightarrow> aead_decrypt x k n a c = Some m"
    and "aead_encrypt x k n a m = Some c \<Longrightarrow> length c = length m + 16"
    and "base64_decode x (base64_encode x b) = Some b"
    and "envelope_from_slice x (envelope_to_vec x e) = Some e"
    and "root_from_slice x (root_to_vec x r) = Some r"
    and "length (root_to_vec x r) \<noteq> KEY_BYTES"
    and "json_exact v \<Longrightarrow> json_from_slice x (json_to_vec x v) = Some v"
    and "uuid_text x i = uuid_text x j \<longleftrightarrow> i = j"
    and "uuid_parse x (uuid_text x i) = Some i"
  using assms unfolding externals_ok_def
  by (blast, blast, blast, blast, blast, blast, blast, metis option.inject, blast)

lemma encrypt_Ok:
  "EncryptedPayload_encrypt x n key m ad = Ok p \<longleftrightarrow>
     (\<exists>c. aead_encrypt x key n (aad_to_vec x ad) m = Some c \<and> p = \<lparr>ep_nonce = n, ep_ciphertext = c\<rparr>)"
  by (auto simp: EncryptedPayload_encrypt_def split: option.splits)

lemma decrypt_encrypt:
  assumes "externals_ok x" "length n = NONCE_BYTES" "EncryptedPayload_encrypt x n key m ad = Ok p"
  shows "EncryptedPayload_decrypt x p key ad = Ok m"
  using assms by (auto simp: encrypt_Ok EncryptedPayload_decrypt_def externals_okD)

end
