(* ===== verification/Keys.thy ===== *)
theory Keys
  imports Externals
begin

text \<open>
  Session keys and their envelopes, from \<open>crates/workbench-storage/src/key_store.rs\<close>: the
  secret-store contract with the in-memory store, the cataloged put of the platform store, and
  the key manager, which wraps one data key per session under a rotating root key. Random keys
  and nonces are arguments of the operations that draw them. The manager's operations return the
  manager they leave behind, on errors too: a call that fails may have written before it failed.
\<close>

section \<open>Secret stores\<close>

record 'k KeyStore =
  ks_put :: "string \<Rightarrow> bytes \<Rightarrow> 'k \<Rightarrow> (StorageError + unit) \<times> 'k"
  ks_get :: "string \<Rightarrow> 'k \<Rightarrow> StorageError + bytes option"
  ks_delete :: "string \<Rightarrow> 'k \<Rightarrow> (StorageError + unit) \<times> 'k"
  ks_list :: "string \<Rightarrow> 'k \<Rightarrow> StorageError + string list"

record MemoryKeyStore =
  mem_entries :: "bytes btree"
  mem_available :: bool

definition MemoryKeyStore_new :: MemoryKeyStore where
  "MemoryKeyStore_new = \<lparr>mem_entries = [], mem_available = True\<rparr>"

definition set_available :: "bool \<Rightarrow> MemoryKeyStore \<Rightarrow> MemoryKeyStore" where
  "set_available available m = m\<lparr>mem_available := available\<rparr>"

definition require_available :: "MemoryKeyStore \<Rightarrow> StorageError + unit" where
  "require_available m = (if mem_available m then Ok () else Err KeyStoreUnavailable)"

definition mem_put :: "string \<Rightarrow> bytes \<Rightarrow> MemoryKeyStore \<Rightarrow> (StorageError + unit) \<times> MemoryKeyStore" where
  "mem_put i secret m =
     (case require_available m of
        Err e \<Rightarrow> (Err e, m)
      | Ok _ \<Rightarrow> (Ok (), m\<lparr>mem_entries := btree_insert i secret (mem_entries m)\<rparr>))"

definition mem_get :: "string \<Rightarrow> MemoryKeyStore \<Rightarrow> StorageError + bytes option" where
  "mem_get i m = and_then (require_available m) (\<lambda>_. Ok (map_of (mem_entries m) i))"

definition mem_delete :: "string \<Rightarrow> MemoryKeyStore \<Rightarrow> (StorageError + unit) \<times> MemoryKeyStore" where
  "mem_delete i m =
     (case require_available m of
        Err e \<Rightarrow> (Err e, m)
      | Ok _ \<Rightarrow> (Ok (), m\<lparr>mem_entries := filter (\<lambda>(k, _). k \<noteq> i) (mem_entries m)\<rparr>))"

definition mem_list :: "string \<Rightarrow> MemoryKeyStore \<Rightarrow> StorageError + string list" where
  "mem_list prefix m =
     and_then (require_available m) (\<lambda>_.
       Ok (sort (filter (\<lambda>i. starts_with i prefix) (map fst (mem_entries m)))))"

definition memory_key_store :: "MemoryKeyStore KeyStore" where
  "memory_key_store =
     \<lparr>ks_put = mem_put, ks_get = mem_get, ks_delete = mem_delete, ks_list = mem_list\<rparr>"

text \<open>The put of the platform store keeps a catalog beside the secrets, and undoes the secret when
  the catalog cannot be written. A catalog (\<open>BTreeSet\<close>) is a sorted list without repetition.\<close>

record 'c CatalogPutOps =
  get_secret :: "string \<Rightarrow> 'c \<Rightarrow> (StorageError + bytes option) \<times> 'c"
  set_secret :: "string \<Rightarrow> bytes \<Rightarrow> 'c \<Rightarrow> (StorageError + unit) \<times> 'c"
  delete_secret :: "string \<Rightarrow> 'c \<Rightarrow> (StorageError + unit) \<times> 'c"
  read_catalog :: "string \<Rightarrow> 'c \<Rightarrow> (StorageError + string list) \<times> 'c"
  write_catalog :: "string \<Rightarrow> string list \<Rightarrow> 'c \<Rightarrow> (StorageError + unit) \<times> 'c"

definition cataloged_put ::
  "'c CatalogPutOps \<Rightarrow> string \<Rightarrow> bytes \<Rightarrow> string \<Rightarrow> 'c \<Rightarrow> (StorageError + unit) \<times> 'c" where
  "cataloged_put ops i secret catalog_id s =
     st_then (get_secret ops i s) (\<lambda>previous s.
     st_then (read_catalog ops catalog_id s) (\<lambda>catalog s.
     st_then (set_secret ops i secret s) (\<lambda>_ s.
       case write_catalog ops catalog_id (insort_insert i catalog) s of
         (Ok _, s) \<Rightarrow> (Ok (), s)
       | (Err e, s) \<Rightarrow>
           st_then (case previous of
                      Some p \<Rightarrow> set_secret ops i p s
                    | None \<Rightarrow> delete_secret ops i s)
             (\<lambda>_ s. (Err e, s)))))"

section \<open>The key manager\<close>

record 'k KeyManager =
  km_store :: 'k
  km_root_key_id :: string
  km_session_key_prefix :: string
  km_cache :: "uuid \<Rightarrow> SecretKey option"

definition KeyManager_for_storage :: "Externals \<Rightarrow> 'k \<Rightarrow> uuid \<Rightarrow> bytes \<Rightarrow> 'k KeyManager" where
  "KeyManager_for_storage x store storage_id location_scope =
     (let namespace = ''workbench/storage/'' @ uuid_text x storage_id @ ''/''
                        @ blake3_hex x location_scope
      in \<lparr>km_store = store, km_root_key_id = namespace @ ''/root/v1'',
          km_session_key_prefix = namespace @ ''/session/'', km_cache = Map.empty\<rparr>)"

definition session_key_id :: "Externals \<Rightarrow> 'k KeyManager \<Rightarrow> uuid \<Rightarrow> string" where
  "session_key_id x km session_id = km_session_key_prefix km @ uuid_text x session_id @ ''/v1''"

definition owns_session_key :: "Externals \<Rightarrow> 'k KeyManager \<Rightarrow> uuid \<Rightarrow> string \<Rightarrow> bool" where
  "owns_session_key x km session_id key_id \<longleftrightarrow> session_key_id x km session_id = key_id"

definition envelope_aad :: "uuid \<Rightarrow> string \<Rightarrow> string \<Rightarrow> AssociatedData" where
  "envelope_aad session_id key_id root_key_id =
     \<lparr>ad_schema_version = 1, ad_session_id = session_id, ad_object_id = key_id,
      ad_sequence = 0, ad_kind = root_key_id\<rparr>"

definition validate_envelope ::
  "Externals \<Rightarrow> SessionKeyEnvelope \<Rightarrow> uuid \<Rightarrow> string \<Rightarrow> string \<Rightarrow> StorageError + unit" where
  "validate_envelope x env session_id key_id root_key_id =
     (if env_schema_version env \<noteq> 1 \<or> env_session_id env \<noteq> session_id \<or>
         env_key_id env \<noteq> key_id \<or> env_root_key_id env \<noteq> root_key_id \<or>
         env_algorithm env \<noteq> ''xchacha20-poly1305''
      then Err AuthenticationFailed
      else case base64_decode x (env_wrapped_key env) of
        None \<Rightarrow> Err AuthenticationFailed
      | Some wrapped \<Rightarrow>
          (if length wrapped \<noteq> KEY_BYTES + 16 then Err AuthenticationFailed else Ok ()))"

definition decrypt_with_root_candidates ::
  "Externals \<Rightarrow> EncryptedPayload \<Rightarrow> SecretKey \<Rightarrow> SecretKey option \<Rightarrow> AssociatedData
     \<Rightarrow> StorageError + bytes" where
  "decrypt_with_root_candidates x encrypted current previous ad =
     (case EncryptedPayload_decrypt x encrypted current ad of
        Ok plaintext \<Rightarrow> Ok plaintext
      | Err AuthenticationFailed \<Rightarrow>
          and_then (ok_or AuthenticationFailed previous)
            (\<lambda>key. EncryptedPayload_decrypt x encrypted key ad)
      | Err e \<Rightarrow> Err e)"

definition root_keys ::
  "Externals \<Rightarrow> 'k KeyStore \<Rightarrow> 'k KeyManager \<Rightarrow> StorageError + SecretKey \<times> SecretKey option" where
  "root_keys x ks km =
     and_then (ks_get ks (km_root_key_id km) (km_store km)) (\<lambda>found.
     and_then (ok_or KeyStoreUnavailable found) (\<lambda>bytes.
       if length bytes = KEY_BYTES
       then and_then (SecretKey_from_slice bytes) (\<lambda>key. Ok (key, None))
       else
         and_then (ok_or KeyStoreUnavailable (root_from_slice x bytes)) (\<lambda>record.
           if root_schema_version record \<noteq> 1 then Err KeyStoreUnavailable
           else
             and_then (ok_or KeyStoreUnavailable (base64_decode x (root_current record))) (\<lambda>current.
             and_then
               (case root_previous record of
                  None \<Rightarrow> Ok None
                | Some encoded \<Rightarrow>
                    and_then (ok_or KeyStoreUnavailable (base64_decode x encoded)) (\<lambda>b.
                    and_then (SecretKey_from_slice b) (\<lambda>key. Ok (Some key))))
               (\<lambda>previous.
                 and_then (SecretKey_from_slice current) (\<lambda>key. Ok (key, previous)))))))"

definition root_record :: "Externals \<Rightarrow> SecretKey \<Rightarrow> SecretKey option \<Rightarrow> RootKeyRecord" where
  "root_record x current previous =
     \<lparr>root_schema_version = 1, root_current = base64_encode x current,
      root_previous = map_option (base64_encode x) previous\<rparr>"

definition write_root_record ::
  "Externals \<Rightarrow> 'k KeyStore \<Rightarrow> SecretKey \<Rightarrow> SecretKey option \<Rightarrow> 'k KeyManager
     \<Rightarrow> (StorageError + unit) \<times> 'k KeyManager" where
  "write_root_record x ks current previous km =
     (case ks_put ks (km_root_key_id km) (root_to_vec x (root_record x current previous))
             (km_store km) of
        (r, store) \<Rightarrow> (r, km\<lparr>km_store := store\<rparr>))"

definition load_or_create_root_keys ::
  "Externals \<Rightarrow> 'k KeyStore \<Rightarrow> SecretKey \<Rightarrow> 'k KeyManager
     \<Rightarrow> (StorageError + SecretKey \<times> SecretKey option) \<times> 'k KeyManager" where
  "load_or_create_root_keys x ks fresh_root km =
     (case ks_get ks (km_root_key_id km) (km_store km) of
        Err e \<Rightarrow> (Err e, km)
      | Ok (Some _) \<Rightarrow> (root_keys x ks km, km)
      | Ok None \<Rightarrow>
          st_then (write_root_record x ks fresh_root None km) (\<lambda>_ km. (Ok (fresh_root, None), km)))"

definition seal_envelope ::
  "Externals \<Rightarrow> bytes \<Rightarrow> SecretKey \<Rightarrow> bytes \<Rightarrow> uuid \<Rightarrow> string \<Rightarrow> string
     \<Rightarrow> StorageError + SessionKeyEnvelope" where
  "seal_envelope x fresh_nonce root_key plaintext session_id key_id root_key_id =
     and_then (EncryptedPayload_encrypt x fresh_nonce root_key plaintext
                 (envelope_aad session_id key_id root_key_id)) (\<lambda>wrapped.
       Ok \<lparr>env_schema_version = 1, env_session_id = session_id, env_key_id = key_id,
           env_root_key_id = root_key_id, env_algorithm = ''xchacha20-poly1305'',
           env_nonce = base64_encode x (ep_nonce wrapped),
           env_wrapped_key = base64_encode x (ep_ciphertext wrapped)\<rparr>)"

definition create_session_key ::
  "Externals \<Rightarrow> 'k KeyStore \<Rightarrow> SecretKey \<Rightarrow> SecretKey \<Rightarrow> bytes \<Rightarrow> uuid \<Rightarrow> 'k KeyManager
     \<Rightarrow> (StorageError + string) \<times> 'k KeyManager" where
  "create_session_key x ks fresh_root fresh_key fresh_nonce session_id km =
     (let key_id = session_key_id x km session_id in
      case ks_get ks key_id (km_store km) of
        Err e \<Rightarrow> (Err e, km)
      | Ok (Some _) \<Rightarrow> (Err (InvalidInput ''session key already exists''), km)
      | Ok None \<Rightarrow>
          st_then (load_or_create_root_keys x ks fresh_root km) (\<lambda>(root_key, _) km.
            case seal_envelope x fresh_nonce root_key fresh_key session_id key_id
                   (km_root_key_id km) of
              Err e \<Rightarrow> (Err e, km)
            | Ok env \<Rightarrow>
                (case ks_put ks key_id (envelope_to_vec x env) (km_store km) of
                   (Err e, store) \<Rightarrow> (Err e, km\<lparr>km_store := store\<rparr>)
                 | (Ok _, store) \<Rightarrow>
                     (Ok key_id,
                      km\<lparr>km_store := store, km_cache := (km_cache km)(session_id \<mapsto> fresh_key)\<rparr>))))"

text \<open>The envelope's encrypted payload, both fields decoded.\<close>

definition envelope_payload :: "Externals \<Rightarrow> SessionKeyEnvelope \<Rightarrow> StorageError + EncryptedPayload" where
  "envelope_payload x env =
     and_then (ok_or AuthenticationFailed (base64_decode x (env_nonce env))) (\<lambda>n.
     and_then (ok_or AuthenticationFailed (base64_decode x (env_wrapped_key env))) (\<lambda>c.
       Ok \<lparr>ep_nonce = n, ep_ciphertext = c\<rparr>))"

definition unwrap_session_key ::
  "Externals \<Rightarrow> 'k KeyStore \<Rightarrow> uuid \<Rightarrow> 'k KeyManager \<Rightarrow> StorageError + SecretKey" where
  "unwrap_session_key x ks session_id km =
     (let key_id = session_key_id x km session_id in
      and_then (ks_get ks key_id (km_store km)) (\<lambda>found.
      and_then (ok_or KeyStoreUnavailable found) (\<lambda>encoded.
      and_then (ok_or StorageUnavailable (envelope_from_slice x encoded)) (\<lambda>env.
      and_then (validate_envelope x env session_id key_id (km_root_key_id km)) (\<lambda>_.
      and_then (envelope_payload x env) (\<lambda>encrypted.
        if length (ep_nonce encrypted) \<noteq> NONCE_BYTES then Err AuthenticationFailed
        else
          and_then (root_keys x ks km) (\<lambda>(current_root, previous_root).
          and_then (decrypt_with_root_candidates x encrypted current_root previous_root
                      (envelope_aad session_id key_id (km_root_key_id km)))
            SecretKey_from_slice)))))))"

definition session_key ::
  "Externals \<Rightarrow> 'k KeyStore \<Rightarrow> uuid \<Rightarrow> 'k KeyManager \<Rightarrow> (StorageError + SecretKey) \<times> 'k KeyManager" where
  "session_key x ks session_id km =
     (case km_cache km session_id of
        Some key \<Rightarrow> (Ok key, km)
      | None \<Rightarrow>
          (case unwrap_session_key x ks session_id km of
             Err e \<Rightarrow> (Err e, km)
           | Ok key \<Rightarrow> (Ok key, km\<lparr>km_cache := (km_cache km)(session_id \<mapsto> key)\<rparr>)))"

definition destroy_session_key ::
  "Externals \<Rightarrow> 'k KeyStore \<Rightarrow> uuid \<Rightarrow> 'k KeyManager \<Rightarrow> (StorageError + unit) \<times> 'k KeyManager" where
  "destroy_session_key x ks session_id km =
     (case ks_delete ks (session_key_id x km session_id) (km_store km) of
        (r, store) \<Rightarrow>
          (r, km\<lparr>km_store := store, km_cache := (km_cache km)(session_id := None)\<rparr>))"

definition session_key_ids :: "'k KeyStore \<Rightarrow> 'k KeyManager \<Rightarrow> StorageError + string list" where
  "session_key_ids ks km = ks_list ks (km_session_key_prefix km) (km_store km)"

definition rewrap_session_key ::
  "Externals \<Rightarrow> 'k KeyStore \<Rightarrow> SecretKey \<Rightarrow> SecretKey option \<Rightarrow> bytes \<Rightarrow> string \<Rightarrow> 'k KeyManager
     \<Rightarrow> (StorageError + unit) \<times> 'k KeyManager" where
  "rewrap_session_key x ks target_root fallback_root fresh_nonce key_id km =
     (case
        and_then (ks_get ks key_id (km_store km)) (\<lambda>found.
        and_then (ok_or KeyStoreUnavailable found) (\<lambda>encoded.
        and_then (ok_or StorageUnavailable (envelope_from_slice x encoded)) (\<lambda>env.
        and_then (envelope_payload x env) (\<lambda>encrypted.
        let ad = envelope_aad (env_session_id env) (env_key_id env) (km_root_key_id km) in
        and_then (decrypt_with_root_candidates x encrypted target_root fallback_root ad)
          (\<lambda>plaintext.
        and_then (EncryptedPayload_encrypt x fresh_nonce target_root plaintext ad) (\<lambda>rewrapped.
          Ok (env\<lparr>env_nonce := base64_encode x (ep_nonce rewrapped),
                  env_wrapped_key := base64_encode x (ep_ciphertext rewrapped)\<rparr>)))))))
      of
        Err e \<Rightarrow> (Err e, km)
      | Ok replacement \<Rightarrow>
          (case ks_put ks key_id (envelope_to_vec x replacement) (km_store km) of
             (r, store) \<Rightarrow> (r, km\<lparr>km_store := store\<rparr>)))"

fun rewrap_keys ::
  "Externals \<Rightarrow> 'k KeyStore \<Rightarrow> SecretKey \<Rightarrow> SecretKey option \<Rightarrow> (string \<Rightarrow> bytes) \<Rightarrow> string list
     \<Rightarrow> 'k KeyManager \<Rightarrow> (StorageError + unit) \<times> 'k KeyManager" where
  "rewrap_keys x ks target fallback nonces [] km = (Ok (), km)"
| "rewrap_keys x ks target fallback nonces (key_id # ids) km =
     st_then (rewrap_session_key x ks target fallback (nonces key_id) key_id km) (\<lambda>_ km.
       rewrap_keys x ks target fallback nonces ids km)"

definition rewrap_all_session_keys ::
  "Externals \<Rightarrow> 'k KeyStore \<Rightarrow> SecretKey \<Rightarrow> SecretKey option \<Rightarrow> (string \<Rightarrow> bytes) \<Rightarrow> 'k KeyManager
     \<Rightarrow> (StorageError + unit) \<times> 'k KeyManager" where
  "rewrap_all_session_keys x ks target fallback nonces km =
     (case session_key_ids ks km of
        Err e \<Rightarrow> (Err e, km)
      | Ok ids \<Rightarrow> rewrap_keys x ks target fallback nonces ids km)"

text \<open>\<open>fresh_root\<close> is the root drawn when none exists yet, \<open>new_root\<close> the one rotated to; \<open>nonces\<close> and
  \<open>nonces'\<close> are the nonces of the two passes over the session keys.\<close>

definition rotate_root_key ::
  "Externals \<Rightarrow> 'k KeyStore \<Rightarrow> SecretKey \<Rightarrow> SecretKey \<Rightarrow> (string \<Rightarrow> bytes) \<Rightarrow> (string \<Rightarrow> bytes)
     \<Rightarrow> 'k KeyManager \<Rightarrow> (StorageError + unit) \<times> 'k KeyManager" where
  "rotate_root_key x ks fresh_root new_root nonces nonces' km =
     st_then (load_or_create_root_keys x ks fresh_root km) (\<lambda>(old_root, previous_root) km.
     st_then
       (if previous_root \<noteq> None
        then st_then (rewrap_all_session_keys x ks old_root previous_root nonces km) (\<lambda>_ km.
               write_root_record x ks old_root None km)
        else (Ok (), km))
       (\<lambda>_ km.
     st_then (write_root_record x ks new_root (Some old_root) km) (\<lambda>_ km.
     st_then (rewrap_all_session_keys x ks new_root (Some old_root) nonces' km) (\<lambda>_ km.
       write_root_record x ks new_root None km))))"

end
