(* ===== verification/Reference.thy ===== *)
theory Reference
  imports Externals
begin

text \<open>
  A concrete instance of the libraries \<open>Externals\<close> abstracts from, for which all its laws are
  proved, so that the hypotheses on those libraries are seen to be satisfiable and operations can
  be run on concrete data. JSON values are written in a prefix code; the AEAD knows the keys that
  repeat one byte and tags a message with it.
\<close>

section \<open>A prefix code for JSON values\<close>

fun put_string :: "string \<Rightarrow> string" where
  "put_string [] = ''.''"
| "put_string (c # cs) = CHR ''-'' # c # put_string cs"

fun get_string :: "string \<Rightarrow> (string \<times> string) option" where
  "get_string [] = None"
| "get_string (t # rest) =
     (if t = CHR ''.'' then Some ([], rest)
      else case rest of
        [] \<Rightarrow> None
      | c # rest \<Rightarrow> map_option (\<lambda>(s, rest). (c # s, rest)) (get_string rest))"

fun put_json :: "json \<Rightarrow> string" where
  "put_json JNull = ''n''"
| "put_json (JBool b) = (if b then ''t'' else ''f'')"
| "put_json (JNumber (PosInt n)) = ''p'' @ put_string (replicate (unat n) CHR ''1'')"
| "put_json (JNumber (NegInt i)) =
     (if i < 0 then ''m'' else ''z'') @ put_string (replicate (nat \<bar>i\<bar>) CHR ''1'')"
| "put_json (JNumber (Float _)) = ''r''"
| "put_json (JString s) = ''s'' @ put_string s"
| "put_json (JArray vs) = ''a'' @ concat (map (\<lambda>v. ''-'' @ put_json v) vs) @ ''.''"
| "put_json (JObject kvs) =
     ''o'' @ concat (map (\<lambda>(k, v). ''-'' @ put_string k @ put_json v) kvs) @ ''.''"

text \<open>The decoders recurse on a bound that the length of the text always covers.\<close>

fun get_json :: "nat \<Rightarrow> string \<Rightarrow> (json \<times> string) option"
  and get_items :: "nat \<Rightarrow> string \<Rightarrow> (json list \<times> string) option"
  and get_entries :: "nat \<Rightarrow> string \<Rightarrow> ((string \<times> json) list \<times> string) option" where
  "get_json 0 _ = None"
| "get_json (Suc n) [] = None"
| "get_json (Suc n) (t # rest) =
     (if t = CHR ''n'' then Some (JNull, rest)
      else if t = CHR ''t'' then Some (JBool True, rest)
      else if t = CHR ''f'' then Some (JBool False, rest)
      else if t = CHR ''p''
      then map_option (\<lambda>(s, rest). (JNumber (PosInt (of_nat (length s))), rest)) (get_string rest)
      else if t = CHR ''m''
      then map_option (\<lambda>(s, rest). (JNumber (NegInt (- int (length s))), rest)) (get_string rest)
      else if t = CHR ''z''
      then map_option (\<lambda>(s, rest). (JNumber (NegInt (int (length s))), rest)) (get_string rest)
      else if t = CHR ''s'' then map_option (\<lambda>(s, rest). (JString s, rest)) (get_string rest)
      else if t = CHR ''a'' then map_option (\<lambda>(vs, rest). (JArray vs, rest)) (get_items n rest)
      else if t = CHR ''o'' then map_option (\<lambda>(es, rest). (JObject es, rest)) (get_entries n rest)
      else if t = CHR ''r'' then Some (JNumber (Float (Fin 1)), rest)
      else None)"
| "get_items 0 _ = None"
| "get_items (Suc n) [] = None"
| "get_items (Suc n) (t # rest) =
     (if t = CHR ''.'' then Some ([], rest)
      else case get_json n rest of
        None \<Rightarrow> None
      | Some (v, rest) \<Rightarrow> map_option (\<lambda>(vs, rest). (v # vs, rest)) (get_items n rest))"
| "get_entries 0 _ = None"
| "get_entries (Suc n) [] = None"
| "get_entries (Suc n) (t # rest) =
     (if t = CHR ''.'' then Some ([], rest)
      else case get_string rest of
        None \<Rightarrow> None
      | Some (k, rest) \<Rightarrow>
          (case get_json n rest of
             None \<Rightarrow> None
           | Some (v, rest) \<Rightarrow> map_option (\<lambda>(es, rest). ((k, v) # es, rest)) (get_entries n rest)))"

text \<open>The only floating-point number the code reads back is one.\<close>

fun json_plain :: "json \<Rightarrow> bool" where
  "json_plain (JObject kvs) \<longleftrightarrow> list_all (\<lambda>(_, v). json_plain v) kvs"
| "json_plain (JArray vs) \<longleftrightarrow> list_all json_plain vs"
| "json_plain (JNumber (Float c)) \<longleftrightarrow> c = Fin 1"
| "json_plain _ \<longleftrightarrow> True"

lemma exact_plain: "json_exact v \<Longrightarrow> json_plain v"
  by (induction v rule: json_plain.induct) (auto simp: list_all_iff)

definition read_json :: "string \<Rightarrow> json option" where
  "read_json s = map_option fst (get_json (length s) s)"

lemma get_put_string [simp]: "get_string (put_string s @ rest) = Some (s, rest)"
  by (induction s) simp_all

lemma put_json_nonempty [simp]: "put_json v \<noteq> []" "0 < length (put_json v)"
proof -
  show "put_json v \<noteq> []" by (induction v rule: put_json.induct) auto
  then show "0 < length (put_json v)" by simp
qed

lemma get_put_items:
  assumes "\<And>v m rest. v \<in> set vs \<Longrightarrow> length (put_json v) \<le> m \<Longrightarrow>
      get_json m (put_json v @ rest) = Some (v, rest)"
    and "length (concat (map (\<lambda>v. ''-'' @ put_json v) vs) @ ''.'') \<le> n"
  shows "get_items n ((concat (map (\<lambda>v. ''-'' @ put_json v) vs) @ ''.'') @ rest) = Some (vs, rest)"
  using assms
proof (induction vs arbitrary: n)
  case Nil
  then show ?case by (cases n) auto
next
  case (Cons v vs)
  then obtain m where n: "n = Suc m" by (cases n) auto
  have "get_json m (put_json v @ r) = Some (v, r)" for r
    by (rule Cons.prems(1)) (use Cons.prems(2) n in auto)
  moreover have "get_items m ((concat (map (\<lambda>v. ''-'' @ put_json v) vs) @ ''.'') @ rest) = Some (vs, rest)"
    by (rule Cons.IH) (use Cons.prems n in auto)
  ultimately show ?case by (simp add: n)
qed

lemma get_put_entries:
  assumes "\<And>k v m rest. (k, v) \<in> set es \<Longrightarrow> length (put_json v) \<le> m \<Longrightarrow>
      get_json m (put_json v @ rest) = Some (v, rest)"
    and "length (concat (map (\<lambda>(k, v). ''-'' @ put_string k @ put_json v) es) @ ''.'') \<le> n"
  shows "get_entries n ((concat (map (\<lambda>(k, v). ''-'' @ put_string k @ put_json v) es) @ ''.'') @ rest)
     = Some (es, rest)"
  using assms
proof (induction es arbitrary: n)
  case Nil
  then show ?case by (cases n) auto
next
  case (Cons e es)
  obtain k v where e: "e = (k, v)" by (cases e)
  from Cons obtain m where n: "n = Suc m" by (cases n) auto
  have "get_json m (put_json v @ r) = Some (v, r)" for r
    by (rule Cons.prems(1)) (use Cons.prems(2) n e in auto)
  moreover have "get_entries m ((concat (map (\<lambda>(k, v). ''-'' @ put_string k @ put_json v) es)
      @ ''.'') @ rest) = Some (es, rest)"
    by (rule Cons.IH) (use Cons.prems n e in auto)
  ultimately show ?case by (simp add: n e)
qed

lemma get_put_json:
  "json_plain v \<Longrightarrow> length (put_json v) \<le> n \<Longrightarrow> get_json n (put_json v @ rest) = Some (v, rest)"
proof (induction v arbitrary: n rest rule: put_json.induct)
  case (7 vs)
  then obtain m where n: "n = Suc m" by (cases n) auto
  have "get_items m ((concat (map (\<lambda>v. ''-'' @ put_json v) vs) @ ''.'') @ rest) = Some (vs, rest)"
    by (rule get_put_items) (use 7 n in \<open>auto simp: list_all_iff\<close>)
  then show ?case by (simp add: n)
next
  case (8 es)
  then obtain m where n: "n = Suc m" by (cases n) auto
  have "get_entries m ((concat (map (\<lambda>(k, v). ''-'' @ put_string k @ put_json v) es) @ ''.'') @ rest)
      = Some (es, rest)"
    by (rule get_put_entries) (use 8 n in \<open>auto simp: list_all_iff\<close>)
  then show ?case by (simp add: n)
next
  case (2 b)
  then show ?case by (cases b; cases n) simp_all
next
  case (4 i)
  then show ?case by (cases "i < 0"; cases n) simp_all
next
  case 1
  then show ?case by (cases n) simp_all
next
  case (3 w)
  then show ?case by (cases n) simp_all
next
  case (6 s)
  then show ?case by (cases n) simp_all
next
  case (5 c)
  then show ?case by (cases n) simp_all
qed

lemma read_put_plain: "json_plain v \<Longrightarrow> read_json (put_json v) = Some v"
  using get_put_json [of v "length (put_json v)" "[]"] by (simp add: read_json_def)

lemma read_put_json: "json_exact v \<Longrightarrow> read_json (put_json v) = Some v"
  by (intro read_put_plain exact_plain)

section \<open>The instance\<close>

definition demo_envelope :: "SessionKeyEnvelope \<Rightarrow> json" where
  "demo_envelope e = JArray
     [JNumber (PosInt (ucast (env_schema_version e))),
      JArray (replicate (unat (env_session_id e)) JNull),
      JString (env_key_id e), JString (env_root_key_id e), JString (env_algorithm e),
      JString (env_nonce e), JString (env_wrapped_key e)]"

fun text_of :: "json \<Rightarrow> string" where
  "text_of (JString s) = s"
| "text_of _ = []"

fun items_of :: "json \<Rightarrow> json list" where
  "items_of (JArray vs) = vs"
| "items_of _ = []"

fun word_of :: "json \<Rightarrow> u64" where
  "word_of (JNumber (PosInt n)) = n"
| "word_of _ = 0"

definition undemo_envelope :: "json \<Rightarrow> SessionKeyEnvelope option" where
  "undemo_envelope v =
     (let vs = items_of v in
      if length vs \<noteq> 7 then None
      else Some \<lparr>env_schema_version = ucast (word_of (vs ! 0)),
                 env_session_id = of_nat (length (items_of (vs ! 1))),
                 env_key_id = text_of (vs ! 2), env_root_key_id = text_of (vs ! 3),
                 env_algorithm = text_of (vs ! 4), env_nonce = text_of (vs ! 5),
                 env_wrapped_key = text_of (vs ! 6)\<rparr>)"

definition demo_root :: "RootKeyRecord \<Rightarrow> json" where
  "demo_root r = JArray
     ([JNumber (PosInt (ucast (root_schema_version r))), JString (root_current r)] @
      (case root_previous r of None \<Rightarrow> [] | Some p \<Rightarrow> [JString p]))"

definition undemo_root :: "json \<Rightarrow> RootKeyRecord option" where
  "undemo_root v =
     (let vs = items_of v in
      if length vs < 2 then None
      else Some \<lparr>root_schema_version = ucast (word_of (vs ! 0)), root_current = text_of (vs ! 1),
                 root_previous = (if length vs = 2 then None else Some (text_of (vs ! 2)))\<rparr>)"

definition one_byte_key :: "bytes \<Rightarrow> bool" where
  "one_byte_key k \<longleftrightarrow> length k = 32 \<and> (\<forall>c \<in> set k. c = hd k)"

definition reference :: Externals where
  "reference =
     \<lparr>aead_encrypt = (\<lambda>k n a m. if one_byte_key k then Some (take 16 k @ m) else None),
      aead_decrypt = (\<lambda>k n a c.
        if one_byte_key k \<and> take 16 c = take 16 k then Some (drop 16 c) else None),
      aad_to_vec = ad_kind,
      base64_encode = (\<lambda>b. b),
      base64_decode = Some,
      envelope_to_vec = (\<lambda>e. put_json (demo_envelope e)),
      envelope_from_slice = (\<lambda>b. Option.bind (read_json b) undemo_envelope),
      root_to_vec = (\<lambda>r. replicate 33 CHR '' '' @ put_json (demo_root r)),
      root_from_slice = (\<lambda>b. Option.bind (read_json (drop 33 b)) undemo_root),
      json_to_vec = put_json,
      json_from_slice = read_json,
      blake3_hex = (\<lambda>b. replicate 64 (if even (length b) then CHR ''a'' else CHR ''b'')),
      uuid_text = (\<lambda>i. replicate (unat i) CHR ''u''),
      uuid_parse = (\<lambda>s. Some (of_nat (length s))),
      rfc3339 = (\<lambda>t. Some ''1970-01-01T00:00:00Z'')\<rparr>"

lemma widen_u32: "ucast (ucast (w :: u32) :: u64) = w"
  by (rule bit_word_eqI) (simp add: bit_simps)

lemma demo_exact [simp]: "json_exact (demo_envelope e)" "json_exact (demo_root r)"
  by (auto simp: demo_envelope_def demo_root_def list_all_iff split: option.split)

lemma undemo [simp]: "undemo_envelope (demo_envelope e) = Some e" "undemo_root (demo_root r) = Some r"
  by (simp_all add: demo_envelope_def demo_root_def undemo_envelope_def undemo_root_def widen_u32
      split: option.split)

lemma one_byte_key_tag:
  assumes "one_byte_key k" "one_byte_key k'" "take 16 k = take 16 k'"
  shows "k = k'"
proof -
  from assms(3) have "hd k = hd k'"
    using assms(1,2) by (metis hd_take one_byte_key_def zero_less_numeral)
  moreover have "j = replicate 32 (hd j)" if "one_byte_key j" for j
    using that unfolding one_byte_key_def by (metis replicate_eqI)
  ultimately show ?thesis using assms(1,2) by metis
qed

lemma reference_ok: "externals_ok reference"
  by (auto simp: externals_ok_def reference_def one_byte_key_def read_put_json KEY_BYTES_def
      split: if_splits)

lemma reference_encrypt:
  "aead_encrypt reference k n a m = (if one_byte_key k then Some (take 16 k @ m) else None)"
  by (simp add: reference_def)

lemma reference_decrypt:
  "aead_decrypt reference k n a c =
     (if one_byte_key k \<and> take 16 c = take 16 k then Some (drop 16 c) else None)"
  by (simp add: reference_def)

lemma reference_separated: "keys_separated reference"
  by (auto simp: keys_separated_def reference_def one_byte_key_def
      dest!: one_byte_key_tag [rotated 2] split: if_splits)

end
