(* ===== verification/Key_Rotation.thy ===== *)
theory Key_Rotation
  imports Keys Reference
begin

text \<open>
  The contract of a secret store as a locale, the in-memory store as an instance, and what the key
  manager guarantees over any such store: a wrapped session key survives a rotation of the root
  key, whatever call fails on the way.
\<close>

section \<open>The contract of a secret store\<close>

text \<open>A failed write leaves the store as it was or as if the write had succeeded; a listing is
  complete.\<close>

locale secret_store =
  fixes ks :: "'k KeyStore"
    and entries :: "'k \<Rightarrow> string \<Rightarrow> bytes option"
    and ks_inv :: "'k \<Rightarrow> bool"
  assumes get_Ok: "ks_inv s \<Longrightarrow> ks_get ks i s = Ok v \<Longrightarrow> v = entries s i"
    and put_Ok: "ks_inv s \<Longrightarrow> ks_put ks i b s = (Ok u, s') \<Longrightarrow> entries s' = (entries s)(i \<mapsto> b)"
    and put_Err: "ks_inv s \<Longrightarrow> ks_put ks i b s = (Err e, s') \<Longrightarrow>
      entries s' = entries s \<or> entries s' = (entries s)(i \<mapsto> b)"
    and put_inv: "ks_inv s \<Longrightarrow> ks_inv (snd (ks_put ks i b s))"
    and delete_Ok: "ks_inv s \<Longrightarrow> ks_delete ks i s = (Ok u, s') \<Longrightarrow> entries s' = (entries s)(i := None)"
    and delete_inv: "ks_inv s \<Longrightarrow> ks_inv (snd (ks_delete ks i s))"
    and list_Ok: "ks_inv s \<Longrightarrow> ks_list ks prefix s = Ok ids \<Longrightarrow>
      set ids = {i. entries s i \<noteq> None \<and> starts_with i prefix}"
begin

text \<open>The root record holds a current and possibly a previous root; a bare key is the legacy
  form of a record without a previous root.\<close>

definition holds_root :: "Externals \<Rightarrow> 'k KeyManager \<Rightarrow> SecretKey \<Rightarrow> SecretKey option \<Rightarrow> bool" where
  "holds_root x km cur prev \<longleftrightarrow>
     length cur = KEY_BYTES \<and> (\<forall>p. prev = Some p \<longrightarrow> length p = KEY_BYTES) \<and>
     (entries (km_store km) (km_root_key_id km) = Some (root_to_vec x (root_record x cur prev)) \<or>
      entries (km_store km) (km_root_key_id km) = Some cur \<and> prev = None)"

definition wrapped :: "Externals \<Rightarrow> 'k KeyManager \<Rightarrow> uuid \<Rightarrow> SecretKey \<Rightarrow> SecretKey \<Rightarrow> bool" where
  "wrapped x km sid key root_key \<longleftrightarrow>
     length key = KEY_BYTES \<and>
     (\<exists>n env. length n = NONCE_BYTES \<and>
        seal_envelope x n root_key key sid (session_key_id x km sid) (km_root_key_id km) = Ok env \<and>
        entries (km_store km) (session_key_id x km sid) = Some (envelope_to_vec x env))"

text \<open>The session's key can be unwrapped with the recorded roots.\<close>

definition safe ::
  "Externals \<Rightarrow> 'k KeyManager \<Rightarrow> uuid \<Rightarrow> SecretKey \<Rightarrow> SecretKey \<Rightarrow> SecretKey option \<Rightarrow> bool" where
  "safe x km sid key cur prev \<longleftrightarrow>
     ks_inv (km_store km) \<and> km_root_key_id km \<noteq> session_key_id x km sid \<and>
     holds_root x km cur prev \<and>
     (wrapped x km sid key cur \<or> (\<exists>p. prev = Some p \<and> wrapped x km sid key p))"

lemma root_keys_holds:
  assumes "externals_ok x" "ks_inv (km_store km)" "holds_root x km cur prev"
    and "root_keys x ks km = Ok roots"
  shows "roots = (cur, prev)"
proof -
  from assms(4) obtain b where "ks_get ks (km_root_key_id km) (km_store km) = Ok (Some b)"
    by (auto simp: root_keys_def and_then_Ok_iff ok_or_Ok_iff)
  with assms(2) have "entries (km_store km) (km_root_key_id km) = Some b"
    using get_Ok by fastforce
  with assms \<open>ks_get _ _ _ = _\<close> show ?thesis
    by (auto simp: holds_root_def root_keys_def SecretKey_from_slice_def root_record_def
        externals_okD split: option.splits if_splits)
qed

lemma root_keys_available:
  assumes "externals_ok x" "ks_inv (km_store km)" "holds_root x km cur prev"
    and "ks_get ks (km_root_key_id km) (km_store km) = Ok v"
  shows "root_keys x ks km = Ok (cur, prev)"
  using assms get_Ok [OF assms(2,4)]
  by (auto simp: holds_root_def root_keys_def SecretKey_from_slice_def root_record_def externals_okD
      split: option.splits)

lemma seal_payload:
  assumes "externals_ok x" "seal_envelope x n root_key key sid kid rid = Ok env"
    and "length n = NONCE_BYTES" "length key = KEY_BYTES"
  obtains c where "envelope_payload x env = Ok \<lparr>ep_nonce = n, ep_ciphertext = c\<rparr>"
    and "aead_encrypt x root_key n (aad_to_vec x (envelope_aad sid kid rid)) key = Some c"
    and "validate_envelope x env sid kid rid = Ok ()"
    and "env_session_id env = sid" "env_key_id env = kid"
  using assms
  by (auto simp: seal_envelope_def and_then_Ok_iff encrypt_Ok envelope_payload_def
      validate_envelope_def externals_okD ok_or_def)

lemma candidates_open:
  assumes "externals_ok x" "keys_separated x" "length n = NONCE_BYTES"
    and "aead_encrypt x root_key n (aad_to_vec x ad) key = Some c"
    and "root_key = cur \<or> prev = Some root_key"
  shows "decrypt_with_root_candidates x \<lparr>ep_nonce = n, ep_ciphertext = c\<rparr> cur prev ad = Ok key"
proof (cases "root_key = cur")
  case True
  with assms show ?thesis
    by (simp add: decrypt_with_root_candidates_def EncryptedPayload_decrypt_def externals_okD)
next
  case False
  with assms(2,4) have "aead_decrypt x cur n (aad_to_vec x ad) c = None"
    unfolding keys_separated_def by metis
  with assms False show ?thesis
    by (simp add: decrypt_with_root_candidates_def EncryptedPayload_decrypt_def externals_okD
        ok_or_def)
qed

text \<open>A key that is safe is the one the manager unwraps, as soon as the store answers.\<close>

lemma safe_unwrap:
  assumes "externals_ok x" "keys_separated x" "safe x km sid key cur prev"
    and "ks_get ks (session_key_id x km sid) (km_store km) = Ok v"
    and "ks_get ks (km_root_key_id km) (km_store km) = Ok v'"
  shows "unwrap_session_key x ks sid km = Ok key"
proof -
  from assms(3) obtain root_key where w: "wrapped x km sid key root_key"
      and r: "root_key = cur \<or> prev = Some root_key" and inv: "ks_inv (km_store km)"
      and h: "holds_root x km cur prev"
    by (auto simp: safe_def)
  from w obtain n env where n: "length n = NONCE_BYTES" and k: "length key = KEY_BYTES"
      and s: "seal_envelope x n root_key key sid (session_key_id x km sid) (km_root_key_id km) = Ok env"
      and e: "entries (km_store km) (session_key_id x km sid) = Some (envelope_to_vec x env)"
    by (auto simp: wrapped_def)
  from get_Ok [OF inv assms(4)] e have v: "v = Some (envelope_to_vec x env)" by simp
  from seal_payload [OF assms(1) s n k] obtain c where
    c: "envelope_payload x env = Ok \<lparr>ep_nonce = n, ep_ciphertext = c\<rparr>"
      "aead_encrypt x root_key n (aad_to_vec x
         (envelope_aad sid (session_key_id x km sid) (km_root_key_id km))) key = Some c"
      "validate_envelope x env sid (session_key_id x km sid) (km_root_key_id km) = Ok ()" .
  show ?thesis
    using candidates_open [OF assms(1,2) n c(2) r] root_keys_available [OF assms(1) inv h assms(5)]
    by (simp add: unwrap_session_key_def assms(4) v c n k externals_okD [OF assms(1)]
        SecretKey_from_slice_def ok_or_def Let_def)
qed

lemma put_cases:
  assumes "ks_inv s" "ks_put ks i b s = (r, s')"
  obtains (same) "entries s' = entries s" "r \<noteq> Ok ()"
    | (updated) "entries s' = (entries s)(i \<mapsto> b)"
proof (cases r)
  case (Inl e)
  with put_Err [OF assms(1), of i b e s'] assms(2) that show ?thesis by auto
next
  case (Inr u)
  with put_Ok [OF assms(1), of i b u s'] assms(2) that(2) show ?thesis by simp
qed

text \<open>Writing another entry of the store keeps a session's key safe.\<close>

lemma safe_put_other:
  assumes "safe x km sid key cur prev" "i \<noteq> session_key_id x km sid" "i \<noteq> km_root_key_id km"
    and "ks_put ks i b (km_store km) = (r, store)"
  shows "safe x (km\<lparr>km_store := store\<rparr>) sid key cur prev"
proof -
  have inv: "ks_inv (km_store km)" using assms(1) by (simp add: safe_def)
  have "ks_inv store" using put_inv [OF inv, of i b] assms(4) by simp
  moreover have "entries store j = entries (km_store km) j" if "j \<noteq> i" for j
    by (rule put_cases [OF inv assms(4)]) (use that in auto)
  ultimately show ?thesis
    using assms(1-3) by (auto simp: safe_def holds_root_def wrapped_def session_key_id_def)
qed

text \<open>Rewrapping the session's own envelope: what is written is the same key sealed under the
  target root.\<close>

lemma rewrap_own:
  assumes x: "externals_ok x" "keys_separated x" and "safe x km sid key cur prev"
    and n: "length n = NONCE_BYTES"
    and "rewrap_session_key x ks cur prev n (session_key_id x km sid) km = (r, km')"
  shows "safe x km' sid key cur prev \<and> (r = Ok () \<longrightarrow> wrapped x km' sid key cur)"
proof -
  let ?kid = "session_key_id x km sid" and ?rid = "km_root_key_id km"
  from assms(3) obtain root_key where w: "wrapped x km sid key root_key"
      and root_key: "root_key = cur \<or> prev = Some root_key" and inv: "ks_inv (km_store km)"
      and names: "?rid \<noteq> ?kid"
    by (auto simp: safe_def)
  from w obtain m env where m: "length m = NONCE_BYTES" and k: "length key = KEY_BYTES"
      and s: "seal_envelope x m root_key key sid ?kid ?rid = Ok env"
      and e: "entries (km_store km) ?kid = Some (envelope_to_vec x env)"
    by (auto simp: wrapped_def)
  from seal_payload [OF x(1) s m k] obtain c where
    c: "envelope_payload x env = Ok \<lparr>ep_nonce = m, ep_ciphertext = c\<rparr>"
      "aead_encrypt x root_key m (aad_to_vec x (envelope_aad sid ?kid ?rid)) key = Some c"
    and fields: "env_session_id env = sid" "env_key_id env = ?kid" by metis
  note opened = candidates_open [OF x m c(2) root_key]
  show ?thesis
  proof (cases "ks_get ks ?kid (km_store km)")
    case (Inl err)
    with assms show ?thesis by (auto simp: rewrap_session_key_def)
  next
    case (Inr v)
    with get_Ok [OF inv Inr] e have v: "v = Some (envelope_to_vec x env)" by simp
    show ?thesis
    proof (cases "EncryptedPayload_encrypt x n cur key (envelope_aad sid ?kid ?rid)")
      case (Inl err)
      with assms show ?thesis
        by (auto simp: rewrap_session_key_def Inr v c fields externals_okD [OF x(1)] ok_or_def
            opened Let_def)
    next
      case (Inr p)
      let ?new = "env\<lparr>env_nonce := base64_encode x (ep_nonce p),
                      env_wrapped_key := base64_encode x (ep_ciphertext p)\<rparr>"
      have sealed: "seal_envelope x n cur key sid ?kid ?rid = Ok ?new"
        using s Inr by (auto simp: seal_envelope_def and_then_Ok_iff)
      have put: "ks_put ks ?kid (envelope_to_vec x ?new) (km_store km) = (r, km_store km')"
          and km': "km' = km\<lparr>km_store := km_store km'\<rparr>"
        using assms(5) \<open>ks_get _ _ _ = _\<close> Inr
        by (auto simp: rewrap_session_key_def v c fields externals_okD [OF x(1)] ok_or_def opened
            Let_def split: prod.splits)
      have inv': "ks_inv (km_store km')" using put_inv [OF inv, of ?kid "envelope_to_vec x ?new"] put by simp
      have names': "km_root_key_id km' = ?rid" "session_key_id x km' sid = ?kid"
        by (subst km', simp add: session_key_id_def)+
      from inv put show ?thesis
      proof (cases rule: put_cases)
        case same
        with assms(3) inv' names' show ?thesis by (auto simp: safe_def holds_root_def wrapped_def)
      next
        case updated
        have "wrapped x km' sid key cur"
          using n k sealed updated names' by (auto simp: wrapped_def)
        moreover have "holds_root x km' cur prev"
          using assms(3) updated names names' by (auto simp: safe_def holds_root_def)
        ultimately show ?thesis using inv' names names' by (simp add: safe_def)
      qed
    qed
  qed
qed

lemma rewrap_other:
  assumes "safe x km sid key cur prev" "i \<noteq> session_key_id x km sid" "i \<noteq> km_root_key_id km"
    and "rewrap_session_key x ks target fallback n i km = (r, km')"
  shows "safe x km' sid key cur prev"
    and "wrapped x km sid key root_key \<Longrightarrow> wrapped x km' sid key root_key"
proof -
  from assms(4) consider "km' = km"
    | b where "ks_put ks i b (km_store km) = (r, km_store km')" "km' = km\<lparr>km_store := km_store km'\<rparr>"
    by (auto simp: rewrap_session_key_def split: sum.splits prod.splits)
  then have "safe x km' sid key cur prev \<and>
      (wrapped x km sid key root_key \<longrightarrow> wrapped x km' sid key root_key)"
  proof cases
    case 1
    with assms(1) show ?thesis by simp
  next
    case 2
    have inv: "ks_inv (km_store km)" using assms(1) by (simp add: safe_def)
    have "entries (km_store km') (session_key_id x km sid) =
        entries (km_store km) (session_key_id x km sid)"
      by (rule put_cases [OF inv 2(1)]) (use assms(2) in auto)
    moreover have "km_root_key_id km' = km_root_key_id km"
        "session_key_id x km' sid = session_key_id x km sid"
      by (subst 2(2), simp add: session_key_id_def)+
    ultimately show ?thesis
      using safe_put_other [OF assms(1-3) 2(1)] 2(2) by (auto simp: wrapped_def)
  qed
  then show "safe x km' sid key cur prev"
    and "wrapped x km sid key root_key \<Longrightarrow> wrapped x km' sid key root_key" by blast+
qed

lemma rewrap_names:
  assumes "rewrap_session_key x ks target fallback n i km = (r, km')"
  shows "km_root_key_id km' = km_root_key_id km" "session_key_id x km' sid = session_key_id x km sid"
    "km_session_key_prefix km' = km_session_key_prefix km" "km_cache km' = km_cache km"
  using assms
  by (auto simp: rewrap_session_key_def session_key_id_def split: sum.splits prod.splits)

text \<open>A pass over listed ids, none of them the root's: safety holds wherever it stops, and when it
  completes every listed session is sealed under the target.\<close>

lemma rewrap_keys_safe:
  assumes x: "externals_ok x" "keys_separated x" and n: "\<And>i. length (nonces i) = NONCE_BYTES"
  shows "safe x km sid key cur prev \<Longrightarrow> km_root_key_id km \<notin> set ids \<Longrightarrow>
     rewrap_keys x ks cur prev nonces ids km = (r, km') \<Longrightarrow>
     safe x km' sid key cur prev \<and>
     (r = Ok () \<and> (session_key_id x km sid \<in> set ids \<or> wrapped x km sid key cur) \<longrightarrow>
        wrapped x km' sid key cur)"
proof (induction ids arbitrary: km)
  case Nil
  then show ?case by simp
next
  case (Cons i ids)
  obtain q km1 where step: "rewrap_session_key x ks cur prev (nonces i) i km = (q, km1)"
    by (rule prod.exhaust)
  have one: "safe x km1 sid key cur prev \<and>
      (q = Ok () \<and> (i = session_key_id x km sid \<or> wrapped x km sid key cur) \<longrightarrow>
         wrapped x km1 sid key cur)"
  proof (cases "i = session_key_id x km sid")
    case True
    with rewrap_own [OF x Cons.prems(1) n step [unfolded True]] show ?thesis by simp
  next
    case False
    with rewrap_other [OF Cons.prems(1) False _ step] Cons.prems(2) show ?thesis by auto
  qed
  show ?case
  proof (cases q)
    case (Inl e)
    with one step Cons.prems show ?thesis by auto
  next
    case (Inr u)
    with step Cons.prems have "rewrap_keys x ks cur prev nonces ids km1 = (r, km')" by simp
    with Cons.IH [of km1] one rewrap_names [OF step] Cons.prems(2) Inr show ?thesis by auto
  qed
qed

lemma rewrap_keys_names:
  "rewrap_keys x ks target fallback nonces ids km = (r, km') \<Longrightarrow>
     km_root_key_id km' = km_root_key_id km \<and> km_session_key_prefix km' = km_session_key_prefix km \<and>
     km_cache km' = km_cache km"
proof (induction ids arbitrary: km)
  case (Cons i ids)
  then show ?case
    using rewrap_names by (fastforce simp: st_then_def split: prod.splits sum.splits)
qed simp

text \<open>The root's name lies outside the prefix that is listed, as \<open>for_storage\<close> chooses them.\<close>

definition names_apart :: "'k KeyManager \<Rightarrow> bool" where
  "names_apart km \<longleftrightarrow> \<not> starts_with (km_root_key_id km) (km_session_key_prefix km)"

lemma rewrap_all_safe:
  assumes x: "externals_ok x" "keys_separated x" and n: "\<And>i. length (nonces i) = NONCE_BYTES"
    and safe: "safe x km sid key cur prev" and apart: "names_apart km"
    and run: "rewrap_all_session_keys x ks cur prev nonces km = (r, km')"
  shows "safe x km' sid key cur prev \<and> names_apart km' \<and> (r = Ok () \<longrightarrow> wrapped x km' sid key cur)"
proof (cases "session_key_ids ks km")
  case (Inl e)
  with assms show ?thesis by (auto simp: rewrap_all_session_keys_def)
next
  case (Inr ids)
  have inv: "ks_inv (km_store km)" using safe by (simp add: safe_def)
  from list_Ok [OF inv] Inr have ids: "set ids = {i. entries (km_store km) i \<noteq> None \<and>
      starts_with i (km_session_key_prefix km)}"
    by (simp add: session_key_ids_def)
  have "starts_with (session_key_id x km sid) (km_session_key_prefix km)"
    by (simp add: session_key_id_def starts_with_iff)
  moreover have "entries (km_store km) (session_key_id x km sid) \<noteq> None"
    using safe by (auto simp: safe_def wrapped_def)
  ultimately have own: "session_key_id x km sid \<in> set ids" by (simp add: ids)
  have "km_root_key_id km \<notin> set ids" using apart by (simp add: ids names_apart_def)
  moreover from run Inr have "rewrap_keys x ks cur prev nonces ids km = (r, km')"
    by (simp add: rewrap_all_session_keys_def)
  ultimately show ?thesis
    using rewrap_keys_safe [OF x n safe] rewrap_keys_names own apart
    by (fastforce simp: names_apart_def)
qed

lemma write_root_safe:
  assumes safe: "safe x km sid key cur prev" and apart: "names_apart km"
    and w: "wrapped x km sid key root_key" "root_key = cur' \<or> prev' = Some root_key"
    and len: "length cur' = KEY_BYTES" "\<forall>p. prev' = Some p \<longrightarrow> length p = KEY_BYTES"
    and run: "write_root_record x ks cur' prev' km = (r, km')"
  shows "names_apart km'" "wrapped x km' sid key root_key" "r = Ok () \<Longrightarrow> safe x km' sid key cur' prev'"
    "safe x km' sid key cur prev \<or> safe x km' sid key cur' prev'"
proof -
  let ?b = "root_to_vec x (root_record x cur' prev')"
  from run have put: "ks_put ks (km_root_key_id km) ?b (km_store km) = (r, km_store km')"
      and km': "km' = km\<lparr>km_store := km_store km'\<rparr>"
    by (auto simp: write_root_record_def split: prod.splits)
  have names: "km_root_key_id km' = km_root_key_id km"
      "km_session_key_prefix km' = km_session_key_prefix km"
      "session_key_id x km' sid = session_key_id x km sid"
    by (subst km', simp add: session_key_id_def)+
  have inv: "ks_inv (km_store km)" and differ: "km_root_key_id km \<noteq> session_key_id x km sid"
    using safe by (simp_all add: safe_def)
  have inv': "ks_inv (km_store km')" using put_inv [OF inv, of "km_root_key_id km" ?b] put by simp
  show "names_apart km'" using apart names by (simp add: names_apart_def)
  have own: "entries (km_store km') (session_key_id x km sid) =
      entries (km_store km) (session_key_id x km sid)"
    by (rule put_cases [OF inv put]) (use differ in auto)
  then show w': "wrapped x km' sid key root_key" using w(1) names by (simp add: wrapped_def)
  have updated: "safe x km' sid key cur' prev'"
    if "entries (km_store km') = (entries (km_store km))(km_root_key_id km \<mapsto> ?b)"
    using that w(2) w' len inv' differ names by (auto simp: safe_def holds_root_def)
  have same: "safe x km' sid key cur prev" if "entries (km_store km') = entries (km_store km)"
    using that safe inv' names by (auto simp: safe_def holds_root_def wrapped_def)
  show "r = Ok () \<Longrightarrow> safe x km' sid key cur' prev'"
    by (rule put_cases [OF inv put]) (use updated in auto)
  show "safe x km' sid key cur prev \<or> safe x km' sid key cur' prev'"
    by (rule put_cases [OF inv put]) (use updated same in auto)
qed

lemma load_existing:
  assumes "externals_ok x" "ks_inv (km_store km)" "holds_root x km cur prev"
    and "load_or_create_root_keys x ks fresh_root km = (r, km')"
  shows "km' = km \<and> (r = Ok (cur, prev) \<or> (\<exists>e. r = Err e))"
proof (cases "ks_get ks (km_root_key_id km) (km_store km)")
  case (Inl e)
  with assms(4) show ?thesis by (auto simp: load_or_create_root_keys_def)
next
  case (Inr v)
  then have "v \<noteq> None" using get_Ok [OF assms(2) Inr] assms(3) by (auto simp: holds_root_def)
  with Inr assms(4) root_keys_available [OF assms(1-3) Inr] show ?thesis
    by (auto simp: load_or_create_root_keys_def)
qed

definition kept :: "Externals \<Rightarrow> uuid \<Rightarrow> SecretKey \<Rightarrow> 'k KeyManager \<Rightarrow> bool" where
  "kept x sid key km \<longleftrightarrow> names_apart km \<and> (\<exists>cur prev. safe x km sid key cur prev)"

text \<open>From the point where every key is sealed under the current root.\<close>

lemma rotate_tail:
  assumes x: "externals_ok x" "keys_separated x"
    and n: "\<And>i. length (nonces i) = NONCE_BYTES" and new: "length new_root = KEY_BYTES"
    and safe: "safe x km sid key cur prev" and apart: "names_apart km" and w: "wrapped x km sid key cur"
  shows "kept x sid key (snd (st_then (write_root_record x ks new_root (Some cur) km) (\<lambda>_ km.
      st_then (rewrap_all_session_keys x ks new_root (Some cur) nonces km) (\<lambda>_ km.
      write_root_record x ks new_root None km))))"
proof -
  have len: "length cur = KEY_BYTES" using safe by (simp add: safe_def holds_root_def)
  obtain r1 km1 where s1: "write_root_record x ks new_root (Some cur) km = (r1, km1)"
    by (rule prod.exhaust)
  note w1 = write_root_safe [OF safe apart w _ new _ s1]
  show ?thesis
  proof (cases r1)
    case (Inl e)
    then show ?thesis using w1(1,4) s1 len by (auto simp: kept_def)
  next
    case (Inr u)
    then have safe1: "safe x km1 sid key new_root (Some cur)" and apart1: "names_apart km1"
      using w1(1,3) len by auto
    obtain r2 km2 where s2: "rewrap_all_session_keys x ks new_root (Some cur) nonces km1 = (r2, km2)"
      by (rule prod.exhaust)
    note w2 = rewrap_all_safe [OF x n safe1 apart1 s2]
    show ?thesis
    proof (cases r2)
      case (Inl e)
      then show ?thesis using w2 s1 s2 Inr by (auto simp: kept_def)
    next
      case (Inr u')
      obtain r3 km3 where s3: "write_root_record x ks new_root None km2 = (r3, km3)"
        by (rule prod.exhaust)
      from Inr w2 have "safe x km2 sid key new_root (Some cur)" "names_apart km2"
        "wrapped x km2 sid key new_root" by auto
      from write_root_safe(1,4) [OF this _ new _ s3]
      show ?thesis using s1 s2 s3 Inr \<open>r1 = Ok u\<close> by (auto simp: kept_def)
    qed
  qed
qed

text \<open>A root left over from an interrupted rotation: everything is resealed under the current root
  before the previous one is dropped.\<close>

lemma rotate_resume:
  assumes x: "externals_ok x" "keys_separated x"
    and n: "\<And>i. length (nonces i) = NONCE_BYTES"
    and safe: "safe x km sid key cur prev" and apart: "names_apart km"
    and run: "st_then (rewrap_all_session_keys x ks cur prev nonces km)
                (\<lambda>_ km. write_root_record x ks cur None km) = (r, km')"
  shows "kept x sid key km' \<and>
     (r = Ok () \<longrightarrow> safe x km' sid key cur None \<and> wrapped x km' sid key cur)"
proof -
  obtain r1 km1 where s1: "rewrap_all_session_keys x ks cur prev nonces km = (r1, km1)"
    by (rule prod.exhaust)
  note w1 = rewrap_all_safe [OF x n safe apart s1]
  show ?thesis
  proof (cases r1)
    case (Inl e)
    then show ?thesis using w1 s1 run by (auto simp: kept_def)
  next
    case (Inr u)
    with w1 have p1: "safe x km1 sid key cur prev" "names_apart km1" "wrapped x km1 sid key cur"
      by auto
    have len: "length cur = KEY_BYTES" using safe by (simp add: safe_def holds_root_def)
    from run s1 Inr have "write_root_record x ks cur None km1 = (r, km')" by simp
    from write_root_safe [OF p1 _ len _ this] show ?thesis by (auto simp: kept_def)
  qed
qed

theorem rotate_safe:
  assumes x: "externals_ok x" "keys_separated x"
    and n: "\<And>i. length (nonces i) = NONCE_BYTES" "\<And>i. length (nonces' i) = NONCE_BYTES"
    and new: "length new_root = KEY_BYTES" and kept: "kept x sid key km"
  shows "kept x sid key (snd (rotate_root_key x ks fresh_root new_root nonces nonces' km))"
proof -
  from kept obtain cur prev where safe: "safe x km sid key cur prev" and apart: "names_apart km"
    by (auto simp: kept_def)
  have inv: "ks_inv (km_store km)" and holds: "holds_root x km cur prev"
    using safe by (simp_all add: safe_def)
  obtain r km0 where load: "load_or_create_root_keys x ks fresh_root km = (r, km0)"
    by (rule prod.exhaust)
  from load_existing [OF x(1) inv holds load] consider e where "r = Err e" "km0 = km"
    | "r = Ok (cur, prev)" "km0 = km" by blast
  then show ?thesis
  proof cases
    case 1
    with load kept show ?thesis by (simp add: rotate_root_key_def)
  next
    case 2
    show ?thesis
    proof (cases prev)
      case None
      then have "wrapped x km sid key cur" using safe by (simp add: safe_def)
      from rotate_tail [OF x n(2) new safe apart this] load 2 None
      show ?thesis by (simp add: rotate_root_key_def)
    next
      case (Some p)
      obtain r1 km1 where s1: "st_then (rewrap_all_session_keys x ks cur prev nonces km)
          (\<lambda>_ km. write_root_record x ks cur None km) = (r1, km1)" by (rule prod.exhaust)
      note w1 = rotate_resume [OF x n(1) safe apart s1]
      show ?thesis
      proof (cases r1)
        case (Inl e)
        with w1 load 2 s1 Some show ?thesis by (simp add: rotate_root_key_def)
      next
        case (Inr u)
        with w1 have "safe x km1 sid key cur None" "names_apart km1" "wrapped x km1 sid key cur"
          by (auto simp: kept_def)
        from rotate_tail [OF x n(2) new this] load 2 s1 Some Inr
        show ?thesis by (simp add: rotate_root_key_def)
      qed
    qed
  qed
qed

section \<open>Operations on sessions\<close>

lemma safe_cache [simp]: "safe x (km\<lparr>km_cache := c\<rparr>) sid key cur prev = safe x km sid key cur prev"
  by (simp add: safe_def holds_root_def wrapped_def session_key_id_def)

lemma safe_store_cache:
  "safe x (km\<lparr>km_store := s, km_cache := c\<rparr>) sid key cur prev =
     safe x (km\<lparr>km_store := s\<rparr>) sid key cur prev"
  by (simp add: safe_def holds_root_def wrapped_def session_key_id_def)

lemma session_key_ids_differ:
  "externals_ok x \<Longrightarrow> sid' \<noteq> sid \<Longrightarrow> session_key_id x km sid' \<noteq> session_key_id x km sid"
  by (simp add: session_key_id_def externals_okD)

lemma session_key_id_not_root: "names_apart km \<Longrightarrow> session_key_id x km sid \<noteq> km_root_key_id km"
  unfolding names_apart_def session_key_id_def starts_with_iff by metis

lemma create_other_safe:
  assumes x: "externals_ok x" and safe: "safe x km sid key cur prev" and apart: "names_apart km"
    and other: "sid' \<noteq> sid"
  shows "safe x (snd (create_session_key x ks fr fk n sid' km)) sid key cur prev"
proof -
  have inv: "ks_inv (km_store km)" and holds: "holds_root x km cur prev"
    using safe by (simp_all add: safe_def)
  have put: "safe x (km\<lparr>km_store := s\<rparr>) sid key cur prev"
    if "ks_put ks (session_key_id x km sid') b (km_store km) = (r, s)" for r s b
    using safe_put_other [OF safe _ _ that] session_key_ids_differ [OF x other]
      session_key_id_not_root [OF apart] by blast
  obtain r km1 where load: "load_or_create_root_keys x ks fr km = (r, km1)" by (rule prod.exhaust)
  from load_existing [OF x inv holds load] have [simp]: "km1 = km" by simp
  show ?thesis
    using safe load put
    by (cases r) (auto simp: create_session_key_def Let_def safe_store_cache
        split: sum.splits option.splits prod.splits)
qed

lemma destroy_other_safe:
  assumes x: "externals_ok x" and safe: "safe x km sid key cur prev" and apart: "names_apart km"
    and other: "sid' \<noteq> sid"
    and ran: "destroy_session_key x ks sid' km = (Ok u, km')"
  shows "safe x km' sid key cur prev"
proof -
  have inv: "ks_inv (km_store km)" using safe by (simp add: safe_def)
  obtain s where del: "ks_delete ks (session_key_id x km sid') (km_store km) = (Ok u, s)"
      and km': "km' = km\<lparr>km_store := s, km_cache := (km_cache km)(sid' := None)\<rparr>"
    using ran by (auto simp: destroy_session_key_def split: prod.splits)
  have "entries s = (entries (km_store km))(session_key_id x km sid' := None)" "ks_inv s"
    using delete_Ok [OF inv del] delete_inv [OF inv, of "session_key_id x km sid'"] del by simp_all
  moreover have "session_key_id x km sid' \<noteq> session_key_id x km sid"
      "session_key_id x km sid' \<noteq> km_root_key_id km"
    using session_key_ids_differ [OF x other] session_key_id_not_root [OF apart] by blast+
  moreover have "session_key_id x (km\<lparr>km_store := s\<rparr>) sid = session_key_id x km sid"
    by (simp add: session_key_id_def)
  ultimately show ?thesis
    using safe unfolding km' safe_store_cache
    by (auto simp: safe_def holds_root_def wrapped_def)
qed

text \<open>A session whose key was created is safe from then on.\<close>

lemma create_own_safe:
  assumes x: "externals_ok x" and inv: "ks_inv (km_store km)" and apart: "names_apart km"
    and len: "length fr = KEY_BYTES" "length fk = KEY_BYTES" "length n = NONCE_BYTES"
    and root: "entries (km_store km) (km_root_key_id km) = None \<or> (\<exists>c p. holds_root x km c p)"
    and ran: "create_session_key x ks fr fk n sid km = (Ok kid, km')"
  shows "\<exists>c p. safe x km' sid fk c p"
proof -
  let ?kid = "session_key_id x km sid"
  from ran obtain c p km1 env where
      load: "load_or_create_root_keys x ks fr km = (Ok (c, p), km1)"
      and env: "seal_envelope x n c fk sid ?kid (km_root_key_id km1) = Ok env"
      and put: "ks_put ks ?kid (envelope_to_vec x env) (km_store km1) = (Ok (), km_store km')"
      and km': "km' = km1\<lparr>km_store := km_store km', km_cache := (km_cache km1)(sid \<mapsto> fk)\<rparr>"
    by (auto simp: create_session_key_def Let_def split: sum.splits option.splits prod.splits)
  have km1: "ks_inv (km_store km1) \<and> holds_root x km1 c p \<and> session_key_id x km1 sid = ?kid \<and>
      km_root_key_id km1 = km_root_key_id km"
  proof (cases "entries (km_store km) (km_root_key_id km)")
    case None
    with load get_Ok [OF inv] have "ks_get ks (km_root_key_id km) (km_store km) = Ok None"
      by (fastforce simp: load_or_create_root_keys_def split: sum.splits option.splits)
    with load obtain s where w: "ks_put ks (km_root_key_id km)
        (root_to_vec x (root_record x fr None)) (km_store km) = (Ok (), s)"
        and "km1 = km\<lparr>km_store := s\<rparr>" "c = fr" "p = None"
      by (auto simp: load_or_create_root_keys_def write_root_record_def st_then_def
          split: prod.splits sum.splits)
    with put_Ok [OF inv w] put_inv [OF inv, of "km_root_key_id km"
        "root_to_vec x (root_record x fr None)"] len show ?thesis
      by (simp add: holds_root_def session_key_id_def)
  next
    case (Some b)
    with root obtain c' p' where "holds_root x km c' p'" by auto
    with load_existing [OF x inv this load] inv show ?thesis by auto
  qed
  have names: "km_root_key_id km' = km_root_key_id km1" "session_key_id x km' sid = ?kid"
    using km1 by (subst km', simp add: session_key_id_def)+
  have e: "entries (km_store km') = (entries (km_store km1))(?kid \<mapsto> envelope_to_vec x env)"
    and inv': "ks_inv (km_store km')"
    using put_Ok [OF _ put] put_inv [of "km_store km1" ?kid "envelope_to_vec x env"] put km1 by simp_all
  from session_key_id_not_root [OF apart] have differ: "km_root_key_id km \<noteq> ?kid" by metis
  have "wrapped x km' sid fk c" using env e names km1 len by (auto simp: wrapped_def)
  moreover have "holds_root x km' c p" using km1 e names differ by (auto simp: holds_root_def)
  ultimately show ?thesis using inv' names km1 differ by (auto simp: safe_def)
qed

end

section \<open>The in-memory store\<close>

lemma map_of_filter_neq: "map_of (filter (\<lambda>(k, _). k \<noteq> i) m) = (map_of m)(i := None)"
  by (induction m) auto

lemma btree_wf_filter: "btree_wf m \<Longrightarrow> btree_wf (filter P m)"
  by (induction m) (auto simp: btree_wf_def)

lemmas mem_ops =
  memory_key_store_def mem_put_def mem_get_def mem_delete_def mem_list_def require_available_def

interpretation memory:
  secret_store memory_key_store "\<lambda>m. map_of (mem_entries m)" "\<lambda>m. btree_wf (mem_entries m)"
proof unfold_locales
  fix s prefix ids
  assume "btree_wf (mem_entries s)" "ks_list memory_key_store prefix s = Ok ids"
  then show "set ids = {i. map_of (mem_entries s) i \<noteq> None \<and> starts_with i prefix}"
    by (auto simp: mem_ops map_of_eq_None_iff split: if_splits) (metis fst_conv image_eqI)+
qed (auto simp: mem_ops map_of_btree_insert map_of_filter_neq btree_wf_filter split: if_splits)

text \<open>Everything that can happen to the manager of one database while a given session lives:
  rotations, keys of other sessions created and destroyed, keys unwrapped, the store going away
  and coming back, and restarts, which empty the cache. Each call is taken whatever it returns,
  except a destruction, whose failure is reported to its caller.\<close>

inductive manager_step ::
  "Externals \<Rightarrow> uuid \<Rightarrow> MemoryKeyStore KeyManager \<Rightarrow> MemoryKeyStore KeyManager \<Rightarrow> bool"
  for x sid where
  rotate: "(\<And>i. length (nonces i) = NONCE_BYTES) \<Longrightarrow> (\<And>i. length (nonces' i) = NONCE_BYTES) \<Longrightarrow>
     length new_root = KEY_BYTES \<Longrightarrow>
     manager_step x sid km
       (snd (rotate_root_key x memory_key_store fresh_root new_root nonces nonces' km))"
| create: "sid' \<noteq> sid \<Longrightarrow>
     manager_step x sid km (snd (create_session_key x memory_key_store fr fk n sid' km))"
| destroy: "sid' \<noteq> sid \<Longrightarrow> destroy_session_key x memory_key_store sid' km = (Ok u, km') \<Longrightarrow>
     manager_step x sid km km'"
| unwrap: "manager_step x sid km (snd (session_key x memory_key_store sid' km))"
| outage: "manager_step x sid km (km\<lparr>km_store := set_available available (km_store km)\<rparr>)"
| restart: "manager_step x sid km (km\<lparr>km_cache := Map.empty\<rparr>)"

lemma kept_cache: "memory.kept x sid key (km\<lparr>km_cache := c\<rparr>) = memory.kept x sid key km"
  by (simp add: memory.kept_def memory.names_apart_def)

lemma kept_session_key:
  "memory.kept x sid key km \<Longrightarrow> memory.kept x sid key (snd (session_key x memory_key_store sid' km))"
  by (auto simp: session_key_def kept_cache split: option.splits sum.splits)

lemma kept_available:
  "memory.kept x sid key (km\<lparr>km_store := set_available b (km_store km)\<rparr>) = memory.kept x sid key km"
  by (simp add: memory.kept_def memory.names_apart_def memory.safe_def memory.holds_root_def
      memory.wrapped_def set_available_def session_key_id_def)

lemma create_names:
  "memory.names_apart km \<Longrightarrow>
     memory.names_apart (snd (create_session_key x memory_key_store fr fk n sid' km))"
  by (auto simp: create_session_key_def load_or_create_root_keys_def write_root_record_def Let_def
      memory.names_apart_def st_then_def split: sum.splits option.splits prod.splits)

lemma manager_step_kept:
  assumes "manager_step x sid km km'" "externals_ok x" "keys_separated x" "memory.kept x sid key km"
  shows "memory.kept x sid key km'"
  using assms
proof (induction rule: manager_step.induct)
  case (rotate nonces nonces' new_root km fresh_root)
  then show ?case by (intro memory.rotate_safe) auto
next
  case (create sid' km fr fk n)
  then show ?case
    using memory.create_other_safe create_names by (fastforce simp: memory.kept_def)
next
  case (destroy sid' km u km')
  moreover have "memory.names_apart km'"
    using destroy by (auto simp: memory.kept_def memory.names_apart_def destroy_session_key_def
        split: prod.splits)
  ultimately show ?case
    using memory.destroy_other_safe by (fastforce simp: memory.kept_def)
qed (simp_all add: kept_session_key kept_available kept_cache)

lemma manager_steps_kept:
  "(manager_step x sid)\<^sup>*\<^sup>* km km' \<Longrightarrow> externals_ok x \<Longrightarrow> keys_separated x \<Longrightarrow>
     memory.kept x sid key km \<Longrightarrow> memory.kept x sid key km'"
  by (induction rule: rtranclp_induct) (auto dest: manager_step_kept)

lemma kept_unwrap:
  assumes "externals_ok x" "keys_separated x" "memory.kept x sid key km" "mem_available (km_store km)"
  shows "unwrap_session_key x memory_key_store sid km = Ok key"
  using assms memory.safe_unwrap [OF assms(1,2)]
  by (fastforce simp: memory.kept_def mem_ops)

text \<open>A manager made for a database keeps the root's name apart from the session keys' names.\<close>

lemma for_storage_apart:
  "memory.names_apart (KeyManager_for_storage x (store :: MemoryKeyStore) storage_id scope)"
  by (auto simp: memory.names_apart_def KeyManager_for_storage_def Let_def starts_with_iff)

lemma created_kept:
  assumes "externals_ok x" "btree_wf (mem_entries store)"
    and "length fr = KEY_BYTES" "length fk = KEY_BYTES" "length n = NONCE_BYTES"
    and "km = KeyManager_for_storage x store storage_id scope"
    and "map_of (mem_entries store) (km_root_key_id km) = None"
    and "create_session_key x memory_key_store fr fk n sid km = (Ok kid, km')"
  shows "memory.kept x sid fk km'"
proof -
  have apart: "memory.names_apart km" by (simp add: assms(6) for_storage_apart)
  have store: "km_store km = store" by (simp add: assms(6) KeyManager_for_storage_def Let_def)
  have "\<exists>c p. memory.safe x km' sid fk c p"
    by (rule memory.create_own_safe [OF assms(1) _ apart assms(3-5) _ assms(8)])
       (use assms store in auto)
  moreover have "memory.names_apart km'" using create_names [OF apart] assms(8) by (metis snd_conv)
  ultimately show ?thesis by (simp add: memory.kept_def)
qed


section \<open>Properties\<close>


lemma reference_create:
  assumes "one_byte_key root_key" "length n = NONCE_BYTES"
  shows "fst (create_session_key reference memory_key_store root_key key n sid
      (KeyManager_for_storage reference MemoryKeyStore_new storage_id scope)) =
    Ok (session_key_id reference (KeyManager_for_storage reference MemoryKeyStore_new storage_id scope) sid)"
  using assms
  by (simp add: create_session_key_def load_or_create_root_keys_def write_root_record_def
      seal_envelope_def EncryptedPayload_encrypt_def KeyManager_for_storage_def mem_ops
      MemoryKeyStore_new_def session_key_id_def Let_def reference_encrypt split: prod.splits)


end
