(* ===== verification/Storage.thy ===== *)
theory Storage
  imports Keys "HOL-Library.Product_Lexorder"
begin

text \<open>
  The encrypted session store of \<open>crates/workbench-storage/src/sqlite.rs\<close> over the schema of
  \<open>crates/workbench-storage/migrations\<close>: the database as a record of tables, one definition per
  operation of \<open>SqliteStorage\<close>. A statement that violates a constraint of the schema fails with
  \<open>StorageUnavailable\<close>; a transaction works on a copy that replaces the database on commit. UUID and
  time columns hold the value whose text the code stores (the text of a UUID orders like its
  value), an INTEGER column a natural number below \<open>2 ^ 63\<close>. Random nonces and fresh identifiers
  are arguments.
\<close>

section \<open>Tables\<close>

type_synonym time = int

record SessionRow =
  s_key_id :: string
  s_state :: string
  s_created_at :: time
  s_terminal_at :: "time option"
  s_configuration :: EncryptedPayload
  s_lock :: EncryptedPayload
  s_spend_usd_micros :: nat

record EventRow =
  r_event_id :: uuid
  r_session_id :: uuid
  r_sequence :: nat
  r_occurred_at :: time
  r_kind :: string
  r_causation_request_id :: "uuid option"
  r_attempt_id :: "uuid option"
  r_effect_class :: "string option"
  r_key_id :: string
  r_payload :: EncryptedPayload

record CommandRow =
  c_scope :: string
  c_request_id :: uuid
  c_session_id :: "uuid option"
  c_method :: string
  c_parameter_hash :: string
  c_outcome_json :: string

record SessionCreationJournal =
  j_session_id :: uuid
  j_request_id :: uuid
  j_parameter_hash :: string
  j_key_id :: string
  j_state :: string

record ExportJournalRow =
  x_export_id :: uuid
  x_session_id :: uuid
  x_request_id :: uuid
  x_parameter_hash :: string
  x_state :: string

record DeletionJournalRow =
  d_session_id :: uuid
  d_deletion_id :: uuid
  d_request_id :: uuid

record StoredCommandRecord =
  sc_method :: string
  sc_parameter_hash :: string
  sc_outcome :: string

record Tombstone =
  t_session_id :: uuid
  t_deletion_id :: uuid
  t_creation :: "(uuid \<times> StoredCommandRecord) option"
  t_deletion_request_id :: uuid
  t_deletion :: StoredCommandRecord

record Db =
  sessions :: "(uuid \<times> SessionRow) list"
  session_events :: "EventRow list"
  command_outcomes :: "CommandRow list"
  session_creation_journal :: "SessionCreationJournal list"
  export_journal :: "ExportJournalRow list"
  deletion_journal :: "DeletionJournalRow list"
  deletion_tombstones :: "Tombstone list"

definition empty_db :: Db where
  "empty_db = \<lparr>sessions = [], session_events = [], command_outcomes = [],
     session_creation_journal = [], export_journal = [], deletion_journal = [],
     deletion_tombstones = []\<rparr>"

record 'k SqliteStorage =
  db :: Db
  km :: "'k KeyManager"

record EventInput =
  ei_event_id :: uuid
  ei_session_id :: uuid
  ei_occurred_at :: time
  ei_kind :: string
  ei_causation_request_id :: "uuid option"
  ei_attempt_id :: "uuid option"
  ei_effect_class :: "string option"
  ei_payload :: json

record StoredEvent =
  se_event_id :: uuid
  se_session_id :: uuid
  se_sequence :: u64
  se_occurred_at :: time
  se_kind :: string
  se_causation_request_id :: "uuid option"
  se_attempt_id :: "uuid option"
  se_effect_class :: "string option"
  se_payload :: json

section \<open>Helpers\<close>

definition TERMINAL_KINDS :: "string list" where
  "TERMINAL_KINDS =
     [''session_completed'', ''session_failed'', ''session_cancelled'', ''session_abandoned'']"

definition canonical_hash :: "Externals \<Rightarrow> json \<Rightarrow> string" where
  "canonical_hash x v = blake3_hex x (json_to_vec x (canonicalize v))"

definition command_scope :: "Externals \<Rightarrow> uuid option \<Rightarrow> string" where
  "command_scope x session_id =
     (case session_id of None \<Rightarrow> ''daemon'' | Some i \<Rightarrow> ''session/'' @ uuid_text x i)"

definition validate_port_command :: "StoredCommandRecord \<Rightarrow> StorageError + unit" where
  "validate_port_command r =
     (if sc_method r = [] \<or> length (sc_method r) > 128 \<or>
         \<not> (length (sc_parameter_hash r) = 64 \<and> list_all is_lower_hex (sc_parameter_hash r)) \<or>
         length (sc_outcome r) > 65536
      then Err (InvalidInput ''recorded command is outside durable limits'')
      else Ok ())"

definition state_for_kind :: "string \<Rightarrow> string option" where
  "state_for_kind k =
     (if k \<in> {''dispatch_started'', ''session_resumed''} then Some ''running''
      else if k = ''clarification_requested'' then Some ''awaiting_clarification''
      else if k = ''approval_requested'' then Some ''awaiting_approval''
      else if k = ''session_paused'' then Some ''paused''
      else if k = ''cancel_requested'' then Some ''cancel_requested''
      else if k = ''outcome_unknown'' then Some ''outcome_unknown''
      else if k = ''session_completed'' then Some ''completed''
      else if k = ''session_failed'' then Some ''failed''
      else if k = ''session_cancelled'' then Some ''cancelled''
      else if k = ''session_abandoned'' then Some ''abandoned''
      else None)"

definition event_aad :: "Externals \<Rightarrow> uuid \<Rightarrow> string \<Rightarrow> nat \<Rightarrow> string \<Rightarrow> AssociatedData" where
  "event_aad x session_id object_id sequence k =
     \<lparr>ad_schema_version = 1, ad_session_id = session_id, ad_object_id = object_id,
      ad_sequence = of_nat sequence, ad_kind = k\<rparr>"

definition encrypt_json ::
  "Externals \<Rightarrow> bytes \<Rightarrow> SecretKey \<Rightarrow> uuid \<Rightarrow> string \<Rightarrow> nat \<Rightarrow> string \<Rightarrow> json
     \<Rightarrow> StorageError + EncryptedPayload" where
  "encrypt_json x fresh_nonce key session_id object_id sequence k v =
     EncryptedPayload_encrypt x fresh_nonce key (json_to_vec x v)
       (event_aad x session_id object_id sequence k)"

definition decrypt_session_json ::
  "Externals \<Rightarrow> SecretKey \<Rightarrow> uuid \<Rightarrow> string \<Rightarrow> string \<Rightarrow> EncryptedPayload \<Rightarrow> StorageError + json" where
  "decrypt_session_json x key session_id object_id k p =
     and_then (EncryptedPayload_decrypt x p key (event_aad x session_id object_id 0 k))
       (\<lambda>plaintext. ok_or StorageUnavailable (json_from_slice x plaintext))"

definition decrypt_event ::
  "Externals \<Rightarrow> SecretKey \<Rightarrow> uuid \<Rightarrow> EventRow \<Rightarrow> StorageError + StoredEvent" where
  "decrypt_event x key session_id row =
     and_then (EncryptedPayload_decrypt x (r_payload row) key
                 (event_aad x session_id (uuid_text x (r_event_id row)) (r_sequence row) (r_kind row)))
       (\<lambda>plaintext.
     and_then (ok_or StorageUnavailable (json_from_slice x plaintext)) (\<lambda>payload.
       Ok \<lparr>se_event_id = r_event_id row, se_session_id = session_id,
           se_sequence = of_nat (r_sequence row), se_occurred_at = r_occurred_at row,
           se_kind = r_kind row, se_causation_request_id = r_causation_request_id row,
           se_attempt_id = r_attempt_id row, se_effect_class = r_effect_class row,
           se_payload = payload\<rparr>))"

section \<open>Statements\<close>

text \<open>The uniqueness the schema demands of attempt facts: at most one event of these kinds per
  attempt, and at most one terminal event per attempt.\<close>

definition unique_fact_kinds :: "string list" where
  "unique_fact_kinds =
     [''dispatch_planned'', ''dispatch_started'', ''dispatch_acknowledged'',
      ''outcome_unknown'', ''outcome_reconciled'']"

definition event_conflicts :: "EventRow \<Rightarrow> EventRow \<Rightarrow> bool" where
  "event_conflicts new old \<longleftrightarrow>
     r_event_id new = r_event_id old \<or>
     r_session_id new = r_session_id old \<and> r_sequence new = r_sequence old \<or>
     r_session_id new = r_session_id old \<and> r_attempt_id new \<noteq> None \<and>
       r_attempt_id new = r_attempt_id old \<and>
       (r_kind new = r_kind old \<and> r_kind new \<in> set unique_fact_kinds \<or>
        r_kind new \<in> set TERMINAL_KINDS \<and> r_kind old \<in> set TERMINAL_KINDS)"

definition insert_event ::
  "EventInput \<Rightarrow> nat \<Rightarrow> string \<Rightarrow> EncryptedPayload \<Rightarrow> Db \<Rightarrow> StorageError + Db" where
  "insert_event input sequence key_id encrypted d =
     (let row = \<lparr>r_event_id = ei_event_id input, r_session_id = ei_session_id input,
                 r_sequence = sequence, r_occurred_at = ei_occurred_at input,
                 r_kind = ei_kind input, r_causation_request_id = ei_causation_request_id input,
                 r_attempt_id = ei_attempt_id input, r_effect_class = ei_effect_class input,
                 r_key_id = key_id, r_payload = encrypted\<rparr> in
      if sequence < 2 ^ 63 \<and> 0 < sequence \<and>
         map_of (sessions d) (ei_session_id input) \<noteq> None \<and>
         length (ep_nonce encrypted) = 24 \<and>
         \<not> (\<exists>old \<in> set (session_events d). event_conflicts row old)
      then Ok (d\<lparr>session_events := session_events d @ [row]\<rparr>)
      else Err StorageUnavailable)"

text \<open>\<open>UPDATE sessions ... WHERE session_id = ?\<close>\<close>

definition update_session :: "uuid \<Rightarrow> (SessionRow \<Rightarrow> SessionRow) \<Rightarrow> Db \<Rightarrow> Db" where
  "update_session session_id f d =
     d\<lparr>sessions := map (\<lambda>(i, row). (i, if i = session_id then f row else row)) (sessions d)\<rparr>"

definition session_rows :: "Db \<Rightarrow> uuid \<Rightarrow> EventRow list" where
  "session_rows d session_id = filter (\<lambda>r. r_session_id r = session_id) (session_events d)"

text \<open>\<open>COALESCE(MAX(sequence), 0) + 1\<close>, which leaves the INTEGER range at its end.\<close>

definition next_sequence :: "Db \<Rightarrow> uuid \<Rightarrow> StorageError + nat" where
  "next_sequence d session_id =
     (let n = foldr max (map r_sequence (session_rows d session_id)) 0 + 1 in
      if n < 2 ^ 63 then Ok n else Err StorageUnavailable)"

definition lookup_stored_command ::
  "Db \<Rightarrow> string \<Rightarrow> uuid \<Rightarrow> StoredCommandRecord option" where
  "lookup_stored_command d scope request_id =
     map_option (\<lambda>c. \<lparr>sc_method = c_method c, sc_parameter_hash = c_parameter_hash c,
                      sc_outcome = c_outcome_json c\<rparr>)
       (find (\<lambda>c. c_scope c = scope \<and> c_request_id c = request_id) (command_outcomes d))"

definition insert_command :: "CommandRow \<Rightarrow> Db \<Rightarrow> StorageError + Db" where
  "insert_command c d =
     (if find (\<lambda>o'. c_scope o' = c_scope c \<and> c_request_id o' = c_request_id c)
           (command_outcomes d) \<noteq> None
      then Err StorageUnavailable
      else Ok (d\<lparr>command_outcomes := command_outcomes d @ [c]\<rparr>))"

definition insert_port_command ::
  "Externals \<Rightarrow> uuid option \<Rightarrow> uuid \<Rightarrow> StoredCommandRecord \<Rightarrow> Db \<Rightarrow> StorageError + Db" where
  "insert_port_command x session_id request_id r d =
     insert_command
       \<lparr>c_scope = command_scope x session_id, c_request_id = request_id, c_session_id = session_id,
        c_method = sc_method r, c_parameter_hash = sc_parameter_hash r, c_outcome_json = sc_outcome r\<rparr> d"

section \<open>Appending and replaying events\<close>

text \<open>The cached \<open>state\<close> and \<open>terminal_at\<close> columns after an event.\<close>

definition apply_state :: "EventInput \<Rightarrow> Db \<Rightarrow> Db" where
  "apply_state input d =
     (if ei_kind input = ''session_redirected''
      then update_session (ei_session_id input)
             (\<lambda>row. row\<lparr>s_state := (if s_state row = ''awaiting_clarification'' then ''ready''
                                  else s_state row)\<rparr>) d
      else case state_for_kind (ei_kind input) of
        Some st \<Rightarrow>
          (let terminal_at = (if ei_kind input \<in> set TERMINAL_KINDS
                              then Some (ei_occurred_at input) else None)
           in update_session (ei_session_id input)
                (\<lambda>row. row\<lparr>s_state := st,
                           s_terminal_at := (case s_terminal_at row of
                              Some t \<Rightarrow> Some t | None \<Rightarrow> terminal_at)\<rparr>) d)
      | None \<Rightarrow> d)"

definition stored_event :: "EventInput \<Rightarrow> nat \<Rightarrow> StoredEvent" where
  "stored_event input sequence =
     \<lparr>se_event_id = ei_event_id input, se_session_id = ei_session_id input,
      se_sequence = of_nat sequence, se_occurred_at = ei_occurred_at input,
      se_kind = ei_kind input, se_causation_request_id = ei_causation_request_id input,
      se_attempt_id = ei_attempt_id input, se_effect_class = ei_effect_class input,
      se_payload = ei_payload input\<rparr>"

definition append_event_in_transaction ::
  "Externals \<Rightarrow> (uuid \<Rightarrow> bytes) \<Rightarrow> EventInput \<Rightarrow> string \<Rightarrow> SecretKey \<Rightarrow> Db
     \<Rightarrow> StorageError + StoredEvent \<times> Db" where
  "append_event_in_transaction x nonces input key_id key d =
     and_then (next_sequence d (ei_session_id input)) (\<lambda>sequence.
     and_then (encrypt_json x (nonces (ei_event_id input)) key (ei_session_id input)
                 (uuid_text x (ei_event_id input)) sequence (ei_kind input) (ei_payload input))
       (\<lambda>encrypted.
     and_then (insert_event input sequence key_id encrypted d) (\<lambda>d.
       Ok (stored_event input sequence, apply_state input d))))"

fun append_all ::
  "Externals \<Rightarrow> (uuid \<Rightarrow> bytes) \<Rightarrow> EventInput list \<Rightarrow> string \<Rightarrow> SecretKey \<Rightarrow> Db
     \<Rightarrow> StorageError + StoredEvent list \<times> Db" where
  "append_all x nonces [] key_id key d = Ok ([], d)"
| "append_all x nonces (event # events) key_id key d =
     and_then (append_event_in_transaction x nonces event key_id key d) (\<lambda>(p, d).
     and_then (append_all x nonces events key_id key d) (\<lambda>(ps, d). Ok (p # ps, d)))"

definition session_row_key_id :: "Db \<Rightarrow> uuid \<Rightarrow> StorageError + string" where
  "session_row_key_id d session_id =
     and_then (ok_or SessionNotFound (map_of (sessions d) session_id)) (\<lambda>row. Ok (s_key_id row))"

text \<open>The prologue shared by the operations that write events: the session's key id, then its
  key, which may fill the key cache.\<close>

definition with_session_key ::
  "Externals \<Rightarrow> 'k KeyStore \<Rightarrow> uuid \<Rightarrow>
     (string \<Rightarrow> SecretKey \<Rightarrow> 'k SqliteStorage \<Rightarrow> (StorageError + 'a) \<times> 'k SqliteStorage)
     \<Rightarrow> 'k SqliteStorage \<Rightarrow> (StorageError + 'a) \<times> 'k SqliteStorage" where
  "with_session_key x ks session_id body st =
     (case session_row_key_id (db st) session_id of
        Err e \<Rightarrow> (Err e, st)
      | Ok key_id \<Rightarrow>
          (case session_key x ks session_id (km st) of
             (Err e, m) \<Rightarrow> (Err e, st\<lparr>km := m\<rparr>)
           | (Ok key, m) \<Rightarrow> body key_id key (st\<lparr>km := m\<rparr>)))"

text \<open>Commit what a transaction computed, or leave the database as it was.\<close>

definition commit :: "StorageError + 'a \<times> Db \<Rightarrow> 'k SqliteStorage \<Rightarrow> (StorageError + 'a) \<times> 'k SqliteStorage" where
  "commit r st = (case r of Err e \<Rightarrow> (Err e, st) | Ok (a, d) \<Rightarrow> (Ok a, st\<lparr>db := d\<rparr>))"

definition append_event ::
  "Externals \<Rightarrow> 'k KeyStore \<Rightarrow> (uuid \<Rightarrow> bytes) \<Rightarrow> EventInput \<Rightarrow> 'k SqliteStorage
     \<Rightarrow> (StorageError + StoredEvent) \<times> 'k SqliteStorage" where
  "append_event x ks nonces input st =
     with_session_key x ks (ei_session_id input) (\<lambda>key_id key st.
       commit (append_event_in_transaction x nonces input key_id key (db st)) st) st"

definition append_events ::
  "Externals \<Rightarrow> 'k KeyStore \<Rightarrow> (uuid \<Rightarrow> bytes) \<Rightarrow> EventInput list \<Rightarrow> 'k SqliteStorage
     \<Rightarrow> (StorageError + StoredEvent list) \<times> 'k SqliteStorage" where
  "append_events x ks nonces events st =
     (case events of
        [] \<Rightarrow> (Err (InvalidInput ''atomic append requires at least one event''), st)
      | first # _ \<Rightarrow>
          (if \<exists>event \<in> set events. ei_session_id event \<noteq> ei_session_id first
           then (Err (InvalidInput ''atomic append cannot cross sessions''), st)
           else with_session_key x ks (ei_session_id first) (\<lambda>key_id key st.
                  commit (append_all x nonces events key_id key (db st)) st) st))"

text \<open>\<open>ORDER BY sequence\<close> over the session's rows above the cursor.\<close>

definition replay ::
  "Externals \<Rightarrow> 'k KeyStore \<Rightarrow> uuid \<Rightarrow> u64 \<Rightarrow> 'k SqliteStorage
     \<Rightarrow> (StorageError + StoredEvent list) \<times> 'k SqliteStorage" where
  "replay x ks session_id after_sequence st =
     (if unat after_sequence \<ge> 2 ^ 63
      then (Err (InvalidInput ''cursor exceeds SQLite range''), st)
      else case session_key x ks session_id (km st) of
        (Err e, m) \<Rightarrow> (Err e, st\<lparr>km := m\<rparr>)
      | (Ok key, m) \<Rightarrow>
          (try_map (decrypt_event x key session_id)
             (sort_key r_sequence
                (filter (\<lambda>r. unat after_sequence < r_sequence r) (session_rows (db st) session_id))),
           st\<lparr>km := m\<rparr>))"

section \<open>Command outcomes\<close>

datatype StoredCommandCommit = Applied StoredEvent | Replayed StoredCommandRecord

datatype CommandOutcome = Recorded json | Replay json

datatype CommandEventsOutcome = EventsRecorded "StoredEvent list" json | EventsReplay json

definition same_command :: "StoredCommandRecord \<Rightarrow> StoredCommandRecord \<Rightarrow> bool" where
  "same_command existing r \<longleftrightarrow>
     sc_method existing = sc_method r \<and> sc_parameter_hash existing = sc_parameter_hash r"

definition commit_port_command ::
  "Externals \<Rightarrow> 'k KeyStore \<Rightarrow> (uuid \<Rightarrow> bytes) \<Rightarrow> uuid \<Rightarrow> StoredCommandRecord \<Rightarrow> EventInput
     \<Rightarrow> 'k SqliteStorage \<Rightarrow> (StorageError + StoredCommandCommit) \<times> 'k SqliteStorage" where
  "commit_port_command x ks nonces request_id r input st =
     (case validate_port_command r of
        Err e \<Rightarrow> (Err e, st)
      | Ok _ \<Rightarrow>
          (if sc_method r = ''session.create'' \<or> ei_causation_request_id input \<noteq> Some request_id
           then (Err (InvalidInput ''transactional command scope is invalid''), st)
           else with_session_key x ks (ei_session_id input) (\<lambda>key_id key st.
             case lookup_stored_command (db st)
                    (command_scope x (Some (ei_session_id input))) request_id of
               Some existing \<Rightarrow>
                 (if same_command existing r then (Ok (Replayed existing), st)
                  else (Err RequestConflict, st))
             | None \<Rightarrow>
                 commit
                   (and_then (append_event_in_transaction x nonces input key_id key (db st))
                      (\<lambda>(persisted, d).
                    and_then (insert_port_command x (Some (ei_session_id input)) request_id r d)
                      (\<lambda>d. Ok (Applied persisted, d)))) st) st))"

definition lookup_port_command ::
  "Externals \<Rightarrow> uuid option \<Rightarrow> uuid \<Rightarrow> Db \<Rightarrow> StoredCommandRecord option" where
  "lookup_port_command x session_id request_id d =
     (case lookup_stored_command d (command_scope x session_id) request_id of
        Some r \<Rightarrow> Some r
      | None \<Rightarrow>
          (case session_id of
             None \<Rightarrow>
               Option.bind
                 (find (\<lambda>t. map_option fst (t_creation t) = Some request_id) (deletion_tombstones d))
                 (\<lambda>t. map_option snd (t_creation t))
           | Some sid \<Rightarrow>
               map_option t_deletion
                 (find (\<lambda>t. t_session_id t = sid \<and> t_deletion_request_id t = request_id)
                    (deletion_tombstones d))))"

definition outcome_value :: "Externals \<Rightarrow> StoredCommandRecord \<Rightarrow> StorageError + json" where
  "outcome_value x r = ok_or StorageUnavailable (json_from_slice x (sc_outcome r))"

definition command_record :: "Externals \<Rightarrow> string \<Rightarrow> string \<Rightarrow> json \<Rightarrow> StoredCommandRecord" where
  "command_record x m h v = \<lparr>sc_method = m, sc_parameter_hash = h, sc_outcome = json_to_vec x v\<rparr>"

definition record_command_outcome ::
  "Externals \<Rightarrow> string \<Rightarrow> uuid \<Rightarrow> uuid option \<Rightarrow> string \<Rightarrow> json \<Rightarrow> json \<Rightarrow> 'k SqliteStorage
     \<Rightarrow> (StorageError + CommandOutcome) \<times> 'k SqliteStorage" where
  "record_command_outcome x scope request_id session_id m parameters outcome_json st =
     (if scope \<noteq> command_scope x session_id \<or>
         (session_id = None \<and> m \<noteq> ''session.create'') \<or>
         (session_id \<noteq> None \<and> m = ''session.create'')
      then (Err (InvalidInput ''command outcome scope is invalid''), st)
      else
        (let h = canonical_hash x parameters in
         case lookup_stored_command (db st) scope request_id of
           Some existing \<Rightarrow>
             (case outcome_value x existing of
                Err e \<Rightarrow> (Err e, st)
              | Ok v \<Rightarrow>
                  (if sc_method existing = m \<and> sc_parameter_hash existing = h then (Ok (Replay v), st)
                   else (Err RequestConflict, st)))
         | None \<Rightarrow>
             commit (and_then (insert_command
                 \<lparr>c_scope = scope, c_request_id = request_id, c_session_id = session_id,
                  c_method = m, c_parameter_hash = h, c_outcome_json = json_to_vec x outcome_json\<rparr>
                 (db st)) (\<lambda>d. Ok (Recorded outcome_json, d))) st))"

definition lookup_command_outcome ::
  "Externals \<Rightarrow> uuid option \<Rightarrow> uuid \<Rightarrow> string \<Rightarrow> json \<Rightarrow> Db \<Rightarrow> StorageError + json option" where
  "lookup_command_outcome x session_id request_id m parameters d =
     (if (session_id = None \<and> m \<noteq> ''session.create'') \<or>
         (session_id \<noteq> None \<and> m = ''session.create'') \<or> m = [] \<or> length m > 128
      then Err (InvalidInput ''command outcome scope is invalid'')
      else case lookup_port_command x session_id request_id d of
        None \<Rightarrow> Ok None
      | Some existing \<Rightarrow>
          (if sc_method existing \<noteq> m \<or> sc_parameter_hash existing \<noteq> canonical_hash x parameters
           then Err RequestConflict
           else and_then (outcome_value x existing) (\<lambda>v. Ok (Some v))))"

definition commit_command_events ::
  "Externals \<Rightarrow> 'k KeyStore \<Rightarrow> (uuid \<Rightarrow> bytes) \<Rightarrow> uuid \<Rightarrow> string \<Rightarrow> json \<Rightarrow> json \<Rightarrow> EventInput list
     \<Rightarrow> 'k SqliteStorage \<Rightarrow> (StorageError + CommandEventsOutcome) \<times> 'k SqliteStorage" where
  "commit_command_events x ks nonces request_id m parameters outcome_json events st =
     (case events of
        [] \<Rightarrow> (Err (InvalidInput ''transactional command requires at least one event''), st)
      | first # _ \<Rightarrow>
          (if m = ''session.create'' \<or> ei_causation_request_id first \<noteq> Some request_id \<or>
              (\<exists>event \<in> set events. ei_session_id event \<noteq> ei_session_id first \<or>
                                   ei_causation_request_id event = None)
           then (Err (InvalidInput ''transactional command scope is invalid''), st)
           else
             (let r = command_record x m (canonical_hash x parameters) outcome_json in
              case validate_port_command r of
                Err e \<Rightarrow> (Err e, st)
              | Ok _ \<Rightarrow>
                  with_session_key x ks (ei_session_id first) (\<lambda>key_id key st.
                    case lookup_stored_command (db st)
                           (command_scope x (Some (ei_session_id first))) request_id of
                      Some existing \<Rightarrow>
                        (if same_command existing r
                         then (and_then (outcome_value x existing) (\<lambda>v. Ok (EventsReplay v)), st)
                         else (Err RequestConflict, st))
                    | None \<Rightarrow>
                        commit
                          (and_then (append_all x nonces events key_id key (db st))
                             (\<lambda>(persisted, d).
                           and_then (insert_port_command x (Some (ei_session_id first)) request_id r d)
                             (\<lambda>d. Ok (EventsRecorded persisted outcome_json, d)))) st) st)))"

datatype CommandEventOutcome = EventRecorded StoredEvent json | EventReplay json

definition commit_command_event ::
  "Externals \<Rightarrow> 'k KeyStore \<Rightarrow> (uuid \<Rightarrow> bytes) \<Rightarrow> uuid \<Rightarrow> string \<Rightarrow> json \<Rightarrow> json \<Rightarrow> EventInput
     \<Rightarrow> 'k SqliteStorage \<Rightarrow> (StorageError + CommandEventOutcome) \<times> 'k SqliteStorage" where
  "commit_command_event x ks nonces request_id m parameters outcome_json event st =
     st_then (commit_command_events x ks nonces request_id m parameters outcome_json [event] st)
       (\<lambda>r st. case r of
          EventsRecorded events v \<Rightarrow>
            (if events = [] then (Err StorageUnavailable, st)
             else (Ok (EventRecorded (last events) v), st))
        | EventsReplay v \<Rightarrow> (Ok (EventReplay v), st))"

definition record_port_command ::
  "Externals \<Rightarrow> uuid option \<Rightarrow> uuid \<Rightarrow> StoredCommandRecord \<Rightarrow> 'k SqliteStorage
     \<Rightarrow> (StorageError + unit) \<times> 'k SqliteStorage" where
  "record_port_command x session_id request_id r st =
     (case validate_port_command r of
        Err e \<Rightarrow> (Err e, st)
      | Ok _ \<Rightarrow>
          (if (session_id = None \<and> sc_method r \<noteq> ''session.create'') \<or>
              (session_id \<noteq> None \<and> sc_method r = ''session.create'')
           then (Err (InvalidInput ''command outcome scope is invalid''), st)
           else case lookup_port_command x session_id request_id (db st) of
             Some existing \<Rightarrow>
               (if same_command existing r then (Ok (), st) else (Err RequestConflict, st))
           | None \<Rightarrow>
               (if (case session_id of
                      Some sid \<Rightarrow> map_of (sessions (db st)) sid = None
                    | None \<Rightarrow> False)
                then (Err SessionNotFound, st)
                else commit (and_then (insert_port_command x session_id request_id r (db st))
                       (\<lambda>d. Ok ((), d))) st)))"

definition commit_export_command ::
  "Externals \<Rightarrow> 'k KeyStore \<Rightarrow> (uuid \<Rightarrow> bytes) \<Rightarrow> uuid \<Rightarrow> uuid \<Rightarrow> string \<Rightarrow> json \<Rightarrow> EventInput
     \<Rightarrow> 'k SqliteStorage \<Rightarrow> (StorageError + CommandEventOutcome) \<times> 'k SqliteStorage" where
  "commit_export_command x ks nonces export_id request_id h outcome_json event st =
     (if ei_kind event \<noteq> ''session_exported'' \<or> ei_causation_request_id event \<noteq> Some request_id
      then (Err (InvalidInput ''export command event is invalid''), st)
      else
        (let r = command_record x ''session.export'' h outcome_json;
             delete_journal = (\<lambda>d. d\<lparr>export_journal :=
               filter (\<lambda>j. x_export_id j \<noteq> export_id) (export_journal d)\<rparr>) in
         case validate_port_command r of
           Err e \<Rightarrow> (Err e, st)
         | Ok _ \<Rightarrow>
             with_session_key x ks (ei_session_id event) (\<lambda>key_id key st.
               if map_option x_state
                    (find (\<lambda>j. x_export_id j = export_id \<and> x_session_id j = ei_session_id event \<and>
                               x_request_id j = request_id \<and> x_parameter_hash j = h)
                       (export_journal (db st))) \<noteq> Some ''published''
               then (Err StorageUnavailable, st)
               else case lookup_stored_command (db st)
                           (command_scope x (Some (ei_session_id event))) request_id of
                 Some existing \<Rightarrow>
                   (if \<not> same_command existing r then (Err RequestConflict, st)
                    else (and_then (outcome_value x existing) (\<lambda>v. Ok (EventReplay v)),
                          st\<lparr>db := delete_journal (db st)\<rparr>))
               | None \<Rightarrow>
                   commit
                     (and_then (append_event_in_transaction x nonces event key_id key (db st))
                        (\<lambda>(persisted, d).
                      and_then (insert_port_command x (Some (ei_session_id event)) request_id r d)
                        (\<lambda>d.
                        if length (filter (\<lambda>j. x_export_id j = export_id) (export_journal d)) \<noteq> 1
                        then Err StorageUnavailable
                        else Ok (EventRecorded persisted outcome_json, delete_journal d)))) st) st))"

section \<open>Creating sessions\<close>

record CreateSession =
  cs_session_id :: uuid
  cs_request_id :: uuid
  cs_occurred_at :: time
  cs_request_parameters :: json
  cs_command_outcome :: json
  cs_configuration_snapshot :: json
  cs_lock_snapshot :: json
  cs_initial_event_payload :: json

text \<open>The random values one creation draws.\<close>

record CreationFresh =
  f_root :: SecretKey
  f_key :: SecretKey
  f_envelope_nonce :: bytes
  f_configuration_nonce :: bytes
  f_lock_nonce :: bytes
  f_event_nonce :: bytes
  f_event_id :: uuid

definition insert_creation_journal :: "SessionCreationJournal \<Rightarrow> Db \<Rightarrow> StorageError + Db" where
  "insert_creation_journal j d =
     (if \<exists>o' \<in> set (session_creation_journal d).
           j_session_id o' = j_session_id j \<or> j_request_id o' = j_request_id j \<or>
           j_key_id o' = j_key_id j
      then Err StorageUnavailable
      else Ok (d\<lparr>session_creation_journal := session_creation_journal d @ [j]\<rparr>))"

definition insert_session :: "uuid \<Rightarrow> SessionRow \<Rightarrow> Db \<Rightarrow> StorageError + Db" where
  "insert_session session_id row d =
     (if map_of (sessions d) session_id \<noteq> None \<or>
         (\<exists>(_, o') \<in> set (sessions d). s_key_id o' = s_key_id row)
      then Err StorageUnavailable
      else Ok (d\<lparr>sessions := sessions d @ [(session_id, row)]\<rparr>))"

definition mark_creation_key_created ::
  "CreateSession \<Rightarrow> string \<Rightarrow> string \<Rightarrow> 'k SqliteStorage \<Rightarrow> (StorageError + unit) \<times> 'k SqliteStorage" where
  "mark_creation_key_created input h key_id st =
     (let hit = (\<lambda>j. j_session_id j = cs_session_id input \<and> j_request_id j = cs_request_id input \<and>
                     j_parameter_hash j = h \<and> j_key_id j = key_id \<and> j_state j = ''prepared'');
          js = session_creation_journal (db st);
          st' = st\<lparr>db := (db st)\<lparr>session_creation_journal :=
                  map (\<lambda>j. if hit j then j\<lparr>j_state := ''key_created''\<rparr> else j) js\<rparr>\<rparr>
      in if length (filter hit js) \<noteq> 1 then (Err StorageUnavailable, st') else (Ok (), st'))"

text \<open>The closing transaction of a creation: the session, its first event, the command outcome
  and the end of the journal entry together.\<close>

definition creation_transaction ::
  "Externals \<Rightarrow> CreateSession \<Rightarrow> CreationFresh \<Rightarrow> string \<Rightarrow> string \<Rightarrow> EncryptedPayload \<Rightarrow> EncryptedPayload
     \<Rightarrow> EncryptedPayload \<Rightarrow> Db \<Rightarrow> StorageError + CommandOutcome \<times> Db" where
  "creation_transaction x input f h key_id configuration lock event d =
     and_then (insert_session (cs_session_id input)
                 \<lparr>s_key_id = key_id, s_state = ''ready'', s_created_at = cs_occurred_at input,
                  s_terminal_at = None, s_configuration = configuration, s_lock = lock,
                  s_spend_usd_micros = 0\<rparr> d) (\<lambda>d.
     and_then (insert_event
                 \<lparr>ei_event_id = f_event_id f, ei_session_id = cs_session_id input,
                  ei_occurred_at = cs_occurred_at input, ei_kind = ''session_created'',
                  ei_causation_request_id = Some (cs_request_id input), ei_attempt_id = None,
                  ei_effect_class = None, ei_payload = JNull\<rparr> 1 key_id event d) (\<lambda>d.
     and_then (insert_command
                 \<lparr>c_scope = ''daemon'', c_request_id = cs_request_id input,
                  c_session_id = Some (cs_session_id input), c_method = ''session.create'',
                  c_parameter_hash = h,
                  c_outcome_json = json_to_vec x (cs_command_outcome input)\<rparr> d) (\<lambda>d.
       let hit = (\<lambda>j. j_session_id j = cs_session_id input \<and> j_request_id j = cs_request_id input \<and>
                      j_key_id j = key_id \<and> j_state j = ''key_created'') in
       if length (filter hit (session_creation_journal d)) \<noteq> 1 then Err StorageUnavailable
       else Ok (Recorded (cs_command_outcome input),
                d\<lparr>session_creation_journal :=
                    filter (\<lambda>j. \<not> hit j) (session_creation_journal d)\<rparr>))))"

definition finish_create_session ::
  "Externals \<Rightarrow> 'k KeyStore \<Rightarrow> CreationFresh \<Rightarrow> CreateSession \<Rightarrow> string \<Rightarrow> string \<Rightarrow> 'k SqliteStorage
     \<Rightarrow> (StorageError + CommandOutcome) \<times> 'k SqliteStorage" where
  "finish_create_session x ks f input h journal_key_id st =
     (case create_session_key x ks (f_root f) (f_key f) (f_envelope_nonce f)
             (cs_session_id input) (km st) of
        (Err e, m) \<Rightarrow> (Err e, st\<lparr>km := m\<rparr>)
      | (Ok key_id, m) \<Rightarrow>
          (if key_id \<noteq> journal_key_id then (Err StorageUnavailable, st\<lparr>km := m\<rparr>)
           else st_then (mark_creation_key_created input h key_id (st\<lparr>km := m\<rparr>)) (\<lambda>_ st.
             case session_key x ks (cs_session_id input) (km st) of
               (Err e, m) \<Rightarrow> (Err e, st\<lparr>km := m\<rparr>)
             | (Ok key, m) \<Rightarrow>
                 commit
                   (and_then (encrypt_json x (f_configuration_nonce f) key (cs_session_id input)
                        ''configuration'' 0 ''configuration_snapshot''
                        (cs_configuration_snapshot input)) (\<lambda>configuration.
                    and_then (encrypt_json x (f_lock_nonce f) key (cs_session_id input)
                        ''lock'' 0 ''session_lock'' (cs_lock_snapshot input)) (\<lambda>lock.
                    and_then (encrypt_json x (f_event_nonce f) key (cs_session_id input)
                        (uuid_text x (f_event_id f)) 1 ''session_created''
                        (cs_initial_event_payload input)) (\<lambda>event.
                      creation_transaction x input f h key_id configuration lock event
                        (db st))))) (st\<lparr>km := m\<rparr>))))"

definition reconcile_creation ::
  "Externals \<Rightarrow> 'k KeyStore \<Rightarrow> SessionCreationJournal \<Rightarrow> 'k SqliteStorage
     \<Rightarrow> (StorageError + unit) \<times> 'k SqliteStorage" where
  "reconcile_creation x ks j st =
     (if \<not> owns_session_key x (km st) (j_session_id j) (j_key_id j) \<or>
         j_state j \<notin> {''prepared'', ''key_created''}
      then (Err StorageUnavailable, st)
      else
        st_then
          (case map_of (sessions (db st)) (j_session_id j) of
             Some row \<Rightarrow>
               (if s_key_id row \<noteq> j_key_id j then (Err StorageUnavailable, st) else (Ok (), st))
           | None \<Rightarrow>
               (case destroy_session_key x ks (j_session_id j) (km st) of
                  (r, m) \<Rightarrow> (r, st\<lparr>km := m\<rparr>)))
          (\<lambda>_ st.
            let js = session_creation_journal (db st);
                st' = st\<lparr>db := (db st)\<lparr>session_creation_journal := filter (\<lambda>o'. o' \<noteq> j) js\<rparr>\<rparr>
            in if length (filter (\<lambda>o'. o' = j) js) \<noteq> 1 then (Err StorageUnavailable, st')
               else (Ok (), st')))"

definition creation_journal_by_request :: "Db \<Rightarrow> uuid \<Rightarrow> SessionCreationJournal option" where
  "creation_journal_by_request d request_id =
     find (\<lambda>j. j_request_id j = request_id) (session_creation_journal d)"

definition creation_journal_by_session :: "Db \<Rightarrow> uuid \<Rightarrow> SessionCreationJournal option" where
  "creation_journal_by_session d session_id =
     find (\<lambda>j. j_session_id j = session_id) (session_creation_journal d)"

definition reconcile_creation_by_request ::
  "Externals \<Rightarrow> 'k KeyStore \<Rightarrow> uuid \<Rightarrow> 'k SqliteStorage \<Rightarrow> (StorageError + unit) \<times> 'k SqliteStorage" where
  "reconcile_creation_by_request x ks request_id st =
     (case creation_journal_by_request (db st) request_id of
        Some j \<Rightarrow> reconcile_creation x ks j st
      | None \<Rightarrow> (Ok (), st))"

definition reconcile_create_retry ::
  "Externals \<Rightarrow> 'k KeyStore \<Rightarrow> uuid \<Rightarrow> uuid \<Rightarrow> string \<Rightarrow> 'k SqliteStorage
     \<Rightarrow> (StorageError + unit) \<times> 'k SqliteStorage" where
  "reconcile_create_retry x ks session_id request_id h st =
     st_then
       (case creation_journal_by_request (db st) request_id of
          Some j \<Rightarrow>
            (if j_parameter_hash j \<noteq> h then (Err RequestConflict, st)
             else reconcile_creation x ks j st)
        | None \<Rightarrow> (Ok (), st))
       (\<lambda>_ st.
         case creation_journal_by_session (db st) session_id of
           Some j \<Rightarrow>
             (if j_request_id j \<noteq> request_id \<or> j_parameter_hash j \<noteq> h then (Err RequestConflict, st)
              else reconcile_creation x ks j st)
         | None \<Rightarrow> (Ok (), st))"

definition create_session ::
  "Externals \<Rightarrow> 'k KeyStore \<Rightarrow> CreationFresh \<Rightarrow> CreateSession \<Rightarrow> 'k SqliteStorage
     \<Rightarrow> (StorageError + CommandOutcome) \<times> 'k SqliteStorage" where
  "create_session x ks f input st =
     (let h = canonical_hash x (cs_request_parameters input) in
      case lookup_port_command x None (cs_request_id input) (db st) of
        Some r \<Rightarrow>
          (if sc_method r = ''session.create'' \<and> sc_parameter_hash r = h
           then (and_then (outcome_value x r) (\<lambda>v. Ok (Replay v)), st)
           else (Err RequestConflict, st))
      | None \<Rightarrow>
          st_then (reconcile_create_retry x ks (cs_session_id input) (cs_request_id input) h st)
            (\<lambda>_ st.
              let key_id = session_key_id x (km st) (cs_session_id input) in
              case insert_creation_journal
                     \<lparr>j_session_id = cs_session_id input, j_request_id = cs_request_id input,
                      j_parameter_hash = h, j_key_id = key_id, j_state = ''prepared''\<rparr> (db st) of
                Err e \<Rightarrow> (Err e, st)
              | Ok d \<Rightarrow>
                  (case finish_create_session x ks f input h key_id (st\<lparr>db := d\<rparr>) of
                     (Ok v, st) \<Rightarrow> (Ok v, st)
                   | (Err e, st) \<Rightarrow>
                       (Err e, snd (reconcile_creation_by_request x ks (cs_request_id input) st)))))"

fun reconcile_journals ::
  "Externals \<Rightarrow> 'k KeyStore \<Rightarrow> SessionCreationJournal list \<Rightarrow> 'k SqliteStorage
     \<Rightarrow> (StorageError + unit) \<times> 'k SqliteStorage" where
  "reconcile_journals x ks [] st = (Ok (), st)"
| "reconcile_journals x ks (j # js) st =
     st_then (reconcile_creation x ks j st) (\<lambda>_ st. reconcile_journals x ks js st)"

definition resume_session_creations ::
  "Externals \<Rightarrow> 'k KeyStore \<Rightarrow> 'k SqliteStorage \<Rightarrow> (StorageError + nat) \<times> 'k SqliteStorage" where
  "resume_session_creations x ks st =
     (let journals = sort_key j_session_id (session_creation_journal (db st)) in
      st_then (reconcile_journals x ks journals st) (\<lambda>_ st. (Ok (length journals), st)))"

section \<open>Reading sessions\<close>

record StoredSession =
  ss_session_id :: uuid
  ss_state :: string
  ss_terminal_at :: "time option"
  ss_configuration_snapshot :: json
  ss_lock_snapshot :: json

definition load_session ::
  "Externals \<Rightarrow> 'k KeyStore \<Rightarrow> uuid \<Rightarrow> 'k SqliteStorage
     \<Rightarrow> (StorageError + StoredSession) \<times> 'k SqliteStorage" where
  "load_session x ks session_id st =
     (case map_of (sessions (db st)) session_id of
        None \<Rightarrow> (Err SessionNotFound, st)
      | Some row \<Rightarrow>
          (case session_key x ks session_id (km st) of
             (Err e, m) \<Rightarrow> (Err e, st\<lparr>km := m\<rparr>)
           | (Ok key, m) \<Rightarrow>
               (and_then (decrypt_session_json x key session_id ''configuration''
                    ''configuration_snapshot'' (s_configuration row)) (\<lambda>configuration.
                and_then (decrypt_session_json x key session_id ''lock'' ''session_lock''
                    (s_lock row)) (\<lambda>lock.
                  Ok \<lparr>ss_session_id = session_id, ss_state = s_state row,
                      ss_terminal_at = s_terminal_at row,
                      ss_configuration_snapshot = configuration, ss_lock_snapshot = lock\<rparr>)),
                st\<lparr>km := m\<rparr>)))"

definition load_session_state :: "Db \<Rightarrow> uuid \<Rightarrow> StorageError + string" where
  "load_session_state d session_id =
     and_then (ok_or SessionNotFound (map_of (sessions d) session_id)) (\<lambda>row. Ok (s_state row))"

definition load_session_spend_usd_micros :: "Db \<Rightarrow> uuid \<Rightarrow> StorageError + u64" where
  "load_session_spend_usd_micros d session_id =
     and_then (ok_or SessionNotFound (map_of (sessions d) session_id))
       (\<lambda>row. Ok (of_nat (s_spend_usd_micros row)))"

definition store_session_spend_usd_micros ::
  "uuid \<Rightarrow> u64 \<Rightarrow> Db \<Rightarrow> (StorageError + unit) \<times> Db" where
  "store_session_spend_usd_micros session_id spend d =
     (if unat spend \<ge> 2 ^ 63 then (Err (InvalidInput ''spend_usd_micros overflow''), d)
      else if map_of (sessions d) session_id = None then (Err SessionNotFound, d)
      else (Ok (), update_session session_id (\<lambda>row. row\<lparr>s_spend_usd_micros := unat spend\<rparr>) d))"

definition load_all_session_spends :: "Db \<Rightarrow> (uuid \<times> u64) list" where
  "load_all_session_spends d =
     [(i, of_nat (s_spend_usd_micros row)). (i, row) \<leftarrow> sessions d, s_spend_usd_micros row > 0]"

record StoredSessionMetadata =
  sm_session_id :: uuid
  sm_state :: string
  sm_created_at :: time
  sm_terminal_at :: "time option"

definition list_session_metadata ::
  "Db \<Rightarrow> u16 \<Rightarrow> uuid option \<Rightarrow> StorageError + StoredSessionMetadata list \<times> uuid option" where
  "list_session_metadata d limit before_session_id =
     (if \<not> (1 \<le> limit \<and> limit \<le> 100)
      then Err (InvalidInput ''session list limit must be between 1 and 100'')
      else
        (let rows = filter (\<lambda>(i, _). case before_session_id of None \<Rightarrow> True | Some b \<Rightarrow> i < b)
                      (sessions d);
             found = take (unat limit + 1) (rev (sort_key fst rows));
             page = take (unat limit) found;
             has_more = (unat limit < length found)
         in Ok (map (\<lambda>(i, row). \<lparr>sm_session_id = i, sm_state = s_state row,
                                  sm_created_at = s_created_at row,
                                  sm_terminal_at = s_terminal_at row\<rparr>) page,
                if has_more then Some (fst (last page)) else None)))"

section \<open>Crash recovery of attempts\<close>

definition finished_kinds :: "string list" where
  "finished_kinds = TERMINAL_KINDS @ [''outcome_unknown'', ''outcome_reconciled'']"

text \<open>The \<open>SELECT DISTINCT ... ORDER BY\<close>: attempts started and neither ended nor already uncertain.\<close>

definition uncertain_attempts :: "Db \<Rightarrow> (uuid \<times> uuid) list" where
  "uncertain_attempts d =
     sort (remdups
       [(r_session_id r, the (r_attempt_id r)). r \<leftarrow> session_events d,
          r_kind r = ''dispatch_started'' \<and> r_attempt_id r \<noteq> None \<and>
          \<not> (\<exists>f \<in> set (session_events d). r_session_id f = r_session_id r \<and>
                r_attempt_id f = r_attempt_id r \<and> r_kind f \<in> set finished_kinds)])"

definition recovery_event :: "Externals \<Rightarrow> time \<Rightarrow> uuid \<Rightarrow> uuid \<times> uuid \<Rightarrow> EventInput" where
  "recovery_event x now event_id attempt =
     \<lparr>ei_event_id = event_id, ei_session_id = fst attempt, ei_occurred_at = now,
      ei_kind = ''outcome_unknown'', ei_causation_request_id = None,
      ei_attempt_id = Some (snd attempt), ei_effect_class = None,
      ei_payload = JObject
        [(''attempt_id'', JString (uuid_text x (snd attempt))),
         (''reason'', JString ''daemon_recovery''),
         (''reconciliation_options'',
            JArray [JString ''retry'', JString ''accept_result'', JString ''abandon''])]\<rparr>"

text \<open>\<open>fresh\<close> gives the event id drawn for each attempt; a failed append stops the pass and keeps
  what was recovered before it.\<close>

fun recover_attempts ::
  "Externals \<Rightarrow> 'k KeyStore \<Rightarrow> (uuid \<Rightarrow> bytes) \<Rightarrow> (uuid \<times> uuid \<Rightarrow> uuid) \<Rightarrow> time \<Rightarrow> (uuid \<times> uuid) list
     \<Rightarrow> 'k SqliteStorage \<Rightarrow> (StorageError + (uuid \<times> uuid \<times> uuid) list) \<times> 'k SqliteStorage" where
  "recover_attempts x ks nonces fresh now [] st = (Ok [], st)"
| "recover_attempts x ks nonces fresh now (a # attempts) st =
     st_then (append_event x ks nonces (recovery_event x now (fresh a) a) st) (\<lambda>_ st.
     st_then (recover_attempts x ks nonces fresh now attempts st) (\<lambda>rest st.
       (Ok ((fst a, snd a, fresh a) # rest), st)))"

definition recover_uncertain_attempts ::
  "Externals \<Rightarrow> 'k KeyStore \<Rightarrow> (uuid \<Rightarrow> bytes) \<Rightarrow> (uuid \<times> uuid \<Rightarrow> uuid) \<Rightarrow> time \<Rightarrow> 'k SqliteStorage
     \<Rightarrow> (StorageError + (uuid \<times> uuid \<times> uuid) list) \<times> 'k SqliteStorage" where
  "recover_uncertain_attempts x ks nonces fresh now st =
     recover_attempts x ks nonces fresh now (uncertain_attempts (db st)) st"

section \<open>Deletion\<close>

record DeletionSummary =
  ds_session_id :: uuid
  ds_deletion_id :: uuid
  ds_key_destroyed :: bool

definition deletion_parameters :: "Externals \<Rightarrow> uuid \<Rightarrow> json" where
  "deletion_parameters x session_id =
     JObject [(''confirm_session_id'', JString (uuid_text x session_id))]"

definition deletion_outcome :: "Externals \<Rightarrow> uuid \<Rightarrow> uuid \<Rightarrow> json" where
  "deletion_outcome x session_id deletion_id =
     JObject [(''deletion_id'', JString (uuid_text x deletion_id)), (''key_destroyed'', JBool True),
              (''session_id'', JString (uuid_text x session_id))]"

definition ensure_no_pending_export :: "Db \<Rightarrow> uuid \<Rightarrow> StorageError + unit" where
  "ensure_no_pending_export d session_id =
     (if \<exists>j \<in> set (export_journal d). x_session_id j = session_id
      then Err (InvalidInput ''session has a pending export'') else Ok ())"

definition replay_deletion_tombstone ::
  "Db \<Rightarrow> uuid \<Rightarrow> uuid \<Rightarrow> string \<Rightarrow> StorageError + DeletionSummary option" where
  "replay_deletion_tombstone d session_id request_id h =
     (case find (\<lambda>t. t_session_id t = session_id) (deletion_tombstones d) of
        None \<Rightarrow> Ok None
      | Some t \<Rightarrow>
          (if t_deletion_request_id t \<noteq> request_id \<or> sc_parameter_hash (t_deletion t) \<noteq> h
           then Err SessionNotFound
           else Ok (Some \<lparr>ds_session_id = session_id, ds_deletion_id = t_deletion_id t,
                          ds_key_destroyed = True\<rparr>)))"

text \<open>The closing transaction of a deletion; deleting the session row removes its events with it.\<close>

definition deletion_transaction ::
  "Externals \<Rightarrow> uuid \<Rightarrow> uuid \<Rightarrow> uuid \<Rightarrow> Db \<Rightarrow> StorageError + unit \<times> Db" where
  "deletion_transaction x session_id deletion_id request_id d =
     (let creation = find (\<lambda>c. c_session_id c = Some session_id \<and> c_method c = ''session.create'')
                       (command_outcomes d);
          tombstone =
            \<lparr>t_session_id = session_id, t_deletion_id = deletion_id,
             t_creation = map_option (\<lambda>c. (c_request_id c,
                \<lparr>sc_method = c_method c, sc_parameter_hash = c_parameter_hash c,
                 sc_outcome = c_outcome_json c\<rparr>)) creation,
             t_deletion_request_id = request_id,
             t_deletion = command_record x ''session.delete''
               (canonical_hash x (deletion_parameters x session_id))
               (deletion_outcome x session_id deletion_id)\<rparr> in
      if \<exists>j \<in> set (export_journal d). x_session_id j = session_id then Err StorageUnavailable
      else Ok ((), d\<lparr>
        command_outcomes := filter (\<lambda>c. c_session_id c \<noteq> Some session_id) (command_outcomes d),
        sessions := filter (\<lambda>(i, _). i \<noteq> session_id) (sessions d),
        session_events := filter (\<lambda>r. r_session_id r \<noteq> session_id) (session_events d),
        deletion_tombstones :=
          filter (\<lambda>t. t_session_id t \<noteq> session_id \<and> t_deletion_id t \<noteq> deletion_id)
            (deletion_tombstones d) @ [tombstone],
        deletion_journal := filter (\<lambda>j. d_session_id j \<noteq> session_id) (deletion_journal d)\<rparr>))"

definition finish_deletion ::
  "Externals \<Rightarrow> 'k KeyStore \<Rightarrow> uuid \<Rightarrow> 'k SqliteStorage
     \<Rightarrow> (StorageError + DeletionSummary) \<times> 'k SqliteStorage" where
  "finish_deletion x ks session_id st =
     (case ensure_no_pending_export (db st) session_id of
        Err e \<Rightarrow> (Err e, st)
      | Ok _ \<Rightarrow>
          (case find (\<lambda>j. d_session_id j = session_id) (deletion_journal (db st)) of
             None \<Rightarrow> (Err SessionNotFound, st)
           | Some j \<Rightarrow>
               (case destroy_session_key x ks session_id (km st) of
                  (Err e, m) \<Rightarrow> (Err e, st\<lparr>km := m\<rparr>)
                | (Ok _, m) \<Rightarrow>
                    st_then (commit (deletion_transaction x session_id (d_deletion_id j)
                               (d_request_id j) (db st)) (st\<lparr>km := m\<rparr>))
                      (\<lambda>_ st. (Ok \<lparr>ds_session_id = session_id, ds_deletion_id = d_deletion_id j,
                                   ds_key_destroyed = True\<rparr>, st)))))"

definition insert_deletion_journal :: "DeletionJournalRow \<Rightarrow> Db \<Rightarrow> StorageError + Db" where
  "insert_deletion_journal j d =
     (if \<exists>o' \<in> set (deletion_journal d).
           d_session_id o' = d_session_id j \<or> d_deletion_id o' = d_deletion_id j \<or>
           d_request_id o' = d_request_id j
      then Err StorageUnavailable
      else Ok (d\<lparr>deletion_journal := deletion_journal d @ [j]\<rparr>))"

text \<open>The transaction that records the request; \<open>event_id\<close> and the nonce are drawn by the caller.\<close>

definition deletion_request_transaction ::
  "Externals \<Rightarrow> (uuid \<Rightarrow> bytes) \<Rightarrow> uuid \<Rightarrow> uuid \<Rightarrow> uuid \<Rightarrow> uuid \<Rightarrow> time \<Rightarrow> string \<Rightarrow> string \<Rightarrow> SecretKey
     \<Rightarrow> Db \<Rightarrow> StorageError + unit \<times> Db" where
  "deletion_request_transaction x nonces event_id session_id deletion_id request_id now actor
       key_id key d =
     and_then (next_sequence d session_id) (\<lambda>sequence.
     and_then (encrypt_json x (nonces event_id) key session_id (uuid_text x event_id) sequence
                 ''session_deletion_requested''
                 (JObject [(''actor'', JString actor),
                           (''deletion_id'', JString (uuid_text x deletion_id))])) (\<lambda>encrypted.
     and_then (insert_event
                 \<lparr>ei_event_id = event_id, ei_session_id = session_id, ei_occurred_at = now,
                  ei_kind = ''session_deletion_requested'',
                  ei_causation_request_id = Some request_id, ei_attempt_id = None,
                  ei_effect_class = None, ei_payload = JNull\<rparr> sequence key_id encrypted d) (\<lambda>d.
     and_then (insert_deletion_journal
                 \<lparr>d_session_id = session_id, d_deletion_id = deletion_id,
                  d_request_id = request_id\<rparr> d) (\<lambda>d.
       Ok ((), update_session session_id (\<lambda>row. row\<lparr>s_state := ''deleting''\<rparr>) d)))))"

definition request_deletion ::
  "Externals \<Rightarrow> 'k KeyStore \<Rightarrow> (uuid \<Rightarrow> bytes) \<Rightarrow> uuid \<Rightarrow> uuid \<Rightarrow> uuid \<Rightarrow> uuid \<Rightarrow> time \<Rightarrow> string
     \<Rightarrow> 'k SqliteStorage \<Rightarrow> (StorageError + DeletionSummary) \<times> 'k SqliteStorage" where
  "request_deletion x ks nonces event_id session_id deletion_id request_id now actor st =
     (case replay_deletion_tombstone (db st) session_id request_id
             (canonical_hash x (deletion_parameters x session_id)) of
        Err e \<Rightarrow> (Err e, st)
      | Ok (Some summary) \<Rightarrow> (Ok summary, st)
      | Ok None \<Rightarrow>
          (case ensure_no_pending_export (db st) session_id of
             Err e \<Rightarrow> (Err e, st)
           | Ok _ \<Rightarrow>
               (case map_of (sessions (db st)) session_id of
                  None \<Rightarrow> (Err SessionNotFound, st)
                | Some row \<Rightarrow>
                    (if s_state row \<notin> {''completed'', ''failed'', ''cancelled'', ''abandoned'',
                                       ''deleting''}
                     then (Err (InvalidInput ''only terminal sessions may be deleted''), st)
                     else case find (\<lambda>j. d_session_id j = session_id) (deletion_journal (db st)) of
                       Some j \<Rightarrow>
                         (if d_request_id j \<noteq> request_id then (Err RequestConflict, st)
                          else finish_deletion x ks session_id st)
                     | None \<Rightarrow>
                         st_then (with_session_key x ks session_id (\<lambda>key_id key st.
                             commit (deletion_request_transaction x nonces event_id session_id
                               deletion_id request_id now actor key_id key (db st)) st) st)
                           (\<lambda>_ st. finish_deletion x ks session_id st)))))"

fun finish_deletions ::
  "Externals \<Rightarrow> 'k KeyStore \<Rightarrow> uuid list \<Rightarrow> 'k SqliteStorage
     \<Rightarrow> (StorageError + DeletionSummary list) \<times> 'k SqliteStorage" where
  "finish_deletions x ks [] st = (Ok [], st)"
| "finish_deletions x ks (session_id # rest) st =
     st_then (finish_deletion x ks session_id st) (\<lambda>summary st.
     st_then (finish_deletions x ks rest st) (\<lambda>summaries st. (Ok (summary # summaries), st)))"

definition resume_deletions ::
  "Externals \<Rightarrow> 'k KeyStore \<Rightarrow> 'k SqliteStorage
     \<Rightarrow> (StorageError + DeletionSummary list) \<times> 'k SqliteStorage" where
  "resume_deletions x ks st =
     finish_deletions x ks (sort (map d_session_id (deletion_journal (db st)))) st"

definition is_deleted :: "Db \<Rightarrow> uuid \<Rightarrow> bool" where
  "is_deleted d session_id \<longleftrightarrow> (\<exists>t \<in> set (deletion_tombstones d). t_session_id t = session_id)"

text \<open>The identifiers one retention deletion draws.\<close>

record RetentionIds =
  ret_event_id :: uuid
  ret_deletion_id :: uuid
  ret_request_id :: uuid

fun delete_sessions ::
  "Externals \<Rightarrow> 'k KeyStore \<Rightarrow> (uuid \<Rightarrow> bytes) \<Rightarrow> (uuid \<Rightarrow> RetentionIds) \<Rightarrow> time \<Rightarrow> uuid list
     \<Rightarrow> 'k SqliteStorage \<Rightarrow> (StorageError + DeletionSummary list) \<times> 'k SqliteStorage" where
  "delete_sessions x ks nonces ids now [] st = (Ok [], st)"
| "delete_sessions x ks nonces ids now (session_id # rest) st =
     st_then (request_deletion x ks nonces (ret_event_id (ids session_id)) session_id
                (ret_deletion_id (ids session_id)) (ret_request_id (ids session_id)) now
                ''retention'' st) (\<lambda>summary st.
     st_then (delete_sessions x ks nonces ids now rest st) (\<lambda>summaries st.
       (Ok (summary # summaries), st)))"

definition NANOS_PER_DAY :: int where
  "NANOS_PER_DAY = 86400 * 1000000000"

definition due_sessions :: "Db \<Rightarrow> time \<Rightarrow> uuid list" where
  "due_sessions d threshold =
     [i. (i, row) \<leftarrow> sort_key fst (sessions d),
         s_state row \<in> {''completed'', ''failed'', ''cancelled'', ''abandoned''},
         (case s_terminal_at row of Some t \<Rightarrow> t \<le> threshold | None \<Rightarrow> False)]"

definition run_retention ::
  "Externals \<Rightarrow> 'k KeyStore \<Rightarrow> (uuid \<Rightarrow> bytes) \<Rightarrow> (uuid \<Rightarrow> RetentionIds) \<Rightarrow> time \<Rightarrow> u32 option
     \<Rightarrow> 'k SqliteStorage \<Rightarrow> (StorageError + DeletionSummary list) \<times> 'k SqliteStorage" where
  "run_retention x ks nonces ids now retention_days st =
     (case retention_days of
        None \<Rightarrow> (Ok [], st)
      | Some days \<Rightarrow>
          (if days = 0 then (Err (InvalidInput ''retention must be at least one day''), st)
           else delete_sessions x ks nonces ids now
                  (due_sessions (db st) (now - int (unat days) * NANOS_PER_DAY)) st))"

end
