(* ===== verification/Storage_Inv.thy ===== *)
theory Storage_Inv
  imports Storage
begin

text \<open>
  The invariant of the session store and its preservation by every operation of
  \<open>Storage\<close>, whatever an operation returns: each session's events carry the sequence numbers
  1, 2, 3, ... in the order they were written, every event belongs to an existing session, no two
  events break a unique index, and keys of the other tables are unique.
\<close>

declare upt_Suc [simp del]

definition db_inv :: "Db \<Rightarrow> bool" where
  "db_inv d \<longleftrightarrow>
     distinct (map fst (sessions d)) \<and>
     (\<forall>r \<in> set (session_events d). r_session_id r \<in> fst ` set (sessions d)) \<and>
     (\<forall>sid. map r_sequence (session_rows d sid) = [1..<Suc (length (session_rows d sid))]) \<and>
     sorted_wrt (\<lambda>old new. \<not> event_conflicts new old) (session_events d) \<and>
     (\<forall>r \<in> set (session_events d). length (ep_nonce (r_payload r)) = 24) \<and>
     distinct (map (\<lambda>c. (c_scope c, c_request_id c)) (command_outcomes d)) \<and>
     distinct (map j_session_id (session_creation_journal d)) \<and>
     distinct (map d_session_id (deletion_journal d)) \<and>
     distinct (map t_session_id (deletion_tombstones d))"

lemma db_inv_empty: "db_inv empty_db"
  by (simp add: db_inv_def empty_db_def session_rows_def)

section \<open>Statements\<close>

lemma session_rows_simps [simp]:
  "session_rows (d\<lparr>sessions := s\<rparr>) = session_rows d"
  "session_rows (d\<lparr>command_outcomes := c\<rparr>) = session_rows d"
  "session_rows (d\<lparr>session_creation_journal := j\<rparr>) = session_rows d"
  "session_rows (d\<lparr>deletion_journal := dj\<rparr>) = session_rows d"
  "session_rows (d\<lparr>export_journal := e\<rparr>) = session_rows d"
  "session_rows (d\<lparr>deletion_tombstones := t\<rparr>) = session_rows d"
  by (simp_all add: session_rows_def fun_eq_iff)

lemma session_rows_snoc:
  "session_rows (d\<lparr>session_events := session_events d @ [r]\<rparr>) sid =
     session_rows d sid @ (if r_session_id r = sid then [r] else [])"
  by (simp add: session_rows_def)

lemma foldr_max_upt: "foldr max [1..<Suc n] (m::nat) = max n m"
proof (induction n arbitrary: m)
  case 0
  then show ?case by simp
next
  case (Suc n)
  have "foldr max [1..<Suc (Suc n)] m = foldr max [1..<Suc n] (max (Suc n) m)"
    by (simp add: upt_Suc)
  with Suc show ?case by simp
qed

lemma next_sequence_inv:
  assumes "db_inv d"
  shows "next_sequence d sid =
     (if Suc (length (session_rows d sid)) < 2 ^ 63 then Ok (Suc (length (session_rows d sid)))
      else Err StorageUnavailable)"
proof -
  have "map r_sequence (session_rows d sid) = [1..<Suc (length (session_rows d sid))]"
    using assms by (simp add: db_inv_def)
  then show ?thesis
    using foldr_max_upt [of "length (session_rows d sid)" 0] by (simp add: next_sequence_def Let_def)
qed

lemma insert_event_Ok:
  "insert_event input sequence key_id encrypted d = Ok d' \<Longrightarrow>
     \<exists>row. d' = d\<lparr>session_events := session_events d @ [row]\<rparr> \<and>
       r_session_id row = ei_session_id input \<and> r_sequence row = sequence \<and>
       r_kind row = ei_kind input \<and> r_attempt_id row = ei_attempt_id input \<and>
       r_payload row = encrypted \<and> r_event_id row = ei_event_id input \<and>
       ei_session_id input \<in> fst ` set (sessions d) \<and> length (ep_nonce encrypted) = 24 \<and>
       (\<forall>old \<in> set (session_events d). \<not> event_conflicts row old) \<and> sequence < 2 ^ 63"
  by (auto simp: insert_event_def Let_def map_of_eq_None_iff simp flip: not_None_eq split: if_splits)

lemma insert_event_inv:
  assumes "db_inv d" "insert_event input sequence key_id encrypted d = Ok d'"
    and "sequence = Suc (length (session_rows d (ei_session_id input)))"
  shows "db_inv d'"
proof -
  from insert_event_Ok [OF assms(2)] obtain row where
    row: "d' = d\<lparr>session_events := session_events d @ [row]\<rparr>"
      "r_session_id row = ei_session_id input" "r_sequence row = sequence"
      "ei_session_id input \<in> fst ` set (sessions d)" "length (ep_nonce (r_payload row)) = 24"
      "\<forall>old \<in> set (session_events d). \<not> event_conflicts row old" by auto
  have "map r_sequence (session_rows d' sid) = [1..<Suc (length (session_rows d' sid))]" for sid
    using assms(1,3) row by (auto simp: db_inv_def session_rows_snoc upt_Suc_append)
  with assms(1) row show ?thesis by (auto simp: db_inv_def sorted_wrt_append)
qed

lemma map_of_update_session:
  "map_of (sessions (update_session i f d)) =
     (map_of (sessions d))(i := map_option f (map_of (sessions d) i))"
proof -
  have "map_of (map (\<lambda>(j, row). (j, if j = i then f row else row)) xs) =
      (map_of xs)(i := map_option f (map_of xs i))" for xs
    by (induction xs) auto
  then show ?thesis by (simp add: update_session_def)
qed

lemma update_session_frame [simp]:
  "map fst (sessions (update_session i f d)) = map fst (sessions d)"
  "session_events (update_session i f d) = session_events d"
  "session_rows (update_session i f d) = session_rows d"
  "command_outcomes (update_session i f d) = command_outcomes d"
  "session_creation_journal (update_session i f d) = session_creation_journal d"
  "export_journal (update_session i f d) = export_journal d"
  "deletion_journal (update_session i f d) = deletion_journal d"
  "deletion_tombstones (update_session i f d) = deletion_tombstones d"
  by (simp_all add: update_session_def case_prod_beta comp_def)

lemma update_session_inv [simp]: "db_inv d \<Longrightarrow> db_inv (update_session i f d)"
  by (simp add: db_inv_def flip: set_map)

lemma insert_command_inv: "insert_command c d = Ok d' \<Longrightarrow> db_inv d \<Longrightarrow> db_inv d'"
  by (auto simp: insert_command_def db_inv_def find_None_iff split: if_splits) metis

lemma insert_port_command_inv:
  "insert_port_command x sid rid r d = Ok d' \<Longrightarrow> db_inv d \<Longrightarrow> db_inv d'"
  unfolding insert_port_command_def by (rule insert_command_inv)

lemma apply_state_cases:
  "apply_state input d = d \<or> (\<exists>f. apply_state input d = update_session (ei_session_id input) f d)"
  unfolding apply_state_def Let_def by (auto split: option.splits)

lemma apply_state_inv [simp]: "db_inv d \<Longrightarrow> db_inv (apply_state input d)"
  using apply_state_cases [of input d] by auto

lemma apply_state_frame [simp]:
  "fst ` set (sessions (apply_state input d)) = fst ` set (sessions d)"
  "session_events (apply_state input d) = session_events d"
  "session_rows (apply_state input d) = session_rows d"
  "command_outcomes (apply_state input d) = command_outcomes d"
  "session_creation_journal (apply_state input d) = session_creation_journal d"
  "export_journal (apply_state input d) = export_journal d"
  "deletion_journal (apply_state input d) = deletion_journal d"
  "deletion_tombstones (apply_state input d) = deletion_tombstones d"
  using apply_state_cases [of input d] by (auto simp flip: set_map)

lemma append_in_transaction_Ok:
  assumes "append_event_in_transaction x nonces input key_id key d = Ok (p, d')" "db_inv d"
  obtains encrypted d1 where
    "encrypt_json x (nonces (ei_event_id input)) key (ei_session_id input)
       (uuid_text x (ei_event_id input)) (Suc (length (session_rows d (ei_session_id input))))
       (ei_kind input) (ei_payload input) = Ok encrypted"
    "insert_event input (Suc (length (session_rows d (ei_session_id input)))) key_id encrypted d = Ok d1"
    "d' = apply_state input d1"
    "p = stored_event input (Suc (length (session_rows d (ei_session_id input))))"
  using assms
  by (auto simp: append_event_in_transaction_def next_sequence_inv split: if_splits)

lemma append_in_transaction_inv:
  assumes "append_event_in_transaction x nonces input key_id key d = Ok (p, d')" "db_inv d"
  shows "db_inv d'"
  by (rule append_in_transaction_Ok [OF assms]) (use assms(2) in \<open>auto dest: insert_event_inv\<close>)

lemma append_all_inv:
  "append_all x nonces events key_id key d = Ok (ps, d') \<Longrightarrow> db_inv d \<Longrightarrow> db_inv d'"
  by (induction events arbitrary: d ps) (fastforce dest: append_in_transaction_inv)+

lemma delete_export_inv [simp]: "db_inv (d\<lparr>export_journal := e\<rparr>) = db_inv d"
  by (simp add: db_inv_def)

lemma sessions_update_inv:
  "db_inv d \<Longrightarrow> insert_session sid row d = Ok d' \<Longrightarrow> db_inv d' \<and> session_rows d' sid = []"
  by (auto simp: insert_session_def db_inv_def session_rows_def filter_empty_conv map_of_eq_None_iff
      split: if_splits)

lemma creation_journal_inv:
  "db_inv d \<Longrightarrow> insert_creation_journal j d = Ok d' \<Longrightarrow> db_inv d'"
  by (auto simp: insert_creation_journal_def db_inv_def split: if_splits) metis

lemma journal_sub_inv:
  "db_inv d \<Longrightarrow> distinct (map j_session_id js) \<Longrightarrow> db_inv (d\<lparr>session_creation_journal := js\<rparr>)"
  by (simp add: db_inv_def)

lemma distinct_map_filter: "distinct (map f xs) \<Longrightarrow> distinct (map f (filter P xs))"
  by (induction xs) auto

lemma journal_filter_inv:
  "db_inv d \<Longrightarrow>
     db_inv (d\<lparr>session_creation_journal := filter P (session_creation_journal d)\<rparr>)"
  by (auto intro!: journal_sub_inv distinct_map_filter simp: db_inv_def)

lemma creation_transaction_inv:
  assumes "creation_transaction x input f h key_id configuration lock event d = Ok (v, d')" "db_inv d"
  shows "db_inv d'"
proof -
  from assms(1) obtain d1 d2 d3 row P e c where
      s: "insert_session (cs_session_id input) row d = Ok d1"
      and e: "insert_event e 1 key_id event d1 = Ok d2" "ei_session_id e = cs_session_id input"
      and c: "insert_command c d2 = Ok d3"
      and d': "d' = d3\<lparr>session_creation_journal := filter P (session_creation_journal d3)\<rparr>"
    by (auto simp: creation_transaction_def Let_def split: if_splits)
  from sessions_update_inv [OF assms(2) s] have "db_inv d1" "session_rows d1 (cs_session_id input) = []"
    by auto
  with e have "db_inv d2" by (auto intro: insert_event_inv)
  with c have "db_inv d3" by (auto intro: insert_command_inv)
  then show ?thesis unfolding d' by (rule journal_filter_inv)
qed

lemma map_session_id_marked:
  "map (j_session_id \<circ> (\<lambda>j. if P j then j\<lparr>j_state := v\<rparr> else j)) js = map j_session_id js"
  by (rule map_cong) simp_all

lemma filter_rows:
  "filter (\<lambda>r. r_session_id r \<noteq> sid \<and> r_session_id r = i) rows =
     (if i = sid then [] else filter (\<lambda>r. r_session_id r = i) rows)"
  by (induction rows) auto

lemma sorted_wrt_filtered: "sorted_wrt P xs \<Longrightarrow> sorted_wrt P (filter Q xs)"
  by (induction xs) auto

lemma deletion_transaction_inv:
  assumes "deletion_transaction x sid did rid d = Ok (u, d')" "db_inv d"
  shows "db_inv d'"
proof -
  have rows: "session_rows d' i = (if i = sid then [] else session_rows d i)" for i
    using assms(1)
    by (auto simp: deletion_transaction_def Let_def session_rows_def filter_rows split: if_splits)
  have seqs: "map r_sequence (session_rows d' i) = [1..<Suc (length (session_rows d' i))]" for i
    using assms(2) by (simp add: rows db_inv_def)
  have kept: "r_session_id r \<in> fst ` set (filter (\<lambda>(i, _). i \<noteq> sid) (sessions d))"
    if "r \<in> set (session_events d)" "r_session_id r \<noteq> sid" for r
    using assms(2) that by (force simp: db_inv_def)
  from assms show ?thesis
    unfolding db_inv_def
    by (intro conjI; (intro allI seqs)?)
       (use kept in \<open>auto simp: deletion_transaction_def Let_def distinct_map_filter
          sorted_wrt_filtered split: if_splits\<close>)
qed

lemma deletion_request_transaction_inv:
  assumes "deletion_request_transaction x nonces eid sid did rid now actor kid key d = Ok (u, d')"
    and "db_inv d"
  shows "db_inv d'"
proof -
  from assms obtain sequence encrypted d1 d2 j e f where
      seq: "next_sequence d sid = Ok sequence"
      and e: "insert_event e sequence kid encrypted d = Ok d1" "ei_session_id e = sid"
      and d': "insert_deletion_journal j d1 = Ok d2" "d' = update_session sid f d2"
    by (fastforce simp: deletion_request_transaction_def)
  have "sequence = Suc (length (session_rows d (ei_session_id e)))"
    using seq e(2) assms(2) by (simp add: next_sequence_inv split: if_splits)
  with insert_event_inv [OF assms(2) e(1)] have "db_inv d1" by simp
  with d'(1) have "db_inv d2"
    by (force simp: insert_deletion_journal_def db_inv_def session_rows_def split: if_splits)
  then show ?thesis by (simp add: d'(2) update_session_inv)
qed

lemma journal_marked_inv:
  "db_inv d \<Longrightarrow> db_inv (d\<lparr>session_creation_journal :=
     map (\<lambda>j. if Q j then j\<lparr>j_state := v\<rparr> else j) (session_creation_journal d)\<rparr>)"
  by (auto intro!: journal_sub_inv simp: db_inv_def map_session_id_marked)

section \<open>Properties of the database that operations preserve\<close>

text \<open>The transactions and statements below are all the writes there are: a property they preserve
  is preserved by every operation, whatever it returns. Deleting sessions is kept apart, as some
  properties hold only of sessions that are not deleted.\<close>

locale store_property =
  fixes P :: "Db \<Rightarrow> bool"
begin

definition keeps :: "('k SqliteStorage \<Rightarrow> 'r \<times> 'k SqliteStorage) \<Rightarrow> bool" where
  "keeps f \<longleftrightarrow> (\<forall>st. P (db st) \<longrightarrow> P (db (snd (f st))))"

lemma keepsD: "keeps f \<Longrightarrow> P (db st) \<Longrightarrow> P (db (snd (f st)))"
  by (simp add: keeps_def)

lemma commit_P:
  "P (db st) \<Longrightarrow> (\<And>a d. r = Ok (a, d) \<Longrightarrow> P d) \<Longrightarrow> P (db (snd (commit r st)))"
  by (auto simp: commit_def split: sum.splits)

lemma with_session_key_P:
  assumes "P (db st)" "\<And>key_id key st'. db st' = db st \<Longrightarrow> P (db (snd (body key_id key st')))"
  shows "P (db (snd (with_session_key x ks sid body st)))"
  using assms by (auto simp: with_session_key_def split: sum.splits prod.splits)

lemma st_then_P:
  assumes "P (db (snd r))" "\<And>a st. P (db st) \<Longrightarrow> P (db (snd (k a st)))"
  shows "P (db (snd (st_then r k)))"
  using assms by (cases r; cases "fst r") auto

end

locale written = store_property +
  assumes append_P: "append_event_in_transaction x nonces input key_id key d = Ok (p, d') \<Longrightarrow> P d \<Longrightarrow> P d'"
    and command_P: "insert_command c d = Ok d' \<Longrightarrow> P d \<Longrightarrow> P d'"
    and session_P: "P d \<Longrightarrow> P (update_session i g d)"
    and export_P: "P d \<Longrightarrow> P (d\<lparr>export_journal := exports\<rparr>)"
    and journal_insert_P: "P d \<Longrightarrow> insert_creation_journal j d = Ok d' \<Longrightarrow> P d'"
    and journal_marked_P: "P d \<Longrightarrow> P (d\<lparr>session_creation_journal :=
      map (\<lambda>j. if Q j then j\<lparr>j_state := v\<rparr> else j) (session_creation_journal d)\<rparr>)"
    and journal_filter_P: "P d \<Longrightarrow>
      P (d\<lparr>session_creation_journal := filter Q (session_creation_journal d)\<rparr>)"
    and creation_P: "creation_transaction x cs fresh h key_id configuration lock event d = Ok (out, d') \<Longrightarrow>
      P d \<Longrightarrow> P d'"
begin

lemma port_command_P: "insert_port_command x sid rid r d = Ok d' \<Longrightarrow> P d \<Longrightarrow> P d'"
  unfolding insert_port_command_def by (rule command_P)

lemma append_all_P: "append_all x nonces events key_id key d = Ok (ps, d') \<Longrightarrow> P d \<Longrightarrow> P d'"
  by (induction events arbitrary: d ps) (fastforce dest: append_P)+

lemma mark_creation_P: "P (db st) \<Longrightarrow> P (db (snd (mark_creation_key_created input h key_id st)))"
  unfolding mark_creation_key_created_def Let_def by (simp add: journal_marked_P)

lemma store_spend_P: "P d \<Longrightarrow> P (snd (store_session_spend_usd_micros sid v d))"
  by (simp add: store_session_spend_usd_micros_def session_P)

lemma append_event_keeps: "keeps (append_event x ks nonces input)"
  unfolding keeps_def append_event_def
  by (auto intro!: with_session_key_P commit_P dest: append_P)

lemma append_events_keeps: "keeps (append_events x ks nonces events)"
  unfolding keeps_def append_events_def
  by (auto intro!: with_session_key_P commit_P simp del: append_all.simps
      dest: append_all_P split: list.splits)

lemma replay_keeps: "keeps (replay x ks sid cursor)"
  by (auto simp: keeps_def replay_def split: prod.splits sum.splits)

lemma commit_port_command_keeps: "keeps (commit_port_command x ks nonces rid r input)"
  unfolding keeps_def commit_port_command_def
  by (auto intro!: with_session_key_P commit_P
      split: sum.splits option.splits)
    (blast dest: append_P port_command_P)+

lemma record_command_outcome_keeps: "keeps (record_command_outcome x scope rid sid m ps v)"
  unfolding keeps_def record_command_outcome_def Let_def
  by (auto intro!: commit_P dest: command_P split: sum.splits option.splits)

lemma commit_command_events_keeps: "keeps (commit_command_events x ks nonces rid m ps v events)"
  unfolding keeps_def commit_command_events_def Let_def
  by (auto intro!: with_session_key_P commit_P simp del: append_all.simps
      split: sum.splits option.splits list.splits)
    (blast dest: append_all_P port_command_P)+

lemma commit_command_event_keeps: "keeps (commit_command_event x ks nonces rid m ps v event)"
  unfolding keeps_def commit_command_event_def
  by (auto intro!: st_then_P keepsD [OF commit_command_events_keeps]
      split: CommandEventsOutcome.splits)

lemma record_port_command_keeps: "keeps (record_port_command x sid rid r)"
  unfolding keeps_def record_port_command_def
  by (auto intro!: commit_P dest: port_command_P split: sum.splits option.splits)

lemma commit_export_command_keeps: "keeps (commit_export_command x ks nonces eid rid h v event)"
  unfolding keeps_def commit_export_command_def Let_def
  by (auto intro!: with_session_key_P commit_P split: sum.splits option.splits if_splits)
    (blast intro: export_P dest: append_P port_command_P)+

lemma finish_create_session_keeps: "keeps (finish_create_session x ks f input h kid)"
  unfolding keeps_def finish_create_session_def
  by (auto intro!: st_then_P commit_P mark_creation_P
      dest: creation_P split: prod.splits sum.splits)

lemma reconcile_creation_keeps: "keeps (reconcile_creation x ks j)"
  unfolding keeps_def reconcile_creation_def Let_def
  by (auto intro!: st_then_P journal_filter_P split: option.splits prod.splits)

lemma reconcile_by_request_keeps: "keeps (reconcile_creation_by_request x ks rid)"
  unfolding keeps_def reconcile_creation_by_request_def
  by (auto intro!: keepsD [OF reconcile_creation_keeps] split: option.splits)

lemma reconcile_create_retry_keeps: "keeps (reconcile_create_retry x ks sid rid h)"
  unfolding keeps_def reconcile_create_retry_def
  by (auto intro!: st_then_P keepsD [OF reconcile_creation_keeps] split: option.splits)

lemma create_session_keeps: "keeps (create_session x ks f input)"
proof -
  have step: "P (db (snd (case finish_create_session x ks f input h kid (st\<lparr>db := d\<rparr>) of
         (Ok v, st) \<Rightarrow> (Ok v, st)
       | (Err e, st) \<Rightarrow> (Err e, snd (reconcile_creation_by_request x ks rid st)))))"
    if "P d" for st d h kid rid
    using keepsD [OF finish_create_session_keeps, of "st\<lparr>db := d\<rparr>" x ks f input h kid] that
      keepsD [OF reconcile_by_request_keeps]
    by (auto split: prod.splits sum.splits)
  show ?thesis
    unfolding keeps_def create_session_def Let_def
    by (auto intro!: st_then_P keepsD [OF reconcile_create_retry_keeps] step
        dest: journal_insert_P split: option.splits sum.splits)
qed

lemma reconcile_journals_keeps: "keeps (reconcile_journals x ks js)"
proof (induction js)
  case (Cons j js)
  then show ?case
    using keepsD [OF reconcile_creation_keeps] by (auto simp: keeps_def intro!: st_then_P)
qed (simp add: keeps_def)

lemma resume_creations_keeps: "keeps (resume_session_creations x ks)"
  unfolding keeps_def resume_session_creations_def Let_def
  by (auto intro!: st_then_P keepsD [OF reconcile_journals_keeps])

lemma load_session_keeps: "keeps (load_session x ks sid)"
  by (auto simp: keeps_def load_session_def split: option.splits prod.splits sum.splits)

lemma recover_attempts_keeps: "keeps (recover_attempts x ks nonces fresh now attempts)"
proof (induction attempts)
  case (Cons a attempts)
  then show ?case
    using keepsD [OF append_event_keeps] by (auto simp: keeps_def intro!: st_then_P)
qed (simp add: keeps_def)

lemma recover_keeps: "keeps (recover_uncertain_attempts x ks nonces fresh now)"
  unfolding keeps_def recover_uncertain_attempts_def by (auto intro!: keepsD [OF recover_attempts_keeps])

lemmas write_keeps =
  append_event_keeps append_events_keeps replay_keeps commit_port_command_keeps
  record_command_outcome_keeps commit_command_events_keeps commit_command_event_keeps
  record_port_command_keeps commit_export_command_keeps create_session_keeps
  resume_creations_keeps load_session_keeps recover_keeps

end

locale deleted_from = store_property +
  assumes deletion_request_P:
      "deletion_request_transaction x nonces eid sid did rid now actor kid key d = Ok (u, d') \<Longrightarrow>
        P d \<Longrightarrow> P d'"
    and deletion_P: "deletion_transaction x sid did rid d = Ok (u, d') \<Longrightarrow> P d \<Longrightarrow> P d'"
begin

lemma finish_deletion_keeps: "keeps (finish_deletion x ks sid)"
  unfolding keeps_def finish_deletion_def
  by (auto intro!: st_then_P commit_P dest: deletion_P
      split: sum.splits option.splits prod.splits)

lemma request_deletion_keeps: "keeps (request_deletion x ks nonces eid sid did rid now actor)"
  unfolding keeps_def request_deletion_def
  by (auto intro!: st_then_P with_session_key_P commit_P keepsD [OF finish_deletion_keeps]
      dest: deletion_request_P split: sum.splits option.splits)

lemma finish_deletions_keeps: "keeps (finish_deletions x ks sids)"
proof (induction sids)
  case (Cons i sids)
  then show ?case
    using keepsD [OF finish_deletion_keeps] by (auto simp: keeps_def intro!: st_then_P)
qed (simp add: keeps_def)

lemma resume_deletions_keeps: "keeps (resume_deletions x ks)"
  unfolding keeps_def resume_deletions_def by (auto intro!: keepsD [OF finish_deletions_keeps])

lemma delete_sessions_keeps: "keeps (delete_sessions x ks nonces ids now sids)"
proof (induction sids)
  case (Cons i sids)
  then show ?case
    using keepsD [OF request_deletion_keeps] by (auto simp: keeps_def intro!: st_then_P)
qed (simp add: keeps_def)

lemma run_retention_keeps: "keeps (run_retention x ks nonces ids now days)"
  unfolding keeps_def run_retention_def
  by (auto intro!: keepsD [OF delete_sessions_keeps] split: option.splits)

lemmas deletion_keeps = request_deletion_keeps resume_deletions_keeps run_retention_keeps

end

section \<open>The invariant\<close>

interpretation store: store_property db_inv .

interpretation writing: written db_inv
  by unfold_locales
     (auto intro: append_in_transaction_inv insert_command_inv creation_journal_inv
       journal_marked_inv journal_filter_inv creation_transaction_inv)

interpretation deleting: deleted_from db_inv
  by unfold_locales (auto intro: deletion_request_transaction_inv deletion_transaction_inv)

section \<open>Every history of calls\<close>

text \<open>One call of the storage interface, whatever it returns: one that writes or only reads, and
  one that deletes sessions.\<close>

inductive write_call ::
  "Externals \<Rightarrow> 'k KeyStore \<Rightarrow> 'k SqliteStorage \<Rightarrow> 'k SqliteStorage \<Rightarrow> bool" for x ks where
  "write_call x ks st (snd (create_session x ks f input st))"
| "write_call x ks st (snd (resume_session_creations x ks st))"
| "write_call x ks st (snd (append_event x ks nonces event st))"
| "write_call x ks st (snd (append_events x ks nonces events st))"
| "write_call x ks st (snd (replay x ks sid cursor st))"
| "write_call x ks st (snd (load_session x ks sid st))"
| "write_call x ks st (st\<lparr>db := snd (store_session_spend_usd_micros sid v (db st))\<rparr>)"
| "write_call x ks st (snd (commit_port_command x ks nonces rid r event st))"
| "write_call x ks st (snd (record_port_command x scope_sid rid r st))"
| "write_call x ks st (snd (record_command_outcome x scope rid scope_sid m ps out st))"
| "write_call x ks st (snd (commit_command_event x ks nonces rid m ps out event st))"
| "write_call x ks st (snd (commit_command_events x ks nonces rid m ps out events st))"
| "write_call x ks st (snd (commit_export_command x ks nonces eid rid h out event st))"
| "write_call x ks st (snd (recover_uncertain_attempts x ks nonces fresh now st))"

inductive deletion_call ::
  "Externals \<Rightarrow> 'k KeyStore \<Rightarrow> 'k SqliteStorage \<Rightarrow> 'k SqliteStorage \<Rightarrow> bool" for x ks where
  "deletion_call x ks st (snd (request_deletion x ks nonces eid sid did rid now actor st))"
| "deletion_call x ks st (snd (resume_deletions x ks st))"
| "deletion_call x ks st (snd (run_retention x ks nonces ids now days st))"

definition storage_call ::
  "Externals \<Rightarrow> 'k KeyStore \<Rightarrow> 'k SqliteStorage \<Rightarrow> 'k SqliteStorage \<Rightarrow> bool" where
  "storage_call x ks st st' \<longleftrightarrow> write_call x ks st st' \<or> deletion_call x ks st st'"

context written
begin

lemma write_call_P: "write_call x ks st st' \<Longrightarrow> P (db st) \<Longrightarrow> P (db st')"
  by (induction rule: write_call.induct) (auto intro: write_keeps [THEN keepsD] store_spend_P)

end

context deleted_from
begin

lemma deletion_call_P: "deletion_call x ks st st' \<Longrightarrow> P (db st) \<Longrightarrow> P (db st')"
  by (induction rule: deletion_call.induct) (auto intro: deletion_keeps [THEN keepsD])

end

lemma storage_call_inv [inv_intros]: "storage_call x ks st st' \<Longrightarrow> db_inv (db st) \<Longrightarrow> db_inv (db st')"
  using writing.write_call_P deleting.deletion_call_P by (auto simp: storage_call_def)

lemma storage_calls_inv: "(storage_call x ks)\<^sup>*\<^sup>* st st' \<Longrightarrow> db_inv (db st) \<Longrightarrow> db_inv (db st')"
  by (induction rule: rtranclp_induct) (auto dest: storage_call_inv)

end
