(* ===== verification/Event_Log.thy ===== *)
theory Event_Log
  imports Storage_Inv Reference "HOL-Library.Sublist"
begin

text \<open>
  The session log as its readers see it: what \<open>replay\<close> returns before and after the operations that
  append events. A cursor resumes a log without loss or repetition; an append adds exactly the
  events it returns, with the next sequence numbers; a failed operation changes nothing.
\<close>

declare upt_Suc [simp del]

section \<open>Session keys while the store is only read\<close>

lemma session_key_cases:
  "session_key x ks sid m = (r, m') \<Longrightarrow>
     m' = m \<or> (\<exists>key. r = Ok key \<and> unwrap_session_key x ks sid m = Ok key \<and> km_cache m sid = None \<and>
                 m' = m\<lparr>km_cache := (km_cache m)(sid \<mapsto> key)\<rparr>)"
  by (cases "unwrap_session_key x ks sid m") (auto simp: session_key_def split: option.splits)

lemma unwrap_cache [simp]:
  "unwrap_session_key x ks sid (m\<lparr>km_cache := c\<rparr>) = unwrap_session_key x ks sid m"
  by (simp add: unwrap_session_key_def session_key_id_def root_keys_def Let_def cong: if_cong)

text \<open>Looking a key up changes no later answer.\<close>

lemma session_key_stable:
  "session_key x ks sid m = (r, m') \<Longrightarrow> fst (session_key x ks j m') = fst (session_key x ks j m)"
  by (drule session_key_cases, cases "j = sid")
     (auto simp: session_key_def split: option.splits sum.splits)

section \<open>Reading rows\<close>

lemma filter_sequence_drop:
  assumes "map f xs = [Suc 0..<Suc (length xs)]"
  shows "filter (\<lambda>r. n < f r) xs = drop n xs"
  using assms
proof (induction xs rule: rev_induct)
  case Nil
  then show ?case by simp
next
  case (snoc r xs)
  then have "map f xs = [Suc 0..<Suc (length xs)]" "f r = Suc (length xs)"
    by (simp_all add: upt_Suc_append)
  with snoc.IH show ?case by simp
qed

lemma sorted_sequence:
  assumes "map f xs = [Suc 0..<Suc (length xs)]"
  shows "sort_key f (drop n xs) = drop n xs"
proof (rule sort_key_id_if_sorted)
  have "map f (drop n xs) = drop n [Suc 0..<Suc (length xs)]" by (simp only: assms flip: drop_map)
  then show "sorted (map f (drop n xs))" by (simp add: sorted_wrt_drop)
qed

lemma rows_after:
  assumes "db_inv d"
  shows "sort_key r_sequence (filter (\<lambda>r. n < r_sequence r) (session_rows d sid)) =
    drop n (session_rows d sid)"
proof -
  have "map r_sequence (session_rows d sid) = [Suc 0..<Suc (length (session_rows d sid))]"
    using assms by (simp add: db_inv_def)
  then show ?thesis by (simp add: filter_sequence_drop sorted_sequence)
qed

lemma replay_result:
  assumes "db_inv (db st)"
  shows "fst (replay x ks sid cursor st) =
    (if unat cursor \<ge> 2 ^ 63 then Err (InvalidInput ''cursor exceeds SQLite range'')
     else and_then (fst (session_key x ks sid (km st))) (\<lambda>key.
       try_map (decrypt_event x key sid) (drop (unat cursor) (session_rows (db st) sid))))"
  using rows_after [OF assms, of "unat cursor" sid]
  by (auto simp: replay_def split: prod.splits sum.splits)

text \<open>The whole log of a session.\<close>

definition event_log ::
  "Externals \<Rightarrow> 'k KeyStore \<Rightarrow> 'k SqliteStorage \<Rightarrow> uuid \<Rightarrow> StorageError + StoredEvent list" where
  "event_log x ks st sid = fst (replay x ks sid 0 st)"

lemma event_log_rows:
  "db_inv (db st) \<Longrightarrow> event_log x ks st sid =
     and_then (fst (session_key x ks sid (km st))) (\<lambda>key.
       try_map (decrypt_event x key sid) (session_rows (db st) sid))"
  by (simp add: event_log_def replay_result)

lemma try_map_append:
  "try_map f (xs @ ys) = and_then (try_map f xs) (\<lambda>us. and_then (try_map f ys) (\<lambda>vs. Ok (us @ vs)))"
proof (induction xs)
  case Nil
  then show ?case by (cases "try_map f ys") simp_all
next
  case (Cons a xs)
  then show ?case by (cases "f a"; cases "try_map f xs"; cases "try_map f ys") simp_all
qed

lemma try_map_drop: "try_map f xs = Ok ys \<Longrightarrow> try_map f (drop n xs) = Ok (drop n ys)"
  by (simp add: try_map_Ok_iff list_all2_dropI)

lemma replay_drop:
  assumes "db_inv (db st)" "event_log x ks st sid = Ok evs" "unat cursor < 2 ^ 63"
  shows "fst (replay x ks sid cursor st) = Ok (drop (unat cursor) evs)"
  using assms try_map_drop
  by (fastforce simp: replay_result event_log_rows and_then_Ok_iff)

lemma decrypt_event_fields:
  "decrypt_event x key sid row = Ok e \<Longrightarrow>
     se_event_id e = r_event_id row \<and> se_session_id e = sid \<and> se_sequence e = of_nat (r_sequence row) \<and>
     se_kind e = r_kind row \<and> se_attempt_id e = r_attempt_id row"
  by (auto simp: decrypt_event_def and_then_Ok_iff)

section \<open>Appending\<close>

text \<open>The JSON text of a value reads back as that value.\<close>

definition text_exact :: "Externals \<Rightarrow> json \<Rightarrow> bool" where
  "text_exact x v \<longleftrightarrow> json_from_slice x (json_to_vec x v) = Some v"

lemma text_exact_json: "externals_ok x \<Longrightarrow> json_exact v \<Longrightarrow> text_exact x v"
  by (simp add: text_exact_def externals_okD)

lemma append_in_transaction_row:
  assumes x: "externals_ok x" and exact: "text_exact x (ei_payload input)" and inv: "db_inv d"
    and run: "append_event_in_transaction x nonces input key_id key d = Ok (p, d')"
  obtains row where "session_events d' = session_events d @ [row]"
    "r_session_id row = ei_session_id input"
    "decrypt_event x key (ei_session_id input) row = Ok p"
    "p = stored_event input (Suc (length (session_rows d (ei_session_id input))))"
    "Suc (length (session_rows d (ei_session_id input))) < 2 ^ 63"
proof -
  let ?n = "Suc (length (session_rows d (ei_session_id input)))"
  from append_in_transaction_Ok [OF run inv] obtain encrypted d1 where
    enc: "encrypt_json x (nonces (ei_event_id input)) key (ei_session_id input)
        (uuid_text x (ei_event_id input)) ?n (ei_kind input) (ei_payload input) = Ok encrypted"
    and ins: "insert_event input ?n key_id encrypted d = Ok d1"
    and d': "d' = apply_state input d1" and p: "p = stored_event input ?n" .
  let ?row = "\<lparr>r_event_id = ei_event_id input, r_session_id = ei_session_id input,
      r_sequence = ?n, r_occurred_at = ei_occurred_at input, r_kind = ei_kind input,
      r_causation_request_id = ei_causation_request_id input, r_attempt_id = ei_attempt_id input,
      r_effect_class = ei_effect_class input, r_key_id = key_id, r_payload = encrypted\<rparr>"
  from ins have d1: "d1 = d\<lparr>session_events := session_events d @ [?row]\<rparr>"
    and n: "length (ep_nonce encrypted) = 24" and bound: "?n < 2 ^ 63"
    by (auto simp: insert_event_def Let_def split: if_splits)
  have "EncryptedPayload_decrypt x encrypted key
      (event_aad x (ei_session_id input) (uuid_text x (ei_event_id input)) ?n (ei_kind input))
      = Ok (json_to_vec x (ei_payload input))"
    using enc n by (intro decrypt_encrypt [OF x])
      (auto simp: encrypt_json_def encrypt_Ok NONCE_BYTES_def)
  then have "decrypt_event x key (ei_session_id input) ?row = Ok p"
    using exact by (simp add: decrypt_event_def p stored_event_def text_exact_def)
  then show thesis by (rule that [rotated 2]) (use d' d1 p bound in auto)
qed

text \<open>A batch: the rows it adds, and that they read back as what it returned.\<close>

lemma append_all_rows:
  assumes x: "externals_ok x"
  shows "append_all x nonces events key_id key d = Ok (ps, d') \<Longrightarrow> db_inv d \<Longrightarrow>
     \<forall>e \<in> set events. ei_session_id e = sid \<and> text_exact x (ei_payload e) \<Longrightarrow>
     \<exists>rows. session_events d' = session_events d @ rows \<and> length rows = length events \<and>
       (\<forall>r \<in> set rows. r_session_id r = sid) \<and> try_map (decrypt_event x key sid) rows = Ok ps"
proof (induction events arbitrary: d ps)
  case Nil
  then show ?case by simp
next
  case (Cons e events)
  then obtain p ps' d1 where one: "append_event_in_transaction x nonces e key_id key d = Ok (p, d1)"
      and rest: "append_all x nonces events key_id key d1 = Ok (ps', d')" and ps: "ps = p # ps'"
    by auto
  have e: "ei_session_id e = sid" "text_exact x (ei_payload e)" using Cons.prems(3) by simp_all
  from append_in_transaction_row [OF x e(2) Cons.prems(2) one] e(1) obtain row where
    row: "session_events d1 = session_events d @ [row]" "r_session_id row = sid"
      "decrypt_event x key sid row = Ok p" by metis
  from Cons.IH [OF rest append_in_transaction_inv [OF one Cons.prems(2)]] Cons.prems(3) obtain rows
    where "session_events d' = session_events d1 @ rows" "length rows = length events"
      "\<forall>r \<in> set rows. r_session_id r = sid" "try_map (decrypt_event x key sid) rows = Ok ps'"
    by auto
  with row ps show ?case by (intro exI [of _ "row # rows"]) simp
qed

text \<open>Committing such a batch under the session's key extends the session's log by it and leaves
  every other log alone.\<close>

lemma log_extended:
  assumes inv: "db_inv (db st)" "db_inv d'"
    and key: "session_key x ks sid (km st) = (Ok key, m)"
    and rows: "session_events d' = session_events (db st) @ rows" "\<forall>r \<in> set rows. r_session_id r = sid"
      "try_map (decrypt_event x key sid) rows = Ok ps"
  shows "event_log x ks (st\<lparr>km := m, db := d'\<rparr>) sid =
      and_then (event_log x ks st sid) (\<lambda>evs. Ok (evs @ ps))"
    and "j \<noteq> sid \<Longrightarrow> event_log x ks (st\<lparr>km := m, db := d'\<rparr>) j = event_log x ks st j"
proof -
  have split: "session_rows d' j = session_rows (db st) j @ (if j = sid then rows else [])" for j
    using rows(1,2) by (auto simp: session_rows_def filter_id_conv filter_empty_conv)
  show "event_log x ks (st\<lparr>km := m, db := d'\<rparr>) sid =
      and_then (event_log x ks st sid) (\<lambda>evs. Ok (evs @ ps))"
    using session_key_stable [OF key, of sid] key
    by (simp add: event_log_rows inv split try_map_append rows(3))
  show "j \<noteq> sid \<Longrightarrow> event_log x ks (st\<lparr>km := m, db := d'\<rparr>) j = event_log x ks st j"
    using session_key_stable [OF key, of j] by (simp add: event_log_rows inv split)
qed

text \<open>An operation that leaves the database and the stored keys alone leaves every log alone.\<close>

lemma log_unchanged:
  assumes "db_inv (db st)" "db st' = db st" "\<And>j. fst (session_key x ks j (km st')) = fst (session_key x ks j (km st))"
  shows "event_log x ks st' j = event_log x ks st j"
  using assms by (simp add: event_log_rows)

section \<open>Histories only grow\<close>

text \<open>A session of \<open>d\<close> that \<open>d'\<close> still has keeps its events, in place, and its recorded commands.\<close>

definition session_kept :: "Db \<Rightarrow> Db \<Rightarrow> uuid \<Rightarrow> bool" where
  "session_kept d d' sid \<longleftrightarrow>
     sid \<in> fst ` set (sessions d') \<and> prefix (session_rows d sid) (session_rows d' sid) \<and>
     (\<forall>c \<in> set (command_outcomes d). c_session_id c = Some sid \<longrightarrow> c \<in> set (command_outcomes d'))"

definition grown :: "Db \<Rightarrow> Db \<Rightarrow> bool" where
  "grown d d' \<longleftrightarrow> (\<forall>sid \<in> fst ` set (sessions d). session_kept d d' sid)"

definition trimmed :: "Db \<Rightarrow> Db \<Rightarrow> bool" where
  "trimmed d d' \<longleftrightarrow> fst ` set (sessions d') \<subseteq> fst ` set (sessions d) \<and>
     (\<forall>sid \<in> fst ` set (sessions d'). session_kept d d' sid)"

lemma session_kept_refl [simp]: "session_kept d d sid \<longleftrightarrow> sid \<in> fst ` set (sessions d)"
  by (simp add: session_kept_def)

lemma session_kept_trans: "session_kept d d' sid \<Longrightarrow> session_kept d' d'' sid \<Longrightarrow> session_kept d d'' sid"
  by (auto simp: session_kept_def intro: prefix_order.trans)

lemma grown_trans: "grown d d' \<Longrightarrow> grown d' d'' \<Longrightarrow> grown d d''"
  unfolding grown_def by (meson session_kept_def session_kept_trans)

lemma trimmed_trans: "trimmed d d' \<Longrightarrow> trimmed d' d'' \<Longrightarrow> trimmed d d''"
  unfolding trimmed_def by (meson session_kept_trans subset_trans in_mono)

text \<open>One step of either kind, from the tables it changes.\<close>

lemma session_kept_step:
  assumes "sid \<in> fst ` set (sessions d')"
    and "session_events d' = session_events d @ rows"
    and "set (command_outcomes d) \<subseteq> set (command_outcomes d')"
  shows "session_kept d d' sid"
  using assms by (auto simp: session_kept_def session_rows_def prefix_def)

lemma grown_step:
  assumes "fst ` set (sessions d) \<subseteq> fst ` set (sessions d')"
    and "session_events d' = session_events d @ rows"
    and "set (command_outcomes d) \<subseteq> set (command_outcomes d')"
  shows "grown d d'"
  using assms session_kept_step unfolding grown_def by blast

lemma append_grown:
  assumes "append_event_in_transaction x nonces input key_id key d = Ok (p, d')"
  shows "grown d d'"
proof -
  from assms obtain n c d1 where "insert_event input n key_id c d = Ok d1" "d' = apply_state input d1"
    by (auto simp: append_event_in_transaction_def)
  with insert_event_Ok [OF this(1)] obtain row where
      "d' = apply_state input (d\<lparr>session_events := session_events d @ [row]\<rparr>)" by blast
  then show ?thesis by (intro grown_step) simp_all
qed

lemma creation_grown:
  assumes "creation_transaction x input f h key_id configuration lock event d = Ok (v, d')"
  shows "grown d d'"
proof -
  from assms obtain d1 d2 d3 row Q e c where
      "insert_session (cs_session_id input) row d = Ok d1" "insert_event e 1 key_id event d1 = Ok d2"
      "insert_command c d2 = Ok d3"
      "d' = d3\<lparr>session_creation_journal := filter Q (session_creation_journal d3)\<rparr>"
    by (auto simp: creation_transaction_def Let_def split: if_splits)
  with insert_event_Ok [OF this(2)] show ?thesis
    by (auto simp: insert_session_def insert_command_def split: if_splits intro!: grown_step)
qed

lemma update_session_ids [simp]: "fst ` set (sessions (update_session i f d)) = fst ` set (sessions d)"
  by (metis set_map update_session_frame(1))

interpretation growing: written "grown d0" for d0
proof unfold_locales
  show "grown d0 d \<Longrightarrow> insert_creation_journal j d = Ok d' \<Longrightarrow> grown d0 d'" for d j d'
    by (erule grown_trans) (auto simp: insert_creation_journal_def split: if_splits intro!: grown_step)
  show "insert_command c d = Ok d' \<Longrightarrow> grown d0 d \<Longrightarrow> grown d0 d'" for d c d'
    by (erule grown_trans) (auto simp: insert_command_def split: if_splits intro!: grown_step)
qed (erule grown_trans; simp add: append_grown creation_grown grown_step [where rows = "[]"]; fail)+

lemma deletion_request_trimmed:
  assumes "deletion_request_transaction x nonces eid sid did rid now actor kid key d = Ok (u, d')"
  shows "trimmed d d'"
proof -
  from assms obtain n c e d1 j where "insert_event e n kid c d = Ok d1"
      "d' = update_session sid (\<lambda>row. row\<lparr>s_state := ''deleting''\<rparr>)
         (d1\<lparr>deletion_journal := deletion_journal d1 @ [j]\<rparr>)"
    by (auto simp: deletion_request_transaction_def insert_deletion_journal_def split: if_splits)
  with insert_event_Ok [OF this(1)] obtain row where
      "d' = update_session sid (\<lambda>row. row\<lparr>s_state := ''deleting''\<rparr>)
         (d\<lparr>session_events := session_events d @ [row],
            deletion_journal := deletion_journal d @ [j]\<rparr>)" by auto
  then have "fst ` set (sessions d') = fst ` set (sessions d)"
      "session_events d' = session_events d @ [row]" "command_outcomes d' = command_outcomes d"
    by simp_all
  then show ?thesis using session_kept_step unfolding trimmed_def by (metis order_refl)
qed

lemma deletion_trimmed:
  assumes "deletion_transaction x sid did rid d = Ok (u, d')"
  shows "trimmed d d'" "fst ` set (sessions d') = fst ` set (sessions d) - {sid}"
proof -
  from assms show ids: "fst ` set (sessions d') = fst ` set (sessions d) - {sid}"
    by (auto simp: deletion_transaction_def Let_def split: if_splits)
  from assms have "session_rows d' i = session_rows d i" if "i \<noteq> sid" for i
    using that by (auto simp: deletion_transaction_def Let_def session_rows_def filter_rows split: if_splits)
  with assms ids show "trimmed d d'"
    by (auto simp: trimmed_def session_kept_def deletion_transaction_def Let_def split: if_splits)
qed

interpretation trimming: deleted_from "trimmed d0" for d0
  by unfold_locales (blast intro: trimmed_trans deletion_request_trimmed deletion_trimmed)+

lemma storage_call_kept:
  assumes "storage_call x ks st st'" "sid \<in> fst ` set (sessions (db st))"
    and "sid \<in> fst ` set (sessions (db st'))"
  shows "session_kept (db st) (db st') sid"
proof -
  have "grown (db st) (db st)" "trimmed (db st) (db st)" by (auto simp: grown_def trimmed_def)
  with assms(1) have "grown (db st) (db st') \<or> trimmed (db st) (db st')"
    unfolding storage_call_def
    using growing.write_call_P [of x ks st st' "db st"] trimming.deletion_call_P [of x ks st st' "db st"]
    by blast
  with assms(2,3) show ?thesis by (auto simp: grown_def trimmed_def)
qed

text \<open>Calls during which the session exists.\<close>

definition live_call ::
  "Externals \<Rightarrow> 'k KeyStore \<Rightarrow> uuid \<Rightarrow> 'k SqliteStorage \<Rightarrow> 'k SqliteStorage \<Rightarrow> bool" where
  "live_call x ks sid st st' \<longleftrightarrow> storage_call x ks st st' \<and> sid \<in> fst ` set (sessions (db st'))"

lemma live_calls_kept:
  assumes "(live_call x ks sid)\<^sup>*\<^sup>* st st'" "sid \<in> fst ` set (sessions (db st))"
  shows "session_kept (db st) (db st') sid"
  using assms
proof (induction rule: rtranclp_induct)
  case (step st1 st2)
  then have kept: "session_kept (db st) (db st1) sid" by simp
  then have "sid \<in> fst ` set (sessions (db st1))" by (simp add: session_kept_def)
  with step.hyps(2) have "session_kept (db st1) (db st2) sid"
    unfolding live_call_def by (intro storage_call_kept) auto
  with kept show ?case by (rule session_kept_trans)
qed simp

lemma live_calls_inv: "(live_call x ks sid)\<^sup>*\<^sup>* st st' \<Longrightarrow> db_inv (db st) \<Longrightarrow> db_inv (db st')"
  by (induction rule: rtranclp_induct) (auto simp: live_call_def dest: storage_call_inv)


section \<open>Appending and committing batches\<close>

text \<open>The three ways an operation that works under a session's key ends.\<close>

lemma with_session_key_cases:
  assumes "with_session_key x ks sid body st = (r, st')"
  obtains (failed) e where "r = Err e" "db st' = db st"
      "\<And>j. fst (session_key x ks j (km st')) = fst (session_key x ks j (km st))"
    | (ran) key_id key m where "session_row_key_id (db st) sid = Ok key_id"
      "session_key x ks sid (km st) = (Ok key, m)" "body key_id key (st\<lparr>km := m\<rparr>) = (r, st')"
proof (cases "session_row_key_id (db st) sid")
  case (Inl e)
  with assms failed show ?thesis by (auto simp: with_session_key_def)
next
  case (Inr key_id)
  obtain q m where key: "session_key x ks sid (km st) = (q, m)" by (rule prod.exhaust)
  show ?thesis
  proof (cases q)
    case (Inl e)
    have "fst (session_key x ks j m) = fst (session_key x ks j (km st))" for j
      by (rule session_key_stable [OF key])
    with assms Inl Inr key failed show ?thesis by (auto simp: with_session_key_def)
  next
    case (Inr k)
    with assms \<open>session_row_key_id (db st) sid = Ok key_id\<close> key ran show ?thesis
      by (auto simp: with_session_key_def)
  qed
qed

lemma session_exists: "session_row_key_id d sid = Ok key_id \<Longrightarrow> sid \<in> fst ` set (sessions d)"
  by (force simp: session_row_key_id_def and_then_Ok_iff dest: map_of_SomeD)

lemma sequences_of_log:
  assumes inv: "db_inv (db st)" and log: "event_log x ks st sid = Ok evs"
  shows "map se_sequence evs = map of_nat [1..<Suc (length evs)]"
proof -
  from log obtain key where "try_map (decrypt_event x key sid) (session_rows (db st) sid) = Ok evs"
    by (auto simp: event_log_rows [OF inv] and_then_Ok_iff)
  then have all2: "list_all2 (\<lambda>r e. decrypt_event x key sid r = Ok e) (session_rows (db st) sid) evs"
    by (simp add: try_map_Ok_iff)
  then have "map se_sequence evs = map (of_nat \<circ> r_sequence) (session_rows (db st) sid)"
    by (induction rule: list_all2_induct) (auto dest: decrypt_event_fields)
  also have "\<dots> = map of_nat (map r_sequence (session_rows (db st) sid))" by simp
  also have "map r_sequence (session_rows (db st) sid) = [1..<Suc (length evs)]"
    using inv list_all2_lengthD [OF all2] by (simp add: db_inv_def)
  finally show ?thesis .
qed

lemma append_events_result:
  assumes x: "externals_ok x" and inv: "db_inv (db st)"
    and exact: "\<forall>e \<in> set events. text_exact x (ei_payload e)"
    and run: "append_events x ks nonces events st = (Ok ps, st')"
  obtains sid where "\<forall>e \<in> set events. ei_session_id e = sid" "db_inv (db st')" "length ps = length events"
    "event_log x ks st' sid = and_then (event_log x ks st sid) (\<lambda>evs. Ok (evs @ ps))"
    "\<And>j. j \<noteq> sid \<Longrightarrow> event_log x ks st' j = event_log x ks st j"
proof -
  from run obtain first rest where events: "events = first # rest"
    by (cases events) (simp_all add: append_events_def)
  let ?sid = "ei_session_id first"
  have sid: "\<forall>e \<in> set events. ei_session_id e = ?sid"
    using run unfolding append_events_def events list.case by (metis (no_types, lifting) Inl_Inr_False fst_conv)
  then have body: "with_session_key x ks ?sid (\<lambda>key_id key st.
      commit (append_all x nonces events key_id key (db st)) st) st = (Ok ps, st')"
    using run unfolding append_events_def events list.case by (metis (no_types, lifting))
  from body show thesis
  proof (cases rule: with_session_key_cases)
    case (ran key_id key m)
    then obtain d where all: "append_all x nonces events key_id key (db st) = Ok (ps, d)"
        and st': "st' = st\<lparr>km := m, db := d\<rparr>"
      unfolding commit_def by (auto simp del: append_all.simps split: sum.splits)
    from append_all_rows [OF x all inv, of ?sid] sid exact obtain rows where
        rows: "session_events d = session_events (db st) @ rows" "length rows = length events"
          "\<forall>r \<in> set rows. r_session_id r = ?sid" "try_map (decrypt_event x key ?sid) rows = Ok ps"
      by blast
    have inv': "db_inv d" using append_all_inv [OF all inv] .
    note extended = log_extended [OF inv inv' ran(2) rows(1,3,4), folded st']
    show thesis
      by (rule that [OF sid _ _ extended]) (simp_all add: st' inv' rows(2) try_map_length [OF rows(4)])
  qed simp
qed

section \<open>A small store\<close>

text \<open>One session with its first event, for concrete runs.\<close>

definition demo_key :: SecretKey where
  "demo_key = replicate 32 CHR ''k''"

definition demo_nonce :: bytes where
  "demo_nonce = replicate 24 CHR ''0''"

definition demo_event :: "uuid \<Rightarrow> string \<Rightarrow> json \<Rightarrow> EventInput" where
  "demo_event i k payload = \<lparr>ei_event_id = i, ei_session_id = 1, ei_occurred_at = 0, ei_kind = k,
     ei_causation_request_id = Some 8, ei_attempt_id = None, ei_effect_class = None,
     ei_payload = payload\<rparr>"

definition demo_storage :: "MemoryKeyStore SqliteStorage" where
  "demo_storage =
     \<lparr>db = empty_db\<lparr>
        sessions := [(1, \<lparr>s_key_id = ''key'', s_state = ''ready'', s_created_at = 0,
          s_terminal_at = None, s_configuration = \<lparr>ep_nonce = [], ep_ciphertext = []\<rparr>,
          s_lock = \<lparr>ep_nonce = [], ep_ciphertext = []\<rparr>, s_spend_usd_micros = 0\<rparr>)],
        session_events := [\<lparr>r_event_id = 2, r_session_id = 1, r_sequence = 1, r_occurred_at = 0,
          r_kind = ''session_created'', r_causation_request_id = None, r_attempt_id = None,
          r_effect_class = None, r_key_id = ''key'',
          r_payload = \<lparr>ep_nonce = demo_nonce, ep_ciphertext = take 16 demo_key @ put_json JNull\<rparr>\<rparr>]\<rparr>,
      km = (KeyManager_for_storage reference MemoryKeyStore_new 2 ''db'')
        \<lparr>km_cache := [1 \<mapsto> demo_key]\<rparr>\<rparr>"

lemma demo_key_ok [simp]: "one_byte_key demo_key" "length demo_key = 32"
  by (simp_all add: demo_key_def one_byte_key_def)

lemma demo_nonce_length [simp]: "length demo_nonce = 24"
  by (simp add: demo_nonce_def)

lemma demo_session_key [simp]:
  "session_key reference memory_key_store 1 (km demo_storage) = (Ok demo_key, km demo_storage)"
  by (simp add: session_key_def demo_storage_def)

lemma demo_inv: "db_inv (db demo_storage)"
  by (auto simp: db_inv_def demo_storage_def empty_db_def session_rows_def upt_rec)

lemma demo_rows: "length (session_rows (db demo_storage) 1) = 1"
  by (simp add: demo_storage_def session_rows_def)

lemma demo_log:
  "event_log reference memory_key_store demo_storage 1 =
     Ok [\<lparr>se_event_id = 2, se_session_id = 1, se_sequence = 1, se_occurred_at = 0,
         se_kind = ''session_created'', se_causation_request_id = None, se_attempt_id = None,
         se_effect_class = None, se_payload = JNull\<rparr>]"
proof -
  have rows: "session_rows (db demo_storage) 1 = session_events (db demo_storage)"
    by (simp add: demo_storage_def session_rows_def)
  have read: "json_from_slice reference ''n'' = Some JNull"
    using read_put_json [of JNull] by (simp add: reference_def)
  show ?thesis
    unfolding event_log_rows [OF demo_inv] rows demo_session_key fst_conv and_then_simps
    by (simp add: demo_storage_def decrypt_event_def EncryptedPayload_decrypt_def reference_decrypt
        NONCE_BYTES_def read)
qed

text \<open>Appending an event of a new id succeeds.\<close>

lemma demo_append:
  assumes "i \<noteq> 2" "state_for_kind k = None" "k \<noteq> ''session_redirected''"
  shows "append_event_in_transaction reference (\<lambda>_. demo_nonce) (demo_event i k payload) ''key''
      demo_key (db demo_storage) =
    Ok (stored_event (demo_event i k payload) 2,
      (db demo_storage)\<lparr>session_events := session_events (db demo_storage) @
        [\<lparr>r_event_id = i, r_session_id = 1, r_sequence = 2, r_occurred_at = 0, r_kind = k,
          r_causation_request_id = Some 8, r_attempt_id = None, r_effect_class = None,
          r_key_id = ''key'', r_payload = \<lparr>ep_nonce = demo_nonce,
            ep_ciphertext = take 16 demo_key @ put_json payload\<rparr>\<rparr>]\<rparr>)"
proof -
  have seq: "next_sequence (db demo_storage) 1 = Ok 2"
    by (simp add: next_sequence_inv [OF demo_inv] demo_rows)
  have enc: "encrypt_json reference demo_nonce demo_key 1 obj n k payload =
      Ok \<lparr>ep_nonce = demo_nonce, ep_ciphertext = take 16 demo_key @ put_json payload\<rparr>" for obj n
    by (simp add: encrypt_json_def EncryptedPayload_encrypt_def reference_encrypt)
       (simp add: reference_def)
  show ?thesis
    using assms
    by (simp add: append_event_in_transaction_def demo_event_def seq enc apply_state_def)
       (simp add: insert_event_def event_conflicts_def demo_storage_def)
qed

lemma demo_row_key [simp]: "session_row_key_id (db demo_storage) 1 = Ok ''key''"
  by (simp add: demo_storage_def session_row_key_id_def)

section \<open>Properties\<close>

text \<open>C4: an atomic append adds exactly its events to the log of their session. What it returns is
  what a later replay returns after the previous events, in order and with the next sequence
  numbers, and no other session's log changes.\<close>

theorem append_extends_log:
  assumes "externals_ok x" "db_inv (db st)" "list_all (\<lambda>e. text_exact x (ei_payload e)) events"
    and "append_events x ks nonces events st = (Ok ps, st')"
    and "event_log x ks st (ei_session_id (hd events)) = Ok old"
  shows "event_log x ks st' (ei_session_id (hd events)) = Ok (old @ ps) \<and>
    map se_sequence ps = map of_nat [Suc (length old)..<Suc (length old + length events)] \<and>
    (j = ei_session_id (hd events) \<or> event_log x ks st' j = event_log x ks st j)"
proof -
  from assms(3) have exact: "\<forall>e \<in> set events. text_exact x (ei_payload e)" by (simp add: list_all_iff)
  obtain sid where
    sid: "\<forall>e \<in> set events. ei_session_id e = sid" "db_inv (db st')" "length ps = length events"
      "event_log x ks st' sid = and_then (event_log x ks st sid) (\<lambda>evs. Ok (evs @ ps))"
      "\<And>j. j \<noteq> sid \<Longrightarrow> event_log x ks st' j = event_log x ks st j"
    by (rule append_events_result [OF assms(1,2) exact assms(4)]) (rule that)
  have "events \<noteq> []" using assms(4) by (auto simp: append_events_def)
  then have hd: "ei_session_id (hd events) = sid" using sid(1) by simp
  have log: "event_log x ks st' sid = Ok (old @ ps)" using sid(4) assms(5) hd by simp
  have "map se_sequence (old @ ps) = map of_nat [1..<Suc (length old + length events)]"
    using sequences_of_log [OF sid(2) log] sid(3) by simp
  then have "map se_sequence ps = drop (length old) (map of_nat [1..<Suc (length old + length events)])"
    by (metis append_eq_conv_conj length_map map_append)
  also have "\<dots> = map of_nat [Suc (length old)..<Suc (length old + length events)]"
    by (simp add: drop_map del: upt_Suc)
  finally show ?thesis using log hd sid(5) by auto
qed

theorem append_extends_log_witness:
  "\<exists>ps st'. append_events reference memory_key_store (\<lambda>_. demo_nonce)
       [demo_event 3 ''input_recorded'' (JString ''hi'')] demo_storage = (Ok ps, st') \<and>
     map se_payload ps = [JString ''hi''] \<and> map se_sequence ps = [2] \<and>
     (\<exists>old. event_log reference memory_key_store st' 1 = Ok (old @ ps))"
proof -
  let ?e = "demo_event 3 ''input_recorded'' (JString ''hi'')"
  obtain st' where run: "append_events reference memory_key_store (\<lambda>_. demo_nonce) [?e] demo_storage =
      (Ok [stored_event ?e 2], st')"
    by (simp add: append_events_def with_session_key_def commit_def demo_append state_for_kind_def)
       (simp add: demo_event_def with_session_key_def demo_append [unfolded demo_event_def]
         commit_def state_for_kind_def)
  have "list_all (\<lambda>e. text_exact reference (ei_payload e)) [?e]"
    by (simp add: text_exact_json [OF reference_ok] demo_event_def)
  note result = append_extends_log [OF reference_ok demo_inv this run]
  have "ei_session_id (hd [?e]) = 1" by (simp add: demo_event_def)
  with result [unfolded this, OF demo_log] run show ?thesis
    by (intro exI [of _ "[stored_event ?e 2]"] exI [of _ st'])
       (auto simp: stored_event_def demo_event_def)
qed

text \<open>C5: a reader that resumes after the last sequence number it has seen gets exactly the rest of
  the log: replaying after a cursor is the whole log without the cursor's events.\<close>

theorem replay_resumes:
  assumes "db_inv (db st)" "event_log x ks st sid = Ok evs" "unat cursor < 2 ^ 63"
  shows "fst (replay x ks sid cursor st) = Ok (drop (unat cursor) evs) \<and>
    map se_sequence evs = map of_nat [1..<Suc (length evs)]"
  using replay_drop [OF assms] sequences_of_log [OF assms(1,2)] by simp


theorem replay_resumes_witness:
  "fst (replay reference memory_key_store 1 1 demo_storage) = Ok []"
proof -
  have "unat (1 :: u64) < 2 ^ 63" by simp
  from replay_resumes [OF demo_inv demo_log this] show ?thesis by simp
qed

end
