(* ===== verification/Commands.thy ===== *)
theory Commands
  imports Event_Log
begin

text \<open>
  Guarantees of the store over histories of calls: its invariant, append-only session histories,
  failed writes that change nothing, and commands that take effect at most once and whose recorded
  outcome is what every retry gets.
\<close>

section \<open>Recorded commands\<close>

definition command_row ::
  "Externals \<Rightarrow> uuid \<Rightarrow> uuid \<Rightarrow> StoredCommandRecord \<Rightarrow> CommandRow" where
  "command_row x sid rid r =
     \<lparr>c_scope = command_scope x (Some sid), c_request_id = rid, c_session_id = Some sid,
      c_method = sc_method r, c_parameter_hash = sc_parameter_hash r, c_outcome_json = sc_outcome r\<rparr>"

lemma insert_port_command_row:
  "insert_port_command x (Some sid) rid r d = Ok d' \<Longrightarrow>
     command_outcomes d' = command_outcomes d @ [command_row x sid rid r] \<and>
     sessions d' = sessions d \<and> session_events d' = session_events d"
  by (auto simp: insert_port_command_def insert_command_def command_row_def split: if_splits)

text \<open>The command key is unique, so a recorded row is the one a lookup finds.\<close>

lemma find_unique:
  assumes "distinct (map f xs)" "a \<in> set xs"
  shows "find (\<lambda>b. f b = f a) xs = Some a"
  using assms by (induction xs) (auto simp: rev_image_eqI)

lemma lookup_recorded:
  assumes "db_inv d" "command_row x sid rid r \<in> set (command_outcomes d)"
  shows "lookup_stored_command d (command_scope x (Some sid)) rid = Some r"
proof -
  let ?key = "\<lambda>c. (c_scope c, c_request_id c)"
  have "find (\<lambda>c. ?key c = ?key (command_row x sid rid r)) (command_outcomes d) =
      Some (command_row x sid rid r)"
    using assms by (intro find_unique) (auto simp: db_inv_def)
  then show ?thesis by (simp add: lookup_stored_command_def command_row_def)
qed

lemma command_row_kept:
  assumes "session_kept d d' sid" "command_row x sid rid r \<in> set (command_outcomes d)"
  shows "command_row x sid rid r \<in> set (command_outcomes d')"
  using assms unfolding session_kept_def by (auto simp: command_row_def)

lemma live_calls_lookup:
  assumes "(live_call x ks sid)\<^sup>*\<^sup>* st st'" "db_inv (db st)" "sid \<in> fst ` set (sessions (db st))"
    and "command_row x sid rid r \<in> set (command_outcomes (db st))"
  shows "lookup_stored_command (db st') (command_scope x (Some sid)) rid = Some r"
  using lookup_recorded [OF live_calls_inv [OF assms(1,2)] command_row_kept
    [OF live_calls_kept [OF assms(1,3)] assms(4)]] .

text \<open>What a command that was applied leaves behind.\<close>

lemma applied_recorded:
  assumes "commit_port_command x ks nonces rid r input st = (Ok (Applied p), st')"
  shows "command_row x (ei_session_id input) rid r \<in> set (command_outcomes (db st')) \<and>
    ei_session_id input \<in> fst ` set (sessions (db st'))"
proof -
  let ?sid = "ei_session_id input"
  from assms have run: "with_session_key x ks ?sid (\<lambda>key_id key st.
      case lookup_stored_command (db st) (command_scope x (Some ?sid)) rid of
        Some existing \<Rightarrow>
          (if same_command existing r then (Ok (Replayed existing), st) else (Err RequestConflict, st))
      | None \<Rightarrow> commit (and_then (append_event_in_transaction x nonces input key_id key (db st))
          (\<lambda>(persisted, d). and_then (insert_port_command x (Some ?sid) rid r d)
             (\<lambda>d. Ok (Applied persisted, d)))) st) st = (Ok (Applied p), st')"
    by (auto simp: commit_port_command_def split: sum.splits if_splits)
  then show ?thesis
  proof (cases rule: with_session_key_cases)
    case (ran key_id key m)
    then obtain d d' where append: "append_event_in_transaction x nonces input key_id key (db st) = Ok (p, d)"
        and cmd: "insert_port_command x (Some ?sid) rid r d = Ok d'" and st': "db st' = d'"
      by (auto simp: commit_def and_then_Ok_iff split: option.splits if_splits sum.splits)
    from append_grown [OF append] session_exists [OF ran(1)] have "?sid \<in> fst ` set (sessions d)"
      unfolding grown_def session_kept_def by blast
    with insert_port_command_row [OF cmd] st' show ?thesis by simp
  qed simp
qed

text \<open>A request already recorded for the session is answered from the record.\<close>

lemma commit_recorded:
  assumes "lookup_stored_command (db st) (command_scope x (Some (ei_session_id input))) rid = Some r0"
  shows "commit_port_command x ks nonces rid r input st = (res, st') \<Longrightarrow>
      db st' = db st \<and> (res = Ok (Replayed r0) \<and> same_command r0 r \<or> (\<exists>e. res = Err e))"
    and "validate_port_command r = Ok () \<Longrightarrow> sc_method r \<noteq> ''session.create'' \<Longrightarrow>
      ei_causation_request_id input = Some rid \<Longrightarrow>
      session_row_key_id (db st) (ei_session_id input) = Ok key_id \<Longrightarrow>
      fst (session_key x ks (ei_session_id input) (km st)) = Ok key \<Longrightarrow>
      fst (commit_port_command x ks nonces rid r input st) =
        (if same_command r0 r then Ok (Replayed r0) else Err RequestConflict)"
  using assms
  by (auto simp: commit_port_command_def with_session_key_def split: sum.splits if_splits prod.splits)

text \<open>The same for a command with a batch of events.\<close>

lemma events_recorded:
  assumes "commit_command_events x ks nonces rid m ps out events st = (Ok (EventsRecorded evs v), st')"
  shows "command_row x (ei_session_id (hd events)) rid (command_record x m (canonical_hash x ps) out)
      \<in> set (command_outcomes (db st')) \<and> ei_session_id (hd events) \<in> fst ` set (sessions (db st'))"
proof -
  from assms obtain first rest where events: "events = first # rest"
    by (cases events) (simp_all add: commit_command_events_def)
  let ?sid = "ei_session_id first" and ?r = "command_record x m (canonical_hash x ps) out"
  from assms events have run: "with_session_key x ks ?sid (\<lambda>key_id key st.
      case lookup_stored_command (db st) (command_scope x (Some ?sid)) rid of
        Some existing \<Rightarrow>
          (if same_command existing ?r
           then (and_then (outcome_value x existing) (\<lambda>v. Ok (EventsReplay v)), st)
           else (Err RequestConflict, st))
      | None \<Rightarrow> commit (and_then (append_all x nonces events key_id key (db st))
          (\<lambda>(persisted, d). and_then (insert_port_command x (Some ?sid) rid ?r d)
             (\<lambda>d. Ok (EventsRecorded persisted out, d)))) st) st = (Ok (EventsRecorded evs v), st')"
    by (auto simp: commit_command_events_def Let_def simp del: append_all.simps
        split: sum.splits if_splits)
  then show ?thesis
  proof (cases rule: with_session_key_cases)
    case (ran key_id key m')
    then obtain d d' where append: "append_all x nonces events key_id key (db st) = Ok (evs, d)"
        and cmd: "insert_port_command x (Some ?sid) rid ?r d = Ok d'" and st': "db st' = d'"
      by (auto simp: commit_def and_then_Ok_iff split: option.splits if_splits sum.splits)
    have "grown (db st) (db st)" by (simp add: grown_def)
    with growing.append_all_P [OF append] session_exists [OF ran(1)] have "?sid \<in> fst ` set (sessions d)"
      unfolding grown_def session_kept_def by blast
    with insert_port_command_row [OF cmd] st' events show ?thesis by simp
  qed simp
qed

lemma commit_events_recorded:
  assumes "lookup_stored_command (db st) (command_scope x (Some (ei_session_id (hd events)))) rid = Some r0"
    and "commit_command_events x ks nonces rid m ps out events st = (res, st')"
  shows "db st' = db st \<and> (\<exists>e. res = Err e) \<or>
    db st' = db st \<and> same_command r0 (command_record x m (canonical_hash x ps) out) \<and>
    (\<exists>v. outcome_value x r0 = Ok v \<and> res = Ok (EventsReplay v))"
  using assms
  by (cases "outcome_value x r0")
     (auto simp: commit_command_events_def with_session_key_def Let_def and_then_Ok_iff
      simp del: append_all.simps split: sum.splits if_splits prod.splits list.splits)

section \<open>Writes that fail\<close>

text \<open>A call that returns an error leaves the tables alone and changes no key a later call finds.\<close>

definition unchanged_on_error ::
  "Externals \<Rightarrow> 'k KeyStore \<Rightarrow> ('k SqliteStorage \<Rightarrow> (StorageError + 'a) \<times> 'k SqliteStorage) \<Rightarrow> bool" where
  "unchanged_on_error x ks f \<longleftrightarrow>
     (\<forall>st e st'. f st = (Err e, st') \<longrightarrow> db st' = db st \<and>
        (\<forall>j. fst (session_key x ks j (km st')) = fst (session_key x ks j (km st))))"

lemma unchanged_same: "(\<And>st e st'. f st = (Err e, st') \<Longrightarrow> st' = st) \<Longrightarrow> unchanged_on_error x ks f"
  by (fastforce simp: unchanged_on_error_def)

lemma unchanged_refusal [simp]: "unchanged_on_error x ks (\<lambda>st. (Err e, st))"
  by (rule unchanged_same) simp

lemma unchanged_with_key:
  assumes "\<And>key_id key st e st'. body key_id key st = (Err e, st') \<Longrightarrow> st' = st"
  shows "unchanged_on_error x ks (with_session_key x ks sid body)"
  unfolding unchanged_on_error_def
proof (intro allI impI)
  fix st e st'
  assume "with_session_key x ks sid body st = (Err e, st')"
  then show "db st' = db st \<and> (\<forall>j. fst (session_key x ks j (km st')) = fst (session_key x ks j (km st)))"
  proof (cases rule: with_session_key_cases)
    case (ran key_id key m)
    then show ?thesis using assms [OF ran(3)] session_key_stable [OF ran(2)] by auto
  qed auto
qed

lemma unchanged_if:
  "\<lbrakk>b \<Longrightarrow> unchanged_on_error x ks f; \<not> b \<Longrightarrow> unchanged_on_error x ks g\<rbrakk> \<Longrightarrow>
     unchanged_on_error x ks (\<lambda>st. if b then f st else g st)"
  by (cases b) simp_all

lemma commit_Err: "commit r st = (Err e, st') \<Longrightarrow> st' = st"
  by (auto simp: commit_def split: sum.splits)

lemma append_event_unchanged: "unchanged_on_error x ks (append_event x ks nonces input)"
  unfolding append_event_def by (auto intro!: unchanged_with_key dest: commit_Err)

lemma append_events_unchanged: "unchanged_on_error x ks (append_events x ks nonces events)"
  unfolding append_events_def
  by (cases events) (auto intro!: unchanged_if unchanged_with_key
      simp del: append_all.simps dest: commit_Err)

lemma commit_port_command_unchanged:
  "unchanged_on_error x ks (commit_port_command x ks nonces rid r input)"
  unfolding commit_port_command_def
  by (cases "validate_port_command r")
     (auto intro!: unchanged_if unchanged_with_key dest: commit_Err
       split: option.splits if_splits)

lemma commit_command_events_unchanged:
  "unchanged_on_error x ks (commit_command_events x ks nonces rid m ps out events)"
  unfolding commit_command_events_def Let_def
  by (cases events; cases "validate_port_command (command_record x m (canonical_hash x ps) out)")
     (auto intro!: unchanged_if unchanged_with_key simp del: append_all.simps
       split: option.splits if_splits, erule commit_Err)

lemma record_port_command_unchanged: "unchanged_on_error x ks (record_port_command x sid rid r)"
  unfolding record_port_command_def
  by (auto intro!: unchanged_same dest: commit_Err split: option.splits if_splits sum.splits)

lemma record_command_outcome_unchanged:
  "unchanged_on_error x ks (record_command_outcome x scope rid sid m ps v)"
  unfolding record_command_outcome_def Let_def
  by (auto intro!: unchanged_same dest: commit_Err split: option.splits if_splits sum.splits)

section \<open>Properties\<close>

text \<open>C21: every database that calls of the store build from an empty one, in whatever order and
  whatever they return, keeps the store's invariant: each session's events are numbered from one
  without gaps, belong to an existing session and break no unique index.\<close>

theorem store_invariant:
  assumes "(storage_call x ks)\<^sup>*\<^sup>* \<lparr>db = empty_db, km = m\<rparr> st"
  shows "db_inv (db st)"
  using storage_calls_inv [OF assms] db_inv_empty by simp

theorem store_invariant_witness:
  "db_inv (db (snd (record_port_command reference None 1
     (command_record reference ''session.create'' (replicate 64 CHR ''a'') JNull)
     \<lparr>db = empty_db, km = KeyManager_for_storage reference MemoryKeyStore_new 2 ''db''\<rparr>)))"
  by (rule store_invariant [where ks = memory_key_store and x = reference
        and m = "KeyManager_for_storage reference MemoryKeyStore_new 2 ''db''"])
     (rule r_into_rtranclp, simp add: storage_call_def write_call.intros)

text \<open>C22: history is append-only. Whatever calls are made while a session exists, its events stay in
  place with everything recorded about them, new ones only follow, and no recorded command of the
  session is lost.\<close>

theorem history_append_only:
  assumes "(live_call x ks sid)\<^sup>*\<^sup>* st st'" "db_inv (db st)" "sid \<in> fst ` set (sessions (db st))"
  shows "prefix (session_rows (db st) sid) (session_rows (db st') sid) \<and>
    map r_sequence (session_rows (db st') sid) = [1..<Suc (length (session_rows (db st') sid))] \<and>
    {c \<in> set (command_outcomes (db st)). c_session_id c = Some sid} \<subseteq> set (command_outcomes (db st'))"
  using live_calls_kept [OF assms(1,3)] live_calls_inv [OF assms(1,2)]
  by (auto simp: session_kept_def db_inv_def)

theorem history_append_only_witness:
  "let st' = snd (append_event reference memory_key_store (\<lambda>_. demo_nonce)
       (demo_event 3 ''input_recorded'' (JString ''hi'')) demo_storage)
   in length (session_rows (db st') 1) = 2 \<and>
      prefix (session_rows (db demo_storage) 1) (session_rows (db st') 1)"
proof -
  let ?e = "demo_event 3 ''input_recorded'' (JString ''hi'')"
  let ?st = "snd (append_event reference memory_key_store (\<lambda>_. demo_nonce) ?e demo_storage)"
  have one: "1 \<in> fst ` set (sessions (db demo_storage))" by (simp add: demo_storage_def)
  have e: "ei_session_id ?e = 1" by (simp add: demo_event_def)
  have db: "db ?st = snd (projr (append_event_in_transaction reference (\<lambda>_. demo_nonce) ?e ''key''
      demo_key (db demo_storage)))"
    unfolding append_event_def e by (simp add: with_session_key_def commit_def demo_append state_for_kind_def)
  have "live_call reference memory_key_store 1 demo_storage ?st"
    unfolding live_call_def storage_call_def db
    by (simp add: write_call.intros demo_append state_for_kind_def one)
  then have "(live_call reference memory_key_store 1)\<^sup>*\<^sup>* demo_storage ?st" ..
  from history_append_only [OF this demo_inv one] show ?thesis
    unfolding Let_def db
    by (simp add: demo_append state_for_kind_def demo_rows [unfolded session_rows_def] session_rows_def)
qed

text \<open>C23: a command takes effect at most once. After a command was applied, and whatever calls
  follow while its session exists, another commit under the same request writes nothing: it is
  answered with the recorded outcome when method and parameters agree and refused as a conflict
  otherwise.\<close>

theorem command_applied_once:
  assumes "db_inv (db st)" "commit_port_command x ks nonces rid r input st = (Ok (Applied p), st1)"
    and "(live_call x ks (ei_session_id input))\<^sup>*\<^sup>* st1 st2"
    and "ei_session_id retry = ei_session_id input"
    and "commit_port_command x ks nonces' rid r' retry st2 = (res, st3)"
  shows "db st3 = db st2 \<and> (\<forall>q. res \<noteq> Ok (Applied q)) \<and>
    (validate_port_command r' = Ok () \<and> sc_method r' \<noteq> ''session.create'' \<and>
     ei_causation_request_id retry = Some rid \<and> is_ok (fst (session_key x ks (ei_session_id input) (km st2))) \<longrightarrow>
     res = (if same_command r r' then Ok (Replayed r) else Err RequestConflict))"
proof -
  let ?sid = "ei_session_id input"
  note recorded = applied_recorded [OF assms(2)]
  have inv: "db_inv (db st1)"
    using writing.commit_port_command_keeps [THEN store.keepsD, OF assms(1)] assms(2) by (metis snd_conv)
  have found: "lookup_stored_command (db st2) (command_scope x (Some (ei_session_id retry))) rid = Some r"
    using live_calls_lookup [OF assms(3) inv] recorded assms(4) by simp
  have "?sid \<in> fst ` set (sessions (db st2))"
    using live_calls_kept [OF assms(3)] recorded by (simp add: session_kept_def)
  then obtain row where "map_of (sessions (db st2)) ?sid = Some row"
    by (metis map_of_eq_None_iff not_None_eq)
  then have "session_row_key_id (db st2) (ei_session_id retry) = Ok (s_key_id row)"
    by (simp add: session_row_key_id_def assms(4))
  note answered = commit_recorded(2) [OF found _ _ _ this, of r', where nonces = nonces' and ks = ks,
      unfolded assms(5) fst_conv]
  have quiet: "db st3 = db st2" "\<forall>q. res \<noteq> Ok (Applied q)" using commit_recorded(1) [OF found assms(5)] by auto
  show ?thesis
    by (intro conjI quiet impI) (use answered assms(4) in \<open>auto simp: is_ok_iff\<close>)
qed

text \<open>A command on the small store, for concrete runs.\<close>

definition demo_command :: StoredCommandRecord where
  "demo_command = \<lparr>sc_method = ''session.input'', sc_parameter_hash = replicate 64 CHR ''a'', sc_outcome = ''n''\<rparr>"

lemma demo_commit:
  obtains st' where "commit_port_command reference memory_key_store (\<lambda>_. demo_nonce) 8 demo_command
      (demo_event 3 ''input_recorded'' payload) demo_storage =
        (Ok (Applied (stored_event (demo_event 3 ''input_recorded'' payload) 2)), st')"
    "km st' = km demo_storage"
proof -
  let ?e = "demo_event 3 ''input_recorded'' payload"
  have e: "ei_session_id ?e = 1" "ei_causation_request_id ?e = Some 8" by (simp_all add: demo_event_def)
  have valid: "validate_port_command demo_command = Ok ()" "sc_method demo_command \<noteq> ''session.create''"
    by (simp_all add: validate_port_command_def demo_command_def is_lower_hex_def list_all_iff)
  have new: "lookup_stored_command (db demo_storage) scope rid = None" for scope rid
    by (simp add: lookup_stored_command_def demo_storage_def empty_db_def)
  have ins: "insert_port_command reference (Some 1) 8 demo_command
      ((db demo_storage)\<lparr>session_events := rows\<rparr>) = Ok (((db demo_storage)\<lparr>session_events := rows\<rparr>)
        \<lparr>command_outcomes := [command_row reference 1 8 demo_command]\<rparr>)" for rows
    by (simp add: insert_port_command_def insert_command_def demo_storage_def empty_db_def command_row_def)
  let ?run = "commit_port_command reference memory_key_store (\<lambda>_. demo_nonce) 8 demo_command ?e demo_storage"
  have "fst ?run = Ok (Applied (stored_event ?e 2))" "km (snd ?run) = km demo_storage"
    unfolding commit_port_command_def e with_session_key_def
    by (simp_all add: valid new demo_append state_for_kind_def ins commit_def)
  then show thesis by (intro that [of "snd ?run"]) (simp_all add: prod_eq_iff)
qed

theorem command_applied_once_witness:
  "\<exists>st1 st2. fst (commit_port_command reference memory_key_store (\<lambda>_. demo_nonce) 8 demo_command
       (demo_event 3 ''input_recorded'' JNull) demo_storage) =
         Ok (Applied (stored_event (demo_event 3 ''input_recorded'' JNull) 2)) \<and>
     commit_port_command reference memory_key_store (\<lambda>_. demo_nonce) 8 demo_command
       (demo_event 4 ''input_recorded'' JNull) st1 = (Ok (Replayed demo_command), st2) \<and> db st2 = db st1"
proof -
  obtain st1 where run: "commit_port_command reference memory_key_store (\<lambda>_. demo_nonce) 8 demo_command
      (demo_event 3 ''input_recorded'' JNull) demo_storage =
        (Ok (Applied (stored_event (demo_event 3 ''input_recorded'' JNull) 2)), st1)"
    and key: "km st1 = km demo_storage" by (rule demo_commit)
  have sid: "ei_session_id (demo_event 4 ''input_recorded'' JNull) =
      ei_session_id (demo_event 3 ''input_recorded'' JNull)" by (simp add: demo_event_def)
  obtain res st2 where again: "commit_port_command reference memory_key_store (\<lambda>_. demo_nonce) 8
      demo_command (demo_event 4 ''input_recorded'' JNull) st1 = (res, st2)" by (rule prod.exhaust)
  from command_applied_once [OF demo_inv run rtranclp.rtrancl_refl sid again]
  have "db st2 = db st1" "res = Ok (Replayed demo_command)"
    by (simp_all add: key demo_event_def same_command_def validate_port_command_def demo_command_def
        is_lower_hex_def list_all_iff is_ok_iff)
  with run again show ?thesis by auto
qed

text \<open>C24: the daemon's form of the same promise, for a command that writes a batch of events: once the
  batch is recorded, the outcome can be looked up, and every later commit under the same request
  writes nothing and can only return that outcome.\<close>

theorem command_outcome_replayed:
  assumes "externals_ok x" "json_exact out" "db_inv (db st)"
    and "commit_command_events x ks nonces rid m ps out events st = (Ok (EventsRecorded evs v), st1)"
    and "(live_call x ks (ei_session_id (hd events)))\<^sup>*\<^sup>* st1 st2"
    and "ei_session_id (hd events') = ei_session_id (hd events)"
    and "commit_command_events x ks nonces' rid m' ps' out' events' st2 = (res, st3)"
  shows "lookup_command_outcome x (Some (ei_session_id (hd events))) rid m ps (db st2) = Ok (Some out) \<and>
    db st3 = db st2 \<and>
    (res = Ok (EventsReplay out) \<and> m' = m \<and> canonical_hash x ps' = canonical_hash x ps \<or> (\<exists>e. res = Err e))"
proof -
  let ?sid = "ei_session_id (hd events)" and ?r = "command_record x m (canonical_hash x ps) out"
  note recorded = events_recorded [OF assms(4)]
  have inv: "db_inv (db st1)"
    using writing.commit_command_events_keeps [THEN store.keepsD, OF assms(3)] assms(4) by (metis snd_conv)
  have found: "lookup_stored_command (db st2) (command_scope x (Some ?sid)) rid = Some ?r"
    using live_calls_lookup [OF assms(5) inv] recorded by simp
  have decoded: "outcome_value x ?r = Ok out"
    using assms(1,2) by (simp add: outcome_value_def command_record_def externals_okD)
  have valid: "m \<noteq> ''session.create'' \<and> m \<noteq> [] \<and> length m \<le> 128"
    using assms(4) by (auto simp: commit_command_events_def Let_def validate_port_command_def command_record_def
        simp del: append_all.simps split: list.splits if_splits)
  have "lookup_command_outcome x (Some ?sid) rid m ps (db st2) = Ok (Some out)"
    using found decoded valid by (simp add: lookup_command_outcome_def lookup_port_command_def)
       (simp add: command_record_def)
  moreover have "db st3 = db st2 \<and>
      (res = Ok (EventsReplay out) \<and> m' = m \<and> canonical_hash x ps' = canonical_hash x ps \<or> (\<exists>e. res = Err e))"
    using commit_events_recorded [OF _ assms(7), of ?r] found assms(6) decoded
    by (auto simp: same_command_def command_record_def)
  ultimately show ?thesis by blast
qed

lemma demo_commit_events:
  obtains st' where "commit_command_events reference memory_key_store (\<lambda>_. demo_nonce) 8 ''session.input''
      JNull JNull [demo_event 3 ''input_recorded'' payload] demo_storage =
        (Ok (EventsRecorded [stored_event (demo_event 3 ''input_recorded'' payload) 2] JNull), st')"
    "km st' = km demo_storage"
proof -
  let ?e = "demo_event 3 ''input_recorded'' payload"
  let ?r = "command_record reference ''session.input'' (canonical_hash reference JNull) JNull"
  have e: "ei_session_id ?e = 1" "ei_causation_request_id ?e = Some 8" by (simp_all add: demo_event_def)
  have valid: "validate_port_command ?r = Ok ()"
    by (simp add: validate_port_command_def command_record_def canonical_hash_def reference_def
        is_lower_hex_def list_all_iff)
  have new: "lookup_stored_command (db demo_storage) scope rid = None" for scope rid
    by (simp add: lookup_stored_command_def demo_storage_def empty_db_def)
  have ins: "insert_port_command reference (Some 1) 8 ?r
      ((db demo_storage)\<lparr>session_events := rows\<rparr>) = Ok (((db demo_storage)\<lparr>session_events := rows\<rparr>)
        \<lparr>command_outcomes := [command_row reference 1 8 ?r]\<rparr>)" for rows
    by (simp add: insert_port_command_def insert_command_def demo_storage_def empty_db_def command_row_def)
  let ?run = "commit_command_events reference memory_key_store (\<lambda>_. demo_nonce) 8 ''session.input''
      JNull JNull [?e] demo_storage"
  have "fst ?run = Ok (EventsRecorded [stored_event ?e 2] JNull)" "km (snd ?run) = km demo_storage"
    unfolding commit_command_events_def with_session_key_def Let_def list.case e
    by (simp_all add: e valid new demo_append state_for_kind_def ins commit_def)
  then show thesis by (intro that [of "snd ?run"]) (simp_all add: prod_eq_iff)
qed

theorem command_outcome_replayed_witness:
  "\<exists>st1. lookup_command_outcome reference (Some 1) 8 ''session.input'' JNull (db st1) = Ok (Some JNull) \<and>
     fst (commit_command_events reference memory_key_store (\<lambda>_. demo_nonce) 8 ''session.input''
       JNull JNull [demo_event 3 ''input_recorded'' JNull] demo_storage) =
         Ok (EventsRecorded [stored_event (demo_event 3 ''input_recorded'' JNull) 2] JNull) \<and>
     db (snd (commit_command_events reference memory_key_store (\<lambda>_. demo_nonce) 8 ''session.input''
       JNull JNull [demo_event 4 ''input_recorded'' JNull] st1)) = db st1"
proof -
  obtain st1 where run: "commit_command_events reference memory_key_store (\<lambda>_. demo_nonce) 8 ''session.input''
      JNull JNull [demo_event 3 ''input_recorded'' JNull] demo_storage =
        (Ok (EventsRecorded [stored_event (demo_event 3 ''input_recorded'' JNull) 2] JNull), st1)"
    by (rule demo_commit_events)
  have sid: "ei_session_id (hd [demo_event 4 ''input_recorded'' JNull]) =
      ei_session_id (hd [demo_event 3 ''input_recorded'' JNull])" by (simp add: demo_event_def)
  have exact: "json_exact JNull" by simp
  from command_outcome_replayed [OF reference_ok exact demo_inv run rtranclp.rtrancl_refl sid
      surjective_pairing] run show ?thesis
    by (intro exI [of _ st1]) (simp add: demo_event_def)
qed

text \<open>C25: a write that returns an error, of events, of a command, or of both, has changed no table and
  no key that a later call finds; in particular no part of a batch is ever kept.\<close>

theorem failed_write_changes_nothing:
  "unchanged_on_error x ks (append_event x ks nonces input) \<and>
   unchanged_on_error x ks (append_events x ks nonces events) \<and>
   unchanged_on_error x ks (commit_port_command x ks nonces rid r input) \<and>
   unchanged_on_error x ks (commit_command_events x ks nonces rid m ps out events) \<and>
   unchanged_on_error x ks (record_port_command x sid rid r) \<and>
   unchanged_on_error x ks (record_command_outcome x scope rid sid m ps out)"
  by (intro conjI append_event_unchanged append_events_unchanged commit_port_command_unchanged
      commit_command_events_unchanged record_port_command_unchanged record_command_outcome_unchanged)

end
