(* ===== verification/Lifecycle.thy ===== *)
theory Lifecycle
  imports Commands Key_Rotation
begin

text \<open>
  The life of a session in the store beyond its log: recovery of attempts after a crash, creation
  with its journal, deletion with its tombstone and the destruction of the key, retention, and the
  paged listing.
\<close>

section \<open>Recovery of uncertain attempts\<close>

lemma append_event_ran:
  assumes "append_event x ks nonces input st = (Ok p, st')"
  obtains key_id key m d where "session_row_key_id (db st) (ei_session_id input) = Ok key_id"
    "session_key x ks (ei_session_id input) (km st) = (Ok key, m)"
    "append_event_in_transaction x nonces input key_id key (db st) = Ok (p, d)"
    "st' = st\<lparr>km := m, db := d\<rparr>"
proof -
  from assms have "with_session_key x ks (ei_session_id input) (\<lambda>key_id key st.
      commit (append_event_in_transaction x nonces input key_id key (db st)) st) st = (Ok p, st')"
    by (simp add: append_event_def)
  then show thesis
  proof (cases rule: with_session_key_cases)
    case (ran key_id key m)
    then show thesis using that by (auto simp: commit_def split: sum.splits)
  qed simp
qed

lemma append_recovery_row:
  assumes "append_event x ks nonces (recovery_event x now eid a) st = (Ok p, st')"
  obtains row where "session_events (db st') = session_events (db st) @ [row]"
    "r_session_id row = fst a" "r_attempt_id row = Some (snd a)" "r_kind row = ''outcome_unknown''"
    "map_of (sessions (db st')) = (map_of (sessions (db st)))(fst a := map_option
       (\<lambda>r. r\<lparr>s_state := ''outcome_unknown''\<rparr>) (map_of (sessions (db st)) (fst a)))"
    "map_of (sessions (db st)) (fst a) \<noteq> None"
proof -
  let ?e = "recovery_event x now eid a"
  have e: "ei_session_id ?e = fst a" "ei_kind ?e = ''outcome_unknown''" "ei_attempt_id ?e = Some (snd a)"
    by (simp_all add: recovery_event_def)
  from append_event_ran [OF assms] obtain key_id key m d where
      run: "append_event_in_transaction x nonces ?e key_id key (db st) = Ok (p, d)"
      and st': "st' = st\<lparr>km := m, db := d\<rparr>" by metis
  from run obtain n c d1 where ins: "insert_event ?e n key_id c (db st) = Ok d1"
      and d: "d = apply_state ?e d1" by (auto simp: append_event_in_transaction_def)
  from insert_event_Ok [OF ins] obtain row where
    row: "d1 = (db st)\<lparr>session_events := session_events (db st) @ [row]\<rparr>" "r_session_id row = fst a"
      "r_attempt_id row = Some (snd a)" "r_kind row = ''outcome_unknown''"
    and known: "fst a \<in> fst ` set (sessions (db st))" using e by auto
  have state: "apply_state ?e d1 = update_session (fst a) (\<lambda>r. r\<lparr>s_state := ''outcome_unknown''\<rparr>) d1"
  proof -
    have "(case s_terminal_at r of None \<Rightarrow> None | Some t \<Rightarrow> Some t) = s_terminal_at r" for r :: SessionRow
      by (cases "s_terminal_at r") simp_all
    then show ?thesis by (simp add: apply_state_def e state_for_kind_def TERMINAL_KINDS_def)
  qed
  show thesis
    by (rule that [of row]) (use row st' d state known in
      \<open>simp_all add: map_of_update_session map_of_eq_None_iff\<close>)
qed

lemma recover_attempts_rows:
  "recover_attempts x ks nonces fresh now as st = (Ok res, st') \<Longrightarrow>
     res = map (\<lambda>a. (fst a, snd a, fresh a)) as \<and>
     (\<exists>rows. session_events (db st') = session_events (db st) @ rows \<and>
        map (\<lambda>r. (r_session_id r, r_attempt_id r)) rows = map (\<lambda>a. (fst a, Some (snd a))) as \<and>
        (\<forall>r \<in> set rows. r_kind r = ''outcome_unknown'')) \<and>
     (\<forall>sid. (\<forall>a \<in> set as. fst a \<noteq> sid) \<longrightarrow> map_of (sessions (db st')) sid = map_of (sessions (db st)) sid) \<and>
     (\<forall>a \<in> set as. \<exists>row. map_of (sessions (db st')) (fst a) = Some row \<and> s_state row = ''outcome_unknown'')"
proof (induction as arbitrary: st res)
  case Nil
  then show ?case by simp
next
  case (Cons a as)
  from Cons.prems obtain p st1 res' where
      one: "append_event x ks nonces (recovery_event x now (fresh a) a) st = (Ok p, st1)"
      and rest: "recover_attempts x ks nonces fresh now as st1 = (Ok res', st')"
      and res: "res = (fst a, snd a, fresh a) # res'"
    by (auto elim!: st_then_OkE)
  obtain row where
    row: "session_events (db st1) = session_events (db st) @ [row]"
      "r_session_id row = fst a" "r_attempt_id row = Some (snd a)" "r_kind row = ''outcome_unknown''"
      and marked: "map_of (sessions (db st1)) = (map_of (sessions (db st)))(fst a := map_option
       (\<lambda>r. r\<lparr>s_state := ''outcome_unknown''\<rparr>) (map_of (sessions (db st)) (fst a)))"
      "map_of (sessions (db st)) (fst a) \<noteq> None"
    by (rule append_recovery_row [OF one]) (rule that)
  from Cons.IH [OF rest] have res': "res' = map (\<lambda>a. (fst a, snd a, fresh a)) as"
    and other: "\<And>sid. \<forall>a \<in> set as. fst a \<noteq> sid \<Longrightarrow>
      map_of (sessions (db st')) sid = map_of (sessions (db st1)) sid"
    and unknown: "\<And>a. a \<in> set as \<Longrightarrow>
      \<exists>row. map_of (sessions (db st')) (fst a) = Some row \<and> s_state row = ''outcome_unknown''"
    by (simp, blast+)
  from Cons.IH [OF rest] obtain rows where rows: "session_events (db st') = session_events (db st1) @ rows"
      "map (\<lambda>r. (r_session_id r, r_attempt_id r)) rows = map (\<lambda>a. (fst a, Some (snd a))) as"
      "\<forall>r \<in> set rows. r_kind r = ''outcome_unknown''" by blast
  have events: "\<exists>rows. session_events (db st') = session_events (db st) @ rows \<and>
        map (\<lambda>r. (r_session_id r, r_attempt_id r)) rows = map (\<lambda>a. (fst a, Some (snd a))) (a # as) \<and>
        (\<forall>r \<in> set rows. r_kind r = ''outcome_unknown'')"
    using row rows by (intro exI [of _ "row # rows"]) simp
  have others: "map_of (sessions (db st')) sid = map_of (sessions (db st)) sid"
    if "\<forall>b \<in> set (a # as). fst b \<noteq> sid" for sid
    using other [of sid] that marked(1) by auto
  have states: "\<exists>row. map_of (sessions (db st')) (fst b) = Some row \<and> s_state row = ''outcome_unknown''"
    if "b \<in> set (a # as)" for b
  proof (cases "\<exists>c \<in> set as. fst c = fst b")
    case True
    then obtain c where "c \<in> set as" "fst c = fst b" by blast
    with unknown [OF this(1)] show ?thesis by simp
  next
    case False
    with that have "b = a" by auto
    with other [of "fst a"] False marked show ?thesis by auto
  qed
  from res res' have "res = map (\<lambda>a. (fst a, snd a, fresh a)) (a # as)" by simp
  then show ?case using events others states by (intro conjI allI impI ballI)
qed

lemma uncertain_iff:
  "(sid, a) \<in> set (uncertain_attempts d) \<longleftrightarrow>
     (\<exists>r \<in> set (session_events d). r_kind r = ''dispatch_started'' \<and> r_session_id r = sid \<and>
        r_attempt_id r = Some a) \<and>
     \<not> (\<exists>f \<in> set (session_events d). r_session_id f = sid \<and> r_attempt_id f = Some a \<and>
        r_kind f \<in> set finished_kinds)"
  unfolding uncertain_attempts_def by force

lemma recovered_none:
  assumes "session_events d' = session_events d @ rows"
    and "map (\<lambda>r. (r_session_id r, r_attempt_id r)) rows = map (\<lambda>a. (fst a, Some (snd a))) (uncertain_attempts d)"
    and "\<forall>r \<in> set rows. r_kind r = ''outcome_unknown''"
  shows "uncertain_attempts d' = []"
proof -
  have "(sid, a) \<notin> set (uncertain_attempts d')" for sid a
  proof
    assume u: "(sid, a) \<in> set (uncertain_attempts d')"
    then have "(sid, a) \<in> set (uncertain_attempts d)"
      using assms(1,3) unfolding uncertain_iff by auto
    then have "(sid, Some a) \<in> set (map (\<lambda>a. (fst a, Some (snd a))) (uncertain_attempts d))" by force
    then have "(sid, Some a) \<in> (\<lambda>r. (r_session_id r, r_attempt_id r)) ` set rows"
      unfolding assms(2) [symmetric] by simp
    then obtain r where "r \<in> set rows" "r_session_id r = sid" "r_attempt_id r = Some a" by auto
    with u assms(1,3) show False unfolding uncertain_iff by (auto simp: finished_kinds_def)
  qed
  then show ?thesis by (metis list.set_intros(1) neq_Nil_conv surj_pair)
qed

section \<open>Listing\<close>

text \<open>The sessions in the order of the listing, newest identifier first, and the part before a cursor.\<close>

definition metadata :: "uuid \<times> SessionRow \<Rightarrow> StoredSessionMetadata" where
  "metadata s = \<lparr>sm_session_id = fst s, sm_state = s_state (snd s), sm_created_at = s_created_at (snd s),
     sm_terminal_at = s_terminal_at (snd s)\<rparr>"

definition listing :: "Db \<Rightarrow> uuid option \<Rightarrow> (uuid \<times> SessionRow) list" where
  "listing d cursor =
     filter (\<lambda>s. case cursor of None \<Rightarrow> True | Some b \<Rightarrow> fst s < b) (rev (sort_key fst (sessions d)))"

lemma sort_key_filter: "sort_key f (filter P xs) = filter P (sort_key f xs)"
  by (simp add: filter_sort)

lemma list_metadata_page:
  assumes "1 \<le> limit" "limit \<le> 100"
  shows "list_session_metadata d limit cursor =
    Ok (map metadata (take (unat limit) (listing d cursor)),
      if unat limit < length (listing d cursor)
      then Some (fst (listing d cursor ! (unat limit - 1))) else None)"
proof -
  let ?xs = "listing d cursor" and ?n = "unat limit"
  have xs: "rev (sort_key fst (filter (\<lambda>(i, _). case cursor of None \<Rightarrow> True | Some b \<Rightarrow> i < b) (sessions d))) = ?xs"
    by (simp add: listing_def sort_key_filter flip: rev_filter) (rule filter_cong, auto split: option.splits)
  have n: "0 < ?n" using assms(1) by (simp add: word_le_nat_alt)
  have last: "fst (last (take ?n ?xs)) = fst (?xs ! (?n - 1))" if "?n < length ?xs"
    using that n by (subst last_conv_nth) (auto simp: min_def)
  have more: "?n < length (take (?n + 1) ?xs) \<longleftrightarrow> ?n < length ?xs" by simp
  have min: "take ?n (take (?n + 1) ?xs) = take ?n ?xs" by (simp add: min_def)
  have pages: "map (\<lambda>(i, row). \<lparr>sm_session_id = i, sm_state = s_state row, sm_created_at = s_created_at row,
      sm_terminal_at = s_terminal_at row\<rparr>) = map metadata"
    by (simp add: metadata_def case_prod_beta fun_eq_iff)
  show ?thesis
    unfolding list_session_metadata_def Let_def xs min more pages
    using assms last by simp
qed

lemma listing_next:
  assumes "distinct (map fst (sessions d))" "n < length (listing d cursor)"
  shows "listing d (Some (fst (listing d cursor ! n))) = drop (Suc n) (listing d cursor)"
proof -
  let ?all = "rev (sort_key fst (sessions d))" and ?xs = "listing d cursor"
  have "distinct (map fst (sort_key fst (sessions d)))"
    using assms(1) by (simp add: distinct_map)
  then have "sorted_wrt (<) (map fst (sort_key fst (sessions d)))"
    by (metis sorted_sort_key strict_sorted_iff)
  then have all: "sorted_wrt (\<lambda>a b. fst b < fst a) ?all"
    by (simp add: sorted_wrt_rev sorted_wrt_map)
  then have xs: "sorted_wrt (\<lambda>a b. fst b < fst a) ?xs" by (simp add: listing_def sorted_wrt_filter)
  have below: "fst (?xs ! n) \<le> b" if "cursor = Some b" for b
    using nth_mem [OF assms(2)] that by (auto simp: listing_def)
  have "listing d (Some (fst (?xs ! n))) = filter (\<lambda>s. fst s < fst (?xs ! n)) ?xs"
    using below by (cases cursor) (auto simp: listing_def intro!: filter_cong dest: less_le_trans)
  also have "\<dots> = filter (\<lambda>s. fst s < fst (?xs ! n)) (take (Suc n) ?xs) @
      filter (\<lambda>s. fst s < fst (?xs ! n)) (drop (Suc n) ?xs)"
    by (metis append_take_drop_id filter_append)
  also have "filter (\<lambda>s. fst s < fst (?xs ! n)) (take (Suc n) ?xs) = []"
  proof -
    have "\<not> fst (?xs ! i) < fst (?xs ! n)" if "i < Suc n" for i
      using that sorted_wrt_nth_less [OF xs _ assms(2), of i] by (cases "i = n") auto
    then show ?thesis by (fastforce simp: filter_empty_conv in_set_conv_nth)
  qed
  also have "filter (\<lambda>s. fst s < fst (?xs ! n)) (drop (Suc n) ?xs) = drop (Suc n) ?xs"
  proof -
    have "fst (?xs ! (Suc n + i)) < fst (?xs ! n)" if "i < length ?xs - Suc n" for i
      using that sorted_wrt_nth_less [OF xs, of n "Suc n + i"] by simp
    then show ?thesis by (fastforce simp: filter_id_conv in_set_conv_nth)
  qed
  finally show ?thesis by simp
qed

text \<open>A client that follows the cursors until there is none.\<close>

inductive follow_pages :: "Db \<Rightarrow> u16 \<Rightarrow> uuid option \<Rightarrow> StoredSessionMetadata list \<Rightarrow> bool" for d limit where
  last_page: "list_session_metadata d limit cursor = Ok (page, None) \<Longrightarrow> follow_pages d limit cursor page"
| next_page: "list_session_metadata d limit cursor = Ok (page, Some i) \<Longrightarrow>
    follow_pages d limit (Some i) rest \<Longrightarrow> follow_pages d limit cursor (page @ rest)"

lemma follow_pages_listing:
  assumes "1 \<le> limit" "limit \<le> 100" "distinct (map fst (sessions d))"
  shows "follow_pages d limit cursor items \<Longrightarrow> items = map metadata (listing d cursor)"
proof (induction rule: follow_pages.induct)
  case (last_page cursor page)
  then show ?case using assms(1,2) by (auto simp: list_metadata_page split: if_splits)
next
  case (next_page cursor page i rest)
  then have more: "unat limit < length (listing d cursor)"
      and page: "page = map metadata (take (unat limit) (listing d cursor))"
      and i: "i = fst (listing d cursor ! (unat limit - 1))"
    using assms(1,2) by (auto simp: list_metadata_page split: if_splits)
  have "0 < unat limit" using assms(1) by (simp add: word_le_nat_alt)
  with more listing_next [OF assms(3), of "unat limit - 1" cursor]
  have "listing d (Some i) = drop (unat limit) (listing d cursor)" by (simp add: i)
  with next_page.IH page show ?case by (simp flip: map_append)
qed

lemma follow_pages_total:
  assumes "1 \<le> limit" "limit \<le> 100" "distinct (map fst (sessions d))"
  shows "\<exists>items. follow_pages d limit cursor items"
proof (induction "length (listing d cursor)" arbitrary: cursor rule: less_induct)
  case less
  have pos: "0 < unat limit" using assms(1) by (simp add: word_le_nat_alt)
  show ?case
  proof (cases "unat limit < length (listing d cursor)")
    case True
    let ?i = "fst (listing d cursor ! (unat limit - 1))"
    from listing_next [OF assms(3), of "unat limit - 1" cursor] True pos
    have "listing d (Some ?i) = drop (unat limit) (listing d cursor)" by simp
    with True pos have "length (listing d (Some ?i)) < length (listing d cursor)" by simp
    from less [OF this] obtain rest where "follow_pages d limit (Some ?i) rest" ..
    then have "follow_pages d limit cursor (map metadata (take (unat limit) (listing d cursor)) @ rest)"
      using True by (intro next_page) (simp_all add: list_metadata_page assms(1,2))
    then show ?thesis ..
  next
    case False
    then have "follow_pages d limit cursor (map metadata (listing d cursor))"
      by (intro last_page) (simp add: list_metadata_page assms(1,2))
    then show ?thesis ..
  qed
qed

section \<open>Deletion\<close>

lemma finish_deletion_ran:
  assumes "finish_deletion x ks sid st = (Ok s, st')"
  obtains j m d where "find (\<lambda>j. d_session_id j = sid) (deletion_journal (db st)) = Some j"
    "destroy_session_key x ks sid (km st) = (Ok (), m)"
    "deletion_transaction x sid (d_deletion_id j) (d_request_id j) (db st) = Ok ((), d)"
    "st' = st\<lparr>km := m, db := d\<rparr>"
    "s = \<lparr>ds_session_id = sid, ds_deletion_id = d_deletion_id j, ds_key_destroyed = True\<rparr>"
  using assms
  by (auto simp: finish_deletion_def commit_def elim!: st_then_OkE
      split: sum.splits option.splits prod.splits)

text \<open>What a deletion leaves of a session, and that it leaves the other sessions alone.\<close>

definition erased :: "Db \<Rightarrow> uuid \<Rightarrow> bool" where
  "erased d sid \<longleftrightarrow> map_of (sessions d) sid = None \<and> session_rows d sid = [] \<and>
     (\<forall>c \<in> set (command_outcomes d). c_session_id c \<noteq> Some sid) \<and> is_deleted d sid"

definition untouched :: "Db \<Rightarrow> Db \<Rightarrow> uuid \<Rightarrow> bool" where
  "untouched d d' sid \<longleftrightarrow> map_of (sessions d') sid = map_of (sessions d) sid \<and>
     session_rows d' sid = session_rows d sid \<and>
     filter (\<lambda>c. c_session_id c = Some sid) (command_outcomes d') =
       filter (\<lambda>c. c_session_id c = Some sid) (command_outcomes d)"

lemma untouched_trans: "untouched d d' i \<Longrightarrow> untouched d' d'' i \<Longrightarrow> untouched d d'' i"
  by (simp add: untouched_def)

lemma filter_commands:
  "i \<noteq> sid \<Longrightarrow> filter (\<lambda>c. c_session_id c \<noteq> Some sid \<and> c_session_id c = Some i) cs =
     filter (\<lambda>c. c_session_id c = Some i) cs"
  by (induction cs) auto

lemma deletion_transaction_erases:
  assumes "deletion_transaction x sid did rid d = Ok (u, d')"
  shows "erased d' sid" "i \<noteq> sid \<Longrightarrow> untouched d d' i"
    "find (\<lambda>t. t_session_id t = sid) (deletion_tombstones d') = Some
       \<lparr>t_session_id = sid, t_deletion_id = did,
        t_creation = map_option (\<lambda>c. (c_request_id c, \<lparr>sc_method = c_method c,
            sc_parameter_hash = c_parameter_hash c, sc_outcome = c_outcome_json c\<rparr>))
          (find (\<lambda>c. c_session_id c = Some sid \<and> c_method c = ''session.create'') (command_outcomes d)),
        t_deletion_request_id = rid,
        t_deletion = command_record x ''session.delete'' (canonical_hash x (deletion_parameters x sid))
          (deletion_outcome x sid did)\<rparr>"
    "set (deletion_journal d') = {j \<in> set (deletion_journal d). d_session_id j \<noteq> sid}"
proof -
  have find_last: "find P (filter Q xs @ [a]) = Some a" if "\<And>y. P y \<Longrightarrow> \<not> Q y" "P a" for P Q xs and a :: Tombstone
    using that by (induction xs) auto
  show "erased d' sid" "set (deletion_journal d') = {j \<in> set (deletion_journal d). d_session_id j \<noteq> sid}"
    using assms by (auto simp: deletion_transaction_def Let_def erased_def session_rows_def filter_rows
        map_of_filter_neq is_deleted_def split: if_splits)
  show "i \<noteq> sid \<Longrightarrow> untouched d d' i"
    using assms by (auto simp: deletion_transaction_def Let_def untouched_def session_rows_def filter_rows
        map_of_filter_neq filter_commands split: if_splits)
  show "find (\<lambda>t. t_session_id t = sid) (deletion_tombstones d') = Some
       \<lparr>t_session_id = sid, t_deletion_id = did,
        t_creation = map_option (\<lambda>c. (c_request_id c, \<lparr>sc_method = c_method c,
            sc_parameter_hash = c_parameter_hash c, sc_outcome = c_outcome_json c\<rparr>))
          (find (\<lambda>c. c_session_id c = Some sid \<and> c_method c = ''session.create'') (command_outcomes d)),
        t_deletion_request_id = rid,
        t_deletion = command_record x ''session.delete'' (canonical_hash x (deletion_parameters x sid))
          (deletion_outcome x sid did)\<rparr>"
    using assms by (auto simp: deletion_transaction_def Let_def split: if_splits intro!: find_last)
qed

lemma deletion_request_untouched:
  assumes "deletion_request_transaction x nonces eid sid did rid now actor kid key d = Ok (u, d')"
    and "i \<noteq> sid"
  shows "untouched d d' i"
proof -
  from assms(1) obtain n c e d1 j where e: "insert_event e n kid c d = Ok d1" "ei_session_id e = sid"
      and d': "d' = update_session sid (\<lambda>row. row\<lparr>s_state := ''deleting''\<rparr>)
         (d1\<lparr>deletion_journal := deletion_journal d1 @ [j]\<rparr>)"
    by (fastforce simp: deletion_request_transaction_def insert_deletion_journal_def split: if_splits)
  from insert_event_Ok [OF e(1)] e(2) obtain row where
    "d1 = d\<lparr>session_events := session_events d @ [row]\<rparr>" "r_session_id row = sid" by auto
  with assms(2) show ?thesis
    unfolding d' untouched_def by (simp add: map_of_update_session session_rows_snoc)
qed

lemma find_snoc: "find P xs = None \<Longrightarrow> P a \<Longrightarrow> find P (xs @ [a]) = Some a"
  by (induction xs) (auto split: if_splits)

lemma deletion_request_journal:
  assumes "deletion_request_transaction x nonces eid sid did rid now actor kid key d = Ok (u, d')"
    and "find (\<lambda>j. d_session_id j = sid) (deletion_journal d) = None"
  shows "find (\<lambda>j. d_session_id j = sid) (deletion_journal d') =
    Some \<lparr>d_session_id = sid, d_deletion_id = did, d_request_id = rid\<rparr>"
proof -
  from assms(1) obtain e n c d1 f where "insert_event e n kid c d = Ok d1"
      "d' = update_session sid f
         (d1\<lparr>deletion_journal := deletion_journal d1 @ [\<lparr>d_session_id = sid, d_deletion_id = did, d_request_id = rid\<rparr>]\<rparr>)"
    by (fastforce simp: deletion_request_transaction_def insert_deletion_journal_def split: if_splits)
  with insert_event_Ok [OF this(1)] assms(2) show ?thesis
    by (auto simp: find_snoc)
qed

lemma deletion_request_tombstones:
  assumes "deletion_request_transaction x nonces eid sid did rid now actor kid key d = Ok (u, d')"
  shows "deletion_tombstones d' = deletion_tombstones d"
  using assms by (auto simp: deletion_request_transaction_def insert_deletion_journal_def insert_event_def Let_def
      split: if_splits)

text \<open>A successful first deletion, from either of its two starts.\<close>

lemma request_deletion_ran:
  assumes run: "request_deletion x ks nonces eid sid did rid now actor st = (Ok s, st')"
    and new: "\<not> is_deleted (db st) sid"
  obtains st1 j where "finish_deletion x ks sid st1 = (Ok s, st')"
    "find (\<lambda>j. d_session_id j = sid) (deletion_journal (db st1)) = Some j" "d_request_id j = rid"
    "\<And>i. i \<noteq> sid \<Longrightarrow> untouched (db st) (db st1) i"
    "deletion_tombstones (db st1) = deletion_tombstones (db st)"
proof -
  have "find (\<lambda>t. t_session_id t = sid) (deletion_tombstones (db st)) = None"
    using new by (auto simp: is_deleted_def find_None_iff)
  then have none: "replay_deletion_tombstone (db st) sid rid h = Ok None" for h
    by (simp add: replay_deletion_tombstone_def)
  show thesis
  proof (cases "find (\<lambda>j. d_session_id j = sid) (deletion_journal (db st))")
    case (Some j)
    then have "finish_deletion x ks sid st = (Ok s, st') \<and> d_request_id j = rid" using run
      by (auto simp: request_deletion_def none split: sum.splits option.splits if_splits)
    then show thesis using Some by (intro that [of st j]) (simp_all add: untouched_def)
  next
    case None
    with run have "st_then (with_session_key x ks sid (\<lambda>key_id key st.
        commit (deletion_request_transaction x nonces eid sid did rid now actor key_id key (db st)) st) st)
          (\<lambda>_ st. finish_deletion x ks sid st) = (Ok s, st')"
      by (auto simp: request_deletion_def none split: sum.splits option.splits if_splits)
    then obtain u st1 where req: "with_session_key x ks sid (\<lambda>key_id key st.
        commit (deletion_request_transaction x nonces eid sid did rid now actor key_id key (db st)) st) st
          = (Ok u, st1)" and fin: "finish_deletion x ks sid st1 = (Ok s, st')"
      by (auto elim!: st_then_OkE)
    from req obtain kid key where tx:
        "deletion_request_transaction x nonces eid sid did rid now actor kid key (db st) = Ok (u, db st1)"
      by (cases rule: with_session_key_cases) (auto simp: commit_def split: sum.splits)
    show thesis
      using that [OF fin deletion_request_journal [OF tx None]] deletion_request_untouched [OF tx]
        deletion_request_tombstones [OF tx] by simp
  qed
qed

text \<open>A destroyed key is gone from the cache and from the store of keys.\<close>

lemma destroyed_key:
  assumes "destroy_session_key x memory_key_store sid m = (Ok u, m')"
  shows "\<not> is_ok (fst (session_key x memory_key_store sid m'))"
    "map_of (mem_entries (km_store m')) (session_key_id x m' sid) = None"
proof -
  from assms have m': "km_cache m' sid = None"
      "map_of (mem_entries (km_store m')) (session_key_id x m' sid) = None"
    by (auto simp: destroy_session_key_def mem_ops session_key_id_def map_of_filter_neq split: prod.splits if_splits)
  then show "map_of (mem_entries (km_store m')) (session_key_id x m' sid) = None" by simp
  have "\<not> is_ok (unwrap_session_key x memory_key_store sid m')"
    using m'(2) by (auto simp: unwrap_session_key_def mem_ops Let_def is_ok_iff and_then_Ok_iff ok_or_Ok_iff)
  then show "\<not> is_ok (fst (session_key x memory_key_store sid m'))"
    using m'(1) by (auto simp: session_key_def split: sum.splits)
qed

lemma finish_deletion_erases:
  assumes "finish_deletion x ks sid st = (Ok s, st')"
  shows "erased (db st') sid" "i \<noteq> sid \<Longrightarrow> untouched (db st) (db st') i"
    "is_deleted (db st') i \<Longrightarrow> i = sid \<or> is_deleted (db st) i"
proof -
  obtain j :: DeletionJournalRow and m d where
    tx: "deletion_transaction x sid (d_deletion_id j) (d_request_id j) (db st) = Ok ((), d)"
    and st': "st' = st\<lparr>km := m, db := d\<rparr>" by (rule finish_deletion_ran [OF assms]) (rule that)
  show "erased (db st') sid" "i \<noteq> sid \<Longrightarrow> untouched (db st) (db st') i"
    using deletion_transaction_erases(1,2) [OF tx] st' by auto
  show "is_deleted (db st') i \<Longrightarrow> i = sid \<or> is_deleted (db st) i"
    using tx st' by (auto simp: deletion_transaction_def Let_def is_deleted_def split: if_splits)
qed

text \<open>Once deleted, a session answers its own deletion request and no other.\<close>

lemma deleted_answers:
  assumes "finish_deletion x ks sid st = (Ok s, st')"
    and "find (\<lambda>j. d_session_id j = sid) (deletion_journal (db st)) = Some j"
  shows "request_deletion x ks nonces eid sid did rid now actor st' =
    (if rid = d_request_id j then Ok s else Err SessionNotFound, st')"
proof -
  obtain m d where
    tx: "deletion_transaction x sid (d_deletion_id j) (d_request_id j) (db st) = Ok ((), d)"
    and st': "st' = st\<lparr>km := m, db := d\<rparr>"
    and s: "s = \<lparr>ds_session_id = sid, ds_deletion_id = d_deletion_id j, ds_key_destroyed = True\<rparr>"
    by (rule finish_deletion_ran [OF assms(1)]) (use assms(2) that in simp)
  show ?thesis
    using deletion_transaction_erases(3) [OF tx] st'
    by (simp add: request_deletion_def replay_deletion_tombstone_def command_record_def s)
qed

section \<open>Retention\<close>

lemma request_deletion_erases:
  assumes run: "request_deletion x ks nonces eid sid did rid now actor st = (Ok s, st')"
    and new: "\<not> is_deleted (db st) sid"
  shows "erased (db st') sid" "i \<noteq> sid \<Longrightarrow> untouched (db st) (db st') i" "ds_session_id s = sid"
    "is_deleted (db st') i \<Longrightarrow> i = sid \<or> is_deleted (db st) i"
proof -
  obtain st1 where fin: "finish_deletion x ks sid st1 = (Ok s, st')"
      and same: "\<And>i. i \<noteq> sid \<Longrightarrow> untouched (db st) (db st1) i"
      and tombs: "deletion_tombstones (db st1) = deletion_tombstones (db st)"
    by (rule request_deletion_ran [OF run new]) (rule that)
  show "erased (db st') sid" using finish_deletion_erases(1) [OF fin] .
  show "ds_session_id s = sid" by (rule finish_deletion_ran [OF fin]) simp
  show "i \<noteq> sid \<Longrightarrow> untouched (db st) (db st') i"
    using same finish_deletion_erases(2) [OF fin] by (blast intro: untouched_trans)
  show "is_deleted (db st') i \<Longrightarrow> i = sid \<or> is_deleted (db st) i"
    using finish_deletion_erases(3) [OF fin] tombs by (simp add: is_deleted_def)
qed

lemma delete_sessions_erases:
  "delete_sessions x ks nonces ids now sids st = (Ok ss, st') \<Longrightarrow> distinct sids \<Longrightarrow>
     list_all (\<lambda>i. \<not> is_deleted (db st) i) sids \<Longrightarrow>
     map ds_session_id ss = sids \<and>
     (\<forall>i \<in> set sids. map_of (sessions (db st')) i = None \<and> session_rows (db st') i = []) \<and>
     (\<forall>i. i \<notin> set sids \<longrightarrow> untouched (db st) (db st') i)"
proof (induction sids arbitrary: st ss)
  case Nil
  then show ?case by (simp add: untouched_def)
next
  case (Cons sid sids)
  from Cons.prems(1) obtain s ss' st1 eid did rid where
      one: "request_deletion x ks nonces eid sid did rid now ''retention'' st = (Ok s, st1)"
      and rest: "delete_sessions x ks nonces ids now sids st1 = (Ok ss', st')" and ss: "ss = s # ss'"
    by (auto elim!: st_then_OkE)
  have new: "\<not> is_deleted (db st) sid" "list_all (\<lambda>i. \<not> is_deleted (db st) i) sids" "sid \<notin> set sids"
    "distinct sids" using Cons.prems by simp_all
  note erases = request_deletion_erases [OF one new(1)]
  have "list_all (\<lambda>i. \<not> is_deleted (db st1) i) sids"
    unfolding list_all_iff
  proof
    fix i
    assume "i \<in> set sids"
    then show "\<not> is_deleted (db st1) i" using erases(4) [of i] new(2,3) by (auto simp: list_all_iff)
  qed
  note IH = Cons.IH [OF rest new(4) this]
  then have gone: "untouched (db st1) (db st') sid" using new(3) by blast
  have others: "untouched (db st) (db st') i" if "i \<notin> set (sid # sids)" for i
    using that IH erases(2) [of i] untouched_trans [of "db st" "db st1" i "db st'"] by simp
  from IH ss erases(1,3) gone show ?case
    by (intro conjI allI impI others) (auto simp: erased_def untouched_def)
qed

section \<open>Creation\<close>

text \<open>Two databases that differ at most in the journal of creations.\<close>

definition same_tables :: "Db \<Rightarrow> Db \<Rightarrow> bool" where
  "same_tables d d' \<longleftrightarrow> d\<lparr>session_creation_journal := []\<rparr> = d'\<lparr>session_creation_journal := []\<rparr>"

lemma same_tables_refl [simp]: "same_tables d d" "same_tables d (d\<lparr>session_creation_journal := js\<rparr>)"
  by (simp_all add: same_tables_def)

lemma same_tables_trans: "same_tables d d' \<Longrightarrow> same_tables d' d'' \<Longrightarrow> same_tables d d''"
  by (simp add: same_tables_def)

lemma same_tables_rows:
  assumes "same_tables d d'"
  shows "sessions d' = sessions d" "session_events d' = session_events d"
    "command_outcomes d' = command_outcomes d" "deletion_tombstones d' = deletion_tombstones d"
    "export_journal d' = export_journal d" "deletion_journal d' = deletion_journal d"
  using assms by (cases d; cases d'; simp add: same_tables_def)+

lemma reconcile_same: "same_tables (db st) (db (snd (reconcile_creation x ks j st)))"
  unfolding reconcile_creation_def
  by (auto simp: Let_def st_then_def split: option.splits prod.splits sum.splits)

lemma reconcile_request_same: "same_tables (db st) (db (snd (reconcile_creation_by_request x ks rid st)))"
  unfolding reconcile_creation_by_request_def by (auto simp: reconcile_same split: option.splits)

lemma st_then_same:
  assumes "same_tables d (db (snd r))" "\<And>a st. same_tables d (db st) \<Longrightarrow> same_tables d (db (snd (k a st)))"
  shows "same_tables d (db (snd (st_then r k)))"
  using assms by (cases r; cases "fst r") auto

lemma reconcile_retry_same: "same_tables (db st) (db (snd (reconcile_create_retry x ks sid rid h st)))"
  unfolding reconcile_create_retry_def
  by (rule st_then_same)
     (auto simp: reconcile_same split: option.splits intro: same_tables_trans [OF _ reconcile_same])

lemma journal_same: "insert_creation_journal j d = Ok d' \<Longrightarrow> same_tables d d'"
  by (auto simp: insert_creation_journal_def split: if_splits)

lemma mark_same: "same_tables (db st) (db (snd (mark_creation_key_created input h kid st)))"
  by (simp add: mark_creation_key_created_def Let_def)

text \<open>The steps of a creation that succeeds.\<close>

lemma finish_create_ran:
  assumes "finish_create_session x ks f input h kid st = (Ok v, st')"
  obtains d conf lock event where "same_tables (db st) d" "km_cache (km st') (cs_session_id input) = Some (f_key f)"
    "encrypt_json x (f_configuration_nonce f) (f_key f) (cs_session_id input) ''configuration'' 0
       ''configuration_snapshot'' (cs_configuration_snapshot input) = Ok conf"
    "encrypt_json x (f_lock_nonce f) (f_key f) (cs_session_id input) ''lock'' 0 ''session_lock''
       (cs_lock_snapshot input) = Ok lock"
    "encrypt_json x (f_event_nonce f) (f_key f) (cs_session_id input) (uuid_text x (f_event_id f)) 1
       ''session_created'' (cs_initial_event_payload input) = Ok event"
    "creation_transaction x input f h kid conf lock event d = Ok (v, db st')"
proof -
  let ?sid = "cs_session_id input"
  obtain r m where key: "create_session_key x ks (f_root f) (f_key f) (f_envelope_nonce f) ?sid (km st) = (r, m)"
    by (rule prod.exhaust)
  with assms have r: "r = Ok kid"
    by (auto simp: finish_create_session_def split: sum.splits if_splits)
  have cache: "km_cache m ?sid = Some (f_key f)"
    using key r by (auto simp: create_session_key_def Let_def elim!: st_then_OkE split: sum.splits option.splits prod.splits)
  let ?mark = "mark_creation_key_created input h kid (st\<lparr>km := m\<rparr>)"
  have km: "km (snd ?mark) = m" by (simp add: mark_creation_key_created_def Let_def)
  from assms key r obtain u where mark: "fst ?mark = Ok u"
      and run: "commit
         (and_then (encrypt_json x (f_configuration_nonce f) (f_key f) ?sid ''configuration'' 0
            ''configuration_snapshot'' (cs_configuration_snapshot input)) (\<lambda>configuration.
          and_then (encrypt_json x (f_lock_nonce f) (f_key f) ?sid ''lock'' 0 ''session_lock''
            (cs_lock_snapshot input)) (\<lambda>lock.
          and_then (encrypt_json x (f_event_nonce f) (f_key f) ?sid (uuid_text x (f_event_id f)) 1
            ''session_created'' (cs_initial_event_payload input)) (\<lambda>event.
            creation_transaction x input f h kid configuration lock event (db (snd ?mark))))))
         ((snd ?mark)\<lparr>km := m\<rparr>) = (Ok v, st')"
    by (cases ?mark; cases "fst ?mark")
       (use km cache in \<open>auto simp: finish_create_session_def session_key_def split: if_splits\<close>)
  have same: "same_tables (db st) (db (snd ?mark))" using mark_same [of "st\<lparr>km := m\<rparr>" input h kid] by simp
  from run cache show thesis
    by (auto simp: commit_def and_then_Ok_iff split: sum.splits intro!: that [OF same])
qed

lemma create_session_cases:
  assumes "create_session x ks f input st = (Ok (Recorded v), st')"
  obtains st1 where "same_tables (db st) (db st1)"
    "lookup_port_command x None (cs_request_id input) (db st) = None"
    "finish_create_session x ks f input (canonical_hash x (cs_request_parameters input))
       (session_key_id x (km st1) (cs_session_id input)) st1 = (Ok (Recorded v), st')"
proof -
  let ?h = "canonical_hash x (cs_request_parameters input)"
  have none: "lookup_port_command x None (cs_request_id input) (db st) = None"
    using assms by (auto simp: create_session_def Let_def and_then_Ok_iff split: option.splits if_splits)
  let ?retry = "reconcile_create_retry x ks (cs_session_id input) (cs_request_id input) ?h st"
  from assms none obtain u st1 where retry: "?retry = (Ok u, st1)"
      and rest: "(case insert_creation_journal
          \<lparr>j_session_id = cs_session_id input, j_request_id = cs_request_id input, j_parameter_hash = ?h,
           j_key_id = session_key_id x (km st1) (cs_session_id input), j_state = ''prepared''\<rparr> (db st1) of
        Err e \<Rightarrow> (Err e, st1)
      | Ok d \<Rightarrow> (case finish_create_session x ks f input ?h (session_key_id x (km st1) (cs_session_id input))
             (st1\<lparr>db := d\<rparr>) of
           (Ok v, st) \<Rightarrow> (Ok v, st)
         | (Err e, st) \<Rightarrow> (Err e, snd (reconcile_creation_by_request x ks (cs_request_id input) st))))
        = (Ok (Recorded v), st')"
    by (auto simp: create_session_def Let_def elim!: st_then_OkE)
  have same: "same_tables (db st) (db st1)"
    using reconcile_retry_same [of st x ks "cs_session_id input" "cs_request_id input" ?h] retry by simp
  from rest obtain d where d: "insert_creation_journal
          \<lparr>j_session_id = cs_session_id input, j_request_id = cs_request_id input, j_parameter_hash = ?h,
           j_key_id = session_key_id x (km st1) (cs_session_id input), j_state = ''prepared''\<rparr> (db st1) = Ok d"
      and fin: "finish_create_session x ks f input ?h (session_key_id x (km st1) (cs_session_id input))
             (st1\<lparr>db := d\<rparr>) = (Ok (Recorded v), st')"
    by (auto split: sum.splits prod.splits)
  show thesis
    by (rule that [of "st1\<lparr>db := d\<rparr>"])
       (use same_tables_trans [OF same journal_same [OF d]] none fin in \<open>simp_all add: session_key_id_def\<close>)
qed

end
