(* ===== verification/Lifecycle_Laws.thy ===== *)
theory Lifecycle_Laws
  imports Lifecycle
begin

text \<open>
  The guarantees of a session's life: what a creation stores and how it is retried or undone, that
  recovery leaves no attempt uncertain, that deletion erases a session with its key, that retention
  deletes exactly the sessions that are due, and that the pages of the listing partition it.
\<close>

declare upt_Suc [simp del]

section \<open>What a creation stores\<close>

lemma no_session_no_rows:
  "db_inv d \<Longrightarrow> map_of (sessions d) sid = None \<Longrightarrow> session_rows d sid = []"
  unfolding db_inv_def session_rows_def filter_empty_conv map_of_eq_None_iff by metis

lemma creation_transaction_stores:
  assumes run: "creation_transaction x input f h key_id conf lock event d = Ok (v, d')"
    and inv: "map_of (sessions d) (cs_session_id input) = None \<longrightarrow> session_rows d (cs_session_id input) = []"
  obtains row where "v = Recorded (cs_command_outcome input)"
    "map_of (sessions d') (cs_session_id input) = Some
       \<lparr>s_key_id = key_id, s_state = ''ready'', s_created_at = cs_occurred_at input, s_terminal_at = None,
        s_configuration = conf, s_lock = lock, s_spend_usd_micros = 0\<rparr>"
    "session_rows d' (cs_session_id input) = [row]"
    "row = \<lparr>r_event_id = f_event_id f, r_session_id = cs_session_id input, r_sequence = 1,
       r_occurred_at = cs_occurred_at input, r_kind = ''session_created'',
       r_causation_request_id = Some (cs_request_id input), r_attempt_id = None, r_effect_class = None,
       r_key_id = key_id, r_payload = event\<rparr>" "length (ep_nonce event) = 24"
    "lookup_stored_command d' ''daemon'' (cs_request_id input) = Some
       \<lparr>sc_method = ''session.create'', sc_parameter_hash = h, sc_outcome = json_to_vec x (cs_command_outcome input)\<rparr>"
proof -
  let ?sid = "cs_session_id input"
  have fresh: "map_of (sessions d) ?sid = None"
    using run by (auto simp: creation_transaction_def insert_session_def split: if_splits)
  with inv have "session_rows d ?sid = []" by blast
  note rows = this [unfolded session_rows_def]
  have none: "find (\<lambda>c. c_scope c = ''daemon'' \<and> c_request_id c = cs_request_id input) (command_outcomes d) = None"
    using run by (auto simp: creation_transaction_def insert_session_def insert_event_def insert_command_def Let_def
        split: if_splits)
  show thesis
    by (rule that, use run fresh rows in \<open>auto simp: creation_transaction_def insert_session_def insert_event_def
        insert_command_def Let_def lookup_stored_command_def session_rows_def map_add_def
        find_snoc [OF none] split: if_splits\<close>)
qed

lemma encrypted_reads_back:
  assumes "externals_ok x" "length n = NONCE_BYTES" "text_exact x v"
    and "encrypt_json x n key sid obj seq k v = Ok p"
  shows "and_then (EncryptedPayload_decrypt x p key (event_aad x sid obj seq k))
    (\<lambda>plaintext. ok_or StorageUnavailable (json_from_slice x plaintext)) = Ok v"
  using assms decrypt_encrypt [OF assms(1,2)] by (simp add: encrypt_json_def text_exact_def)

lemma encrypt_nonce: "encrypt_json x n key sid obj seq k v = Ok p \<Longrightarrow> ep_nonce p = n"
  by (auto simp: encrypt_json_def encrypt_Ok)

lemma create_inv: "create_session x ks f input st = (r, st') \<Longrightarrow> db_inv (db st) \<Longrightarrow> db_inv (db st')"
  using writing.create_session_keeps [THEN store.keepsD, of st x ks f input] by (metis snd_conv)

text \<open>A creation that is recorded, in terms of what the store holds afterwards.\<close>

lemma created:
  assumes "externals_ok x" "db_inv (db st)"
    and "length (f_configuration_nonce f) = NONCE_BYTES" "length (f_lock_nonce f) = NONCE_BYTES"
    and "text_exact x (cs_configuration_snapshot input)" "text_exact x (cs_lock_snapshot input)"
    and "text_exact x (cs_initial_event_payload input)"
    and "create_session x ks f input st = (Ok (Recorded v), st')"
  obtains "v = cs_command_outcome input"
    "fst (load_session x ks (cs_session_id input) st') = Ok
      \<lparr>ss_session_id = cs_session_id input, ss_state = ''ready'', ss_terminal_at = None,
       ss_configuration_snapshot = cs_configuration_snapshot input,
       ss_lock_snapshot = cs_lock_snapshot input\<rparr>"
    "event_log x ks st' (cs_session_id input) = Ok
      [\<lparr>se_event_id = f_event_id f, se_session_id = cs_session_id input, se_sequence = 1,
        se_occurred_at = cs_occurred_at input, se_kind = ''session_created'',
        se_causation_request_id = Some (cs_request_id input), se_attempt_id = None, se_effect_class = None,
        se_payload = cs_initial_event_payload input\<rparr>]"
    "lookup_port_command x None (cs_request_id input) (db st') = Some
      \<lparr>sc_method = ''session.create'', sc_parameter_hash = canonical_hash x (cs_request_parameters input),
       sc_outcome = json_to_vec x (cs_command_outcome input)\<rparr>"
proof -
  let ?sid = "cs_session_id input" and ?h = "canonical_hash x (cs_request_parameters input)"
  note inv' = create_inv [OF assms(8,2)]
  obtain st1 where same: "same_tables (db st) (db st1)"
      and fin: "finish_create_session x ks f input ?h (session_key_id x (km st1) ?sid) st1 = (Ok (Recorded v), st')"
    by (rule create_session_cases [OF assms(8)]) (rule that)
  obtain d conf lock event where d: "same_tables (db st1) d"
      and cache: "km_cache (km st') ?sid = Some (f_key f)"
      and conf: "encrypt_json x (f_configuration_nonce f) (f_key f) ?sid ''configuration'' 0
         ''configuration_snapshot'' (cs_configuration_snapshot input) = Ok conf"
      and lock: "encrypt_json x (f_lock_nonce f) (f_key f) ?sid ''lock'' 0 ''session_lock''
         (cs_lock_snapshot input) = Ok lock"
      and event: "encrypt_json x (f_event_nonce f) (f_key f) ?sid (uuid_text x (f_event_id f)) 1
         ''session_created'' (cs_initial_event_payload input) = Ok event"
      and tx: "creation_transaction x input f ?h (session_key_id x (km st1) ?sid) conf lock event d =
         Ok (Recorded v, db st')"
    by (rule finish_create_ran [OF fin]) (rule that)
  have key: "session_key x ks ?sid (km st') = (Ok (f_key f), km st')" using cache by (simp add: session_key_def)
  have tables: "sessions d = sessions (db st)" "session_events d = session_events (db st)"
    using same_tables_rows [OF same_tables_trans [OF same d]] by simp_all
  have rows: "map_of (sessions d) ?sid = None \<longrightarrow> session_rows d ?sid = []"
    using no_session_no_rows [OF assms(2)] tables by (simp add: session_rows_def)
  obtain row where stored: "Recorded v = Recorded (cs_command_outcome input)"
    "map_of (sessions (db st')) ?sid = Some
       \<lparr>s_key_id = session_key_id x (km st1) ?sid, s_state = ''ready'', s_created_at = cs_occurred_at input,
        s_terminal_at = None, s_configuration = conf, s_lock = lock, s_spend_usd_micros = 0\<rparr>"
    "session_rows (db st') ?sid = [row]"
    and row: "row = \<lparr>r_event_id = f_event_id f, r_session_id = ?sid, r_sequence = 1,
       r_occurred_at = cs_occurred_at input, r_kind = ''session_created'',
       r_causation_request_id = Some (cs_request_id input), r_attempt_id = None, r_effect_class = None,
       r_key_id = session_key_id x (km st1) ?sid, r_payload = event\<rparr>"
    and n: "length (ep_nonce event) = 24"
    and cmd: "lookup_stored_command (db st') ''daemon'' (cs_request_id input) = Some
       \<lparr>sc_method = ''session.create'', sc_parameter_hash = ?h,
        sc_outcome = json_to_vec x (cs_command_outcome input)\<rparr>"
    by (rule creation_transaction_stores [OF tx rows]) (rule that)
  have "length (f_event_nonce f) = NONCE_BYTES" using n encrypt_nonce [OF event] by (simp add: NONCE_BYTES_def)
  note event_back = encrypted_reads_back [OF assms(1) this assms(7) event]
  then have "decrypt_event x (f_key f) ?sid row = Ok
      \<lparr>se_event_id = f_event_id f, se_session_id = ?sid, se_sequence = 1,
        se_occurred_at = cs_occurred_at input, se_kind = ''session_created'',
        se_causation_request_id = Some (cs_request_id input), se_attempt_id = None, se_effect_class = None,
        se_payload = cs_initial_event_payload input\<rparr>"
    by (auto simp: decrypt_event_def row and_then_Ok_iff)
  then have log: "event_log x ks st' ?sid = Ok [\<lparr>se_event_id = f_event_id f, se_session_id = ?sid, se_sequence = 1,
        se_occurred_at = cs_occurred_at input, se_kind = ''session_created'',
        se_causation_request_id = Some (cs_request_id input), se_attempt_id = None, se_effect_class = None,
        se_payload = cs_initial_event_payload input\<rparr>]"
    by (simp add: event_log_rows [OF inv'] key stored(3))
  have load: "fst (load_session x ks ?sid st') = Ok
      \<lparr>ss_session_id = ?sid, ss_state = ''ready'', ss_terminal_at = None,
       ss_configuration_snapshot = cs_configuration_snapshot input, ss_lock_snapshot = cs_lock_snapshot input\<rparr>"
    using encrypted_reads_back [OF assms(1,3,5) conf] encrypted_reads_back [OF assms(1,4,6) lock]
    by (simp add: load_session_def stored(2) key decrypt_session_json_def)
  show thesis
    by (rule that [OF _ load log]) (use stored(1) cmd in \<open>simp_all add: lookup_port_command_def command_scope_def\<close>)
qed


text \<open>A creation that fails.\<close>

lemma finish_create_Err:
  assumes "finish_create_session x ks f input h kid st = (Err e, st')"
  shows "same_tables (db st) (db st')"
proof -
  have "same_tables (db st) (db (snd (mark_creation_key_created input h k (st\<lparr>km := m\<rparr>))))" for k m
    using mark_same [of "st\<lparr>km := m\<rparr>"] by simp
  then show ?thesis using assms
    by (auto simp: finish_create_session_def commit_def st_then_def split: sum.splits prod.splits if_splits)
       (metis snd_conv)+
qed

lemma create_session_Err:
  assumes "create_session x ks f input st = (Err e, st')"
  shows "same_tables (db st) (db st')"
proof -
  let ?h = "canonical_hash x (cs_request_parameters input)"
  let ?retry = "reconcile_create_retry x ks (cs_session_id input) (cs_request_id input) ?h st"
  have retry: "same_tables (db st) (db (snd ?retry))" by (rule reconcile_retry_same)
  show ?thesis
  proof (cases "lookup_port_command x None (cs_request_id input) (db st)")
    case (Some r)
    with assms show ?thesis by (auto simp: create_session_def Let_def split: if_splits)
  next
    case None
    obtain q st1 where q: "?retry = (q, st1)" by (rule prod.exhaust)
    show ?thesis
    proof (cases q)
      case (Inl e')
      with assms None q retry show ?thesis by (simp add: create_session_def Let_def)
    next
      case (Inr u)
      let ?j = "\<lparr>j_session_id = cs_session_id input, j_request_id = cs_request_id input, j_parameter_hash = ?h,
        j_key_id = session_key_id x (km st1) (cs_session_id input), j_state = ''prepared''\<rparr>"
      show ?thesis
      proof (cases "insert_creation_journal ?j (db st1)")
        case (Inl e')
        with assms None q retry \<open>q = Ok u\<close> show ?thesis by (simp add: create_session_def Let_def)
      next
        case (Inr d)
        obtain r st2 where fin: "finish_create_session x ks f input ?h
            (session_key_id x (km st1) (cs_session_id input)) (st1\<lparr>db := d\<rparr>) = (r, st2)" by (rule prod.exhaust)
        from assms None q \<open>q = Ok u\<close> Inr fin obtain e' where "r = Err e'"
            and st': "st' = snd (reconcile_creation_by_request x ks (cs_request_id input) st2)"
          by (cases r) (auto simp: create_session_def Let_def)
        with fin have "same_tables d (db st2)" using finish_create_Err by fastforce
        with retry q journal_same [OF Inr] reconcile_request_same [of st2] st' show ?thesis
          by (metis same_tables_trans snd_conv)
      qed
    qed
  qed
qed

text \<open>Creations a crash left unfinished.\<close>

lemma reconcile_ran:
  assumes "reconcile_creation x memory_key_store j st = (Ok u, st')"
  shows "session_creation_journal (db st') = filter (\<lambda>o'. o' \<noteq> j) (session_creation_journal (db st))"
    "km_session_key_prefix (km st') = km_session_key_prefix (km st)"
    "map_of (sessions (db st)) (j_session_id j) = None \<Longrightarrow>
       map_of (mem_entries (km_store (km st'))) (j_key_id j) = None"
    "map_of (mem_entries (km_store (km st))) i = None \<Longrightarrow> map_of (mem_entries (km_store (km st'))) i = None"
  using assms
  by (auto simp: reconcile_creation_def Let_def owns_session_key_def destroy_session_key_def mem_ops
      map_of_filter_neq elim!: st_then_OkE split: option.splits prod.splits if_splits)

lemma reconcile_journals_ran:
  "reconcile_journals x memory_key_store js st = (Ok u, st') \<Longrightarrow>
     same_tables (db st) (db st') \<and>
     session_creation_journal (db st') = filter (\<lambda>j. j \<notin> set js) (session_creation_journal (db st)) \<and>
     (\<forall>i. map_of (mem_entries (km_store (km st))) i = None \<longrightarrow>
        map_of (mem_entries (km_store (km st'))) i = None) \<and>
     (\<forall>j \<in> set js. map_of (sessions (db st)) (j_session_id j) = None \<longrightarrow>
        map_of (mem_entries (km_store (km st'))) (j_key_id j) = None)"
proof (induction js arbitrary: st)
  case Nil
  then show ?case by simp
next
  case (Cons j js)
  then obtain v st1 where one: "reconcile_creation x memory_key_store j st = (Ok v, st1)"
      and rest: "reconcile_journals x memory_key_store js st1 = (Ok u, st')"
    by (auto elim!: st_then_OkE)
  note IH = Cons.IH [OF rest] and step = reconcile_ran [OF one]
  have same: "same_tables (db st) (db st1)" using reconcile_same [of st x memory_key_store j] one by simp
  have "same_tables (db st) (db st')" using IH same by (blast intro: same_tables_trans)
  moreover have "session_creation_journal (db st') = filter (\<lambda>i. i \<notin> set (j # js)) (session_creation_journal (db st))"
    using IH step(1) by (auto intro!: filter_cong)
  moreover have "map_of (mem_entries (km_store (km st'))) (j_key_id i) = None"
    if "i \<in> set (j # js)" "map_of (sessions (db st)) (j_session_id i) = None" for i
    using that IH step(3) same_tables_rows(1) [OF same] by auto
  ultimately show ?case using IH step(4) by blast
qed

lemma selected_fst:
  "[i. (i, row) \<leftarrow> xs, P row, Q row] = map fst (filter (\<lambda>(i, row). P row \<and> Q row) xs)"
  by (induction xs) (auto split: if_splits)

section \<open>Properties\<close>

text \<open>C26: what a creation records is what the store returns: the snapshots load back, the log is the
  one creation event, and a retry of the request, whatever it draws, is answered with the recorded
  outcome and changes nothing, unless its parameters differ, which is a conflict.\<close>

theorem creation_roundtrip:
  assumes "externals_ok x" "db_inv (db st)"
    and "length (f_configuration_nonce f) = NONCE_BYTES" "length (f_lock_nonce f) = NONCE_BYTES"
    and "text_exact x (cs_configuration_snapshot input)" "text_exact x (cs_lock_snapshot input)"
    and "text_exact x (cs_initial_event_payload input)" "text_exact x (cs_command_outcome input)"
    and "create_session x ks f input st = (Ok (Recorded v), st')"
    and "cs_request_id retry = cs_request_id input"
  shows "v = cs_command_outcome input \<and>
    fst (load_session x ks (cs_session_id input) st') = Ok
      \<lparr>ss_session_id = cs_session_id input, ss_state = ''ready'', ss_terminal_at = None,
       ss_configuration_snapshot = cs_configuration_snapshot input,
       ss_lock_snapshot = cs_lock_snapshot input\<rparr> \<and>
    event_log x ks st' (cs_session_id input) = Ok
      [\<lparr>se_event_id = f_event_id f, se_session_id = cs_session_id input, se_sequence = 1,
        se_occurred_at = cs_occurred_at input, se_kind = ''session_created'',
        se_causation_request_id = Some (cs_request_id input), se_attempt_id = None, se_effect_class = None,
        se_payload = cs_initial_event_payload input\<rparr>] \<and>
    create_session x ks f' retry st' =
      (if canonical_hash x (cs_request_parameters retry) = canonical_hash x (cs_request_parameters input)
       then Ok (Replay (cs_command_outcome input)) else Err RequestConflict, st')"
proof (rule created [OF assms(1-7,9)])
  assume "lookup_port_command x None (cs_request_id input) (db st') = Some
      \<lparr>sc_method = ''session.create'', sc_parameter_hash = canonical_hash x (cs_request_parameters input),
       sc_outcome = json_to_vec x (cs_command_outcome input)\<rparr>"
  then have again: "create_session x ks f' retry st' =
      (if canonical_hash x (cs_request_parameters retry) = canonical_hash x (cs_request_parameters input)
       then Ok (Replay (cs_command_outcome input)) else Err RequestConflict, st')"
    using assms(8,10) by (simp add: create_session_def Let_def outcome_value_def text_exact_def)
  then show "v = cs_command_outcome input \<Longrightarrow>
    fst (load_session x ks (cs_session_id input) st') = Ok
      \<lparr>ss_session_id = cs_session_id input, ss_state = ''ready'', ss_terminal_at = None,
       ss_configuration_snapshot = cs_configuration_snapshot input,
       ss_lock_snapshot = cs_lock_snapshot input\<rparr> \<Longrightarrow>
    event_log x ks st' (cs_session_id input) = Ok
      [\<lparr>se_event_id = f_event_id f, se_session_id = cs_session_id input, se_sequence = 1,
        se_occurred_at = cs_occurred_at input, se_kind = ''session_created'',
        se_causation_request_id = Some (cs_request_id input), se_attempt_id = None, se_effect_class = None,
        se_payload = cs_initial_event_payload input\<rparr>] \<Longrightarrow> ?thesis"
    by blast
qed

definition demo_fresh :: CreationFresh where
  "demo_fresh = \<lparr>f_root = replicate 32 CHR ''r'', f_key = demo_key, f_envelope_nonce = demo_nonce,
     f_configuration_nonce = demo_nonce, f_lock_nonce = demo_nonce, f_event_nonce = demo_nonce, f_event_id = 3\<rparr>"

definition demo_create :: CreateSession where
  "demo_create = \<lparr>cs_session_id = 1, cs_request_id = 4, cs_occurred_at = 0, cs_request_parameters = JNull,
     cs_command_outcome = JString ''ok'', cs_configuration_snapshot = JBool True,
     cs_lock_snapshot = JNull, cs_initial_event_payload = JBool False\<rparr>"

definition demo_empty :: "MemoryKeyStore SqliteStorage" where
  "demo_empty = \<lparr>db = empty_db, km = KeyManager_for_storage reference MemoryKeyStore_new 2 ''db''\<rparr>"

lemma demo_encrypt:
  "encrypt_json reference demo_nonce demo_key sid obj n k v =
     Ok \<lparr>ep_nonce = demo_nonce, ep_ciphertext = take 16 demo_key @ put_json v\<rparr>"
  by (simp add: encrypt_json_def EncryptedPayload_encrypt_def reference_encrypt) (simp add: reference_def)

lemma demo_created_key:
  obtains m where "create_session_key reference memory_key_store (replicate 32 CHR ''r'') demo_key demo_nonce 1
      (km demo_empty) = (Ok (session_key_id reference (km demo_empty) 1), m)"
    "km_cache m 1 = Some demo_key"
proof -
  let ?run = "create_session_key reference memory_key_store (replicate 32 CHR ''r'') demo_key demo_nonce 1 (km demo_empty)"
  have ok: "fst ?run = Ok (session_key_id reference (km demo_empty) 1)"
    unfolding demo_empty_def by (simp add: reference_create one_byte_key_def NONCE_BYTES_def)
  then have "km_cache (snd ?run) 1 = Some demo_key"
    by (cases ?run) (auto simp: create_session_key_def Let_def elim!: st_then_OkE split: sum.splits option.splits prod.splits)
  with ok show thesis by (intro that [of "snd ?run"]) (simp_all add: prod_eq_iff)
qed

lemma demo_created:
  obtains st' where "create_session reference memory_key_store demo_fresh demo_create demo_empty =
    (Ok (Recorded (JString ''ok'')), st')"
proof -
  let ?kid = "session_key_id reference (km demo_empty) 1" and ?h = "canonical_hash reference JNull"
  obtain m where key: "create_session_key reference memory_key_store (replicate 32 CHR ''r'') demo_key demo_nonce 1
      (km demo_empty) = (Ok ?kid, m)" and cache: "km_cache m 1 = Some demo_key" by (rule demo_created_key)
  let ?j = "\<lparr>j_session_id = 1, j_request_id = 4, j_parameter_hash = ?h, j_key_id = ?kid, j_state = ''prepared''\<rparr>"
  have db: "db demo_empty = empty_db" by (simp add: demo_empty_def)
  have retry: "reconcile_create_retry reference memory_key_store 1 4 ?h demo_empty = (Ok (), demo_empty)"
    by (simp add: reconcile_create_retry_def db creation_journal_by_request_def creation_journal_by_session_def empty_db_def)
  have journal: "insert_creation_journal ?j empty_db = Ok (empty_db\<lparr>session_creation_journal := [?j]\<rparr>)"
    by (simp add: insert_creation_journal_def empty_db_def)
  have none: "lookup_port_command reference None 4 empty_db = None"
    by (simp add: lookup_port_command_def lookup_stored_command_def empty_db_def)
  have fin: "fst (finish_create_session reference memory_key_store demo_fresh demo_create ?h ?kid
      (demo_empty\<lparr>db := empty_db\<lparr>session_creation_journal := [?j]\<rparr>\<rparr>)) = Ok (Recorded (JString ''ok''))"
    by (simp add: finish_create_session_def demo_fresh_def demo_create_def key mark_creation_key_created_def
        session_key_def cache demo_encrypt commit_def)
       (simp add: creation_transaction_def insert_session_def insert_event_def insert_command_def empty_db_def)
  then obtain st' where "finish_create_session reference memory_key_store demo_fresh demo_create ?h ?kid
      (demo_empty\<lparr>db := empty_db\<lparr>session_creation_journal := [?j]\<rparr>\<rparr>) = (Ok (Recorded (JString ''ok'')), st')"
    by (metis prod.collapse)
  then have "create_session reference memory_key_store demo_fresh demo_create demo_empty = (Ok (Recorded (JString ''ok'')), st')"
    by (simp add: create_session_def Let_def db none retry journal demo_create_def)
  then show thesis by (rule that)
qed

theorem creation_roundtrip_witness:
  "\<exists>st'. create_session reference memory_key_store demo_fresh demo_create demo_empty =
       (Ok (Recorded (JString ''ok'')), st') \<and>
     create_session reference memory_key_store demo_fresh demo_create st' = (Ok (Replay (JString ''ok'')), st') \<and>
     map_sum id ss_configuration_snapshot (fst (load_session reference memory_key_store 1 st')) = Ok (JBool True)"
proof -
  obtain st' where run: "create_session reference memory_key_store demo_fresh demo_create demo_empty =
      (Ok (Recorded (JString ''ok'')), st')" by (rule demo_created)
  have inv: "db_inv (db demo_empty)" by (simp add: demo_empty_def db_inv_empty)
  have nonces: "length (f_configuration_nonce demo_fresh) = NONCE_BYTES" "length (f_lock_nonce demo_fresh) = NONCE_BYTES"
    by (simp_all add: demo_fresh_def NONCE_BYTES_def)
  have exact: "text_exact reference (cs_configuration_snapshot demo_create)"
      "text_exact reference (cs_lock_snapshot demo_create)"
      "text_exact reference (cs_initial_event_payload demo_create)"
      "text_exact reference (cs_command_outcome demo_create)"
    by (simp_all add: text_exact_json [OF reference_ok] demo_create_def)
  from creation_roundtrip [OF reference_ok inv nonces exact run refl, of demo_fresh] run show ?thesis
    by (auto simp: demo_create_def)
qed

text \<open>C27: a creation that fails leaves no trace of the session: no row, event or command. What a crash
  leaves in the journal is resolved on the next start, which empties the journal, changes no other
  table and destroys the key of every session that was never stored.\<close>

theorem creation_all_or_nothing:
  "(create_session x ks f input st = (Err e, st') \<longrightarrow>
      sessions (db st') = sessions (db st) \<and> session_events (db st') = session_events (db st) \<and>
      command_outcomes (db st') = command_outcomes (db st)) \<and>
   (resume_session_creations x memory_key_store st1 = (Ok n, st2) \<longrightarrow>
      n = length (session_creation_journal (db st1)) \<and> session_creation_journal (db st2) = [] \<and>
      sessions (db st2) = sessions (db st1) \<and> session_events (db st2) = session_events (db st1) \<and>
      (\<forall>j \<in> set (session_creation_journal (db st1)).
         map_of (sessions (db st1)) (j_session_id j) = None \<longrightarrow>
         map_of (mem_entries (km_store (km st2))) (j_key_id j) = None))"
proof (intro conjI impI)
  assume "create_session x ks f input st = (Err e, st')"
  from same_tables_rows [OF create_session_Err [OF this]]
  show "sessions (db st') = sessions (db st)" "session_events (db st') = session_events (db st)"
    "command_outcomes (db st') = command_outcomes (db st)" by simp_all
next
  assume "resume_session_creations x memory_key_store st1 = (Ok n, st2)"
  then obtain u where run: "reconcile_journals x memory_key_store
      (sort_key j_session_id (session_creation_journal (db st1))) st1 = (Ok u, st2)"
      and n: "n = length (session_creation_journal (db st1))"
    by (auto simp: resume_session_creations_def Let_def elim!: st_then_OkE)
  from reconcile_journals_ran [OF run] have same: "same_tables (db st1) (db st2)"
    and js: "session_creation_journal (db st2) = []"
    and orphans: "\<forall>j \<in> set (session_creation_journal (db st1)).
         map_of (sessions (db st1)) (j_session_id j) = None \<longrightarrow>
         map_of (mem_entries (km_store (km st2))) (j_key_id j) = None"
    by (simp_all add: filter_empty_conv)
  show "n = length (session_creation_journal (db st1))" "session_creation_journal (db st2) = []"
    "sessions (db st2) = sessions (db st1)" "session_events (db st2) = session_events (db st1)"
    "\<forall>j \<in> set (session_creation_journal (db st1)).
         map_of (sessions (db st1)) (j_session_id j) = None \<longrightarrow>
         map_of (mem_entries (km_store (km st2))) (j_key_id j) = None"
    using n js same_tables_rows(1,2) [OF same] orphans by simp_all
qed

text \<open>An interrupted creation whose session was never stored.\<close>

definition demo_interrupted :: "MemoryKeyStore SqliteStorage" where
  "demo_interrupted = demo_empty\<lparr>db := empty_db\<lparr>session_creation_journal :=
     [\<lparr>j_session_id = 1, j_request_id = 4, j_parameter_hash = [],
       j_key_id = session_key_id reference (km demo_empty) 1, j_state = ''key_created''\<rparr>]\<rparr>\<rparr>"

theorem creation_all_or_nothing_witness:
  "(let st = demo_empty\<lparr>km := (km demo_empty)\<lparr>km_store := set_available False MemoryKeyStore_new\<rparr>\<rparr>;
        (r, st') = create_session reference memory_key_store demo_fresh demo_create st
    in r = Err KeyStoreUnavailable \<and> sessions (db st') = sessions (db st)) \<and>
   (let (r, st2) = resume_session_creations reference memory_key_store demo_interrupted
    in r = Ok 1 \<and> session_creation_journal (db st2) = [] \<and>
       map_of (mem_entries (km_store (km st2))) (session_key_id reference (km demo_empty) 1) = None)"
proof -
  let ?st = "demo_empty\<lparr>km := (km demo_empty)\<lparr>km_store := set_available False MemoryKeyStore_new\<rparr>\<rparr>"
  let ?run = "create_session reference memory_key_store demo_fresh demo_create ?st"
  let ?resume = "resume_session_creations reference memory_key_store demo_interrupted"
  have r: "fst ?run = Err KeyStoreUnavailable"
    by (simp add: create_session_def Let_def demo_empty_def demo_create_def lookup_port_command_def
        lookup_stored_command_def empty_db_def reconcile_create_retry_def creation_journal_by_request_def
        creation_journal_by_session_def insert_creation_journal_def finish_create_session_def
        create_session_key_def mem_ops set_available_def)
  have n: "fst ?resume = Ok 1"
    by (simp add: resume_session_creations_def demo_interrupted_def reconcile_creation_def owns_session_key_def
        demo_empty_def empty_db_def destroy_session_key_def mem_ops KeyManager_for_storage_def MemoryKeyStore_new_def
        session_key_id_def)
  from r obtain st' where run: "?run = (Err KeyStoreUnavailable, st')" by (metis prod.collapse)
  from n obtain st2 where resume: "?resume = (Ok 1, st2)" by (metis prod.collapse)
  have "map_of (sessions (db demo_interrupted)) 1 = None" by (simp add: demo_interrupted_def empty_db_def)
  moreover have "session_creation_journal (db demo_interrupted) = [\<lparr>j_session_id = 1, j_request_id = 4,
      j_parameter_hash = [], j_key_id = session_key_id reference (km demo_empty) 1, j_state = ''key_created''\<rparr>]"
    by (simp add: demo_interrupted_def)
  ultimately show ?thesis
    using creation_all_or_nothing [of reference memory_key_store demo_fresh demo_create ?st
      KeyStoreUnavailable st' demo_interrupted 1 st2] run resume
    by (simp only: Let_def run resume prod.case) simp
qed

text \<open>C28: after a crash, recovery marks every attempt that was started and has no outcome as unknown,
  exactly those and each once, puts their sessions into the unknown state, writes into no other
  session, and leaves nothing uncertain, so that running it again does nothing.\<close>

theorem recovery_settles_attempts:
  assumes "recover_uncertain_attempts x ks nonces fresh now st = (Ok recovered, st')"
  shows "map (\<lambda>(sid, attempt, event). (sid, attempt)) recovered = uncertain_attempts (db st) \<and>
    uncertain_attempts (db st') = [] \<and>
    recover_uncertain_attempts x ks nonces fresh now st' = (Ok [], st') \<and>
    (\<forall>(sid, attempt, event) \<in> set recovered. load_session_state (db st') sid = Ok ''outcome_unknown'') \<and>
    (sid \<in> fst ` set recovered \<or> session_rows (db st') sid = session_rows (db st) sid)"
proof -
  let ?as = "uncertain_attempts (db st)"
  from assms have "recover_attempts x ks nonces fresh now ?as st = (Ok recovered, st')"
    by (simp add: recover_uncertain_attempts_def)
  note ran = recover_attempts_rows [OF this]
  then obtain rows where res: "recovered = map (\<lambda>a. (fst a, snd a, fresh a)) ?as"
    and rows: "session_events (db st') = session_events (db st) @ rows"
      "map (\<lambda>r. (r_session_id r, r_attempt_id r)) rows = map (\<lambda>a. (fst a, Some (snd a))) ?as"
      "\<forall>r \<in> set rows. r_kind r = ''outcome_unknown''" by blast
  have none: "uncertain_attempts (db st') = []" by (rule recovered_none [OF rows])
  have states: "load_session_state (db st') (fst a) = Ok ''outcome_unknown''" if "a \<in> set ?as" for a
    using ran that by (auto simp: load_session_state_def)
  have ids: "r_session_id ` set rows = fst ` set ?as"
    using arg_cong [OF rows(2), of "\<lambda>xs. fst ` set xs"] by (simp add: image_image)
  have "session_rows (db st') sid = session_rows (db st) sid" if "sid \<notin> fst ` set recovered"
    using that rows(1) ids by (auto simp: session_rows_def res image_image filter_empty_conv)
  then show ?thesis
    using none states res by (auto simp: recover_uncertain_attempts_def comp_def)
qed

text \<open>A store that stopped between the start of an attempt and its outcome.\<close>

definition demo_crashed :: "MemoryKeyStore SqliteStorage" where
  "demo_crashed = demo_storage\<lparr>db := (db demo_storage)\<lparr>session_events := session_events (db demo_storage) @
     [\<lparr>r_event_id = 5, r_session_id = 1, r_sequence = 2, r_occurred_at = 0, r_kind = ''dispatch_started'',
       r_causation_request_id = None, r_attempt_id = Some 9, r_effect_class = None, r_key_id = ''key'',
       r_payload = \<lparr>ep_nonce = demo_nonce, ep_ciphertext = take 16 demo_key @ put_json JNull\<rparr>\<rparr>]\<rparr>\<rparr>"

lemma demo_uncertain: "uncertain_attempts (db demo_crashed) = [(1, 9)]"
  by (simp add: uncertain_attempts_def demo_crashed_def demo_storage_def finished_kinds_def TERMINAL_KINDS_def)

lemma demo_recovery:
  "fst (recover_uncertain_attempts reference memory_key_store (\<lambda>_. demo_nonce) (\<lambda>_. 7) 0 demo_crashed) =
     Ok [(1, 9, 7)]"
proof -
  let ?e = "recovery_event reference 0 7 (1, 9)"
  have e: "ei_session_id ?e = 1" by (simp add: recovery_event_def)
  have seq: "next_sequence (db demo_crashed) 1 = Ok 3"
    by (simp add: next_sequence_def session_rows_def demo_crashed_def demo_storage_def)
  have app: "is_ok (append_event_in_transaction reference (\<lambda>_. demo_nonce) ?e ''key'' demo_key (db demo_crashed))"
    by (simp add: append_event_in_transaction_def e seq demo_encrypt)
       (simp add: insert_event_def recovery_event_def demo_crashed_def demo_storage_def event_conflicts_def
         TERMINAL_KINDS_def unique_fact_kinds_def)
  have "is_ok (fst (append_event reference memory_key_store (\<lambda>_. demo_nonce) ?e demo_crashed))"
    using app unfolding append_event_def e with_session_key_def
    by (auto simp: demo_crashed_def session_row_key_id_def demo_storage_def session_key_def commit_def is_ok_iff)
  then obtain p st' where "append_event reference memory_key_store (\<lambda>_. demo_nonce) ?e demo_crashed = (Ok p, st')"
    by (metis is_ok_iff prod.collapse)
  then show ?thesis by (simp add: recover_uncertain_attempts_def demo_uncertain)
qed

theorem recovery_settles_attempts_witness:
  "\<exists>st'. recover_uncertain_attempts reference memory_key_store (\<lambda>_. demo_nonce) (\<lambda>_. 7) 0 demo_crashed =
       (Ok [(1, 9, 7)], st') \<and> uncertain_attempts (db st') = [] \<and>
     load_session_state (db st') 1 = Ok ''outcome_unknown''"
proof -
  obtain st' where run: "recover_uncertain_attempts reference memory_key_store (\<lambda>_. demo_nonce) (\<lambda>_. 7) 0
      demo_crashed = (Ok [(1, 9, 7)], st')" using demo_recovery by (metis prod.collapse)
  from recovery_settles_attempts [OF run] run show ?thesis by auto
qed

text \<open>C29: a deletion that succeeds erases the session: its row, events and commands are gone, its key
  cannot be found any more, and only a tombstone remains, which answers the same request with the
  same summary and every other request as for an unknown session. No other session changes.\<close>

theorem deletion_erases:
  assumes "request_deletion x memory_key_store nonces eid sid did rid now actor st = (Ok s, st')"
    and "\<not> is_deleted (db st) sid"
  shows "map_of (sessions (db st')) sid = None \<and> session_rows (db st') sid = [] \<and>
    filter (\<lambda>c. c_session_id c = Some sid) (command_outcomes (db st')) = [] \<and> is_deleted (db st') sid \<and>
    \<not> is_ok (fst (session_key x memory_key_store sid (km st'))) \<and>
    request_deletion x memory_key_store nonces' eid' sid did' rid' now' actor' st' =
      (if rid' = rid then Ok s else Err SessionNotFound, st') \<and>
    (i = sid \<or> untouched (db st) (db st') i)"
proof -
  obtain st1 j where fin: "finish_deletion x memory_key_store sid st1 = (Ok s, st')"
      and j: "find (\<lambda>j. d_session_id j = sid) (deletion_journal (db st1)) = Some j" "d_request_id j = rid"
    by (rule request_deletion_ran [OF assms]) (rule that)
  have "\<not> is_ok (fst (session_key x memory_key_store sid (km st')))"
    by (rule finish_deletion_ran [OF fin]) (use destroyed_key(1) in fastforce)
  then show ?thesis
    using request_deletion_erases(1,2) [OF assms] deleted_answers [OF fin j(1)] j(2)
    by (auto simp: erased_def filter_empty_conv)
qed

text \<open>A session that ended.\<close>

definition demo_ended :: "MemoryKeyStore SqliteStorage" where
  "demo_ended = demo_storage\<lparr>db := update_session 1
     (\<lambda>row. row\<lparr>s_state := ''completed'', s_terminal_at := Some 0\<rparr>) (db demo_storage)\<rparr>"

lemma demo_deletion:
  assumes "eid \<noteq> 2"
  obtains st' where "request_deletion reference memory_key_store (\<lambda>_. demo_nonce) eid 1 did rid now actor demo_ended =
    (Ok \<lparr>ds_session_id = 1, ds_deletion_id = did, ds_key_destroyed = True\<rparr>, st')"
proof -
  have seq: "next_sequence (db demo_ended) 1 = Ok 2"
    by (simp add: next_sequence_def session_rows_def demo_ended_def demo_storage_def)
  have row: "session_row_key_id (db demo_ended) 1 = Ok ''key''"
    by (simp add: session_row_key_id_def demo_ended_def map_of_update_session demo_storage_def)
  have key: "session_key reference memory_key_store 1 (km demo_ended) = (Ok demo_key, km demo_ended)"
    by (simp add: demo_ended_def)
  have "is_ok (deletion_request_transaction reference (\<lambda>_. demo_nonce) eid 1 did rid now actor ''key'' demo_key (db demo_ended))"
    using assms
    by (simp add: deletion_request_transaction_def seq demo_encrypt)
       (simp add: insert_event_def insert_deletion_journal_def demo_ended_def update_session_def demo_storage_def
         empty_db_def event_conflicts_def)
  then obtain d where tx: "deletion_request_transaction reference (\<lambda>_. demo_nonce) eid 1 did rid now actor ''key''
      demo_key (db demo_ended) = Ok ((), d)" by (auto simp: is_ok_iff)
  have journal: "find (\<lambda>j. d_session_id j = 1) (deletion_journal (db demo_ended)) = None"
    by (simp add: demo_ended_def demo_storage_def empty_db_def)
  have noexport: "export_journal d = []"
    using tx by (auto simp: deletion_request_transaction_def insert_event_def Let_def insert_deletion_journal_def
        demo_ended_def demo_storage_def empty_db_def split: if_splits)
  have store: "mem_available (km_store (km demo_ended))"
    by (simp add: demo_ended_def demo_storage_def KeyManager_for_storage_def MemoryKeyStore_new_def)
  have fin: "fst (finish_deletion reference memory_key_store 1 (demo_ended\<lparr>db := d\<rparr>)) =
      Ok \<lparr>ds_session_id = 1, ds_deletion_id = did, ds_key_destroyed = True\<rparr>"
    using deletion_request_journal [OF tx journal] store
    by (simp add: finish_deletion_def ensure_no_pending_export_def noexport destroy_session_key_def mem_ops
        deletion_transaction_def Let_def commit_def)
  have state: "\<exists>row. map_of (sessions (db demo_ended)) 1 = Some row \<and> s_state row = ''completed''"
    by (simp add: demo_ended_def map_of_update_session demo_storage_def)
  have none: "replay_deletion_tombstone (db demo_ended) 1 rid h = Ok None" "export_journal (db demo_ended) = []" for h
    by (simp_all add: replay_deletion_tombstone_def demo_ended_def demo_storage_def empty_db_def)
  have "fst (request_deletion reference memory_key_store (\<lambda>_. demo_nonce) eid 1 did rid now actor demo_ended) =
      Ok \<lparr>ds_session_id = 1, ds_deletion_id = did, ds_key_destroyed = True\<rparr>"
    using state journal fin
    by (auto simp: request_deletion_def none ensure_no_pending_export_def with_session_key_def row key commit_def tx)
  then show thesis by (metis that prod.collapse)
qed

theorem deletion_erases_witness:
  "\<exists>s st'. request_deletion reference memory_key_store (\<lambda>_. demo_nonce) 5 1 6 7 0 ''user'' demo_ended = (Ok s, st') \<and>
     map_of (sessions (db st')) 1 = None \<and> session_rows (db st') 1 = [] \<and> is_deleted (db st') 1 \<and>
     \<not> is_ok (fst (session_key reference memory_key_store 1 (km st')))"
proof -
  obtain st' where run: "request_deletion reference memory_key_store (\<lambda>_. demo_nonce) 5 1 6 7 0 ''user'' demo_ended =
      (Ok \<lparr>ds_session_id = 1, ds_deletion_id = 6, ds_key_destroyed = True\<rparr>, st')"
    by (rule demo_deletion [of 5 6 7 0 "''user''"]) simp
  have "\<not> is_deleted (db demo_ended) 1" by (simp add: is_deleted_def demo_ended_def demo_storage_def empty_db_def)
  from deletion_erases [OF run this] run show ?thesis by blast
qed

text \<open>C30: a retention run that succeeds deletes exactly the sessions that ended at least the configured
  number of days ago: they are the ones it reports and are gone afterwards, and every other session
  keeps its row, its events and its commands.\<close>

theorem retention_exact:
  assumes "run_retention x ks nonces ids now (Some days) st = (Ok summaries, st')" "db_inv (db st)"
    and "due = due_sessions (db st) (now - int (unat days) * NANOS_PER_DAY)"
    and "list_all (\<lambda>i. \<not> is_deleted (db st) i) due"
  shows "map ds_session_id summaries = due \<and>
    (i \<in> set due \<longleftrightarrow> (\<exists>row t. map_of (sessions (db st)) i = Some row \<and>
       s_state row \<in> {''completed'', ''failed'', ''cancelled'', ''abandoned''} \<and>
       s_terminal_at row = Some t \<and> t + int (unat days) * NANOS_PER_DAY \<le> now)) \<and>
    (if i \<in> set due then map_of (sessions (db st')) i = None \<and> session_rows (db st') i = []
     else untouched (db st) (db st') i)"
proof -
  let ?T = "now - int (unat days) * NANOS_PER_DAY"
  have distinct: "distinct (map fst (sort_key fst (sessions (db st))))"
    using assms(2) by (simp add: distinct_map db_inv_def)
  have due: "due = map fst (filter (\<lambda>(i, row). s_state row \<in> {''completed'', ''failed'', ''cancelled'', ''abandoned''} \<and>
      (case s_terminal_at row of Some t \<Rightarrow> t \<le> ?T | None \<Rightarrow> False)) (sort_key fst (sessions (db st))))"
    unfolding assms(3) due_sessions_def by (rule selected_fst)
  have "distinct due" unfolding due by (intro distinct_map_filter distinct)
  from assms(1) have "delete_sessions x ks nonces ids now due st = (Ok summaries, st')"
    by (auto simp: run_retention_def assms(3) split: if_splits)
  note gone = delete_sessions_erases [OF this \<open>distinct due\<close> assms(4)]
  have "i \<in> set due \<longleftrightarrow> (\<exists>row t. (i, row) \<in> set (sessions (db st)) \<and>
       s_state row \<in> {''completed'', ''failed'', ''cancelled'', ''abandoned''} \<and>
       s_terminal_at row = Some t \<and> t \<le> ?T)"
    unfolding due by (force split: option.splits)
  also have "\<dots> \<longleftrightarrow> (\<exists>row t. map_of (sessions (db st)) i = Some row \<and>
       s_state row \<in> {''completed'', ''failed'', ''cancelled'', ''abandoned''} \<and>
       s_terminal_at row = Some t \<and> t + int (unat days) * NANOS_PER_DAY \<le> now)"
    using assms(2) by (simp add: db_inv_def le_diff_eq)
  finally show ?thesis using gone by auto
qed

theorem retention_exact_witness:
  "\<exists>summaries st'. run_retention reference memory_key_store (\<lambda>_. demo_nonce)
       (\<lambda>_. \<lparr>ret_event_id = 5, ret_deletion_id = 6, ret_request_id = 7\<rparr>) NANOS_PER_DAY (Some 1) demo_ended =
         (Ok summaries, st') \<and>
     map ds_session_id summaries = [1] \<and> map_of (sessions (db st')) 1 = None"
proof -
  have due: "[1] = due_sessions (db demo_ended) (NANOS_PER_DAY - int (unat (1 :: u32)) * NANOS_PER_DAY)"
    by (simp add: due_sessions_def demo_ended_def demo_storage_def update_session_def)
  obtain st' where del: "request_deletion reference memory_key_store (\<lambda>_. demo_nonce) 5 1 6 7 NANOS_PER_DAY
      ''retention'' demo_ended = (Ok \<lparr>ds_session_id = 1, ds_deletion_id = 6, ds_key_destroyed = True\<rparr>, st')"
    by (rule demo_deletion [of 5 6 7 NANOS_PER_DAY "''retention''"]) simp
  have run: "run_retention reference memory_key_store (\<lambda>_. demo_nonce)
      (\<lambda>_. \<lparr>ret_event_id = 5, ret_deletion_id = 6, ret_request_id = 7\<rparr>) NANOS_PER_DAY (Some 1) demo_ended =
      (Ok [\<lparr>ds_session_id = 1, ds_deletion_id = 6, ds_key_destroyed = True\<rparr>], st')"
    by (simp add: run_retention_def del due [symmetric, simplified])
  have inv: "db_inv (db demo_ended)" by (simp add: demo_ended_def demo_inv)
  have "list_all (\<lambda>i. \<not> is_deleted (db demo_ended) i) [1]"
    by (simp add: is_deleted_def demo_ended_def demo_storage_def empty_db_def)
  from retention_exact [OF run inv due this, of 1] run show ?thesis by auto
qed

text \<open>C31: following the cursors of the listing from its start ends, and the pages together are all
  sessions, newest first and each once, for every page size the listing accepts.\<close>

theorem listing_partitioned:
  assumes "1 \<le> limit" "limit \<le> 100" "db_inv d"
  shows "\<exists>items. follow_pages d limit None items \<and> items = map metadata (rev (sort_key fst (sessions d))) \<and>
    distinct (map sm_session_id items) \<and> sm_session_id ` set items = fst ` set (sessions d)"
proof -
  have distinct: "distinct (map fst (sessions d))" using assms(3) by (simp add: db_inv_def)
  obtain items where items: "follow_pages d limit None items"
    using follow_pages_total [OF assms(1,2) distinct] by blast
  have eq: "items = map metadata (rev (sort_key fst (sessions d)))"
    using follow_pages_listing [OF assms(1,2) distinct items] by (simp add: listing_def)
  moreover have "distinct (map sm_session_id items)" "sm_session_id ` set items = fst ` set (sessions d)"
    unfolding eq using distinct by (simp_all add: metadata_def comp_def distinct_map image_image)
  ultimately show ?thesis using items by blast
qed

theorem listing_partitioned_witness:
  "\<exists>items. follow_pages (db demo_storage) 1 None items \<and> map sm_session_id items = [1]"
proof -
  have limits: "1 \<le> (1 :: u16)" "(1 :: u16) \<le> 100" by simp_all
  from listing_partitioned [OF limits demo_inv] obtain items where
    "follow_pages (db demo_storage) 1 None items" "items = map metadata (rev (sort_key fst (sessions (db demo_storage))))"
    by blast
  then show ?thesis by (intro exI [of _ items]) (simp add: metadata_def demo_storage_def)
qed

end
