(* ===== verification/Event_Json.thy ===== *)
theory Event_Json
  imports Events Externals
begin

text \<open>
  The JSON form of event payloads, as the serialisation attributes of
  \<open>crates/workbench-core/src/event.rs\<close> and of the types it uses give it: an adjacently tagged
  object with \<open>kind\<close> and \<open>data\<close>, names in the case each type declares, object entries in key order.
\<close>

definition strings_value :: "string list \<Rightarrow> json" where
  "strings_value ss = JArray (map JString ss)"

definition uuid_value :: "Externals \<Rightarrow> uuid \<Rightarrow> json" where
  "uuid_value x i = JString (uuid_text x i)"

definition option_value :: "('a \<Rightarrow> json) \<Rightarrow> 'a option \<Rightarrow> json" where
  "option_value f v = (case v of None \<Rightarrow> JNull | Some a \<Rightarrow> f a)"

definition f64_value :: "f64 \<Rightarrow> json" where
  "f64_value c = (case c of Fin _ \<Rightarrow> JNumber (Float c) | _ \<Rightarrow> JNull)"

fun event_kind_value :: "EventKind \<Rightarrow> json" where
  "event_kind_value EventKind.SessionCreated = JString ''session_created''"
| "event_kind_value EventKind.ConfigurationResolved = JString ''configuration_resolved''"
| "event_kind_value EventKind.InputRecorded = JString ''input_recorded''"
| "event_kind_value EventKind.RoutingPlanned = JString ''routing_planned''"
| "event_kind_value EventKind.ClarificationRequested = JString ''clarification_requested''"
| "event_kind_value EventKind.ApprovalRequested = JString ''approval_requested''"
| "event_kind_value EventKind.ApprovalRecorded = JString ''approval_recorded''"
| "event_kind_value EventKind.DispatchPlanned = JString ''dispatch_planned''"
| "event_kind_value EventKind.DispatchStarted = JString ''dispatch_started''"
| "event_kind_value EventKind.DispatchAcknowledged = JString ''dispatch_acknowledged''"
| "event_kind_value EventKind.ProviderEvent = JString ''provider_event''"
| "event_kind_value EventKind.ToolEvent = JString ''tool_event''"
| "event_kind_value EventKind.PauseRequested = JString ''pause_requested''"
| "event_kind_value EventKind.SessionPaused = JString ''session_paused''"
| "event_kind_value EventKind.SessionResumed = JString ''session_resumed''"
| "event_kind_value EventKind.SessionRedirected = JString ''session_redirected''"
| "event_kind_value EventKind.CancelRequested = JString ''cancel_requested''"
| "event_kind_value EventKind.CancelConfirmed = JString ''cancel_confirmed''"
| "event_kind_value EventKind.OutcomeUnknown = JString ''outcome_unknown''"
| "event_kind_value EventKind.OutcomeReconciled = JString ''outcome_reconciled''"
| "event_kind_value EventKind.SessionCompleted = JString ''session_completed''"
| "event_kind_value EventKind.SessionFailed = JString ''session_failed''"
| "event_kind_value EventKind.SessionCancelled = JString ''session_cancelled''"
| "event_kind_value EventKind.SessionAbandoned = JString ''session_abandoned''"
| "event_kind_value EventKind.SessionExported = JString ''session_exported''"
| "event_kind_value EventKind.SessionDeletionRequested = JString ''session_deletion_requested''"
| "event_kind_value EventKind.SessionDeleted = JString ''session_deleted''"
| "event_kind_value EventKind.WorkflowTransition = JString ''workflow_transition''"

fun effect_class_value :: "EffectClass \<Rightarrow> json" where
  "effect_class_value NoEffect = JString ''none''"
| "effect_class_value IdempotentRead = JString ''idempotent-read''"
| "effect_class_value IdempotentWrite = JString ''idempotent-write''"
| "effect_class_value PaidInference = JString ''paid-inference''"
| "effect_class_value NonIdempotentWrite = JString ''non-idempotent-write''"
| "effect_class_value Production = JString ''production''"
| "effect_class_value Credential = JString ''credential''"

fun resolution_value :: "ReconciliationResolution \<Rightarrow> json" where
  "resolution_value Retry = JString ''retry''"
| "resolution_value AcceptResult = JString ''accept_result''"
| "resolution_value Abandon = JString ''abandon''"

fun decision_value :: "ApprovalDecision \<Rightarrow> json" where
  "decision_value Grant = JString ''grant''"
| "decision_value Deny = JString ''deny''"

fun risk_value :: "Risk \<Rightarrow> json" where
  "risk_value Low = JString ''low''"
| "risk_value Medium = JString ''medium''"
| "risk_value High = JString ''high''"

fun permission_scope_value :: "PermissionScope \<Rightarrow> json" where
  "permission_scope_value PermissionScope.ReadOnly = JString ''read-only''"
| "permission_scope_value PermissionScope.ApprovalRequired = JString ''approval-required''"
| "permission_scope_value PermissionScope.Denied = JString ''denied''"

fun selected_rule_value :: "SelectedRule \<Rightarrow> json" where
  "selected_rule_value SelectedRule.Explicit = JString ''explicit''"
| "selected_rule_value SelectedRule.Workflow = JString ''workflow''"
| "selected_rule_value SelectedRule.Resolver = JString ''resolver''"
| "selected_rule_value SelectedRule.Coordinator = JString ''coordinator''"

definition role_mapping_value :: "RoleMapping \<Rightarrow> json" where
  "role_mapping_value m =
     JObject [(''provider'', JString (rm_provider m)), (''role'', JString (rm_role m)),
              (''runtime_model'', JString (rm_runtime_model m))]"

definition destination_value :: "RouteDestination \<Rightarrow> json" where
  "destination_value d =
     JObject [(''model_alias'', JString (rd_model_alias d)), (''provider'', JString (rd_provider d)),
              (''role'', JString (rd_role d)), (''runtime_model'', JString (rd_runtime_model d))]"

definition context_value :: "RouteContext \<Rightarrow> json" where
  "context_value c =
     JObject [(''data_sources'', strings_value (rc_data_sources c)),
              (''permission'', permission_scope_value (rc_permission c)),
              (''tools'', strings_value (rc_tools c))]"

definition plan_value :: "RoutingPlan \<Rightarrow> json" where
  "plan_value p =
     JObject [(''confidence'', f64_value (rp_confidence p)), (''context'', context_value (rp_context p)),
              (''destination'', destination_value (rp_destination p)), (''intent'', JString (rp_intent p)),
              (''risk'', risk_value (rp_risk p)), (''selected_by'', selected_rule_value (rp_selected_by p))]"

fun payload_data :: "Externals \<Rightarrow> EventPayload \<Rightarrow> json btree" where
  "payload_data x (EventPayload.SessionCreated a b) =
     [(''configuration_hash'', JString a),
      (''lock_hash'', JString b)]"
| "payload_data x (EventPayload.ConfigurationResolved a b c) =
     [(''role_mappings'', JArray (map role_mapping_value c)),
      (''snapshot_hash'', JString a),
      (''sources'', strings_value b)]"
| "payload_data x (EventPayload.InputRecorded a b) =
     [(''content'', JString b),
      (''input_id'', uuid_value x a)]"
| "payload_data x (EventPayload.RoutingPlanned a) =
     [(''plan'', plan_value a)]"
| "payload_data x (EventPayload.ClarificationRequested a b) =
     [(''question'', JString a),
      (''reason'', JString b)]"
| "payload_data x (EventPayload.ApprovalRequested a b c d) =
     [(''action'', JString b),
      (''approval_id'', uuid_value x a),
      (''risk'', JString c),
      (''scope'', strings_value d)]"
| "payload_data x (EventPayload.ApprovalRecorded a b c) =
     [(''actor'', JString b),
      (''approval_id'', uuid_value x a),
      (''decision'', decision_value c)]"
| "payload_data x (EventPayload.DispatchPlanned a b c d) =
     [(''attempt_id'', uuid_value x a),
      (''effect_class'', effect_class_value b),
      (''idempotent'', JBool d),
      (''operation'', JString c)]"
| "payload_data x (EventPayload.DispatchStarted a b) =
     [(''adapter_session_id'', option_value JString b),
      (''attempt_id'', uuid_value x a)]"
| "payload_data x (EventPayload.DispatchAcknowledged a b) =
     [(''attempt_id'', uuid_value x a),
      (''provider_request_id'', option_value JString b)]"
| "payload_data x (EventPayload.ProviderEvent a b c) =
     [(''attempt_id'', uuid_value x a),
      (''content'', JString c),
      (''event_type'', JString b)]"
| "payload_data x (EventPayload.ToolEvent a b c) =
     [(''attempt_id'', uuid_value x a),
      (''content'', JString c),
      (''event_type'', JString b)]"
| "payload_data x (EventPayload.PauseRequested a b) =
     [(''actor'', JString b),
      (''control_id'', uuid_value x a)]"
| "payload_data x (EventPayload.SessionPaused a b) =
     [(''actor'', JString b),
      (''control_id'', uuid_value x a)]"
| "payload_data x (EventPayload.SessionResumed a b) =
     [(''actor'', JString b),
      (''control_id'', uuid_value x a)]"
| "payload_data x (EventPayload.SessionRedirected a b c) =
     [(''actor'', JString b),
      (''control_id'', uuid_value x a),
      (''instruction'', JString c)]"
| "payload_data x (EventPayload.CancelRequested a b) =
     [(''actor'', JString b),
      (''control_id'', uuid_value x a)]"
| "payload_data x (EventPayload.CancelConfirmed a) =
     [(''control_id'', uuid_value x a)]"
| "payload_data x (EventPayload.OutcomeUnknown a b c) =
     [(''attempt_id'', uuid_value x a),
      (''reason'', JString b),
      (''reconciliation_options'', JArray (map resolution_value c))]"
| "payload_data x (EventPayload.OutcomeReconciled a b c) =
     [(''attempt_id'', uuid_value x a),
      (''replacement_attempt_id'', option_value (uuid_value x) c),
      (''resolution'', resolution_value b)]"
| "payload_data x (EventPayload.SessionCompleted a b c) =
     [(''attempt_id'', option_value (uuid_value x) a),
      (''correlation_id'', uuid_value x c),
      (''summary'', JString b)]"
| "payload_data x (EventPayload.SessionFailed a b c) =
     [(''attempt_id'', option_value (uuid_value x) a),
      (''correlation_id'', uuid_value x c),
      (''summary'', JString b)]"
| "payload_data x (EventPayload.SessionCancelled a b c) =
     [(''attempt_id'', option_value (uuid_value x) a),
      (''correlation_id'', uuid_value x c),
      (''summary'', JString b)]"
| "payload_data x (EventPayload.SessionAbandoned a b c) =
     [(''attempt_id'', uuid_value x a),
      (''correlation_id'', uuid_value x c),
      (''summary'', JString b)]"
| "payload_data x (EventPayload.SessionExported a b) =
     [(''export_id'', uuid_value x a),
      (''recipient_fingerprints'', strings_value b)]"
| "payload_data x (EventPayload.SessionDeletionRequested a b) =
     [(''actor'', JString b),
      (''deletion_id'', uuid_value x a)]"
| "payload_data x (EventPayload.SessionDeleted a b) =
     [(''deletion_id'', uuid_value x a),
      (''key_destroyed'', JBool b)]"
| "payload_data x (EventPayload.WorkflowTransition a b c d e f) =
     [(''iteration'', JNumber (PosInt (ucast d))),
      (''phase'', JString e),
      (''reason'', JString f),
      (''run_id'', JString b),
      (''step_id'', JString c),
      (''workflow_id'', JString a)]"

definition payload_to_value :: "Externals \<Rightarrow> EventPayload \<Rightarrow> json" where
  "payload_to_value x p = JObject [(''data'', JObject (payload_data x p)), (''kind'', event_kind_value (kind p))]"

section \<open>Only a routing plan holds a floating-point number\<close>

lemma value_exact [simp]:
  "json_exact (strings_value ss)" "json_exact (uuid_value x i)" "json_exact (event_kind_value k)"
  "json_exact (effect_class_value e)" "json_exact (resolution_value r)" "json_exact (decision_value d)"
  "json_exact (role_mapping_value m)" "json_exact (option_value (uuid_value x) oi)"
  "json_exact (option_value JString os)"
  by (simp_all add: strings_value_def uuid_value_def list_all_iff role_mapping_value_def option_value_def
      split: option.splits)
     ((cases k; simp), (cases e; simp), (cases r; simp), (cases d; simp))

lemma payload_exact: "kind p \<noteq> EventKind.RoutingPlanned \<Longrightarrow> json_exact (payload_to_value x p)"
  by (cases p) (simp_all add: payload_to_value_def list_all_iff)

section \<open>Kind names\<close>

text \<open>The name of a kind, as a string; distinct kinds have distinct names.\<close>

definition kind_name :: "EventKind \<Rightarrow> string" where
  "kind_name k = (case event_kind_value k of JString s \<Rightarrow> s | _ \<Rightarrow> [])"

lemma event_kind_value_name: "event_kind_value k = JString (kind_name k)"
  by (cases k) (simp_all add: kind_name_def)

end
