(* ===== verification/Adapter.thy ===== *)
theory Adapter
  imports Orchestration Event_Json Commands
begin

text \<open>
  The core ports over the encrypted store, from \<open>crates/workbench-storage/src/ports.rs\<close>: the event
  store and the command stores of the core crate as operations of \<open>Storage\<close>, with the conversion of
  events and errors between the two. The deserialisation of a payload is generated code and a
  parameter \<open>dec\<close>; what is used of it is \<open>serde_ok\<close>: it reads back what was serialised. Event
  identifiers are drawn from a supply, so the state of the adapter is the store and the number of
  identifiers drawn.
\<close>

declare upt_Suc [simp del]

section \<open>Conversions\<close>

definition storage_error :: "StorageError \<Rightarrow> CoreError" where
  "storage_error e =
     (case e of
        InvalidInput _ \<Rightarrow> core_error InvalidRequest ''storage request is invalid''
      | StorageError.RequestConflict \<Rightarrow> core_error InvalidRequest ''storage request is invalid''
      | StorageError.SessionNotFound \<Rightarrow> core_error FailureCategory.SessionNotFound ''session was not found''
      | StorageError.KeyStoreUnavailable \<Rightarrow>
          core_error FailureCategory.KeyStoreUnavailable ''platform key store is unavailable''
      | UnsafeExportPath \<Rightarrow> core_error InvalidRequest ''export path is unsafe''
      | StorageError.StorageUnavailable \<Rightarrow>
          core_error FailureCategory.StorageUnavailable ''encrypted storage is unavailable''
      | AuthenticationFailed \<Rightarrow>
          core_error FailureCategory.StorageUnavailable ''encrypted storage is unavailable'')"

definition serde_name :: "json \<Rightarrow> string \<Rightarrow> CoreError + string" where
  "serde_name v failure = (case v of JString name \<Rightarrow> Ok name | _ \<Rightarrow> Err (core_error Internal failure))"

definition event_kind_name :: "EventKind \<Rightarrow> CoreError + string" where
  "event_kind_name k = serde_name (event_kind_value k) ''event kind serialization failed''"

definition effect_class_name :: "EffectClass \<Rightarrow> CoreError + string" where
  "effect_class_name c = serde_name (effect_class_value c) ''effect class serialization failed''"

definition core_to_storage_event ::
  "Externals \<Rightarrow> uuid \<Rightarrow> NewEvent \<Rightarrow> OffsetDateTime \<Rightarrow> CoreError + EventInput" where
  "core_to_storage_event x event_id event occurred_at =
     and_then (event_kind_name (kind (ne_payload event))) (\<lambda>name.
     and_then (case ne_payload event of
                 EventPayload.DispatchPlanned _ c _ _ \<Rightarrow> and_then (effect_class_name c) (\<lambda>n. Ok (Some n))
               | _ \<Rightarrow> Ok None) (\<lambda>effect.
       Ok \<lparr>ei_event_id = event_id, ei_session_id = ne_session_id event, ei_occurred_at = occurred_at,
           ei_kind = name, ei_causation_request_id = ne_causation_request_id event,
           ei_attempt_id = attempt_id (ne_payload event), ei_effect_class = effect,
           ei_payload = payload_to_value x (ne_payload event)\<rparr>))"

definition storage_to_core_event ::
  "(json \<Rightarrow> EventPayload option) \<Rightarrow> StoredEvent \<Rightarrow> CoreError + PersistedEvent" where
  "storage_to_core_event dec event =
     and_then (ok_or (core_error FailureCategory.StorageUnavailable ''encrypted event payload is invalid'')
                 (dec (se_payload event))) (\<lambda>payload.
     and_then (event_kind_name (kind payload)) (\<lambda>expected_kind.
       if se_kind event \<noteq> expected_kind
       then Err (core_error FailureCategory.StorageUnavailable ''encrypted event metadata is inconsistent'')
       else and_then (map_err (\<lambda>_. core_error FailureCategory.StorageUnavailable
                                    ''encrypted event sequence is invalid'')
                        (Sequence_new (se_sequence event))) (\<lambda>sequence.
         Ok \<lparr>pe_event_id = se_event_id event, pe_session_id = se_session_id event, pe_sequence = sequence,
             pe_causation_request_id = se_causation_request_id event,
             pe_occurred_at = se_occurred_at event, pe_payload = payload\<rparr>)))"

section \<open>The ports\<close>

type_synonym 'k adapter = "'k SqliteStorage \<times> nat"

text \<open>Run an operation on the locked store and convert its error.\<close>

definition run_blocking ::
  "('k SqliteStorage \<Rightarrow> (StorageError + 'a) \<times> 'k SqliteStorage) \<Rightarrow> 'k adapter
     \<Rightarrow> (CoreError + 'a) \<times> 'k adapter" where
  "run_blocking operation s =
     (case operation (fst s) of (r, st) \<Rightarrow> (map_err storage_error r, (st, snd s)))"

definition adapter_append ::
  "Externals \<Rightarrow> 'k KeyStore \<Rightarrow> (json \<Rightarrow> EventPayload option) \<Rightarrow> (uuid \<Rightarrow> bytes) \<Rightarrow> (nat \<Rightarrow> uuid)
     \<Rightarrow> NewEvent \<Rightarrow> OffsetDateTime \<Rightarrow> 'k adapter \<Rightarrow> (CoreError + PersistedEvent) \<times> 'k adapter" where
  "adapter_append x ks dec nonces ids event occurred_at s =
     (let event_id = ids (snd s); s = (fst s, Suc (snd s)) in
      case core_to_storage_event x event_id event occurred_at of
        Err e \<Rightarrow> (Err e, s)
      | Ok input \<Rightarrow>
          (case run_blocking (append_event x ks nonces input) s of
             (r, s) \<Rightarrow> (and_then r (storage_to_core_event dec), s)))"

definition load_after ::
  "Externals \<Rightarrow> 'k KeyStore \<Rightarrow> (json \<Rightarrow> EventPayload option) \<Rightarrow> uuid \<Rightarrow> Cursor \<Rightarrow> 'k adapter
     \<Rightarrow> (CoreError + PersistedEvent list) \<times> 'k adapter" where
  "load_after x ks dec session_id cursor s =
     (case run_blocking (replay x ks session_id cursor) s of
        (r, s) \<Rightarrow> (and_then r (try_map (storage_to_core_event dec)), s))"

record RecordedCommand =
  cmd_method :: string
  cmd_parameter_hash :: string
  cmd_outcome :: string

datatype CommandCommit = CommitApplied PersistedEvent | CommitReplayed RecordedCommand

definition stored_command :: "RecordedCommand \<Rightarrow> StoredCommandRecord" where
  "stored_command c = \<lparr>sc_method = cmd_method c, sc_parameter_hash = cmd_parameter_hash c, sc_outcome = cmd_outcome c\<rparr>"

definition recorded_command :: "StoredCommandRecord \<Rightarrow> RecordedCommand" where
  "recorded_command r = \<lparr>cmd_method = sc_method r, cmd_parameter_hash = sc_parameter_hash r, cmd_outcome = sc_outcome r\<rparr>"

definition adapter_lookup ::
  "Externals \<Rightarrow> uuid option \<Rightarrow> uuid \<Rightarrow> 'k adapter \<Rightarrow> (CoreError + RecordedCommand option) \<times> 'k adapter" where
  "adapter_lookup x session_id request_id s =
     (case run_blocking (\<lambda>st. (Ok (lookup_port_command x session_id request_id (db st)), st)) s of
        (r, s) \<Rightarrow> (and_then r (\<lambda>found. Ok (map_option recorded_command found)), s))"

definition adapter_record ::
  "Externals \<Rightarrow> uuid option \<Rightarrow> uuid \<Rightarrow> RecordedCommand \<Rightarrow> 'k adapter \<Rightarrow> (CoreError + unit) \<times> 'k adapter" where
  "adapter_record x session_id request_id command s =
     run_blocking (record_port_command x session_id request_id (stored_command command)) s"

definition adapter_commit ::
  "Externals \<Rightarrow> 'k KeyStore \<Rightarrow> (json \<Rightarrow> EventPayload option) \<Rightarrow> (uuid \<Rightarrow> bytes) \<Rightarrow> (nat \<Rightarrow> uuid)
     \<Rightarrow> uuid \<Rightarrow> RecordedCommand \<Rightarrow> NewEvent \<Rightarrow> OffsetDateTime \<Rightarrow> 'k adapter
     \<Rightarrow> (CoreError + CommandCommit) \<times> 'k adapter" where
  "adapter_commit x ks dec nonces ids request_id command event occurred_at s =
     (let event_id = ids (snd s); s = (fst s, Suc (snd s)) in
      case core_to_storage_event x event_id event occurred_at of
        Err e \<Rightarrow> (Err e, s)
      | Ok input \<Rightarrow>
          (case run_blocking (commit_port_command x ks nonces request_id (stored_command command) input) s of
             (r, s) \<Rightarrow>
               (and_then r (\<lambda>c. case c of
                   Applied e \<Rightarrow> and_then (storage_to_core_event dec e) (\<lambda>p. Ok (CommitApplied p))
                 | Replayed r \<Rightarrow> Ok (CommitReplayed (recorded_command r))), s)))"

definition adapter_create_session ::
  "Externals \<Rightarrow> 'k KeyStore \<Rightarrow> CreationFresh \<Rightarrow> CreateSession \<Rightarrow> 'k adapter
     \<Rightarrow> (CoreError + CommandOutcome) \<times> 'k adapter" where
  "adapter_create_session x ks f input s = run_blocking (create_session x ks f input) s"

section \<open>What is relied on\<close>

text \<open>The generated deserialisation reads back every payload whose fields are valid.\<close>

definition serde_ok :: "Externals \<Rightarrow> (json \<Rightarrow> EventPayload option) \<Rightarrow> bool" where
  "serde_ok x dec \<longleftrightarrow> (\<forall>p. payload_valid p \<longrightarrow> dec (payload_to_value x p) = Some p)"

text \<open>The payloads that come back from the store as they went in.\<close>

definition adapter_storable :: "Externals \<Rightarrow> (json \<Rightarrow> EventPayload option) \<Rightarrow> EventPayload \<Rightarrow> bool" where
  "adapter_storable x dec p \<longleftrightarrow>
     externals_ok x \<and> serde_ok x dec \<and> payload_valid p \<and> text_exact x (payload_to_value x p)"

definition adapter_inv :: "'k adapter \<Rightarrow> bool" where
  "adapter_inv s \<longleftrightarrow> db_inv (db (fst s))"

text \<open>The log of a session as the core reads it, empty when it cannot be read.\<close>

definition adapter_log ::
  "Externals \<Rightarrow> 'k KeyStore \<Rightarrow> (json \<Rightarrow> EventPayload option) \<Rightarrow> 'k adapter \<Rightarrow> uuid \<Rightarrow> PersistedEvent list" where
  "adapter_log x ks dec s session_id =
     (case fst (load_after x ks dec session_id 0 s) of Ok evs \<Rightarrow> evs | Err _ \<Rightarrow> [])"

section \<open>The adapter is an event store\<close>

lemma event_kind_name_Ok [simp]: "event_kind_name k = Ok (kind_name k)"
  by (simp add: event_kind_name_def serde_name_def event_kind_value_name)

lemma effect_class_name_Ok: "\<exists>n. effect_class_name c = Ok n"
  by (cases c) (simp_all add: effect_class_name_def serde_name_def)

lemma core_to_storage_Ok:
  obtains input where "core_to_storage_event x i ev now = Ok input"
    "ei_event_id input = i" "ei_session_id input = ne_session_id ev" "ei_occurred_at input = now"
    "ei_kind input = kind_name (kind (ne_payload ev))"
    "ei_causation_request_id input = ne_causation_request_id ev"
    "ei_attempt_id input = attempt_id (ne_payload ev)"
    "ei_payload input = payload_to_value x (ne_payload ev)"
proof -
  obtain effect where "(case ne_payload ev of
        EventPayload.DispatchPlanned _ c _ _ \<Rightarrow> and_then (effect_class_name c) (\<lambda>n. Ok (Some n))
      | _ \<Rightarrow> Ok None) = Ok effect"
    using effect_class_name_Ok by (cases "ne_payload ev") (simp_all, metis and_then_simps)
  then have "core_to_storage_event x i ev now = Ok
      \<lparr>ei_event_id = i, ei_session_id = ne_session_id ev, ei_occurred_at = now,
       ei_kind = kind_name (kind (ne_payload ev)), ei_causation_request_id = ne_causation_request_id ev,
       ei_attempt_id = attempt_id (ne_payload ev), ei_effect_class = effect,
       ei_payload = payload_to_value x (ne_payload ev)\<rparr>"
    by (simp only: core_to_storage_event_def event_kind_name_Ok and_then_simps)
  then show thesis by (rule that) simp_all
qed

text \<open>An event that was stored converts back to what was asked for.\<close>

lemma stored_converts:
  assumes "serde_ok x dec" "payload_valid (ne_payload ev)" "core_to_storage_event x i ev now = Ok input"
    and "0 < n" "n < 2 ^ 63"
  shows "storage_to_core_event dec (stored_event input n) = Ok
    \<lparr>pe_event_id = i, pe_session_id = ne_session_id ev, pe_sequence = Sequence (of_nat n),
     pe_causation_request_id = ne_causation_request_id ev, pe_occurred_at = now, pe_payload = ne_payload ev\<rparr>"
proof -
  have "unat (of_nat n :: u64) = n" using assms(5) by (simp add: unat_of_nat)
  then have n: "(of_nat n :: u64) \<noteq> 0" using assms(4) by (metis unat_0 less_irrefl)
  obtain input' where "core_to_storage_event x i ev now = Ok input'" and input':
    "ei_event_id input' = i" "ei_session_id input' = ne_session_id ev" "ei_occurred_at input' = now"
    "ei_kind input' = kind_name (kind (ne_payload ev))"
    "ei_causation_request_id input' = ne_causation_request_id ev"
    "ei_payload input' = payload_to_value x (ne_payload ev)"
    by (rule core_to_storage_Ok) (rule that)
  with assms(3) have "input' = input" by simp
  with input' n assms(1,2) show ?thesis
    by (simp add: storage_to_core_event_def stored_event_def serde_ok_def Sequence_new_def)
qed

lemma append_event_result:
  assumes x: "externals_ok x" and inv: "db_inv (db st)" and exact: "text_exact x (ei_payload input)"
    and run: "append_event x ks nonces input st = (Ok p, st')"
  obtains n where "p = stored_event input n" "0 < n" "n < 2 ^ 63" "n = Suc (length (session_rows (db st) (ei_session_id input)))"
    "event_log x ks st' (ei_session_id input) = and_then (event_log x ks st (ei_session_id input)) (\<lambda>evs. Ok (evs @ [p]))"
    "\<And>j. j \<noteq> ei_session_id input \<Longrightarrow> event_log x ks st' j = event_log x ks st j"
proof -
  let ?sid = "ei_session_id input"
  from run have "with_session_key x ks ?sid (\<lambda>key_id key st.
      commit (append_event_in_transaction x nonces input key_id key (db st)) st) st = (Ok p, st')"
    by (simp add: append_event_def)
  then show thesis
  proof (cases rule: with_session_key_cases)
    case (ran key_id key m)
    then obtain d where tx: "append_event_in_transaction x nonces input key_id key (db st) = Ok (p, d)"
        and st': "st' = st\<lparr>km := m, db := d\<rparr>" by (auto simp: commit_def split: sum.splits)
    obtain row where row: "session_events d = session_events (db st) @ [row]" "r_session_id row = ?sid"
        "decrypt_event x key ?sid row = Ok p"
        and p: "p = stored_event input (Suc (length (session_rows (db st) ?sid)))"
        "Suc (length (session_rows (db st) ?sid)) < 2 ^ 63"
      by (rule append_in_transaction_row [OF x exact inv tx]) (rule that)
    have one: "\<forall>r \<in> set [row]. r_session_id r = ?sid" "try_map (decrypt_event x key ?sid) [row] = Ok [p]"
      using row by simp_all
    note extended = log_extended [OF inv append_in_transaction_inv [OF tx inv] ran(2) row(1) one, folded st']
    show thesis by (rule that [OF p(1) _ p(2) refl extended]) simp_all
  qed simp
qed

lemma adapter_log_def':
  "adapter_log x ks dec s sid =
     (case and_then (map_err storage_error (event_log x ks (fst s) sid)) (try_map (storage_to_core_event dec)) of
        Ok evs \<Rightarrow> evs | Err _ \<Rightarrow> [])"
  by (simp add: adapter_log_def load_after_def run_blocking_def event_log_def case_prod_beta)

text \<open>The two ways an append of the adapter ends.\<close>

lemma adapter_append_ran:
  assumes "adapter_inv s" "adapter_append x ks dec nonces ids ev now s = (r, s')"
  obtains input q st' where "core_to_storage_event x (ids (snd s)) ev now = Ok input"
    "append_event x ks nonces input (fst s) = (q, st')" "s' = (st', Suc (snd s))"
    "r = and_then (map_err storage_error q) (storage_to_core_event dec)"
    "ei_session_id input = ne_session_id ev" "ei_payload input = payload_to_value x (ne_payload ev)"
proof -
  obtain input where input: "core_to_storage_event x (ids (snd s)) ev now = Ok input"
      "ei_session_id input = ne_session_id ev" "ei_payload input = payload_to_value x (ne_payload ev)"
    by (rule core_to_storage_Ok) (rule that)
  obtain q st' where run: "append_event x ks nonces input (fst s) = (q, st')" by (rule prod.exhaust)
  from assms(2) have "s' = (st', Suc (snd s))"
    "r = and_then (map_err storage_error q) (storage_to_core_event dec)"
    by (simp_all add: adapter_append_def Let_def input(1) run_blocking_def run)
  then show thesis using that input run by blast
qed

lemma adapter_append_same_log:
  assumes "adapter_inv s" "append_event x ks nonces input (fst s) = (Err e, st')"
  shows "adapter_log x ks dec (st', n) = adapter_log x ks dec s"
proof -
  have same: "db st' = db (fst s)" "\<And>j. fst (session_key x ks j (km st')) = fst (session_key x ks j (km (fst s)))"
    using append_event_unchanged [of x ks nonces input] assms(2) unfolding unchanged_on_error_def by blast+
  have "event_log x ks st' j = event_log x ks (fst s) j" for j
    using log_unchanged [of "fst s" st' x ks] same assms(1) by (simp add: adapter_inv_def)
  then show ?thesis by (simp add: adapter_log_def' fun_eq_iff)
qed

lemma adapter_append_inv:
  assumes "adapter_inv s" "adapter_append x ks dec nonces ids ev now s = (r, s')"
  shows "adapter_inv s'"
proof -
  obtain input q st' where "append_event x ks nonces input (fst s) = (q, st')" "s' = (st', Suc (snd s))"
    by (rule adapter_append_ran [OF assms]) (rule that)
  then show ?thesis
    using writing.append_event_keeps [THEN store.keepsD, of "fst s" x ks nonces input] assms(1)
    by (simp add: adapter_inv_def)
qed

text \<open>Logs of other sessions, whatever the payload.\<close>

lemma append_event_other:
  assumes inv: "db_inv (db st)" and run: "append_event x ks nonces input st = (Ok p, st')"
    and other: "sid \<noteq> ei_session_id input"
  shows "event_log x ks st' sid = event_log x ks st sid"
proof -
  from run have "with_session_key x ks (ei_session_id input) (\<lambda>key_id key st.
      commit (append_event_in_transaction x nonces input key_id key (db st)) st) st = (Ok p, st')"
    by (simp add: append_event_def)
  then show ?thesis
  proof (cases rule: with_session_key_cases)
    case (ran key_id key m)
    then obtain d where tx: "append_event_in_transaction x nonces input key_id key (db st) = Ok (p, d)"
        and st': "st' = st\<lparr>km := m, db := d\<rparr>" by (auto simp: commit_def split: sum.splits)
    from tx obtain n c d1 where ins: "insert_event input n key_id c (db st) = Ok d1" and d: "d = apply_state input d1"
      by (auto simp: append_event_in_transaction_def)
    from insert_event_Ok [OF ins] other have "session_rows d sid = session_rows (db st) sid"
      by (auto simp: d session_rows_snoc)
    with session_key_stable [OF ran(2), of sid] append_in_transaction_inv [OF tx inv] inv show ?thesis
      by (simp add: event_log_rows st')
  qed simp
qed

text \<open>A successful append, in terms of the store's log.\<close>

lemma adapter_append_stored:
  assumes inv: "adapter_inv s" and fits: "adapter_storable x dec (ne_payload ev)"
    and run: "adapter_append x ks dec nonces ids ev now s = (Ok p, s')"
  obtains e n where "n = Suc (length (session_rows (db (fst s)) (ne_session_id ev)))" "n < 2 ^ 63"
    "p = \<lparr>pe_event_id = ids (snd s), pe_session_id = ne_session_id ev, pe_sequence = Sequence (of_nat n),
       pe_causation_request_id = ne_causation_request_id ev, pe_occurred_at = now, pe_payload = ne_payload ev\<rparr>"
    "storage_to_core_event dec e = Ok p"
    "event_log x ks (fst s') (ne_session_id ev) =
       and_then (event_log x ks (fst s) (ne_session_id ev)) (\<lambda>evs. Ok (evs @ [e]))"
proof -
  obtain input q st' where input: "core_to_storage_event x (ids (snd s)) ev now = Ok input"
      "ei_session_id input = ne_session_id ev" "ei_payload input = payload_to_value x (ne_payload ev)"
      and q: "append_event x ks nonces input (fst s) = (q, st')" "s' = (st', Suc (snd s))"
        "Ok p = and_then (map_err storage_error q) (storage_to_core_event dec)"
    by (rule adapter_append_ran [OF inv run]) (rule that)
  from q(3) obtain e where e: "q = Ok e" "storage_to_core_event dec e = Ok p"
    by (cases q) (auto simp: and_then_Ok_iff)
  have laws: "externals_ok x" "serde_ok x dec" "payload_valid (ne_payload ev)" "text_exact x (ei_payload input)"
    using fits input(3) by (simp_all add: adapter_storable_def)
  have dbinv: "db_inv (db (fst s))" using inv by (simp add: adapter_inv_def)
  obtain n where n: "e = stored_event input n" "0 < n" "n < 2 ^ 63"
      "n = Suc (length (session_rows (db (fst s)) (ei_session_id input)))"
      and log: "event_log x ks st' (ei_session_id input) =
        and_then (event_log x ks (fst s) (ei_session_id input)) (\<lambda>evs. Ok (evs @ [e]))"
    by (rule append_event_result [OF laws(1) dbinv laws(4) q(1) [unfolded e(1)]]) (rule that)
  from stored_converts [OF laws(2,3) input(1) n(2,3)] e(2) n(1) have "p =
      \<lparr>pe_event_id = ids (snd s), pe_session_id = ne_session_id ev, pe_sequence = Sequence (of_nat n),
       pe_causation_request_id = ne_causation_request_id ev, pe_occurred_at = now, pe_payload = ne_payload ev\<rparr>"
    by simp
  then show thesis using that n(3,4) e(2) log q(2) input(2) by simp
qed

lemma adapter_log_readable:
  assumes "adapter_log x ks dec s sid \<noteq> []"
  obtains evs where "event_log x ks (fst s) sid = Ok evs" "evs \<noteq> []"
    "try_map (storage_to_core_event dec) evs = Ok (adapter_log x ks dec s sid)"
proof (cases "event_log x ks (fst s) sid")
  case (Inl e)
  with assms show thesis by (simp add: adapter_log_def')
next
  case (Inr evs)
  with assms obtain ps where "try_map (storage_to_core_event dec) evs = Ok ps" "adapter_log x ks dec s sid = ps"
    by (cases "try_map (storage_to_core_event dec) evs") (simp_all add: adapter_log_def')
  with Inr assms show thesis by (intro that) auto
qed

lemma converted_sequence:
  "storage_to_core_event dec e = Ok p \<Longrightarrow> sequence_get (pe_sequence p) = se_sequence e"
  by (auto simp: storage_to_core_event_def and_then_Ok_iff map_err_Ok_iff Sequence_new_def split: if_splits)

lemma last_sequence:
  assumes "adapter_inv s" "adapter_log x ks dec s sid \<noteq> []" "length (session_rows (db (fst s)) sid) < 2 ^ 63"
  shows "unat (sequence_get (pe_sequence (last (adapter_log x ks dec s sid)))) = length (session_rows (db (fst s)) sid)"
proof -
  have inv: "db_inv (db (fst s))" using assms(1) by (simp add: adapter_inv_def)
  obtain evs where evs: "event_log x ks (fst s) sid = Ok evs" "evs \<noteq> []"
      and conv: "try_map (storage_to_core_event dec) evs = Ok (adapter_log x ks dec s sid)"
    by (rule adapter_log_readable [OF assms(2)]) (rule that)
  have all2: "list_all2 (\<lambda>e p. storage_to_core_event dec e = Ok p) evs (adapter_log x ks dec s sid)"
    using conv by (simp add: try_map_Ok_iff)
  then have "storage_to_core_event dec (last evs) = Ok (last (adapter_log x ks dec s sid))"
    using evs(2) assms(2) list_all2_lengthD [OF all2] by (simp add: last_conv_nth list_all2_conv_all_nth)
  then have "sequence_get (pe_sequence (last (adapter_log x ks dec s sid))) = se_sequence (last evs)"
    by (rule converted_sequence)
  also have "\<dots> = last (map se_sequence evs)" using evs(2) by (simp add: last_map)
  also have "\<dots> = of_nat (length evs)"
    using evs(2) by (simp add: sequences_of_log [OF inv evs(1)] last_map upt_Suc Suc_leI)
  finally have "sequence_get (pe_sequence (last (adapter_log x ks dec s sid))) = of_nat (length evs)" .
  moreover have "length evs = length (session_rows (db (fst s)) sid)"
    using evs(1) by (auto simp: event_log_rows [OF inv] and_then_Ok_iff try_map_length)
  ultimately show ?thesis using assms(3) by (simp add: unat_of_nat)
qed

lemma adapter_append_log:
  assumes inv: "adapter_inv s" and fits: "adapter_storable x dec (ne_payload ev)"
    and run: "adapter_append x ks dec nonces ids ev now s = (Ok p, s')"
    and readable: "adapter_log x ks dec s (ne_session_id ev) \<noteq> []"
  shows "adapter_log x ks dec s' (ne_session_id ev) = adapter_log x ks dec s (ne_session_id ev) @ [p]"
    "unat (sequence_get (pe_sequence p)) =
       Suc (unat (sequence_get (pe_sequence (last (adapter_log x ks dec s (ne_session_id ev))))))"
proof -
  let ?sid = "ne_session_id ev"
  obtain e n where n: "n = Suc (length (session_rows (db (fst s)) ?sid))" "n < 2 ^ 63"
      and p: "pe_sequence p = Sequence (of_nat n)" "storage_to_core_event dec e = Ok p"
      and log: "event_log x ks (fst s') ?sid = and_then (event_log x ks (fst s) ?sid) (\<lambda>evs. Ok (evs @ [e]))"
    by (rule adapter_append_stored [OF inv fits run]) (rule that, auto)
  obtain evs where evs: "event_log x ks (fst s) ?sid = Ok evs"
      "try_map (storage_to_core_event dec) evs = Ok (adapter_log x ks dec s ?sid)"
    by (rule adapter_log_readable [OF readable]) (rule that)
  then show "adapter_log x ks dec s' ?sid = adapter_log x ks dec s ?sid @ [p]"
    using log p(2) by (simp add: adapter_log_def' [of x ks dec s'] try_map_append)
  show "unat (sequence_get (pe_sequence p)) =
       Suc (unat (sequence_get (pe_sequence (last (adapter_log x ks dec s ?sid)))))"
  proof -
    have "unat (of_nat n :: u64) = n" using n(2) by (simp add: unat_of_nat)
    then have "unat (sequence_get (pe_sequence p)) = n" using p(1) by simp
    with last_sequence [OF inv readable] n show ?thesis by simp
  qed
qed

lemma adapter_append_frame:
  assumes inv: "adapter_inv s" and run: "adapter_append x ks dec nonces ids ev now s = (r, s')"
    and other: "sid \<noteq> ne_session_id ev"
  shows "adapter_log x ks dec s' sid = adapter_log x ks dec s sid"
proof -
  obtain input q st' where q: "append_event x ks nonces input (fst s) = (q, st')" "s' = (st', Suc (snd s))"
      "ei_session_id input = ne_session_id ev"
    by (rule adapter_append_ran [OF inv run]) (rule that)
  show ?thesis
  proof (cases q)
    case (Inl e)
    then show ?thesis using adapter_append_same_log [OF inv] q(1,2) by metis
  next
    case (Inr p)
    have "event_log x ks st' sid = event_log x ks (fst s) sid"
      by (rule append_event_other [OF _ q(1) [unfolded Inr]]) (use inv other q(3) in \<open>simp_all add: adapter_inv_def\<close>)
    then show ?thesis by (simp add: adapter_log_def' q(2))
  qed
qed

lemma adapter_append_Err:
  assumes inv: "adapter_inv s" and fits: "adapter_storable x dec (ne_payload ev)"
    and run: "adapter_append x ks dec nonces ids ev now s = (Err e, s')"
  shows "adapter_log x ks dec s' = adapter_log x ks dec s"
proof -
  obtain input q st' where input: "core_to_storage_event x (ids (snd s)) ev now = Ok input"
      "ei_payload input = payload_to_value x (ne_payload ev)"
      and q: "append_event x ks nonces input (fst s) = (q, st')" "s' = (st', Suc (snd s))"
        "Err e = and_then (map_err storage_error q) (storage_to_core_event dec)"
    by (rule adapter_append_ran [OF inv run]) (rule that)
  show ?thesis
  proof (cases q)
    case (Inl e')
    then show ?thesis using adapter_append_same_log [OF inv] q(1,2) by metis
  next
    case (Inr p)
    have dbinv: "db_inv (db (fst s))" using inv by (simp add: adapter_inv_def)
    have laws: "externals_ok x" "serde_ok x dec" "payload_valid (ne_payload ev)" "text_exact x (ei_payload input)"
      using fits input(2) by (simp_all add: adapter_storable_def)
    obtain n where "p = stored_event input n" "0 < n" "n < 2 ^ 63"
      by (rule append_event_result [OF laws(1) dbinv laws(4) q(1) [unfolded Inr]]) (rule that)
    with stored_converts [OF laws(2,3) input(1)] q(3) Inr show ?thesis by simp
  qed
qed

interpretation adapter:
  event_store "adapter_append x ks dec nonces ids" "adapter_log x ks dec" "adapter_storable x dec" adapter_inv
  for x :: Externals and ks :: "'k KeyStore" and dec nonces ids
proof unfold_locales
  fix s s' :: "'k adapter" and ev now r p e sid
  let ?append = "adapter_append x ks dec nonces ids ev now s"
  assume inv: "adapter_inv s"
  obtain r' s'' where "?append = (r', s'')" by (rule prod.exhaust)
  then show "adapter_inv (snd ?append)" by (simp add: adapter_append_inv [OF inv])
  show "?append = (r, s') \<Longrightarrow> sid \<noteq> ne_session_id ev \<Longrightarrow> adapter_log x ks dec s' sid = adapter_log x ks dec s sid"
    by (rule adapter_append_frame [OF inv])
  assume fits: "adapter_storable x dec (ne_payload ev)"
  show "?append = (Err e, s') \<Longrightarrow> adapter_log x ks dec s' = adapter_log x ks dec s"
    by (rule adapter_append_Err [OF inv fits])
  assume run: "?append = (Ok p, s')"
  show "pe_payload p = ne_payload ev \<and> pe_session_id p = ne_session_id ev \<and> pe_occurred_at p = now \<and>
      pe_causation_request_id p = ne_causation_request_id ev"
    by (rule adapter_append_stored [OF inv fits run]) simp
  show "adapter_log x ks dec s (ne_session_id ev) \<noteq> [] \<Longrightarrow>
      adapter_log x ks dec s' (ne_session_id ev) = adapter_log x ks dec s (ne_session_id ev) @ [p] \<and>
      unat (sequence_get (pe_sequence p)) =
        Suc (unat (sequence_get (pe_sequence (last (adapter_log x ks dec s (ne_session_id ev))))))"
    using adapter_append_log [OF inv fits run] by blast
qed

end
