(* ===== verification/Execution.thy ===== *)
theory Execution
  imports Adapter
begin

text \<open>
  The orchestrator over the encrypted store: the guarantees of \<open>Orchestration\<close> for the event store of
  \<open>Adapter\<close>, and a reader of payloads for concrete runs.
\<close>

declare upt_Suc [simp del]

section \<open>A reader of payloads\<close>

text \<open>For the reference codecs: fields are taken by position from the object a payload is written as.\<close>

definition demo_uuid :: "json \<Rightarrow> uuid" where
  "demo_uuid v = of_nat (length (text_of v))"

definition demo_option :: "(json \<Rightarrow> 'a) \<Rightarrow> json \<Rightarrow> 'a option" where
  "demo_option f v = (if v = JNull then None else Some (f v))"

definition field :: "json \<Rightarrow> nat \<Rightarrow> json" where
  "field v i = (case v of JObject kvs \<Rightarrow> snd (kvs ! i) | _ \<Rightarrow> JNull)"

definition demo_decision :: "json \<Rightarrow> ApprovalDecision" where
  "demo_decision v = (if v = JString ''grant'' then Grant else Deny)"

definition demo_resolution :: "json \<Rightarrow> ReconciliationResolution" where
  "demo_resolution v = (if v = JString ''retry'' then Retry
     else if v = JString ''accept_result'' then AcceptResult else Abandon)"

definition demo_effect_class :: "json \<Rightarrow> EffectClass" where
  "demo_effect_class v = (if v = JString ''none'' then NoEffect
     else if v = JString ''idempotent-read'' then IdempotentRead
     else if v = JString ''idempotent-write'' then IdempotentWrite
     else if v = JString ''paid-inference'' then PaidInference
     else if v = JString ''non-idempotent-write'' then NonIdempotentWrite
     else if v = JString ''production'' then Production else Credential)"

definition demo_role_mapping :: "json \<Rightarrow> RoleMapping" where
  "demo_role_mapping v = \<lparr>rm_role = text_of (field v 1), rm_provider = text_of (field v 0),
     rm_runtime_model = text_of (field v 2)\<rparr>"

definition demo_risk :: "json \<Rightarrow> Risk" where
  "demo_risk v = (if v = JString ''low'' then Low else if v = JString ''high'' then High else Medium)"

definition demo_permission :: "json \<Rightarrow> PermissionScope" where
  "demo_permission v = (if v = JString ''read-only'' then PermissionScope.ReadOnly
     else if v = JString ''denied'' then PermissionScope.Denied else PermissionScope.ApprovalRequired)"

definition demo_rule :: "json \<Rightarrow> SelectedRule" where
  "demo_rule v = (if v = JString ''explicit'' then SelectedRule.Explicit
     else if v = JString ''workflow'' then SelectedRule.Workflow
     else if v = JString ''resolver'' then SelectedRule.Resolver else SelectedRule.Coordinator)"

definition demo_plan :: "json \<Rightarrow> RoutingPlan" where
  "demo_plan v = \<lparr>rp_intent = text_of (field v 3),
     rp_destination = \<lparr>rd_role = text_of (field (field v 2) 2), rd_model_alias = text_of (field (field v 2) 0),
       rd_provider = text_of (field (field v 2) 1), rd_runtime_model = text_of (field (field v 2) 3)\<rparr>,
     rp_context = \<lparr>rc_tools = map text_of (items_of (field (field v 1) 2)),
       rc_data_sources = map text_of (items_of (field (field v 1) 0)),
       rc_permission = demo_permission (field (field v 1) 1)\<rparr>,
     rp_risk = demo_risk (field v 4),
     rp_confidence = (case field v 0 of JNumber (Float c) \<Rightarrow> c | _ \<Rightarrow> NaN),
     rp_selected_by = demo_rule (field v 5)\<rparr>"

definition demo_fields :: "string \<Rightarrow> (nat \<Rightarrow> json) \<Rightarrow> EventPayload option" where
  "demo_fields k d =
     (if k = ''session_created'' then Some (EventPayload.SessionCreated (text_of (d 0)) (text_of (d 1)))
      else if k = ''configuration_resolved'' then Some (EventPayload.ConfigurationResolved (text_of (d 1)) (map text_of (items_of (d 2))) (map demo_role_mapping (items_of (d 0))))
      else if k = ''input_recorded'' then Some (EventPayload.InputRecorded (demo_uuid (d 1)) (text_of (d 0)))
      else if k = ''routing_planned'' then Some (EventPayload.RoutingPlanned (demo_plan (d 0)))
      else if k = ''clarification_requested'' then Some (EventPayload.ClarificationRequested (text_of (d 0)) (text_of (d 1)))
      else if k = ''approval_requested'' then Some (EventPayload.ApprovalRequested (demo_uuid (d 1)) (text_of (d 0)) (text_of (d 2)) (map text_of (items_of (d 3))))
      else if k = ''approval_recorded'' then Some (EventPayload.ApprovalRecorded (demo_uuid (d 1)) (text_of (d 0)) (demo_decision (d 2)))
      else if k = ''dispatch_planned'' then Some (EventPayload.DispatchPlanned (demo_uuid (d 0)) (demo_effect_class (d 1)) (text_of (d 3)) ((d 2 = JBool True)))
      else if k = ''dispatch_started'' then Some (EventPayload.DispatchStarted (demo_uuid (d 1)) (demo_option text_of (d 0)))
      else if k = ''dispatch_acknowledged'' then Some (EventPayload.DispatchAcknowledged (demo_uuid (d 0)) (demo_option text_of (d 1)))
      else if k = ''provider_event'' then Some (EventPayload.ProviderEvent (demo_uuid (d 0)) (text_of (d 2)) (text_of (d 1)))
      else if k = ''tool_event'' then Some (EventPayload.ToolEvent (demo_uuid (d 0)) (text_of (d 2)) (text_of (d 1)))
      else if k = ''pause_requested'' then Some (EventPayload.PauseRequested (demo_uuid (d 1)) (text_of (d 0)))
      else if k = ''session_paused'' then Some (EventPayload.SessionPaused (demo_uuid (d 1)) (text_of (d 0)))
      else if k = ''session_resumed'' then Some (EventPayload.SessionResumed (demo_uuid (d 1)) (text_of (d 0)))
      else if k = ''session_redirected'' then Some (EventPayload.SessionRedirected (demo_uuid (d 1)) (text_of (d 0)) (text_of (d 2)))
      else if k = ''cancel_requested'' then Some (EventPayload.CancelRequested (demo_uuid (d 1)) (text_of (d 0)))
      else if k = ''cancel_confirmed'' then Some (EventPayload.CancelConfirmed (demo_uuid (d 0)))
      else if k = ''outcome_unknown'' then Some (EventPayload.OutcomeUnknown (demo_uuid (d 0)) (text_of (d 1)) (map demo_resolution (items_of (d 2))))
      else if k = ''outcome_reconciled'' then Some (EventPayload.OutcomeReconciled (demo_uuid (d 0)) (demo_resolution (d 2)) (demo_option demo_uuid (d 1)))
      else if k = ''session_completed'' then Some (EventPayload.SessionCompleted (demo_option demo_uuid (d 0)) (text_of (d 2)) (demo_uuid (d 1)))
      else if k = ''session_failed'' then Some (EventPayload.SessionFailed (demo_option demo_uuid (d 0)) (text_of (d 2)) (demo_uuid (d 1)))
      else if k = ''session_cancelled'' then Some (EventPayload.SessionCancelled (demo_option demo_uuid (d 0)) (text_of (d 2)) (demo_uuid (d 1)))
      else if k = ''session_abandoned'' then Some (EventPayload.SessionAbandoned (demo_uuid (d 0)) (text_of (d 2)) (demo_uuid (d 1)))
      else if k = ''session_exported'' then Some (EventPayload.SessionExported (demo_uuid (d 0)) (map text_of (items_of (d 1))))
      else if k = ''session_deletion_requested'' then Some (EventPayload.SessionDeletionRequested (demo_uuid (d 1)) (text_of (d 0)))
      else if k = ''session_deleted'' then Some (EventPayload.SessionDeleted (demo_uuid (d 0)) ((d 1 = JBool True)))
      else if k = ''workflow_transition'' then Some (EventPayload.WorkflowTransition (text_of (d 5)) (text_of (d 3)) (text_of (d 4)) ((case d 0 of JNumber (PosInt n) \<Rightarrow> ucast n | _ \<Rightarrow> 0)) (text_of (d 1)) (text_of (d 2)))
      else None)"

definition demo_decode :: "json \<Rightarrow> EventPayload option" where
  "demo_decode v = demo_fields (text_of (field v 1)) (field (field v 0))"

lemma demo_values [simp]:
  "demo_uuid (uuid_value reference i) = i" "map text_of (items_of (strings_value ss)) = ss"
  "demo_option demo_uuid (option_value (uuid_value reference) oi) = oi"
  "demo_option text_of (option_value JString os) = os"
  "demo_decision (decision_value d) = d" "demo_resolution (resolution_value r) = r"
  "demo_effect_class (effect_class_value e) = e" "demo_role_mapping (role_mapping_value m) = m"
  "map demo_resolution (map resolution_value rs) = rs" "map demo_role_mapping (map role_mapping_value ms) = ms"
proof -
  show uuid: "demo_uuid (uuid_value reference i) = i" for i
    by (simp add: demo_uuid_def uuid_value_def reference_def)
  show "map text_of (items_of (strings_value ss)) = ss" by (simp add: strings_value_def comp_def)
  show "demo_option demo_uuid (option_value (uuid_value reference) oi) = oi"
    using uuid by (cases oi) (simp_all add: demo_option_def option_value_def, simp add: uuid_value_def)
  show "demo_option text_of (option_value JString os) = os"
    by (cases os) (simp_all add: demo_option_def option_value_def)
  show "demo_decision (decision_value d) = d" by (cases d) (simp_all add: demo_decision_def)
  show res: "demo_resolution (resolution_value r) = r" for r by (cases r) (simp_all add: demo_resolution_def)
  show "demo_effect_class (effect_class_value e) = e" by (cases e) (simp_all add: demo_effect_class_def)
  show role: "demo_role_mapping (role_mapping_value m) = m" for m
    by (simp add: demo_role_mapping_def role_mapping_value_def field_def)
  show "map demo_resolution (map resolution_value rs) = rs" using res by (simp add: comp_def)
  show "map demo_role_mapping (map role_mapping_value ms) = ms" using role by (simp add: comp_def)
qed

lemma demo_plan_value: "plan_valid p \<Longrightarrow> demo_plan (plan_value p) = p"
proof -
  assume "plan_valid p"
  then obtain q where q: "rp_confidence p = Fin q" by (auto simp: plan_valid_def)
  have "demo_risk (risk_value r) = r" "demo_permission (permission_scope_value s) = s"
    "demo_rule (selected_rule_value u) = u" for r s u
    by (cases r; cases s; cases u; simp add: demo_risk_def demo_permission_def demo_rule_def)+
  then show ?thesis
    by (intro RoutingPlan.equality RouteDestination.equality RouteContext.equality)
       (simp_all add: demo_plan_def plan_value_def field_def destination_value_def context_value_def q
         f64_value_def strings_value_def comp_def)
qed

lemma demo_serde: "serde_ok reference demo_decode"
  unfolding serde_ok_def
proof (intro allI impI)
  fix p assume "payload_valid p"
  then show "demo_decode (payload_to_value reference p) = Some p"
    by (cases p) (simp_all add: demo_decode_def payload_to_value_def field_def demo_fields_def demo_plan_value
        widen_u32 comp_def)
qed

section \<open>A session to run on\<close>

definition demo_created_payload :: EventPayload where
  "demo_created_payload = EventPayload.SessionCreated (replicate 64 CHR ''a'') (replicate 64 CHR ''b'')"

definition demo_session :: "MemoryKeyStore adapter" where
  "demo_session = (demo_storage\<lparr>db := (db demo_storage)\<lparr>session_events := [\<lparr>r_event_id = 2, r_session_id = 1,
      r_sequence = 1, r_occurred_at = 0, r_kind = ''session_created'', r_causation_request_id = None,
      r_attempt_id = None, r_effect_class = None, r_key_id = ''key'',
      r_payload = \<lparr>ep_nonce = demo_nonce,
        ep_ciphertext = take 16 demo_key @ put_json (payload_to_value reference demo_created_payload)\<rparr>\<rparr>]\<rparr>\<rparr>, 10)"

lemma demo_session_inv: "adapter_inv demo_session"
  by (auto simp: adapter_inv_def db_inv_def demo_session_def demo_storage_def empty_db_def session_rows_def upt_rec)

lemma demo_session_log:
  "adapter_log reference memory_key_store demo_decode demo_session 1 =
     [\<lparr>pe_event_id = 2, pe_session_id = 1, pe_sequence = Sequence 1, pe_causation_request_id = None,
       pe_occurred_at = 0, pe_payload = demo_created_payload\<rparr>]"
proof -
  let ?v = "payload_to_value reference demo_created_payload"
  have valid: "payload_valid demo_created_payload"
    by (simp add: demo_created_payload_def content_hash_valid_def ContentHash_parse_def list_all_iff is_lower_hex_def)
  have decode: "demo_decode ?v = Some demo_created_payload"
    using demo_serde valid by (simp add: serde_ok_def)
  have "json_exact ?v" by (rule payload_exact) (simp add: demo_created_payload_def)
  then have read: "json_from_slice reference (put_json ?v) = Some ?v"
    using externals_okD(7) [OF reference_ok, of ?v] by (simp add: reference_def)
  have rows: "session_rows (db (fst demo_session)) 1 = session_events (db (fst demo_session))"
    by (simp add: demo_session_def session_rows_def)
  have key: "session_key reference memory_key_store 1 (km (fst demo_session)) = (Ok demo_key, km (fst demo_session))"
    by (simp add: demo_session_def)
  have inv: "db_inv (db (fst demo_session))" using demo_session_inv by (simp add: adapter_inv_def)
  have "event_log reference memory_key_store (fst demo_session) 1 = Ok [\<lparr>se_event_id = 2, se_session_id = 1,
      se_sequence = 1, se_occurred_at = 0, se_kind = ''session_created'', se_causation_request_id = None,
      se_attempt_id = None, se_effect_class = None, se_payload = ?v\<rparr>]"
    unfolding event_log_rows [OF inv] rows key fst_conv and_then_simps
    by (simp add: demo_session_def decrypt_event_def EncryptedPayload_decrypt_def reference_decrypt
        NONCE_BYTES_def read)
  moreover have "kind_name (kind demo_created_payload) = ''session_created''"
    by (simp add: kind_name_def demo_created_payload_def)
  ultimately show ?thesis
    by (simp add: adapter_log_def' storage_to_core_event_def decode Sequence_new_def)
qed

lemma demo_session_ready:
  "fold_history (adapter_log reference memory_key_store demo_decode demo_session 1) = Ok SessionState.Ready"
  by (simp add: demo_session_log fold_history_def demo_created_payload_def fold_event_def transition_defs Sequence_FIRST_def)

definition demo_adapter :: ProviderAdapter where
  "demo_adapter = \<lparr>start_session = Ok ''handle'',
     prompt_stream = (\<lambda>_ _. Ok (\<lambda>i. if i = 0 then Some (Ok (ProviderOutput.Content ''text'' ''hello''))
       else Some (Ok (ProviderOutput.Completed ''done''))))\<rparr>"

definition demo_request :: ExecutionRequest where
  "demo_request = \<lparr>er_session_id = 1, er_request_id = 8, er_content = ''prompt'',
     er_plan = \<lparr>rp_intent = ''answer'', rp_destination = \<lparr>rd_role = ''coder'', rd_model_alias = ''fast'',
         rd_provider = ''local'', rd_runtime_model = ''m''\<rparr>,
       rp_context = \<lparr>rc_tools = [], rc_data_sources = [], rc_permission = PermissionScope.ReadOnly\<rparr>,
       rp_risk = Low, rp_confidence = Fin 1, rp_selected_by = SelectedRule.Explicit\<rparr>,
     er_operation = ''prompt'',
     er_operation_policy = \<lparr>effect_class = PaidInference, explicitly_idempotent = False, material_cost = True\<rparr>,
     er_adapter = demo_adapter\<rparr>"

definition demo_orchestrator :: "MemoryKeyStore adapter Orchestrator" where
  "demo_orchestrator = \<lparr>events = adapter_append reference memory_key_store demo_decode (\<lambda>_. demo_nonce) of_nat,
     clock = (\<lambda>_. 0), new_input_id = 20, new_attempt_id = 21, new_correlation_id = 22\<rparr>"

lemma demo_request_valid: "request_valid demo_request"
  by (auto simp: request_valid_def demo_request_def demo_adapter_def stream_valid_def)

lemma demo_plan_storable:
  "payload_valid (EventPayload.RoutingPlanned (er_plan demo_request))"
  "text_exact reference (payload_to_value reference (EventPayload.RoutingPlanned (er_plan demo_request)))"
proof -
  show "payload_valid (EventPayload.RoutingPlanned (er_plan demo_request))"
    by (simp add: demo_request_def plan_valid_def identifier_valid_def identifier_parse_def is_ascii_lowercase_def
        is_ascii_digit_def)
  show "text_exact reference (payload_to_value reference (EventPayload.RoutingPlanned (er_plan demo_request)))"
    unfolding text_exact_def
    by (simp add: reference_def, rule read_put_plain)
       (simp add: payload_to_value_def plan_value_def demo_request_def f64_value_def context_value_def
         strings_value_def destination_value_def)
qed

section \<open>A run\<close>

text \<open>On the demonstration session every event of a new kind is stored.\<close>

lemma insert_ok: assumes "db_inv d" "map_of (sessions d) (ei_session_id input) \<noteq> None"
 "length (ep_nonce enc) = 24" "Suc (length (session_rows d (ei_session_id input))) < 2^63"
 "ei_event_id input \<notin> r_event_id ` set (session_events d)"
 "\<forall>r \<in> set (session_events d). r_attempt_id r \<noteq> None \<longrightarrow> r_kind r \<noteq> ei_kind input"
 "ei_kind input \<notin> set TERMINAL_KINDS"
 shows "is_ok (insert_event input (Suc (length (session_rows d (ei_session_id input)))) kid enc d)"
proof -
  have seq: "r_sequence r \<noteq> Suc (length (session_rows d (ei_session_id input)))"
    if "r \<in> set (session_events d)" "r_session_id r = ei_session_id input" for r
  proof -
    have "r \<in> set (session_rows d (ei_session_id input))" using that by (simp add: session_rows_def)
    then have "r_sequence r \<in> set (map r_sequence (session_rows d (ei_session_id input)))" by simp
    also have "map r_sequence (session_rows d (ei_session_id input)) = [1..<Suc (length (session_rows d (ei_session_id input)))]"
      using assms(1) unfolding db_inv_def by blast
    finally show ?thesis by simp
  qed
  show ?thesis
    unfolding insert_event_def Let_def
    using assms(2-7) seq by (auto simp: event_conflicts_def is_ok_iff) metis
qed

definition demo_ready :: "MemoryKeyStore adapter \<Rightarrow> string list \<Rightarrow> bool" where
  "demo_ready s kinds \<longleftrightarrow> adapter_inv s \<and> session_row_key_id (db (fst s)) 1 = Ok ''key'' \<and>
     km_cache (km (fst s)) 1 = Some demo_key \<and> length (session_events (db (fst s))) < snd s \<and>
     (\<forall>r \<in> set (session_events (db (fst s))). unat (r_event_id r) < snd s \<and>
        (r_attempt_id r \<noteq> None \<longrightarrow> r_kind r \<in> set kinds))"

lemma demo_append_ok:
  assumes ready: "demo_ready s kinds" and few: "snd s < 100"
    and new: "kind_name (kind p) \<notin> set kinds" "kind_name (kind p) \<notin> set TERMINAL_KINDS"
    and p: "adapter_storable reference dec p"
  obtains e s' where "adapter_append reference memory_key_store dec (\<lambda>_. demo_nonce) of_nat
      \<lparr>ne_session_id = 1, ne_causation_request_id = c, ne_payload = p\<rparr> now s = (Ok e, s')"
    "demo_ready s' (kind_name (kind p) # kinds)" "snd s' = Suc (snd s)"
proof -
  let ?ev = "\<lparr>ne_session_id = 1, ne_causation_request_id = c, ne_payload = p\<rparr>" and ?st = "fst s"
  let ?n = "Suc (length (session_rows (db ?st) 1))"
  have inv: "adapter_inv s" "db_inv (db ?st)" using ready by (simp_all add: demo_ready_def adapter_inv_def)
  have laws: "serde_ok reference dec" "payload_valid (ne_payload ?ev)" using p by (simp_all add: adapter_storable_def)
  obtain input where input: "core_to_storage_event reference (of_nat (snd s)) ?ev now = Ok input"
      "ei_event_id input = of_nat (snd s)" "ei_session_id input = 1" "ei_kind input = kind_name (kind p)"
      "ei_attempt_id input = attempt_id p"
    by (rule core_to_storage_Ok [of reference "of_nat (snd s)" ?ev now]) (use that in simp)
  have "length (session_rows (db ?st) 1) \<le> length (session_events (db ?st))" by (simp add: session_rows_def)
  then have n: "0 < ?n" "?n < 2 ^ 63" using ready few by (simp_all add: demo_ready_def)
  have fresh: "unat (of_nat (snd s) :: uuid) = snd s" using few by (simp add: unat_of_nat)
  let ?enc = "\<lparr>ep_nonce = demo_nonce, ep_ciphertext = take 16 demo_key @ put_json (ei_payload input)\<rparr>"
  have enc: "encrypt_json reference demo_nonce demo_key 1 obj ?n (ei_kind input) (ei_payload input) = Ok ?enc" for obj
    by (simp add: encrypt_json_def EncryptedPayload_encrypt_def reference_encrypt) (simp add: reference_def)
  have "is_ok (insert_event input (Suc (length (session_rows (db ?st) (ei_session_id input)))) ''key'' ?enc (db ?st))"
    by (rule insert_ok [OF inv(2)])
       (use ready new n fresh input in \<open>auto simp: demo_ready_def session_row_key_id_def and_then_Ok_iff ok_or_Ok_iff\<close>)
  then obtain d where d: "insert_event input ?n ''key'' ?enc (db ?st) = Ok d" using input(3) by (auto simp: is_ok_iff)
  have tx: "append_event_in_transaction reference (\<lambda>_. demo_nonce) input ''key'' demo_key (db ?st) =
      Ok (stored_event input ?n, apply_state input d)"
    using n by (simp add: append_event_in_transaction_def next_sequence_inv [OF inv(2)] input(3) enc d)
  have key: "session_key reference memory_key_store 1 (km ?st) = (Ok demo_key, km ?st)" "session_row_key_id (db ?st) 1 = Ok ''key''"
    using ready by (simp_all add: demo_ready_def session_key_def)
  have run: "append_event reference memory_key_store (\<lambda>_. demo_nonce) input ?st =
      (Ok (stored_event input ?n), ?st\<lparr>db := apply_state input d\<rparr>)"
    unfolding append_event_def input(3) by (simp add: with_session_key_def key tx commit_def)
  let ?s = "(?st\<lparr>db := apply_state input d\<rparr>, Suc (snd s))"
  obtain e where append: "adapter_append reference memory_key_store dec (\<lambda>_. demo_nonce) of_nat ?ev now s = (Ok e, ?s)"
    using stored_converts [OF laws input(1) n] by (simp add: adapter_append_def Let_def input(1) run_blocking_def run)
  have inv': "adapter_inv ?s" by (rule adapter_append_inv [OF inv(1) append])
  from insert_event_Ok [OF d] obtain row where row: "d = (db ?st)\<lparr>session_events := session_events (db ?st) @ [row]\<rparr>"
      "r_kind row = kind_name (kind p)" "r_event_id row = of_nat (snd s)" using input by auto
  have "session_row_key_id (apply_state input d) 1 = session_row_key_id (db ?st) 1"
    unfolding row(1) apply_state_def Let_def session_row_key_id_def
    by (auto simp: map_of_update_session and_then_def ok_or_def split: option.splits)
  moreover have "session_events (apply_state input d) = session_events (db ?st) @ [row]" by (simp add: row(1))
  ultimately have "demo_ready ?s (kind_name (kind p) # kinds)"
    using ready inv' fresh row(2,3) by (auto simp: demo_ready_def less_Suc_eq)
  with append show thesis by (intro that) (assumption | simp)+
qed

lemma demo_orch_append:
  assumes "demo_ready (fst w) kinds" "snd (fst w) < 100" "kind_name (kind p) \<notin> set kinds"
    "kind_name (kind p) \<notin> set TERMINAL_KINDS" "adapter_storable reference demo_decode p"
  obtains e s' where "orch_append demo_orchestrator 1 rid p w = (Ok e, (s', snd w @ [Persisted e]))"
    "demo_ready s' (kind_name (kind p) # kinds)" "snd s' = Suc (snd (fst w))"
  by (rule demo_append_ok [OF assms, of "Some rid" 0])
     (rule that, simp_all add: orch_append_def demo_orchestrator_def)

lemma demo_session_starts: "demo_ready demo_session []"
  using demo_session_inv
  by (auto simp: demo_ready_def demo_session_def demo_storage_def session_row_key_id_def empty_db_def)

lemma stores_texts: "externals_ok x \<Longrightarrow> serde_ok x dec \<Longrightarrow> event_store.stores_texts (adapter_storable x dec)"
  unfolding adapter.stores_texts_def adapter_storable_def using payload_exact text_exact_json by blast

lemma demo_run:
  obtains e1 e2 e3 e4 where "snd (snd (execute 0 demo_orchestrator demo_request (demo_session, []))) =
    [Persisted e1, Persisted e2, Persisted e3, Persisted e4, StartSession,
     PromptStream \<lparr>pp_session_id = 1, pp_attempt_id = 21, pp_runtime_model = ''m'', pp_content = ''prompt''\<rparr>]"
proof -
  have ids: "er_session_id demo_request = 1" "er_request_id demo_request = 8" "er_content demo_request = ''prompt''"
    "rc_permission (rp_context (er_plan demo_request)) = PermissionScope.ReadOnly"
    "rd_runtime_model (rp_destination (er_plan demo_request)) = ''m''" "new_attempt_id demo_orchestrator = 21"
    by (simp_all add: demo_request_def demo_orchestrator_def)
  let ?pol = "er_operation_policy demo_request"
  have plan: "Attempt_plan 21 (er_operation demo_request) ?pol = Ok \<lparr>att_id = 21, att_operation = ''prompt'',
      att_policy = ?pol, att_progress = AttemptProgress.Planned, att_predecessor = None\<rparr>"
    by (simp add: Attempt_plan_def demo_request_def OperationPolicy_validate_def)
  have texts: "adapter_storable reference demo_decode p" if "payload_valid p" "kind p \<noteq> EventKind.RoutingPlanned" for p
    using adapter.storable_text [OF stores_texts [OF reference_ok demo_serde] that] .
  have route: "adapter_storable reference demo_decode (EventPayload.RoutingPlanned (er_plan demo_request))"
    using demo_plan_storable reference_ok demo_serde by (simp add: adapter_storable_def)
  note names = kind_name_def TERMINAL_KINDS_def
  obtain e1 s1 where 1: "orch_append demo_orchestrator 1 8 (EventPayload.InputRecorded (new_input_id demo_orchestrator) ''prompt'')
      (demo_session, []) = (Ok e1, (s1, [Persisted e1]))" "demo_ready s1 [''input_recorded'']" "snd s1 = 11"
    by (rule demo_orch_append [of "(demo_session, [])" "[]"
          "EventPayload.InputRecorded (new_input_id demo_orchestrator) ''prompt''" 8])
       (use that demo_session_starts in \<open>simp_all add: texts names demo_session_def\<close>)
  obtain e2 s2 where 2: "orch_append demo_orchestrator 1 8 (EventPayload.RoutingPlanned (er_plan demo_request))
      (s1, [Persisted e1]) = (Ok e2, (s2, [Persisted e1, Persisted e2]))"
      "demo_ready s2 [''routing_planned'', ''input_recorded'']" "snd s2 = 12"
    by (rule demo_orch_append [of "(s1, [Persisted e1])" "[''input_recorded'']"
          "EventPayload.RoutingPlanned (er_plan demo_request)" 8])
       (use that 1 route in \<open>simp_all add: names\<close>)
  obtain e3 s3 where 3: "orch_append demo_orchestrator 1 8 (EventPayload.DispatchPlanned 21 (effect_class ?pol) ''prompt''
        (explicitly_idempotent ?pol)) (s2, [Persisted e1, Persisted e2]) = (Ok e3, (s3, [Persisted e1, Persisted e2, Persisted e3]))"
      "demo_ready s3 [''dispatch_planned'', ''routing_planned'', ''input_recorded'']" "snd s3 = 13"
    by (rule demo_orch_append [of "(s2, [Persisted e1, Persisted e2])" "[''routing_planned'', ''input_recorded'']"
          "EventPayload.DispatchPlanned 21 (effect_class ?pol) ''prompt'' (explicitly_idempotent ?pol)" 8])
       (use that 2 in \<open>simp_all add: texts names\<close>)
  obtain e4 s4 where 4: "orch_append demo_orchestrator 1 8 (EventPayload.DispatchStarted 21 None)
      (s3, [Persisted e1, Persisted e2, Persisted e3]) = (Ok e4, (s4, [Persisted e1, Persisted e2, Persisted e3, Persisted e4]))"
    by (rule demo_orch_append [of "(s3, [Persisted e1, Persisted e2, Persisted e3])"
          "[''dispatch_planned'', ''routing_planned'', ''input_recorded'']" "EventPayload.DispatchStarted 21 None" 8])
       (use that 3 in \<open>simp_all add: texts names\<close>)
  show thesis
    by (rule that [of e1 e2 e3 e4])
       (simp add: execute_def dispatch_def ids plan mark_started_def advance_def 1(1) 2(1) 3(1) 4 run_provider_def Let_def,
        simp add: demo_request_def demo_adapter_def)
qed

section \<open>Properties\<close>

text \<open>C6: nothing reaches the provider before it is durable. Whatever an execution has done so far,
  every call of the provider comes after the persisted plan and the persisted start of its attempt,
  and at most one prompt was sent, that of the request for this attempt.\<close>

theorem execution_persists_first:
  assumes "externals_ok x" "serde_ok x dec" "adapter_inv s" "er_content req \<noteq> []"
    and "payload_valid (EventPayload.RoutingPlanned (er_plan req))"
    and "text_exact x (payload_to_value x (EventPayload.RoutingPlanned (er_plan req)))"
    and "events orch = adapter_append x ks dec nonces ids"
    and "snd (snd (execute fuel orch req (s, []))) = pre @ call # post" "is_provider_call call"
  shows "started_before (new_attempt_id orch) pre \<and>
    prompts (pre @ call # post) \<in> {[], [\<lparr>pp_session_id = er_session_id req, pp_attempt_id = new_attempt_id orch,
        pp_runtime_model = rd_runtime_model (rp_destination (er_plan req)), pp_content = er_content req\<rparr>]}"
proof -
  have "adapter_storable x dec (EventPayload.RoutingPlanned (er_plan req))"
    using assms(1,2,5,6) by (simp add: adapter_storable_def)
  from adapter.execute_ordered [OF stores_texts [OF assms(1,2)] assms(7,3,4) this, of fuel]
  have "started_before (new_attempt_id orch) pre"
    unfolding adapter.ordered_def using assms(8,9) by blast
  moreover have "own_prompt orch req (execute fuel orch req (s, []))" by (rule execute_prompt)
  ultimately show ?thesis using assms(8) unfolding own_prompt_def by simp
qed

theorem execution_persists_first_witness:
  "\<exists>pre post. snd (snd (execute 0 demo_orchestrator demo_request (demo_session, []))) = pre @ StartSession # post \<and>
     started_before 21 pre \<and> prompts (pre @ StartSession # post) \<in>
       {[], [\<lparr>pp_session_id = 1, pp_attempt_id = 21, pp_runtime_model = ''m'', pp_content = ''prompt''\<rparr>]}"
proof -
  obtain e1 e2 e3 e4 where run: "snd (snd (execute 0 demo_orchestrator demo_request (demo_session, []))) =
    [Persisted e1, Persisted e2, Persisted e3, Persisted e4] @ StartSession #
     [PromptStream \<lparr>pp_session_id = 1, pp_attempt_id = 21, pp_runtime_model = ''m'', pp_content = ''prompt''\<rparr>]"
    (is "_ = ?pre @ _ # ?post") by (rule demo_run) (use that in simp)
  have orch: "events demo_orchestrator = adapter_append reference memory_key_store demo_decode (\<lambda>_. demo_nonce) of_nat"
    "new_attempt_id demo_orchestrator = 21" by (simp_all add: demo_orchestrator_def)
  have "er_content demo_request \<noteq> []" by (simp add: demo_request_def)
  from execution_persists_first [OF reference_ok demo_serde demo_session_inv this demo_plan_storable orch(1) run]
  have "started_before 21 ?pre \<and> prompts (?pre @ StartSession # ?post) \<in>
       {[], [\<lparr>pp_session_id = 1, pp_attempt_id = 21, pp_runtime_model = ''m'', pp_content = ''prompt''\<rparr>]}"
    by (simp add: orch(2)) 
  with run show ?thesis by blast
qed

text \<open>C7: what an execution leaves in the store. At every moment the session's log is the log it
  started from followed by what the execution persisted, in order, no other log changed, and the
  log folds to the state of the outcome: completed, failed or unknown when the execution returned
  that, running while it streams, and ready or running when the store failed it.\<close>

theorem execution_settles:
  assumes "externals_ok x" "serde_ok x dec" "adapter_inv s" "request_valid req"
    and "payload_valid (EventPayload.RoutingPlanned (er_plan req))"
    and "text_exact x (payload_to_value x (EventPayload.RoutingPlanned (er_plan req)))"
    and "events orch = adapter_append x ks dec nonces ids"
    and "fold_history (adapter_log x ks dec s (er_session_id req)) = Ok SessionState.Ready"
    and "execute fuel orch req (s, []) = (r, (s', trace))"
  shows "adapter_log x ks dec s' (er_session_id req) =
      adapter_log x ks dec s (er_session_id req) @ persisted trace \<and>
    (other = er_session_id req \<or> adapter_log x ks dec s' other = adapter_log x ks dec s other) \<and>
    (\<exists>st. fold_history (adapter_log x ks dec s' (er_session_id req)) = Ok st \<and>
      (case r of None \<Rightarrow> st = SessionState.Running | Some (Ok outcome) \<Rightarrow> st = outcome_state outcome
       | Some (Err _) \<Rightarrow> st \<in> {SessionState.Ready, SessionState.Running}))"
proof -
  have plan: "adapter_storable x dec (EventPayload.RoutingPlanned (er_plan req))"
    using assms(1,2,5,6) by (simp add: adapter_storable_def)
  have ready: "adapter.at_state x ks dec (er_session_id req) s SessionState.Ready (s, [])"
    using assms(3,8) by (simp add: adapter.at_state_def)
  from adapter.execute_settled [OF stores_texts [OF assms(1,2)] assms(7,4) ready plan, of fuel]
  show ?thesis
    unfolding assms(9) by (auto simp: adapter.settled_def adapter.at_state_def split: option.splits sum.splits)
qed

theorem execution_settles_witness:
  "\<exists>r s' trace st. execute 3 demo_orchestrator demo_request (demo_session, []) = (r, (s', trace)) \<and>
     adapter_log reference memory_key_store demo_decode s' 1 =
       adapter_log reference memory_key_store demo_decode demo_session 1 @ persisted trace \<and>
     fold_history (adapter_log reference memory_key_store demo_decode s' 1) = Ok st"
proof -
  obtain r s' trace where run: "execute 3 demo_orchestrator demo_request (demo_session, []) = (r, (s', trace))"
    by (metis prod.collapse)
  have orch: "events demo_orchestrator = adapter_append reference memory_key_store demo_decode (\<lambda>_. demo_nonce) of_nat"
    by (simp add: demo_orchestrator_def)
  have sid: "er_session_id demo_request = 1" by (simp add: demo_request_def)
  from execution_settles [OF reference_ok demo_serde demo_session_inv demo_request_valid demo_plan_storable orch
      demo_session_ready [folded sid] run]
  show ?thesis using run unfolding sid by blast
qed

text \<open>C32: an execution ends. Once the provider's stream has a definite item (its end, an error or a
  completion) within the polls allowed, the execution returns; and a plan that is not permitted
  outright is refused with an error, without any call of the provider.\<close>

theorem execution_ends:
  "(stream_definite fuel req \<longrightarrow> (\<exists>r. fst (execute fuel orch req w) = Some r)) \<and>
   (rc_permission (rp_context (er_plan req)) = PermissionScope.ReadOnly \<or>
    refused (execute fuel orch req (s, [])))"
  using execute_returns [of fuel req orch w] execute_refused [of req fuel orch s] by (auto simp: returned_def)

theorem execution_ends_witness:
  "(\<exists>r. fst (execute 2 demo_orchestrator demo_request (demo_session, [])) = Some r) \<and>
   refused (execute 2 demo_orchestrator
     (demo_request\<lparr>er_plan := (er_plan demo_request)\<lparr>rp_context := \<lparr>rc_tools = [], rc_data_sources = [],
        rc_permission = PermissionScope.Denied\<rparr>\<rparr>\<rparr>) (demo_session, []))"
proof -
  let ?denied = "demo_request\<lparr>er_plan := (er_plan demo_request)\<lparr>rp_context := \<lparr>rc_tools = [], rc_data_sources = [],
        rc_permission = PermissionScope.Denied\<rparr>\<rparr>\<rparr>"
  have "stream_definite 2 demo_request"
    by (auto simp: stream_definite_def demo_request_def demo_adapter_def definite_item_def intro!: exI [of _ 1])
  then show ?thesis
    using execution_ends [of 2 demo_request demo_orchestrator "(demo_session, [])" demo_session]
      execution_ends [of 2 ?denied demo_orchestrator "(demo_session, [])" demo_session] by simp
qed

end
