(* ===== verification/Wire.thy ===== *)
theory Wire
  imports Externals
begin

text \<open>
  Frames of the client protocol (\<open>crates/workbench-protocol/src/codec.rs\<close> and \<open>validation.rs\<close>): one
  JSON text per line, of at most eight mebibytes, read back from a byte stream that arrives in
  arbitrary pieces. The tokens of a JSON text are a parameter; building a value from them, with
  duplicate keys refused, is the code's own visitor.
\<close>

section \<open>Strict values\<close>

text \<open>A JSON text as the visitor meets it: entries of an object in the order of the text.\<close>

datatype raw_json =
    RawNull
  | RawBool bool
  | RawI64 int
  | RawU64 u64
  | RawF64 f64
  | RawString string
  | RawArray "raw_json list"
  | RawObject "(string \<times> raw_json) list"

definition number_from_i64 :: "int \<Rightarrow> number" where
  "number_from_i64 n = (if n < 0 then NegInt n else PosInt (of_int n))"

definition number_from_f64 :: "f64 \<Rightarrow> number option" where
  "number_from_f64 f = (case f of Fin _ \<Rightarrow> Some (Float f) | _ \<Rightarrow> None)"

fun StrictValue :: "raw_json \<Rightarrow> json option"
  and visit_seq :: "raw_json list \<Rightarrow> json list option"
  and visit_map :: "string list \<Rightarrow> json btree \<Rightarrow> (string \<times> raw_json) list \<Rightarrow> json btree option" where
  "StrictValue RawNull = Some JNull"
| "StrictValue (RawBool b) = Some (JBool b)"
| "StrictValue (RawI64 n) = Some (JNumber (number_from_i64 n))"
| "StrictValue (RawU64 n) = Some (JNumber (PosInt n))"
| "StrictValue (RawF64 f) = map_option JNumber (number_from_f64 f)"
| "StrictValue (RawString s) = Some (JString s)"
| "StrictValue (RawArray vs) = map_option JArray (visit_seq vs)"
| "StrictValue (RawObject kvs) = map_option JObject (visit_map [] [] kvs)"
| "visit_seq [] = Some []"
| "visit_seq (v # vs) =
     (case StrictValue v of
        None \<Rightarrow> None
      | Some j \<Rightarrow> map_option ((#) j) (visit_seq vs))"
| "visit_map keys values [] = Some values"
| "visit_map keys values ((k, v) # kvs) =
     (if k \<in> set keys then None
      else case StrictValue v of
        None \<Rightarrow> None
      | Some j \<Rightarrow> visit_map (k # keys) (btree_insert k j values) kvs)"

section \<open>Frames\<close>

definition PROTOCOL_V1 :: string where
  "PROTOCOL_V1 = ''workbench/1''"

definition MAX_FRAME_BYTES :: nat where
  "MAX_FRAME_BYTES = 8388608"

datatype ProtocolCodecError = FrameTooLarge | UnsupportedVersion | IncompleteFrame | InvalidJson

abbreviation newline :: char where
  "newline \<equiv> CHR 0x0A"

text \<open>\<open>Value::get\<close> on a field that holds a string.\<close>

definition get_str :: "string \<Rightarrow> json \<Rightarrow> string option" where
  "get_str field v =
     (case v of
        JObject kvs \<Rightarrow> (case map_of kvs field of Some (JString s) \<Rightarrow> Some s | _ \<Rightarrow> None)
      | _ \<Rightarrow> None)"

definition decode_frame ::
  "(bytes \<Rightarrow> raw_json option) \<Rightarrow> (json \<Rightarrow> 'a option) \<Rightarrow> bytes \<Rightarrow> ProtocolCodecError + 'a" where
  "decode_frame tokens from_value frame =
     (if frame = [] then Err InvalidJson
      else and_then (ok_or InvalidJson (tokens frame)) (\<lambda>raw.
           and_then (ok_or InvalidJson (StrictValue raw)) (\<lambda>strict.
             if (case get_str ''protocol'' strict of
                   None \<Rightarrow> False | Some protocol \<Rightarrow> protocol \<noteq> PROTOCOL_V1)
             then Err UnsupportedVersion
             else ok_or InvalidJson (from_value strict))))"

definition decode ::
  "(bytes \<Rightarrow> raw_json option) \<Rightarrow> (json \<Rightarrow> 'a option) \<Rightarrow> bytes
     \<Rightarrow> (ProtocolCodecError + 'a option) \<times> bytes" where
  "decode tokens from_value source =
     (case position (\<lambda>b. b = newline) source of
        None \<Rightarrow>
          if length source > MAX_FRAME_BYTES then (Err FrameTooLarge, []) else (Ok None, source)
      | Some n \<Rightarrow>
          if n > MAX_FRAME_BYTES then (Err FrameTooLarge, drop (n + 1) source)
          else (and_then (decode_frame tokens from_value (take n source)) (\<lambda>item. Ok (Some item)),
                drop 1 (drop n source)))"

definition decode_eof :: "bytes \<Rightarrow> (ProtocolCodecError + 'a option) \<times> bytes" where
  "decode_eof source =
     (if source = [] then (Ok None, source)
      else if length source > MAX_FRAME_BYTES then (Err FrameTooLarge, [])
      else (Err IncompleteFrame, []))"

definition encode ::
  "('a \<Rightarrow> bytes option) \<Rightarrow> 'a \<Rightarrow> bytes \<Rightarrow> (ProtocolCodecError + unit) \<times> bytes" where
  "encode to_vec item destination =
     (case to_vec item of
        None \<Rightarrow> (Err InvalidJson, destination)
      | Some encoded \<Rightarrow>
          if length encoded > MAX_FRAME_BYTES then (Err FrameTooLarge, destination)
          else (Ok (), destination @ encoded @ [newline]))"

text \<open>A connection: what is decoded each time more bytes have arrived, and all that was sent.\<close>

lemma decode_shrinks:
  "decode tokens from_value source = (r, rest) \<Longrightarrow> r \<noteq> Ok None \<Longrightarrow> length rest < length source"
  by (auto simp: decode_def and_then_def split: option.splits if_splits dest!: position_Some)

function drain ::
  "(bytes \<Rightarrow> raw_json option) \<Rightarrow> (json \<Rightarrow> 'a option) \<Rightarrow> bytes
     \<Rightarrow> (ProtocolCodecError + 'a option) list \<times> bytes" where
  "drain tokens from_value source =
     (let (r, rest) = decode tokens from_value source in
      if r = Ok None then ([], rest)
      else let (rs, rest) = drain tokens from_value rest in (r # rs, rest))"
  by auto
termination
  by (relation "measure (\<lambda>(_, _, source). length source)") (auto dest: decode_shrinks [OF sym])

declare drain.simps [simp del]

fun receive ::
  "(bytes \<Rightarrow> raw_json option) \<Rightarrow> (json \<Rightarrow> 'a option) \<Rightarrow> bytes \<Rightarrow> bytes list
     \<Rightarrow> (ProtocolCodecError + 'a option) list \<times> bytes" where
  "receive tokens from_value buffer [] = ([], buffer)"
| "receive tokens from_value buffer (chunk # chunks) =
     (let (rs, buffer) = drain tokens from_value (buffer @ chunk);
          (rs', buffer) = receive tokens from_value buffer chunks
      in (rs @ rs', buffer))"

fun send :: "('a \<Rightarrow> bytes option) \<Rightarrow> 'a list \<Rightarrow> bytes \<Rightarrow> (ProtocolCodecError + unit) \<times> bytes" where
  "send to_vec [] out = (Ok (), out)"
| "send to_vec (item # items) out =
     st_then (encode to_vec item out) (\<lambda>_ out. send to_vec items out)"

section \<open>Strict values are well formed\<close>

lemma visit_wf:
  "StrictValue r = Some v \<Longrightarrow> json_wf v"
  "visit_seq rs = Some vs \<Longrightarrow> list_all json_wf vs"
  "btree_wf m \<and> list_all (\<lambda>(_, v). json_wf v) m \<Longrightarrow> visit_map ks m kvs = Some m' \<Longrightarrow>
     btree_wf m' \<and> list_all (\<lambda>(_, v). json_wf v) m'"
proof (induction r and rs and ks m kvs arbitrary: v and vs and m' rule: StrictValue_visit_seq_visit_map.induct)
  case (12 ks vals k v kvs)
  have entries: "list_all (\<lambda>(_, v). json_wf v) (btree_insert k j vals)" if "json_wf j" for j
    using 12(3) that by (induction k j vals rule: btree_insert.induct) auto
  from 12 show ?case by (auto split: if_splits option.splits intro: entries)
qed (auto split: option.splits)

section \<open>Reassembly\<close>

definition unlines :: "bytes list \<Rightarrow> bytes" where
  "unlines ls = concat (map (\<lambda>l. l @ [newline]) ls)"

lemma unlines_simps [simp]:
  "unlines [] = []" "unlines (l # ls) = l @ newline # unlines ls" "unlines (ls @ ls') = unlines ls @ unlines ls'"
  by (simp_all add: unlines_def)

text \<open>A line that fits a frame.\<close>

definition fits :: "bytes \<Rightarrow> bool" where
  "fits l \<longleftrightarrow> newline \<notin> set l \<and> length l \<le> MAX_FRAME_BYTES"

definition line_result ::
  "(bytes \<Rightarrow> raw_json option) \<Rightarrow> (json \<Rightarrow> 'a option) \<Rightarrow> bytes \<Rightarrow> ProtocolCodecError + 'a option" where
  "line_result tokens from_value l = and_then (decode_frame tokens from_value l) (\<lambda>item. Ok (Some item))"

lemma position_newline:
  "newline \<notin> set l \<Longrightarrow> position (\<lambda>b. b = newline) (l @ newline # rest) = Some (length l)"
  "newline \<notin> set l \<Longrightarrow> position (\<lambda>b. b = newline) l = None"
  by (induction l) auto

lemma decode_fits:
  "fits l \<Longrightarrow> decode tokens from_value (l @ newline # rest) = (line_result tokens from_value l, rest)"
  "fits l \<Longrightarrow> decode tokens from_value l = (Ok None, l)"
  by (simp_all add: decode_def fits_def position_newline line_result_def)

lemma line_result_some: "line_result tokens from_value l \<noteq> Ok None"
  by (auto simp: line_result_def and_then_def split: sum.splits)

lemma drain_unlines:
  "list_all fits ls \<Longrightarrow> fits rest \<Longrightarrow>
     drain tokens from_value (unlines ls @ rest) = (map (line_result tokens from_value) ls, rest)"
proof (induction ls)
  case Nil
  then show ?case by (simp add: drain.simps decode_fits)
next
  case (Cons l ls)
  then have "decode tokens from_value (unlines (l # ls) @ rest) = (line_result tokens from_value l, unlines ls @ rest)"
    using decode_fits(1) [of l tokens from_value "unlines ls @ rest"] by simp
  with Cons show ?case
    using line_result_some [of tokens from_value l] by (simp add: drain.simps [of _ _ "l @ _"])
qed

lemma split_stream:
  assumes "front @ back = unlines ls @ rest" "list_all fits ls" "fits rest"
  obtains ls1 ls2 r where "ls = ls1 @ ls2" "front = unlines ls1 @ r" "fits r" "r @ back = unlines ls2 @ rest"
  using assms
proof (induction ls arbitrary: front thesis)
  case Nil
  then show ?case by (auto simp: fits_def intro: Nil(1) [of "[]" "[]" front])
next
  case (Cons l ls)
  show ?case
  proof (cases "length front \<le> length l")
    case True
    have "front = take (length front) (unlines (l # ls) @ rest)"
      by (simp only: Cons.prems(2) [symmetric]) simp
    with True have "front = take (length front) l" by simp
    then have "set front \<subseteq> set l" by (metis set_take_subset)
    with Cons.prems(3) True have "fits front" by (auto simp: fits_def)
    with Cons.prems(1,2) show ?thesis by (auto intro: Cons.prems(1) [of "[]" "l # ls" front])
  next
    case False
    with Cons.prems(2) obtain front' where f: "front = l @ newline # front'" "front' @ back = unlines ls @ rest"
      by (auto simp: append_eq_append_conv2 append_eq_Cons_conv)
    from Cons.IH [OF _ f(2)] Cons.prems(3,4) obtain ls1 ls2 r where
      "ls = ls1 @ ls2" "front' = unlines ls1 @ r" "fits r" "r @ back = unlines ls2 @ rest" by auto
    with f(1) show ?thesis by (intro Cons.prems(1) [of "l # ls1" ls2 r]) auto
  qed
qed

lemma receive_unlines:
  "buffer @ concat chunks = unlines ls @ rest \<Longrightarrow> list_all fits ls \<Longrightarrow> fits rest \<Longrightarrow> fits buffer \<Longrightarrow>
     receive tokens from_value buffer chunks = (map (line_result tokens from_value) ls, rest)"
proof (induction chunks arbitrary: buffer ls)
  case Nil
  then have "unlines ls @ rest = buffer" by simp
  moreover have "ls = []" using Nil by (cases ls) (auto simp: fits_def)
  ultimately show ?case by simp
next
  case (Cons chunk chunks)
  have "(buffer @ chunk) @ concat chunks = unlines ls @ rest" using Cons.prems(1) by simp
  from split_stream [OF this Cons.prems(2,3)] obtain ls1 ls2 r where
    s: "ls = ls1 @ ls2" "buffer @ chunk = unlines ls1 @ r" "fits r" "r @ concat chunks = unlines ls2 @ rest" .
  then show ?case
    using drain_unlines [of ls1 r tokens from_value] Cons.IH [OF s(4) _ Cons.prems(3) s(3)] Cons.prems(2)
    by simp
qed

lemma send_Ok:
  "send to_vec items out = (Ok (), out') \<Longrightarrow>
     out' = out @ unlines (map (the \<circ> to_vec) items) \<and>
     list_all (\<lambda>item. \<exists>e. to_vec item = Some e \<and> length e \<le> MAX_FRAME_BYTES) items"
proof (induction items arbitrary: out)
  case (Cons item items)
  then show ?case
    by (auto simp: encode_def split: option.splits if_splits dest!: Cons.IH)
qed simp

text \<open>Whatever arrives, an item comes out only if the reader of values accepted it.\<close>

lemma decode_accepts:
  "decode tokens from_value source = (Ok (Some item), rest) \<Longrightarrow> \<exists>v. from_value v = Some item"
  by (auto simp: decode_def decode_frame_def split: option.splits if_splits)

lemma drain_accepts:
  "Ok (Some item) \<in> set (fst (drain tokens from_value source)) \<Longrightarrow> \<exists>v. from_value v = Some item"
proof (induction tokens from_value source rule: drain.induct)
  case (1 tokens from_value source)
  obtain r rest where step: "decode tokens from_value source = (r, rest)" by force
  from 1(2) have "r \<noteq> Ok None" "Ok (Some item) \<in> insert r (set (fst (drain tokens from_value rest)))"
    by (subst (asm) drain.simps; auto simp: step split: if_splits prod.splits)+
  then show ?case
    using step 1(1) [OF _ refl] by (auto dest: decode_accepts)
qed

lemma receive_accepts:
  "Ok (Some item) \<in> set (fst (receive tokens from_value buffer chunks)) \<Longrightarrow> \<exists>v. from_value v = Some item"
proof (induction chunks arbitrary: buffer)
  case (Cons chunk chunks)
  then show ?case
    by (auto split: prod.splits) (metis drain_accepts fst_conv, metis fst_conv)
qed simp

end
