(* ===== verification/Serde.thy ===== *)
theory Serde
  imports Event_Json
begin

text \<open>
  Reading data back from JSON values, as the derived implementations of \<open>serde\<close> do: structures by field
  name or by position, enumerations by name, options, lists and maps. The crates' own types are
  read with these in \<open>Client_Protocol\<close> and \<open>Config\<close>.
\<close>

section \<open>Structures\<close>

text \<open>What the derived deserialisation of a structure accepts: an object without unknown fields, or
  an array of the fields in order. A field of type \<open>Option\<close> may be missing from an object, one with a
  default also from the end of an array.\<close>

datatype FieldKind = Required | Optional | Defaulted

definition struct_fields :: "(string \<times> FieldKind) list \<Rightarrow> json \<Rightarrow> json option list option" where
  "struct_fields fs v =
     (case v of
        JObject kvs \<Rightarrow>
          if list_all (\<lambda>(k, _). k \<in> fst ` set fs) kvs
          then those (map (\<lambda>(f, k). case map_of kvs f of
                 Some j \<Rightarrow> Some (Some j)
               | None \<Rightarrow> if k = Required then None else Some None) fs)
          else None
      | JArray vs \<Rightarrow>
          if length vs \<le> length fs \<and> list_all (\<lambda>(_, k). k = Defaulted) (drop (length vs) fs)
          then Some (map Some vs @ replicate (length fs - length vs) None)
          else None
      | _ \<Rightarrow> None)"

text \<open>Without \<open>deny_unknown_fields\<close>, other entries of an object are skipped.\<close>

definition struct_fields_open :: "(string \<times> FieldKind) list \<Rightarrow> json \<Rightarrow> json option list option" where
  "struct_fields_open fs v =
     (case v of
        JObject kvs \<Rightarrow> struct_fields fs (JObject (filter (\<lambda>(k, _). k \<in> fst ` set fs) kvs))
      | _ \<Rightarrow> struct_fields fs v)"

definition string_from :: "json \<Rightarrow> string option" where
  "string_from v = (case v of JString s \<Rightarrow> Some s | _ \<Rightarrow> None)"

definition bool_from :: "json \<Rightarrow> bool option" where
  "bool_from v = (case v of JBool b \<Rightarrow> Some b | _ \<Rightarrow> None)"

definition uint_from :: "json \<Rightarrow> 'a::len word option" where
  "uint_from v = (case v of
     JNumber (PosInt n) \<Rightarrow> if unat n < 2 ^ LENGTH('a) then Some (of_nat (unat n)) else None | _ \<Rightarrow> None)"

definition uuid_from :: "Externals \<Rightarrow> json \<Rightarrow> uuid option" where
  "uuid_from x v = (case v of JString s \<Rightarrow> uuid_parse x s | _ \<Rightarrow> None)"

definition strings_from :: "json \<Rightarrow> string list option" where
  "strings_from v = (case v of JArray vs \<Rightarrow> those (map string_from vs) | _ \<Rightarrow> None)"

definition object_from :: "json \<Rightarrow> json btree option" where
  "object_from v = (case v of JObject kvs \<Rightarrow> Some kvs | _ \<Rightarrow> None)"

text \<open>A variant without data: its name, or an object from its name to null.\<close>

definition variant_name :: "json \<Rightarrow> string option" where
  "variant_name v = (case v of JString s \<Rightarrow> Some s | JObject [(s, JNull)] \<Rightarrow> Some s | _ \<Rightarrow> None)"

definition enum_from :: "(string \<times> 'a) list \<Rightarrow> json \<Rightarrow> 'a option" where
  "enum_from variants v = Option.bind (variant_name v) (map_of variants)"

definition decision_from :: "json \<Rightarrow> ApprovalDecision option" where
  "decision_from = enum_from [(''grant'', Grant), (''deny'', Deny)]"

definition resolution_from :: "json \<Rightarrow> ReconciliationResolution option" where
  "resolution_from = enum_from [(''retry'', Retry), (''accept_result'', AcceptResult), (''abandon'', Abandon)]"

text \<open>Lists, and maps with string keys.\<close>

definition list_from :: "(json \<Rightarrow> 'a option) \<Rightarrow> json \<Rightarrow> 'a list option" where
  "list_from f v = (case v of JArray vs \<Rightarrow> those (map f vs) | _ \<Rightarrow> None)"

definition map_from :: "(json \<Rightarrow> 'a option) \<Rightarrow> json \<Rightarrow> 'a btree option" where
  "map_from f v =
     (case v of JObject kvs \<Rightarrow> those (map (\<lambda>(k, j). map_option (Pair k) (f j)) kvs) | _ \<Rightarrow> None)"

text \<open>An integer read as a floating-point number: the nearest one of 53 significant bits, the even one of
  two.\<close>

fun excess_bits :: "nat \<Rightarrow> nat" where
  "excess_bits n = (if n < 2 ^ 53 then 0 else Suc (excess_bits (n div 2)))"

declare excess_bits.simps [simp del]

definition nearest_f64 :: "nat \<Rightarrow> nat" where
  "nearest_f64 n =
     (let e = excess_bits n; q = n div 2 ^ e; r = n mod 2 ^ e in
      if 2 * r > 2 ^ e \<or> 2 * r = 2 ^ e \<and> odd q then (q + 1) * 2 ^ e else q * 2 ^ e)"

fun f64_from :: "json \<Rightarrow> f64 option" where
  "f64_from (JNumber (PosInt n)) = Some (Fin (of_nat (nearest_f64 (unat n))))"
| "f64_from (JNumber (NegInt n)) = Some (Fin (- of_nat (nearest_f64 (nat (- n)))))"
| "f64_from (JNumber (Float c)) = Some c"
| "f64_from _ = None"

text \<open>A field of type \<open>Option\<close>: missing and null are \<open>None\<close>.\<close>

definition option_from :: "(json \<Rightarrow> 'a option) \<Rightarrow> json option \<Rightarrow> 'a option option" where
  "option_from f v =
     (case v of None \<Rightarrow> Some None | Some j \<Rightarrow> if j = JNull then Some None else map_option Some (f j))"

text \<open>A field that must be there, and one with a default.\<close>

definition required :: "(json \<Rightarrow> 'a option) \<Rightarrow> json option \<Rightarrow> 'a option" where
  "required f v = Option.bind v f"

definition defaulted :: "'a \<Rightarrow> (json \<Rightarrow> 'a option) \<Rightarrow> json option \<Rightarrow> 'a option" where
  "defaulted d f v = (case v of None \<Rightarrow> Some d | Some j \<Rightarrow> f j)"

text \<open>A field skipped when it is \<open>None\<close>.\<close>

definition skip_none :: "string \<Rightarrow> ('a \<Rightarrow> json) \<Rightarrow> 'a option \<Rightarrow> json btree" where
  "skip_none k f v = (case v of None \<Rightarrow> [] | Some a \<Rightarrow> [(k, f a)])"

definition uint_value :: "'a::len word \<Rightarrow> json" where
  "uint_value n = JNumber (PosInt (of_nat (unat n)))"

section \<open>What is written reads back\<close>

lemma uint_roundtrip: "LENGTH('a) \<le> 64 \<Longrightarrow> uint_from (uint_value n) = Some n" for n :: "'a::len word"
proof -
  assume "LENGTH('a) \<le> 64"
  then have "unat n < 2 ^ 64"
    by (meson less_le_trans one_le_numeral power_increasing unsigned_less)
  then have "unat (of_nat (unat n) :: u64) = unat n" by (subst unat_of_nat) simp
  then show ?thesis unfolding uint_from_def uint_value_def json.case number.case by (simp only:) simp
qed

lemma from_enum [simp]:
  "decision_from (decision_value d) = Some d" "resolution_from (resolution_value r) = Some r"
  by (cases d; simp add: decision_from_def enum_from_def variant_name_def)
    (cases r; simp add: resolution_from_def enum_from_def variant_name_def)

lemma strings_roundtrip [simp]: "strings_from (strings_value ss) = Some ss"
  by (induction ss) (simp_all add: strings_from_def strings_value_def string_from_def)

lemma from_value [simp]:
  "string_from (JString s) = Some s" "bool_from (JBool b) = Some b" "object_from (JObject kvs) = Some kvs"
  "option_from f None = Some None" "option_from string_from (Some (JString s)) = Some (Some s)"
  "option_from object_from (Some (JObject kvs)) = Some (Some kvs)"
  by (simp_all add: string_from_def bool_from_def object_from_def option_from_def)

lemma uuid_roundtrip:
  assumes "externals_ok x"
  shows "uuid_from x (uuid_value x i) = Some i" "option_from (uuid_from x) (Some (uuid_value x i)) = Some (Some i)"
    "uuid_from x (JString (uuid_text x i)) = Some i" "option_from (uuid_from x) (Some (JString (uuid_text x i))) = Some (Some i)"
  using externals_okD(9) [OF assms] by (simp_all add: uuid_from_def uuid_value_def option_from_def)

section \<open>Optional fields\<close>

lemma option_case_id [simp]: "(case v of None \<Rightarrow> None | Some a \<Rightarrow> Some a) = v" "(case v of None \<Rightarrow> Some None | Some a \<Rightarrow> Some (Some a)) = Some v"
  by (cases v; simp)+

lemma map_of_skip_none [simp]:
  "k = k' \<Longrightarrow> map_of m k' = None \<Longrightarrow> map_of (skip_none k f v @ m) k' = map_option f v"
  "k \<noteq> k' \<Longrightarrow> map_of (skip_none k f v @ m) k' = map_of m k'"
  "map_of (skip_none k f v) k' = (if k = k' then map_option f v else None)"
  by (auto simp: skip_none_def split: option.split)

lemma list_all_skip_none [simp]: "list_all P (skip_none k f v) \<longleftrightarrow> v = None \<or> P (k, f (the v))"
  by (auto simp: skip_none_def split: option.split)

lemma map_skip_none [simp]: "map (\<lambda>(k, v). (k, g k v)) (skip_none k f v) = skip_none k (g k \<circ> f) v"
  by (auto simp: skip_none_def split: option.split)

lemma option_from_map [simp]: "(\<And>a. f (g a) = Some a) \<Longrightarrow> (\<And>a. g a \<noteq> JNull) \<Longrightarrow> option_from f (map_option g v) = Some v"
  by (cases v) (simp_all add: option_from_def)

lemma required_Some [simp]: "required f (Some j) = f j"
  by (simp add: required_def)

lemma defaulted_simps [simp]: "defaulted d f None = Some d" "defaulted d f (Some j) = f j"
  by (simp_all add: defaulted_def)

lemma those_None [simp]: "those xs = None \<longleftrightarrow> None \<in> set xs"
  by (induction xs) (auto split: option.splits)

lemma those_map_Some [simp]: "(\<And>x. x \<in> set xs \<Longrightarrow> f x = Some (g x)) \<Longrightarrow> those (map f xs) = Some (map g xs)"
  by (induction xs) simp_all

lemma those_nth: "those xs = Some ys \<Longrightarrow> i < length xs \<Longrightarrow> xs ! i = Some (ys ! i)"
proof (induction xs arbitrary: ys i)
  case (Cons x xs)
  then show ?case by (cases i) (auto split: option.splits)
qed simp

lemma struct_fields_nth:
  assumes "struct_fields fs (JObject kvs) = Some vs" "i < length fs"
  shows "vs ! i = map_of kvs (fst (fs ! i))"
proof -
  let ?f = "\<lambda>(f, k). case map_of kvs f of Some j \<Rightarrow> Some (Some j) | None \<Rightarrow> if k = Required then None else Some None"
  from assms(1) have "those (map ?f fs) = Some vs" by (simp add: struct_fields_def split: if_splits)
  then have "map ?f fs ! i = Some (vs ! i)" by (rule those_nth) (use assms(2) in simp)
  with assms(2) show ?thesis by (auto simp: case_prod_unfold split: option.splits if_splits)
qed

end
