(* ===== verification/Client_Protocol.thy ===== *)
theory Client_Protocol
  imports Wire Serde
begin

text \<open>
  Commands and replies of the client protocol (\<open>crates/workbench-protocol/src/command.rs\<close>,
  \<open>response.rs\<close> and \<open>event.rs\<close>): their JSON form, the checks a command passes when it is read, and
  the classification of errors. The protocol repeats the core's event kinds, approval decisions
  and reconciliation resolutions, whose types are used here. The text of a refused command is left
  out.
\<close>

section \<open>Commands\<close>

record InitializeParams =
  ip_client_name :: string
  ip_client_version :: string
  ip_supported_protocols :: "string list"

record CreateSessionParams =
  cp_persistent :: bool
  cp_configuration_overrides :: "json btree option"
  cp_workflow :: "string option"

record ListSessionsParams =
  lp_limit :: u16
  lp_before_session_id :: "uuid option"

record AttachSessionParams =
  ap_after_sequence :: u64

record PromptParams =
  pp_text :: string
  pp_explicit_target :: "string option"

record RedirectParams =
  rdp_instruction :: string

record ApprovalParams =
  app_approval_id :: uuid
  app_decision :: ApprovalDecision

record ReconciliationParams =
  rcp_attempt_id :: uuid
  rcp_resolution :: ReconciliationResolution
  rcp_evidence :: "string option"

record ExportParams =
  xp_output_path :: string
  xp_age_recipients :: "string list"

record DeleteParams =
  dp_confirm_session_id :: uuid

datatype Command =
    Initialize InitializeParams
  | StatusGet
  | SessionCreate CreateSessionParams
  | SessionList ListSessionsParams
  | SessionGet
  | SessionAttach AttachSessionParams
  | SessionPrompt PromptParams
  | SessionPause
  | SessionResume
  | SessionRedirect RedirectParams
  | SessionCancel
  | SessionApprovalResolve ApprovalParams
  | SessionReconcile ReconciliationParams
  | SessionExport ExportParams
  | SessionDelete DeleteParams

record ClientCommand =
  cc_protocol :: string
  cc_request_id :: uuid
  cc_session_id :: "uuid option"
  cc_command :: Command

fun command_method :: "Command \<Rightarrow> string" where
  "command_method (Initialize _) = ''initialize''"
| "command_method StatusGet = ''status.get''"
| "command_method (SessionCreate _) = ''session.create''"
| "command_method (SessionList _) = ''session.list''"
| "command_method SessionGet = ''session.get''"
| "command_method (SessionAttach _) = ''session.attach''"
| "command_method (SessionPrompt _) = ''session.prompt''"
| "command_method SessionPause = ''session.pause''"
| "command_method SessionResume = ''session.resume''"
| "command_method (SessionRedirect _) = ''session.redirect''"
| "command_method SessionCancel = ''session.cancel''"
| "command_method (SessionApprovalResolve _) = ''session.approval.resolve''"
| "command_method (SessionReconcile _) = ''session.reconcile''"
| "command_method (SessionExport _) = ''session.export''"
| "command_method (SessionDelete _) = ''session.delete''"

fun requires_session :: "Command \<Rightarrow> bool" where
  "requires_session (Initialize _) = False"
| "requires_session StatusGet = False"
| "requires_session (SessionCreate _) = False"
| "requires_session (SessionList _) = False"
| "requires_session _ = True"

text \<open>The parameters as \<open>serde_json::to_value\<close> gives them, entries in key order.\<close>

definition InitializeParams_value :: "InitializeParams \<Rightarrow> json" where
  "InitializeParams_value p = JObject [(''client_name'', JString (ip_client_name p)),
     (''client_version'', JString (ip_client_version p)),
     (''supported_protocols'', strings_value (ip_supported_protocols p))]"

definition CreateSessionParams_value :: "CreateSessionParams \<Rightarrow> json" where
  "CreateSessionParams_value p =
     JObject (skip_none ''configuration_overrides'' JObject (cp_configuration_overrides p) @
       [(''persistent'', JBool (cp_persistent p))] @ skip_none ''workflow'' JString (cp_workflow p))"

definition ListSessionsParams_value :: "Externals \<Rightarrow> ListSessionsParams \<Rightarrow> json" where
  "ListSessionsParams_value x p =
     JObject (skip_none ''before_session_id'' (uuid_value x) (lp_before_session_id p) @
       [(''limit'', uint_value (lp_limit p))])"

definition AttachSessionParams_value :: "AttachSessionParams \<Rightarrow> json" where
  "AttachSessionParams_value p = JObject [(''after_sequence'', uint_value (ap_after_sequence p))]"

definition PromptParams_value :: "PromptParams \<Rightarrow> json" where
  "PromptParams_value p =
     JObject (skip_none ''explicit_target'' JString (pp_explicit_target p) @ [(''text'', JString (pp_text p))])"

definition RedirectParams_value :: "RedirectParams \<Rightarrow> json" where
  "RedirectParams_value p = JObject [(''instruction'', JString (rdp_instruction p))]"

definition ApprovalParams_value :: "Externals \<Rightarrow> ApprovalParams \<Rightarrow> json" where
  "ApprovalParams_value x p = JObject [(''approval_id'', uuid_value x (app_approval_id p)),
     (''decision'', decision_value (app_decision p))]"

definition ReconciliationParams_value :: "Externals \<Rightarrow> ReconciliationParams \<Rightarrow> json" where
  "ReconciliationParams_value x p =
     JObject ([(''attempt_id'', uuid_value x (rcp_attempt_id p))] @
       skip_none ''evidence'' JString (rcp_evidence p) @
       [(''resolution'', resolution_value (rcp_resolution p))])"

definition ExportParams_value :: "ExportParams \<Rightarrow> json" where
  "ExportParams_value p = JObject [(''age_recipients'', strings_value (xp_age_recipients p)),
     (''output_path'', JString (xp_output_path p))]"

definition DeleteParams_value :: "Externals \<Rightarrow> DeleteParams \<Rightarrow> json" where
  "DeleteParams_value x p = JObject [(''confirm_session_id'', uuid_value x (dp_confirm_session_id p))]"

fun wire_parts :: "Externals \<Rightarrow> Command \<Rightarrow> string \<times> json" where
  "wire_parts x (Initialize p) = (''initialize'', InitializeParams_value p)"
| "wire_parts x (SessionCreate p) = (''session.create'', CreateSessionParams_value p)"
| "wire_parts x (SessionList p) = (''session.list'', ListSessionsParams_value x p)"
| "wire_parts x (SessionAttach p) = (''session.attach'', AttachSessionParams_value p)"
| "wire_parts x (SessionPrompt p) = (''session.prompt'', PromptParams_value p)"
| "wire_parts x (SessionRedirect p) = (''session.redirect'', RedirectParams_value p)"
| "wire_parts x (SessionApprovalResolve p) = (''session.approval.resolve'', ApprovalParams_value x p)"
| "wire_parts x (SessionReconcile p) = (''session.reconcile'', ReconciliationParams_value x p)"
| "wire_parts x (SessionExport p) = (''session.export'', ExportParams_value p)"
| "wire_parts x (SessionDelete p) = (''session.delete'', DeleteParams_value x p)"
| "wire_parts x c = (command_method c, JObject [])"

text \<open>The frame of a command: entries in the order they are serialised.\<close>

fun raw_of :: "json \<Rightarrow> raw_json" where
  "raw_of JNull = RawNull"
| "raw_of (JBool b) = RawBool b"
| "raw_of (JNumber (PosInt n)) = RawU64 n"
| "raw_of (JNumber (NegInt n)) = RawI64 n"
| "raw_of (JNumber (Float f)) = RawF64 f"
| "raw_of (JString s) = RawString s"
| "raw_of (JArray vs) = RawArray (map raw_of vs)"
| "raw_of (JObject kvs) = RawObject (map (\<lambda>(k, v). (k, raw_of v)) kvs)"

definition ClientCommand_serialize :: "Externals \<Rightarrow> ClientCommand \<Rightarrow> raw_json" where
  "ClientCommand_serialize x c =
     (let (method, params) = wire_parts x (cc_command c) in
      RawObject ([(''protocol'', RawString (cc_protocol c)),
                  (''request_id'', RawString (uuid_text x (cc_request_id c))),
                  (''method'', RawString method)] @
                 (case cc_session_id c of
                    None \<Rightarrow> [] | Some i \<Rightarrow> [(''session_id'', RawString (uuid_text x i))]) @
                 [(''params'', raw_of params)]))"

section \<open>Validation\<close>

definition require_uuid_v7 :: "uuid \<Rightarrow> string \<Rightarrow> string + unit" where
  "require_uuid_v7 i field =
     (if take_bit 4 (drop_bit 76 i) = 7 then Ok () else Err (field @ '' must be a UUIDv7''))"

definition validate_content :: "string \<Rightarrow> string \<Rightarrow> string + unit" where
  "validate_content content field =
     (if content = [] \<or> length content > 1048576
      then Err (field @ '' must contain 1 to 1048576 bytes'') else Ok ())"

definition validate_identifier :: "string \<Rightarrow> string + unit" where
  "validate_identifier v =
     (if (case v of [] \<Rightarrow> False
          | c # cs \<Rightarrow> is_ascii_lowercase c \<and>
              list_all (\<lambda>c. is_ascii_lowercase c \<or> is_ascii_digit c \<or> c = CHR ''-'') cs) \<and>
         length v \<le> 63
      then Ok () else Err ''explicit_target has an invalid identifier'')"

text \<open>\<open>Path::components\<close> on Unix: the parts between slashes.\<close>

fun path_parts :: "string \<Rightarrow> string \<Rightarrow> string list" where
  "path_parts part [] = [rev part]"
| "path_parts part (c # cs) =
     (if c = CHR ''/'' then rev part # path_parts [] cs else path_parts (c # part) cs)"

definition validate_output_path :: "string \<Rightarrow> string + unit" where
  "validate_output_path path =
     (if length path > 4096 \<or> \<not> starts_with path ''/'' \<or> ''..'' \<in> set (path_parts [] path)
      then Err ''output_path must be an absolute non-traversing path'' else Ok ())"

definition validate_option :: "('a \<Rightarrow> string + unit) \<Rightarrow> 'a option \<Rightarrow> string + unit" where
  "validate_option f v = (case v of None \<Rightarrow> Ok () | Some a \<Rightarrow> f a)"

fun command_validate :: "Command \<Rightarrow> string + unit" where
  "command_validate (Initialize p) =
     (if ip_client_name p = [] \<or> length (ip_client_name p) > 128 \<or>
         ip_client_version p = [] \<or> length (ip_client_version p) > 128
      then Err ''client name and version must contain 1 to 128 bytes''
      else if ip_supported_protocols p = [] \<or> \<not> distinct (ip_supported_protocols p) \<or>
         list_ex (\<lambda>protocol. length protocol > 32) (ip_supported_protocols p)
      then Err ''supported_protocols must be non-empty and unique'' else Ok ())"
| "command_validate (SessionCreate p) =
     (if \<not> cp_persistent p then Err ''feature 001 supports persistent sessions only''
      else validate_option validate_identifier (cp_workflow p))"
| "command_validate (SessionList p) =
     (if \<not> (1 \<le> lp_limit p \<and> lp_limit p \<le> 100) then Err ''limit must be between 1 and 100''
      else validate_option (\<lambda>i. require_uuid_v7 i ''before_session_id'') (lp_before_session_id p))"
| "command_validate (SessionPrompt p) =
     and_then (validate_content (pp_text p) ''text'') (\<lambda>_.
       validate_option validate_identifier (pp_explicit_target p))"
| "command_validate (SessionRedirect p) = validate_content (rdp_instruction p) ''instruction''"
| "command_validate (SessionApprovalResolve p) = require_uuid_v7 (app_approval_id p) ''approval_id''"
| "command_validate (SessionReconcile p) =
     and_then (require_uuid_v7 (rcp_attempt_id p) ''attempt_id'') (\<lambda>_.
       validate_option (\<lambda>e. if length e > 4096 then Err ''evidence exceeds 4096 bytes'' else Ok ())
         (rcp_evidence p))"
| "command_validate (SessionExport p) =
     and_then (validate_output_path (xp_output_path p)) (\<lambda>_.
       if xp_age_recipients p = [] \<or> \<not> distinct (xp_age_recipients p) \<or>
          list_ex (\<lambda>r. r = [] \<or> length r > 512) (xp_age_recipients p)
       then Err ''age_recipients must be non-empty, valid, and unique'' else Ok ())"
| "command_validate (SessionDelete p) = require_uuid_v7 (dp_confirm_session_id p) ''confirm_session_id''"
| "command_validate _ = Ok ()"

section \<open>Reading commands\<close>

definition InitializeParams_from :: "json \<Rightarrow> InitializeParams option" where
  "InitializeParams_from v =
     (case struct_fields [(''client_name'', Required), (''client_version'', Required), (''supported_protocols'', Required)] v of
        Some [Some n, Some w, Some ps] \<Rightarrow>
          Option.bind (string_from n) (\<lambda>n. Option.bind (string_from w) (\<lambda>w.
            Option.bind (strings_from ps) (\<lambda>ps. Some
              \<lparr>ip_client_name = n, ip_client_version = w, ip_supported_protocols = ps\<rparr>)))
      | _ \<Rightarrow> None)"

definition EmptyParams_from :: "json \<Rightarrow> unit option" where
  "EmptyParams_from v = map_option (\<lambda>_. ()) (struct_fields [] v)"

definition CreateSessionParams_from :: "json \<Rightarrow> CreateSessionParams option" where
  "CreateSessionParams_from v =
     (case struct_fields [(''persistent'', Required), (''configuration_overrides'', Defaulted), (''workflow'', Defaulted)] v of
        Some [Some p, c, w] \<Rightarrow>
          Option.bind (bool_from p) (\<lambda>p. Option.bind (option_from object_from c) (\<lambda>c.
            Option.bind (option_from string_from w) (\<lambda>w. Some
              \<lparr>cp_persistent = p, cp_configuration_overrides = c, cp_workflow = w\<rparr>)))
      | _ \<Rightarrow> None)"

definition default_session_list_limit :: u16 where
  "default_session_list_limit = 50"

definition ListSessionsParams_from :: "Externals \<Rightarrow> json \<Rightarrow> ListSessionsParams option" where
  "ListSessionsParams_from x v =
     (case struct_fields [(''limit'', Defaulted), (''before_session_id'', Defaulted)] v of
        Some [l, b] \<Rightarrow>
          Option.bind (case l of None \<Rightarrow> Some default_session_list_limit | Some l \<Rightarrow> uint_from l) (\<lambda>l.
            Option.bind (option_from (uuid_from x) b) (\<lambda>b. Some
              \<lparr>lp_limit = l, lp_before_session_id = b\<rparr>))
      | _ \<Rightarrow> None)"

definition AttachSessionParams_from :: "json \<Rightarrow> AttachSessionParams option" where
  "AttachSessionParams_from v =
     (case struct_fields [(''after_sequence'', Required)] v of
        Some [Some n] \<Rightarrow> Option.bind (uint_from n) (\<lambda>n. Some \<lparr>ap_after_sequence = n\<rparr>)
      | _ \<Rightarrow> None)"

definition PromptParams_from :: "json \<Rightarrow> PromptParams option" where
  "PromptParams_from v =
     (case struct_fields [(''text'', Required), (''explicit_target'', Defaulted)] v of
        Some [Some t, e] \<Rightarrow>
          Option.bind (string_from t) (\<lambda>t. Option.bind (option_from string_from e) (\<lambda>e. Some
            \<lparr>pp_text = t, pp_explicit_target = e\<rparr>))
      | _ \<Rightarrow> None)"

definition RedirectParams_from :: "json \<Rightarrow> RedirectParams option" where
  "RedirectParams_from v =
     (case struct_fields [(''instruction'', Required)] v of
        Some [Some t] \<Rightarrow> Option.bind (string_from t) (\<lambda>t. Some \<lparr>rdp_instruction = t\<rparr>)
      | _ \<Rightarrow> None)"

definition ApprovalParams_from :: "Externals \<Rightarrow> json \<Rightarrow> ApprovalParams option" where
  "ApprovalParams_from x v =
     (case struct_fields [(''approval_id'', Required), (''decision'', Required)] v of
        Some [Some a, Some d] \<Rightarrow>
          Option.bind (uuid_from x a) (\<lambda>a. Option.bind (decision_from d) (\<lambda>d. Some
            \<lparr>app_approval_id = a, app_decision = d\<rparr>))
      | _ \<Rightarrow> None)"

definition ReconciliationParams_from :: "Externals \<Rightarrow> json \<Rightarrow> ReconciliationParams option" where
  "ReconciliationParams_from x v =
     (case struct_fields [(''attempt_id'', Required), (''resolution'', Required), (''evidence'', Defaulted)] v of
        Some [Some a, Some r, e] \<Rightarrow>
          Option.bind (uuid_from x a) (\<lambda>a. Option.bind (resolution_from r) (\<lambda>r.
            Option.bind (option_from string_from e) (\<lambda>e. Some
              \<lparr>rcp_attempt_id = a, rcp_resolution = r, rcp_evidence = e\<rparr>)))
      | _ \<Rightarrow> None)"

definition ExportParams_from :: "json \<Rightarrow> ExportParams option" where
  "ExportParams_from v =
     (case struct_fields [(''output_path'', Required), (''age_recipients'', Required)] v of
        Some [Some p, Some r] \<Rightarrow>
          Option.bind (string_from p) (\<lambda>p. Option.bind (strings_from r) (\<lambda>r. Some
            \<lparr>xp_output_path = p, xp_age_recipients = r\<rparr>))
      | _ \<Rightarrow> None)"

definition DeleteParams_from :: "Externals \<Rightarrow> json \<Rightarrow> DeleteParams option" where
  "DeleteParams_from x v =
     (case struct_fields [(''confirm_session_id'', Required)] v of
        Some [Some i] \<Rightarrow> Option.bind (uuid_from x i) (\<lambda>i. Some \<lparr>dp_confirm_session_id = i\<rparr>)
      | _ \<Rightarrow> None)"

definition parse_command :: "Externals \<Rightarrow> string \<Rightarrow> json \<Rightarrow> Command option" where
  "parse_command x method params =
     (if method = ''initialize'' then map_option Initialize (InitializeParams_from params)
      else if method = ''status.get'' then map_option (\<lambda>_. StatusGet) (EmptyParams_from params)
      else if method = ''session.create'' then map_option SessionCreate (CreateSessionParams_from params)
      else if method = ''session.list'' then map_option SessionList (ListSessionsParams_from x params)
      else if method = ''session.get'' then map_option (\<lambda>_. SessionGet) (EmptyParams_from params)
      else if method = ''session.attach'' then map_option SessionAttach (AttachSessionParams_from params)
      else if method = ''session.prompt'' then map_option SessionPrompt (PromptParams_from params)
      else if method = ''session.pause'' then map_option (\<lambda>_. SessionPause) (EmptyParams_from params)
      else if method = ''session.resume'' then map_option (\<lambda>_. SessionResume) (EmptyParams_from params)
      else if method = ''session.redirect'' then map_option SessionRedirect (RedirectParams_from params)
      else if method = ''session.cancel'' then map_option (\<lambda>_. SessionCancel) (EmptyParams_from params)
      else if method = ''session.approval.resolve''
        then map_option SessionApprovalResolve (ApprovalParams_from x params)
      else if method = ''session.reconcile''
        then map_option SessionReconcile (ReconciliationParams_from x params)
      else if method = ''session.export'' then map_option SessionExport (ExportParams_from params)
      else if method = ''session.delete'' then map_option SessionDelete (DeleteParams_from x params)
      else None)"

text \<open>The checks of \<open>ClientCommand::deserialize\<close> once the fields are there.\<close>

definition admit_command ::
  "Externals \<Rightarrow> string \<Rightarrow> uuid \<Rightarrow> string \<Rightarrow> uuid option \<Rightarrow> json \<Rightarrow> ClientCommand option" where
  "admit_command x protocol request_id method session_id params =
     (if protocol \<noteq> PROTOCOL_V1 \<or> \<not> is_ok (require_uuid_v7 request_id ''request_id'') \<or>
         \<not> is_ok (validate_option (\<lambda>i. require_uuid_v7 i ''session_id'') session_id)
      then None
      else Option.bind (parse_command x method params) (\<lambda>command.
        if requires_session command \<noteq> (session_id \<noteq> None) \<or> \<not> is_ok (command_validate command)
        then None
        else Some \<lparr>cc_protocol = protocol, cc_request_id = request_id, cc_session_id = session_id,
                   cc_command = command\<rparr>))"

definition ClientCommand_deserialize :: "Externals \<Rightarrow> json \<Rightarrow> ClientCommand option" where
  "ClientCommand_deserialize x v =
     (case struct_fields [(''protocol'', Required), (''request_id'', Required), (''method'', Required),
         (''session_id'', Defaulted), (''params'', Required)] v of
        Some [Some p, Some r, Some m, s, Some params] \<Rightarrow>
          Option.bind (string_from p) (\<lambda>p. Option.bind (uuid_from x r) (\<lambda>r.
            Option.bind (string_from m) (\<lambda>m. Option.bind (option_from (uuid_from x) s) (\<lambda>s.
              admit_command x p r m s params))))
      | _ \<Rightarrow> None)"

section \<open>Commands survive the wire\<close>

text \<open>Values as \<open>serde_json\<close> builds them: negative integers and finite floats where it has them.\<close>

fun json_std :: "json \<Rightarrow> bool" where
  "json_std (JObject kvs) \<longleftrightarrow> btree_wf kvs \<and> list_all (\<lambda>(_, v). json_std v) kvs"
| "json_std (JArray vs) \<longleftrightarrow> list_all json_std vs"
| "json_std (JNumber (NegInt n)) \<longleftrightarrow> n < 0"
| "json_std (JNumber (Float f)) \<longleftrightarrow> (\<exists>q. f = Fin q)"
| "json_std _ \<longleftrightarrow> True"

lemma visit_seq_all: "\<forall>v \<in> set vs. StrictValue (f v) = Some v \<Longrightarrow> visit_seq (map f vs) = Some vs"
  by (induction vs) auto

lemma visit_map_all:
  "\<forall>(k, v) \<in> set kvs. StrictValue (f v) = Some v \<Longrightarrow> btree_wf (m @ kvs) \<Longrightarrow> set keys = fst ` set m \<Longrightarrow>
     visit_map keys m (map (\<lambda>(k, v). (k, f v)) kvs) = Some (m @ kvs)"
proof (induction kvs arbitrary: keys m)
  case (Cons kv kvs)
  obtain k v where kv: "kv = (k, v)" by force
  from Cons.prems(2) have less: "\<forall>k' \<in> fst ` set m. k' < k"
    unfolding kv btree_wf_def by (auto simp: sorted_wrt_append)
  then have "k \<notin> set keys" "btree_insert k v m = m @ [(k, v)]"
    using Cons.prems(3) by (auto simp: btree_insert_greater)
  with Cons show ?case by (simp add: kv)
qed simp

lemma raw_of_strict: "json_std v \<Longrightarrow> StrictValue (raw_of v) = Some v"
proof (induction v rule: raw_of.induct)
  case (7 vs)
  then show ?case by (simp add: visit_seq_all list_all_iff)
next
  case (8 kvs)
  then show ?case
    using visit_map_all [of kvs raw_of "[]" "[]"] by (fastforce simp: list_all_iff)
qed (auto simp: number_from_i64_def number_from_f64_def)

lemma params_roundtrip:
  assumes "externals_ok x"
  shows "InitializeParams_from (InitializeParams_value a) = Some a"
    "EmptyParams_from (JObject []) = Some ()"
    "CreateSessionParams_from (CreateSessionParams_value b) = Some b"
    "ListSessionsParams_from x (ListSessionsParams_value x c) = Some c"
    "AttachSessionParams_from (AttachSessionParams_value d) = Some d"
    "PromptParams_from (PromptParams_value e) = Some e"
    "RedirectParams_from (RedirectParams_value f) = Some f"
    "ApprovalParams_from x (ApprovalParams_value x g) = Some g"
    "ReconciliationParams_from x (ReconciliationParams_value x h) = Some h"
    "ExportParams_from (ExportParams_value i) = Some i"
    "DeleteParams_from x (DeleteParams_value x j) = Some j"
  by (simp_all add: InitializeParams_from_def InitializeParams_value_def EmptyParams_from_def
      CreateSessionParams_from_def CreateSessionParams_value_def ListSessionsParams_from_def
      ListSessionsParams_value_def AttachSessionParams_from_def AttachSessionParams_value_def
      PromptParams_from_def PromptParams_value_def RedirectParams_from_def RedirectParams_value_def
      ApprovalParams_from_def ApprovalParams_value_def ReconciliationParams_from_def
      ReconciliationParams_value_def ExportParams_from_def ExportParams_value_def DeleteParams_from_def
      DeleteParams_value_def struct_fields_def skip_none_def uint_roundtrip uuid_roundtrip [OF assms]
      split: option.split)

text \<open>What a command that was read satisfies, and the overrides \<open>serde_json\<close> can hold.\<close>

definition command_ok :: "ClientCommand \<Rightarrow> bool" where
  "command_ok c \<longleftrightarrow>
     cc_protocol c = PROTOCOL_V1 \<and> is_ok (require_uuid_v7 (cc_request_id c) ''request_id'') \<and>
     is_ok (validate_option (\<lambda>i. require_uuid_v7 i ''session_id'') (cc_session_id c)) \<and>
     requires_session (cc_command c) = (cc_session_id c \<noteq> None) \<and> is_ok (command_validate (cc_command c))"

fun command_std :: "Command \<Rightarrow> bool" where
  "command_std (SessionCreate p) = (case cp_configuration_overrides p of None \<Rightarrow> True | Some kvs \<Rightarrow> json_std (JObject kvs))"
| "command_std _ = True"

lemma wire_parts_parse:
  assumes "externals_ok x" "wire_parts x c = (m, v)"
  shows "parse_command x m v = Some c"
proof -
  have "parse_command x (fst (wire_parts x c)) (snd (wire_parts x c)) = Some c"
    by (cases c; simp add: parse_command_def params_roundtrip [OF assms(1)])
  then show ?thesis by (simp add: assms(2))
qed

lemma enum_std [simp]: "json_std (decision_value d)" "json_std (resolution_value r)"
  by (cases d; simp) (cases r; simp)

lemma wire_parts_std: "command_std c \<Longrightarrow> json_std (snd (wire_parts x c))"
  by (cases c)
     (auto simp: InitializeParams_value_def CreateSessionParams_value_def ListSessionsParams_value_def
      AttachSessionParams_value_def PromptParams_value_def RedirectParams_value_def ApprovalParams_value_def
      ReconciliationParams_value_def ExportParams_value_def DeleteParams_value_def skip_none_def uint_value_def
      uuid_value_def strings_value_def list_all_iff less_char_def split: option.splits)

lemma serialize_strict:
  assumes "command_std (cc_command c)" "wire_parts x (cc_command c) = (m, v)"
  shows "StrictValue (ClientCommand_serialize x c) =
    Some (JObject ([(''method'', JString m), (''params'', v), (''protocol'', JString (cc_protocol c)),
      (''request_id'', JString (uuid_text x (cc_request_id c)))] @
      (case cc_session_id c of None \<Rightarrow> [] | Some i \<Rightarrow> [(''session_id'', JString (uuid_text x i))])))"
  using wire_parts_std [OF assms(1), of x]
  by (simp add: assms(2) ClientCommand_serialize_def raw_of_strict less_char_def split: option.split)

lemma deserialize_serialize:
  assumes "externals_ok x" "command_std (cc_command c)"
  obtains v where "StrictValue (ClientCommand_serialize x c) = Some v" "get_str ''protocol'' v = Some (cc_protocol c)"
    "ClientCommand_deserialize x v = (if command_ok c then Some c else None)"
proof -
  obtain m p where parts: "wire_parts x (cc_command c) = (m, p)" by force
  note parse = wire_parts_parse [OF assms(1) parts]
  let ?v = "JObject ([(''method'', JString m), (''params'', p), (''protocol'', JString (cc_protocol c)),
      (''request_id'', JString (uuid_text x (cc_request_id c)))] @
      (case cc_session_id c of None \<Rightarrow> [] | Some i \<Rightarrow> [(''session_id'', JString (uuid_text x i))]))"
  have "ClientCommand_deserialize x ?v = admit_command x (cc_protocol c) (cc_request_id c) m (cc_session_id c) p"
    by (simp add: ClientCommand_deserialize_def struct_fields_def uuid_roundtrip [OF assms(1)] split: option.split)
  also have "\<dots> = (if command_ok c then Some c else None)"
    using parse by (cases c; cases "cc_session_id c") (auto simp: admit_command_def command_ok_def)
  finally have read: "ClientCommand_deserialize x ?v = (if command_ok c then Some c else None)" .
  have "get_str ''protocol'' ?v = Some (cc_protocol c)" by (simp add: get_str_def)
  then show thesis by (rule that [OF serialize_strict [OF assms(2) parts] _ read])
qed

lemma deserialize_ok: "ClientCommand_deserialize x v = Some c \<Longrightarrow> command_ok c"
  by (auto simp: ClientCommand_deserialize_def admit_command_def command_ok_def Option.bind_eq_Some_conv
      split: option.splits list.splits if_splits)

text \<open>The text layer of \<open>serde_json\<close>: a text has no line break and yields the tokens it was written
  from, where these hold no floating-point number.\<close>

fun raw_exact :: "raw_json \<Rightarrow> bool" where
  "raw_exact (RawObject kvs) \<longleftrightarrow> list_all (\<lambda>(_, v). raw_exact v) kvs"
| "raw_exact (RawArray vs) \<longleftrightarrow> list_all raw_exact vs"
| "raw_exact (RawF64 _) \<longleftrightarrow> False"
| "raw_exact (RawI64 n) \<longleftrightarrow> n < 0"
| "raw_exact _ \<longleftrightarrow> True"

definition text_codec :: "(bytes \<Rightarrow> raw_json option) \<Rightarrow> (raw_json \<Rightarrow> bytes) \<Rightarrow> bool" where
  "text_codec tokens text_of_raw \<longleftrightarrow>
     (\<forall>r. raw_exact r \<longrightarrow> tokens (text_of_raw r) = Some r \<and> newline \<notin> set (text_of_raw r) \<and> text_of_raw r \<noteq> [])"

lemma raw_of_exact: "json_std v \<Longrightarrow> json_exact v \<Longrightarrow> raw_exact (raw_of v)"
proof (induction v rule: raw_of.induct)
  case (8 kvs)
  then show ?case by (fastforce simp: list_all_iff)
qed (auto simp: list_all_iff)

lemma enum_exact [simp]: "json_exact (decision_value d)" "json_exact (resolution_value r)"
  by (cases d; simp) (cases r; simp)

definition overrides_exact :: "Command \<Rightarrow> bool" where
  "overrides_exact c = (case c of
     SessionCreate p \<Rightarrow> (case cp_configuration_overrides p of None \<Rightarrow> True | Some kvs \<Rightarrow> json_exact (JObject kvs))
   | _ \<Rightarrow> True)"

lemma wire_parts_exact: "overrides_exact c \<Longrightarrow> json_exact (snd (wire_parts x c))"
  by (cases c)
     (auto simp: InitializeParams_value_def CreateSessionParams_value_def ListSessionsParams_value_def
      AttachSessionParams_value_def PromptParams_value_def RedirectParams_value_def ApprovalParams_value_def
      ReconciliationParams_value_def ExportParams_value_def DeleteParams_value_def skip_none_def uint_value_def
      uuid_value_def strings_value_def list_all_iff overrides_exact_def split: option.splits)

lemma serialize_exact:
  "command_std (cc_command c) \<Longrightarrow> overrides_exact (cc_command c) \<Longrightarrow> raw_exact (ClientCommand_serialize x c)"
  using wire_parts_std [of "cc_command c" x] wire_parts_exact [of "cc_command c" x]
  by (auto simp: ClientCommand_serialize_def raw_of_exact split: prod.splits option.splits)

end
