(* ===== verification/Delivery.thy ===== *)
theory Delivery
  imports Client_Protocol Reference
begin

text \<open>
  Commands over a connection: the frames of \<open>Wire\<close> carrying the commands of \<open>Client_Protocol\<close>, and a
  text layer on which they run.
\<close>

section \<open>A text layer\<close>

text \<open>An instance of the laws of the text layer: the prefix code of \<open>Reference\<close> with every byte
  written as two letters, and UUIDs written as their bits.\<close>

definition spread :: "bytes \<Rightarrow> bytes" where
  "spread b = concat (map (\<lambda>c. [char_of (97 + byte c div 16 :: nat), char_of (97 + byte c mod 16 :: nat)]) b)"

fun gather :: "bytes \<Rightarrow> bytes" where
  "gather (h # l # b) = char_of ((byte h - 97) * 16 + (byte l - 97)) # gather b"
| "gather _ = []"

fun json_of :: "raw_json \<Rightarrow> json" where
  "json_of RawNull = JNull"
| "json_of (RawBool b) = JBool b"
| "json_of (RawU64 n) = JNumber (PosInt n)"
| "json_of (RawI64 n) = JNumber (NegInt n)"
| "json_of (RawF64 f) = JNumber (Float f)"
| "json_of (RawString s) = JString s"
| "json_of (RawArray vs) = JArray (map json_of vs)"
| "json_of (RawObject kvs) = JObject (map (\<lambda>(k, v). (k, json_of v)) kvs)"

definition demo_text :: "raw_json \<Rightarrow> bytes" where
  "demo_text r = CHR ''j'' # spread (put_json (json_of r))"

definition demo_tokens :: "bytes \<Rightarrow> raw_json option" where
  "demo_tokens b = map_option raw_of (read_json (gather (drop 1 b)))"

lemma spread_simps [simp]:
  "spread [] = []" "spread (c # b) = [char_of (97 + byte c div 16 :: nat), char_of (97 + byte c mod 16 :: nat)] @ spread b"
  "spread (a @ b) = spread a @ spread b"
  by (simp_all add: spread_def)

lemma letter_byte: "n < 16 \<Longrightarrow> byte (char_of (97 + n :: nat)) = 97 + n"
  by simp

lemma byte_digits: "byte c div 16 < 16" "byte c mod 16 < 16"
  using nat_of_char_less_256 [of c] less_mult_imp_div_less [of "byte c" 16 16] by simp_all

lemma gather_spread: "gather (spread b) = b"
proof (induction b)
  case (Cons c b)
  then show ?case using byte_digits [of c] by (simp add: letter_byte del: of_char_of)
qed simp

lemma spread_no_newline: "newline \<notin> set (spread b)"
proof (induction b)
  case (Cons c b)
  have "char_of (97 + n :: nat) \<noteq> newline" if "n < 16" for n
    using letter_byte [OF that] by (auto dest: arg_cong [where f = "\<lambda>c. byte c"])
  from this [OF byte_digits(1) [of c]] this [OF byte_digits(2) [of c]] Cons show ?case by simp
qed simp

lemma json_of_exact: "raw_exact r \<Longrightarrow> json_exact (json_of r) \<and> raw_of (json_of r) = r"
proof (induction r rule: raw_exact.induct)
  case (1 kvs)
  then show ?case by (fastforce simp: list_all_iff intro: map_idI)
next
  case (2 vs)
  then show ?case by (auto simp: list_all_iff intro: map_idI)
qed auto

lemma demo_codec: "text_codec demo_tokens demo_text"
  using json_of_exact
  by (auto simp: text_codec_def demo_text_def demo_tokens_def gather_spread spread_no_newline read_put_json)

definition uuid_bits :: "uuid \<Rightarrow> string" where
  "uuid_bits i = map (\<lambda>n. if bit i n then CHR ''1'' else CHR ''0'') [0..<128]"

definition uuid_unbits :: "string \<Rightarrow> uuid option" where
  "uuid_unbits s = Some (horner_sum of_bool 2 (map (\<lambda>c. c = CHR ''1'') s))"

definition reference_bits :: Externals where
  "reference_bits = reference\<lparr>uuid_text := uuid_bits, uuid_parse := uuid_unbits\<rparr>"

lemma uuid_unbits_bits: "uuid_unbits (uuid_bits i) = Some i"
proof -
  have "map (\<lambda>c. c = CHR ''1'') (uuid_bits i) = map (bit i) [0..<128]"
    by (simp add: uuid_bits_def)
  moreover have "take_bit 128 i = i" by (rule bit_word_eqI) (simp add: bit_simps)
  ultimately show ?thesis by (simp add: uuid_unbits_def horner_sum_bit_eq_take_bit del: upt_Suc)
qed

lemma reference_bits_ok: "externals_ok reference_bits"
  using reference_ok unfolding externals_ok_def by (simp add: reference_bits_def uuid_unbits_bits)

definition demo_pause :: ClientCommand where
  "demo_pause = \<lparr>cc_protocol = PROTOCOL_V1, cc_request_id = push_bit 76 7, cc_session_id = Some (push_bit 76 7),
     cc_command = SessionPause\<rparr>"

text \<open>C33: commands survive the connection. Whatever the pieces in which the bytes of well-formed
  commands arrive, the daemon decodes exactly those commands in order and keeps nothing back; and
  whatever bytes arrive, a command it decodes passed every check of the protocol.\<close>

theorem commands_delivered:
  assumes "externals_ok x" "text_codec tokens text_of_raw"
    and "list_all (\<lambda>c. command_ok c \<and> command_std (cc_command c) \<and> overrides_exact (cc_command c)) cs"
    and "send (\<lambda>c. Some (text_of_raw (ClientCommand_serialize x c))) cs [] = (Ok (), stream)"
    and "concat chunks = stream"
  shows "receive tokens (ClientCommand_deserialize x) [] chunks = (map (\<lambda>c. Ok (Some c)) cs, []) \<and>
    (\<forall>c. Ok (Some c) \<in> set (fst (receive tokens (ClientCommand_deserialize x) buffer anything)) \<longrightarrow> command_ok c)"
proof -
  let ?text = "\<lambda>c. text_of_raw (ClientCommand_serialize x c)"
  have line: "newline \<notin> set (?text c) \<and> line_result tokens (ClientCommand_deserialize x) (?text c) = Ok (Some c)"
    if "c \<in> set cs" for c
  proof -
    from assms(3) that have ok: "command_ok c" "command_std (cc_command c)" "overrides_exact (cc_command c)"
      by (auto simp: list_all_iff)
    from ok(1) have "cc_protocol c = PROTOCOL_V1" by (simp add: command_ok_def)
    with deserialize_serialize [OF assms(1) ok(2)] ok(1) obtain v where
      "StrictValue (ClientCommand_serialize x c) = Some v" "get_str ''protocol'' v = Some PROTOCOL_V1"
      "ClientCommand_deserialize x v = Some c" by metis
    with assms(2) serialize_exact [OF ok(2,3), of x] show ?thesis
      by (simp add: text_codec_def line_result_def decode_frame_def)
  qed
  have sent: "stream = unlines (map ?text cs)" "list_all (\<lambda>c. length (?text c) \<le> MAX_FRAME_BYTES) cs"
    using send_Ok [OF assms(4)] by (simp_all add: comp_def)
  have "receive tokens (ClientCommand_deserialize x) [] chunks =
      (map (line_result tokens (ClientCommand_deserialize x)) (map ?text cs), [])"
    by (rule receive_unlines) (use sent line assms(5) in \<open>auto simp: fits_def list_all_iff\<close>)
  moreover have "map (line_result tokens (ClientCommand_deserialize x)) (map ?text cs) = map (\<lambda>c. Ok (Some c)) cs"
    using line by simp
  moreover have "command_ok c"
    if "Ok (Some c) \<in> set (fst (receive tokens (ClientCommand_deserialize x) buffer anything))" for c
    using receive_accepts [OF that] deserialize_ok by blast
  ultimately show ?thesis by simp
qed

theorem commands_delivered_witness:
  "\<exists>stream. send (\<lambda>c. Some (demo_text (ClientCommand_serialize reference_bits c))) [demo_pause, demo_pause] [] = (Ok (), stream) \<and>
     receive demo_tokens (ClientCommand_deserialize reference_bits) [] [take 7 stream, drop 7 stream] =
       ([Ok (Some demo_pause), Ok (Some demo_pause)], []) \<and> command_ok demo_pause"
proof -
  let ?text = "\<lambda>c. demo_text (ClientCommand_serialize reference_bits c)"
  have ok: "command_ok demo_pause" "command_std (cc_command demo_pause)" "overrides_exact (cc_command demo_pause)"
    by (simp_all add: demo_pause_def command_ok_def require_uuid_v7_def validate_option_def overrides_exact_def)
  have uuid: "uuid_text reference_bits = uuid_bits" "length (uuid_bits i) = 128" for i
    by (simp_all add: reference_bits_def uuid_bits_def)
  have spread: "length (spread b) = 2 * length b" for b by (induction b) simp_all
  have str: "length (put_string s) = Suc (2 * length s)" for s by (induction s) simp_all
  have short: "length (?text demo_pause) \<le> MAX_FRAME_BYTES"
    by (simp add: demo_text_def ClientCommand_serialize_def demo_pause_def uuid spread str PROTOCOL_V1_def MAX_FRAME_BYTES_def)
  let ?stream = "unlines [?text demo_pause, ?text demo_pause]"
  have sent: "send (\<lambda>c. Some (?text c)) [demo_pause, demo_pause] [] = (Ok (), ?stream)"
    using short by (simp add: encode_def)
  have cs: "list_all (\<lambda>c. command_ok c \<and> command_std (cc_command c) \<and> overrides_exact (cc_command c)) [demo_pause, demo_pause]"
    using ok by simp
  have "concat [take 7 s, drop 7 s] = s" for s :: bytes by simp
  from commands_delivered [OF reference_bits_ok demo_codec cs sent this [of ?stream], of "[]" "[?stream]"]
  have "receive demo_tokens (ClientCommand_deserialize reference_bits) [] [take 7 ?stream, drop 7 ?stream] =
      ([Ok (Some demo_pause), Ok (Some demo_pause)], [])" by (simp only: list.map)
  with sent ok(1) show ?thesis by blast
qed

end
