(* ===== verification/Subscriptions.thy ===== *)
theory Subscriptions
  imports Wire Event_Json "HOL-Library.Sublist"
begin

text \<open>
  Live events for attached clients: the bounded queue of
  \<open>crates/workbench-protocol/src/subscription.rs\<close> with the events of \<open>event.rs\<close>, and the hub of
  \<open>crates/workbench-daemon/src/subscription.rs\<close> that fills one queue per subscriber. The JSON text of
  an event is a parameter; a \<open>usize\<close> has 64 bits. A queue is shared between the hub and its
  subscription, so queues and signal channels live in a store under the subscriber's identifier.
\<close>

section \<open>Events\<close>

record SessionEvent =
  sev_protocol :: string
  sev_event_id :: uuid
  sev_session_id :: uuid
  sev_sequence :: u64
  sev_causation_request_id :: "uuid option"
  sev_kind :: EventKind
  sev_occurred_at :: string
  sev_data :: json

definition is_object :: "json \<Rightarrow> bool" where
  "is_object v = (case v of JObject _ \<Rightarrow> True | _ \<Rightarrow> False)"

definition SessionEvent_validate :: "SessionEvent \<Rightarrow> string + unit" where
  "SessionEvent_validate e =
     (if sev_protocol e \<noteq> PROTOCOL_V1 then Err ''unsupported protocol major''
      else if sev_sequence e = 0 then Err ''event sequence must be positive''
      else if \<not> is_object (sev_data e) then Err ''event data must be an object''
      else Ok ())"

section \<open>The queue of one subscriber\<close>

type_synonym usize = "64 word"
type_synonym event_text = "SessionEvent \<Rightarrow> bytes option"

definition MAX_QUEUE_EVENTS :: usize where
  "MAX_QUEUE_EVENTS = 1024"

definition MAX_QUEUE_BYTES :: usize where
  "MAX_QUEUE_BYTES = 8388608"

datatype SubscriptionError = ClientLagged | Closed | Encoding

record SubscriptionQueue =
  sq_events :: "(SessionEvent \<times> usize) list"
  sq_encoded_bytes :: usize
  sq_max_events :: usize
  sq_max_bytes :: usize
  sq_closed :: bool

definition SubscriptionQueue_new :: "usize \<Rightarrow> usize \<Rightarrow> SubscriptionQueue" where
  "SubscriptionQueue_new max_events max_bytes =
     \<lparr>sq_events = [], sq_encoded_bytes = 0, sq_max_events = max_events, sq_max_bytes = max_bytes,
      sq_closed = False\<rparr>"

definition SubscriptionQueue_default :: SubscriptionQueue where
  "SubscriptionQueue_default = SubscriptionQueue_new MAX_QUEUE_EVENTS MAX_QUEUE_BYTES"

definition queue_push ::
  "event_text \<Rightarrow> SessionEvent \<Rightarrow> SubscriptionQueue \<Rightarrow> (SubscriptionError + unit) \<times> SubscriptionQueue" where
  "queue_push to_vec e q =
     (if sq_closed q then (Err Closed, q)
      else if \<not> is_ok (SessionEvent_validate e) then (Err Encoding, q)
      else case to_vec e of
        None \<Rightarrow> (Err Encoding, q)
      | Some encoded \<Rightarrow>
          (let encoded_bytes = of_nat (length encoded) + 1 in
           if of_nat (length (sq_events q)) = sq_max_events q \<or>
              saturating_add (sq_encoded_bytes q) encoded_bytes > sq_max_bytes q
           then (Err ClientLagged, q\<lparr>sq_closed := True\<rparr>)
           else (Ok (), q\<lparr>sq_encoded_bytes := sq_encoded_bytes q + encoded_bytes,
                          sq_events := sq_events q @ [(e, encoded_bytes)]\<rparr>)))"

definition queue_pop :: "SubscriptionQueue \<Rightarrow> SessionEvent option \<times> SubscriptionQueue" where
  "queue_pop q =
     (case sq_events q of
        [] \<Rightarrow> (None, q)
      | (e, n) # rest \<Rightarrow>
          (Some e, q\<lparr>sq_events := rest, sq_encoded_bytes := sq_encoded_bytes q - n\<rparr>))"

definition replay_after :: "SessionEvent list \<Rightarrow> u64 \<Rightarrow> SessionEvent list" where
  "replay_after events after_sequence = filter (\<lambda>e. sev_sequence e > after_sequence) events"

fun push_all ::
  "event_text \<Rightarrow> SessionEvent list \<Rightarrow> SubscriptionQueue
     \<Rightarrow> (SubscriptionError + unit) \<times> SubscriptionQueue" where
  "push_all to_vec [] q = (Ok (), q)"
| "push_all to_vec (e # es) q = st_then (queue_push to_vec e q) (\<lambda>_ q. push_all to_vec es q)"

section \<open>The hub\<close>

datatype Signal = EventSignal | LaggedSignal

text \<open>What a subscriber and its subscription share: the queue and the signals under way. Dropping a
  subscription unregisters it first, so a registered subscriber always has a receiver.\<close>

record Channel =
  ch_queue :: SubscriptionQueue
  ch_signals :: "Signal list"

record SubscriptionHub =
  hub_sessions :: "uuid \<rightharpoonup> uuid list"
  hub_channels :: "uuid \<rightharpoonup> Channel"

definition hub_default :: SubscriptionHub where
  "hub_default = \<lparr>hub_sessions = Map.empty, hub_channels = Map.empty\<rparr>"

definition subscribers :: "SubscriptionHub \<Rightarrow> uuid \<Rightarrow> uuid list" where
  "subscribers hub session_id = (case hub_sessions hub session_id of None \<Rightarrow> [] | Some ids \<Rightarrow> ids)"

text \<open>The registered subscribers of a session; an empty table entry is removed.\<close>

definition set_subscribers :: "uuid \<Rightarrow> uuid list \<Rightarrow> SubscriptionHub \<Rightarrow> SubscriptionHub" where
  "set_subscribers session_id ids hub =
     hub\<lparr>hub_sessions := (hub_sessions hub)(session_id := if ids = [] then None else Some ids)\<rparr>"

definition subscribe ::
  "event_text \<Rightarrow> uuid \<Rightarrow> uuid \<Rightarrow> SessionEvent list \<Rightarrow> SubscriptionHub
     \<Rightarrow> (SubscriptionError + uuid) \<times> SubscriptionHub" where
  "subscribe to_vec new_id session_id replay hub =
     (case push_all to_vec replay SubscriptionQueue_default of
        (Err e, _) \<Rightarrow> (Err e, hub)
      | (Ok _, queue) \<Rightarrow>
          (Ok new_id,
           (set_subscribers session_id (subscribers hub session_id @ [new_id]) hub)
             \<lparr>hub_channels := (hub_channels hub)(new_id \<mapsto>
                \<lparr>ch_queue = queue, ch_signals = replicate (length (sq_events queue)) EventSignal\<rparr>)\<rparr>))"

text \<open>One subscriber's part of a publication: whether it stays registered, and its channel.\<close>

definition offer :: "event_text \<Rightarrow> SessionEvent \<Rightarrow> Channel \<Rightarrow> bool \<times> Channel" where
  "offer to_vec e c =
     (case queue_push to_vec e (ch_queue c) of
        (Ok _, queue) \<Rightarrow>
          (True, c\<lparr>ch_queue := queue, ch_signals := ch_signals c @ [EventSignal]\<rparr>)
      | (Err _, queue) \<Rightarrow>
          (False, c\<lparr>ch_queue := queue, ch_signals := ch_signals c @ [LaggedSignal]\<rparr>))"

fun retain ::
  "event_text \<Rightarrow> SessionEvent \<Rightarrow> uuid list \<Rightarrow> (uuid \<rightharpoonup> Channel) \<Rightarrow> uuid list \<times> (uuid \<rightharpoonup> Channel)" where
  "retain to_vec e [] chs = ([], chs)"
| "retain to_vec e (i # ids) chs =
     (case chs i of
        None \<Rightarrow> retain to_vec e ids chs
      | Some c \<Rightarrow>
          (let (keep, c) = offer to_vec e c;
               (ids, chs) = retain to_vec e ids (chs(i \<mapsto> c))
           in (if keep then i # ids else ids, chs)))"

definition publish :: "event_text \<Rightarrow> SessionEvent \<Rightarrow> SubscriptionHub \<Rightarrow> SubscriptionHub" where
  "publish to_vec e hub =
     (case hub_sessions hub (sev_session_id e) of
        None \<Rightarrow> hub
      | Some ids \<Rightarrow>
          (let (ids, chs) = retain to_vec e ids (hub_channels hub)
           in set_subscribers (sev_session_id e) ids (hub\<lparr>hub_channels := chs\<rparr>)))"

definition empty_queue :: "SubscriptionQueue \<Rightarrow> SubscriptionQueue" where
  "empty_queue q = fold (\<lambda>_ q. snd (queue_pop q)) (sq_events q) q"

definition empty_channel :: "uuid \<Rightarrow> (uuid \<rightharpoonup> Channel) \<Rightarrow> (uuid \<rightharpoonup> Channel)" where
  "empty_channel i chs =
     chs(i := map_option (\<lambda>c. c\<lparr>ch_queue := empty_queue (ch_queue c)\<rparr>) (chs i))"

definition purge_session :: "uuid \<Rightarrow> SubscriptionHub \<Rightarrow> SubscriptionHub" where
  "purge_session session_id hub =
     (set_subscribers session_id [] hub)
       \<lparr>hub_channels := fold empty_channel (subscribers hub session_id) (hub_channels hub)\<rparr>"

definition hub_remove :: "uuid \<Rightarrow> uuid \<Rightarrow> SubscriptionHub \<Rightarrow> SubscriptionHub" where
  "hub_remove session_id i hub =
     (case hub_sessions hub session_id of
        None \<Rightarrow> hub
      | Some ids \<Rightarrow> set_subscribers session_id (filter (\<lambda>j. j \<noteq> i) ids) hub)"

text \<open>\<open>SessionSubscription::next\<close>: waits while the channel is empty and its sender is registered.\<close>

datatype SubscriptionItem = EventItem SessionEvent | LaggedItem

datatype Next = Waiting | Ended | Item SubscriptionItem

definition subscription_next :: "uuid \<Rightarrow> uuid \<Rightarrow> SubscriptionHub \<Rightarrow> Next \<times> SubscriptionHub" where
  "subscription_next session_id i hub =
     (case hub_channels hub i of
        None \<Rightarrow> (Ended, hub)
      | Some c \<Rightarrow>
          (case ch_signals c of
             [] \<Rightarrow> (if i \<in> set (subscribers hub session_id) then Waiting else Ended, hub)
           | EventSignal # signals \<Rightarrow>
               (let (e, queue) = queue_pop (ch_queue c);
                    hub = hub\<lparr>hub_channels := (hub_channels hub)(i \<mapsto> c\<lparr>ch_queue := queue, ch_signals := signals\<rparr>)\<rparr>
                in (case e of None \<Rightarrow> Ended | Some e \<Rightarrow> Item (EventItem e), hub))
           | LaggedSignal # signals \<Rightarrow>
               (Item LaggedItem,
                hub\<lparr>hub_channels := (hub_channels hub)(i \<mapsto> c\<lparr>ch_signals := signals\<rparr>)\<rparr>)))"

definition subscription_drop :: "uuid \<Rightarrow> uuid \<Rightarrow> SubscriptionHub \<Rightarrow> SubscriptionHub" where
  "subscription_drop session_id i hub =
     (let hub = hub_remove session_id i hub
      in hub\<lparr>hub_channels := (hub_channels hub)(i := None)\<rparr>)"

section \<open>Queues are bounded\<close>

text \<open>The account of a queue is exact and within both limits.\<close>

definition queue_inv :: "event_text \<Rightarrow> SubscriptionQueue \<Rightarrow> bool" where
  "queue_inv to_vec q \<longleftrightarrow>
     sq_max_events q = MAX_QUEUE_EVENTS \<and> sq_max_bytes q = MAX_QUEUE_BYTES \<and>
     length (sq_events q) \<le> 1024 \<and>
     unat (sq_encoded_bytes q) = (\<Sum>(e, n)\<leftarrow>sq_events q. unat n) \<and> unat (sq_encoded_bytes q) \<le> 8388608 \<and>
     (\<forall>(e, n) \<in> set (sq_events q). \<exists>b. to_vec e = Some b \<and> unat n = length b + 1)"

definition texts_bounded :: "event_text \<Rightarrow> bool" where
  "texts_bounded to_vec \<longleftrightarrow> (\<forall>e b. to_vec e = Some b \<longrightarrow> length b < 2 ^ 63)"

lemma queue_push_inv:
  assumes "texts_bounded to_vec" "queue_inv to_vec q"
  shows "queue_inv to_vec (snd (queue_push to_vec e q))"
proof (cases "queue_push to_vec e q = (Ok (), snd (queue_push to_vec e q))")
  case True
  then obtain b where b: "to_vec e = Some b" "of_nat (length (sq_events q)) \<noteq> sq_max_events q"
      "\<not> saturating_add (sq_encoded_bytes q) (of_nat (length b) + 1) > sq_max_bytes q"
      "snd (queue_push to_vec e q) = q\<lparr>sq_encoded_bytes := sq_encoded_bytes q + (of_nat (length b) + 1),
         sq_events := sq_events q @ [(e, of_nat (length b) + 1)]\<rparr>"
    by (auto simp: queue_push_def Let_def split: if_splits option.splits)
  let ?n = "of_nat (length b) + 1 :: usize"
  have "length b < 2 ^ 63" using assms(1) b(1) by (auto simp: texts_bounded_def)
  then have n: "unat ?n = length b + 1"
    by (simp add: unat_word_ariths unat_of_nat)
  have "unat (saturating_add (sq_encoded_bytes q) ?n) \<le> 8388608"
    using b(3) assms(2) by (simp add: queue_inv_def MAX_QUEUE_BYTES_def word_less_nat_alt not_less)
  then have sum: "unat (sq_encoded_bytes q + ?n) = unat (sq_encoded_bytes q) + unat ?n"
      "unat (sq_encoded_bytes q) + unat ?n \<le> 8388608"
    unfolding unat_saturating_add by (simp_all add: unat_no_overflow)
  have "length (sq_events q) \<noteq> 1024" using b(2) assms(2) by (auto simp: queue_inv_def MAX_QUEUE_EVENTS_def)
  with assms(2) sum n b(1) show ?thesis unfolding b(4) by (auto simp: queue_inv_def)
next
  case False
  then have "snd (queue_push to_vec e q) \<in> {q, q\<lparr>sq_closed := True\<rparr>}"
    by (auto simp: queue_push_def Let_def split: if_splits option.splits)
  with assms(2) show ?thesis by (auto simp: queue_inv_def)
qed

lemma queue_pop_inv: "queue_inv to_vec q \<Longrightarrow> queue_inv to_vec (snd (queue_pop q))"
  by (auto simp: queue_inv_def queue_pop_def unat_sub_if' split: list.splits prod.splits)

lemma queue_default_inv [simp]: "queue_inv to_vec SubscriptionQueue_default"
  by (simp add: queue_inv_def SubscriptionQueue_default_def SubscriptionQueue_new_def)

section \<open>Steps of the hub\<close>

text \<open>Everything the daemon and its clients do to the hub; a subscriber's identifier is fresh.\<close>

definition fresh_subscriber :: "uuid \<Rightarrow> SubscriptionHub \<Rightarrow> bool" where
  "fresh_subscriber i hub \<longleftrightarrow> hub_channels hub i = None \<and> (\<forall>s. i \<notin> set (subscribers hub s))"

inductive hub_step :: "event_text \<Rightarrow> SubscriptionHub \<Rightarrow> SubscriptionHub \<Rightarrow> bool" for to_vec where
  step_subscribe: "fresh_subscriber i hub \<Longrightarrow> hub_step to_vec hub (snd (subscribe to_vec i s replay hub))"
| step_publish: "hub_step to_vec hub (publish to_vec e hub)"
| step_purge: "hub_step to_vec hub (purge_session s hub)"
| step_next: "hub_step to_vec hub (snd (subscription_next s i hub))"
| step_drop: "hub_step to_vec hub (subscription_drop s i hub)"

definition channels_inv :: "event_text \<Rightarrow> (uuid \<rightharpoonup> Channel) \<Rightarrow> bool" where
  "channels_inv to_vec chs \<longleftrightarrow> (\<forall>c \<in> ran chs. queue_inv to_vec (ch_queue c))"

lemma channels_inv_upd [intro]:
  "channels_inv to_vec chs \<Longrightarrow> queue_inv to_vec (ch_queue c) \<Longrightarrow> channels_inv to_vec (chs(i \<mapsto> c))"
  by (auto simp: channels_inv_def ran_def split: if_splits)

lemma channels_invD: "channels_inv to_vec chs \<Longrightarrow> chs i = Some c \<Longrightarrow> queue_inv to_vec (ch_queue c)"
  by (auto simp: channels_inv_def ran_def)

lemma set_subscribers_channels [simp]: "hub_channels (set_subscribers s ids hub) = hub_channels hub"
  by (simp add: set_subscribers_def)

lemma push_all_inv: "texts_bounded to_vec \<Longrightarrow> queue_inv to_vec q \<Longrightarrow> queue_inv to_vec (snd (push_all to_vec es q))"
proof (induction es arbitrary: q)
  case (Cons e es)
  from queue_push_inv [OF Cons.prems, of e] Cons.prems(2) Cons.IH [OF Cons.prems(1)] show ?case
    by (cases "queue_push to_vec e q"; cases "fst (queue_push to_vec e q)") auto
qed simp

lemma offer_inv:
  "texts_bounded to_vec \<Longrightarrow> queue_inv to_vec (ch_queue c) \<Longrightarrow> queue_inv to_vec (ch_queue (snd (offer to_vec e c)))"
  using queue_push_inv [of to_vec "ch_queue c" e]
  by (auto simp: offer_def split: prod.splits sum.splits)

lemma retain_inv:
  "texts_bounded to_vec \<Longrightarrow> channels_inv to_vec chs \<Longrightarrow> channels_inv to_vec (snd (retain to_vec e ids chs))"
proof (induction ids arbitrary: chs)
  case (Cons i ids)
  show ?case
  proof (cases "chs i")
    case None
    then show ?thesis using Cons by simp
  next
    case (Some c)
    have "channels_inv to_vec (chs(i \<mapsto> snd (offer to_vec e c)))"
      by (intro channels_inv_upd offer_inv Cons.prems channels_invD [of to_vec chs i] Some)
    from Cons.IH [OF Cons.prems(1) this] Some show ?thesis by (simp add: Let_def case_prod_unfold del: fun_upd_apply)
  qed
qed simp

lemma empty_queue_inv: "queue_inv to_vec q \<Longrightarrow> queue_inv to_vec (empty_queue q)"
proof -
  have "queue_inv to_vec q \<Longrightarrow> queue_inv to_vec (fold (\<lambda>_ q. snd (queue_pop q)) es q)" for es :: "'a list" and q
    by (induction es arbitrary: q) (auto intro: queue_pop_inv)
  then show "queue_inv to_vec q \<Longrightarrow> ?thesis" by (simp add: empty_queue_def)
qed

lemma purge_channels_inv:
  "channels_inv to_vec chs \<Longrightarrow> channels_inv to_vec (fold empty_channel ids chs)"
proof (induction ids arbitrary: chs)
  case (Cons i ids)
  then have "channels_inv to_vec (empty_channel i chs)"
    by (auto simp: channels_inv_def empty_channel_def ran_def empty_queue_inv split: if_splits)
  with Cons.IH show ?case by simp
qed simp

lemma hub_step_inv:
  assumes "hub_step to_vec hub hub'" "texts_bounded to_vec" "channels_inv to_vec (hub_channels hub)"
  shows "channels_inv to_vec (hub_channels hub')"
  using assms
proof (induction rule: hub_step.induct)
  case (step_subscribe i hub s replay)
  then show ?case
    using push_all_inv [OF step_subscribe(2) queue_default_inv, of replay]
      channels_inv_upd [OF step_subscribe(3), of "\<lparr>ch_queue = snd (push_all to_vec replay SubscriptionQueue_default),
         ch_signals = replicate (length (sq_events (snd (push_all to_vec replay SubscriptionQueue_default)))) EventSignal\<rparr>" i]
    by (simp add: subscribe_def case_prod_unfold del: fun_upd_apply split: sum.split)
next
  case (step_publish hub e)
  then show ?case
    using retain_inv [OF step_publish(1,2)] by (simp add: publish_def Let_def case_prod_unfold split: option.split)
next
  case (step_purge hub s)
  then show ?case by (simp add: purge_session_def purge_channels_inv)
next
  case (step_next hub s i)
  have pop: "channels_inv to_vec ((hub_channels hub)(i \<mapsto> c\<lparr>ch_queue := snd (queue_pop (ch_queue c)), ch_signals := sig\<rparr>))"
    and lag: "channels_inv to_vec ((hub_channels hub)(i \<mapsto> c\<lparr>ch_signals := sig\<rparr>))"
    if "hub_channels hub i = Some c" for c sig
    using channels_invD [OF step_next(2) that] by (auto intro!: channels_inv_upd step_next(2) queue_pop_inv)
  from step_next(2) show ?case
    by (auto simp: subscription_next_def Let_def case_prod_unfold pop lag simp del: fun_upd_apply
        split: option.splits list.splits Signal.splits)
next
  case (step_drop hub s i)
  then show ?case
    by (auto simp: subscription_drop_def hub_remove_def Let_def channels_inv_def ran_def split: option.splits if_splits)
qed

section \<open>What a subscriber sees\<close>

text \<open>A subscription followed through the hub's steps: the events published for its session since it
  was made, and the events it has delivered.\<close>

inductive observed ::
  "event_text \<Rightarrow> uuid \<Rightarrow> uuid \<Rightarrow> SessionEvent list \<Rightarrow> SessionEvent list \<Rightarrow> SessionEvent list \<Rightarrow> SubscriptionHub \<Rightarrow> bool"
  for to_vec sid i replay where
  observe_start: "fresh_subscriber i hub \<Longrightarrow> subscribe to_vec i sid replay hub = (Ok i, hub') \<Longrightarrow>
     observed to_vec sid i replay [] [] hub'"
| observe_publish: "observed to_vec sid i replay published seen hub \<Longrightarrow>
     observed to_vec sid i replay (if sev_session_id e = sid then published @ [e] else published) seen
       (publish to_vec e hub)"
| observe_next: "observed to_vec sid i replay published seen hub \<Longrightarrow> subscription_next sid i hub = (r, hub') \<Longrightarrow>
     observed to_vec sid i replay published (seen @ (case r of Item (EventItem e) \<Rightarrow> [e] | _ \<Rightarrow> [])) hub'"
| observe_subscribe: "observed to_vec sid i replay published seen hub \<Longrightarrow> j \<noteq> i \<Longrightarrow>
     observed to_vec sid i replay published seen (snd (subscribe to_vec j s events hub))"
| observe_other: "observed to_vec sid i replay published seen hub \<Longrightarrow> j \<noteq> i \<Longrightarrow>
     observed to_vec sid i replay published seen (snd (subscription_next s j hub))"
| observe_drop: "observed to_vec sid i replay published seen hub \<Longrightarrow> j \<noteq> i \<Longrightarrow>
     observed to_vec sid i replay published seen (subscription_drop s j hub)"
| observe_purge: "observed to_vec sid i replay published seen hub \<Longrightarrow>
     observed to_vec sid i replay published seen (purge_session s hub)"

text \<open>A registered subscriber holds the rest of the events and a signal for each; one that is no longer
  registered holds a part of them.\<close>

definition queued :: "Channel \<Rightarrow> SessionEvent list" where
  "queued c = map fst (sq_events (ch_queue c))"

definition sub_inv ::
  "uuid \<Rightarrow> uuid \<Rightarrow> SessionEvent list \<Rightarrow> SessionEvent list \<Rightarrow> SubscriptionHub \<Rightarrow> bool" where
  "sub_inv sid i events seen hub \<longleftrightarrow>
     (\<forall>s. s \<noteq> sid \<longrightarrow> i \<notin> set (subscribers hub s)) \<and>
     (\<exists>c. hub_channels hub i = Some c \<and> prefix (seen @ queued c) events \<and>
       (filter (\<lambda>j. j = i) (subscribers hub sid) = [] \<or>
        filter (\<lambda>j. j = i) (subscribers hub sid) = [i] \<and> seen @ queued c = events \<and>
          ch_signals c = replicate (length (queued c)) EventSignal))"

lemma subscribers_set [simp]:
  "subscribers (set_subscribers s ids hub) s' = (if s' = s then ids else subscribers hub s')"
  "subscribers (hub\<lparr>hub_channels := chs\<rparr>) s' = subscribers hub s'"
  by (auto simp: set_subscribers_def subscribers_def)

lemma subscribers_Some: "hub_sessions hub s = Some ids \<Longrightarrow> subscribers hub s = ids"
  by (simp add: subscribers_def)

lemma retain_absent:
  "i \<notin> set ids \<Longrightarrow> snd (retain to_vec e ids chs) i = chs i \<and> i \<notin> set (fst (retain to_vec e ids chs))"
proof (induction ids arbitrary: chs)
  case (Cons j ids)
  then show ?case by (cases "chs j") (simp_all add: Let_def case_prod_unfold)
qed simp

lemma retain_present:
  "filter (\<lambda>j. j = i) ids = [i] \<Longrightarrow> chs i = Some c \<Longrightarrow>
     snd (retain to_vec e ids chs) i = Some (snd (offer to_vec e c)) \<and>
     filter (\<lambda>j. j = i) (fst (retain to_vec e ids chs)) = (if fst (offer to_vec e c) then [i] else [])"
proof (induction ids arbitrary: chs)
  case (Cons j ids)
  show ?case
  proof (cases "j = i")
    case True
    with Cons.prems(1) have "i \<notin> set ids" by (auto simp: filter_empty_conv)
    from retain_absent [OF this] have "filter (\<lambda>j. j = i) (fst (retain to_vec e ids chs')) = []" for chs'
      by (auto simp: filter_empty_conv)
    with retain_absent [OF \<open>i \<notin> set ids\<close>] True Cons.prems(2) show ?thesis
      by (simp add: Let_def case_prod_unfold)
  next
    case False
    with Cons show ?thesis by (cases "chs j") (simp_all add: Let_def case_prod_unfold)
  qed
qed simp

lemma queue_push_events:
  "queue_push to_vec e q = (r, q') \<Longrightarrow> sq_events q' = sq_events q @ (case r of Ok _ \<Rightarrow> [(e, of_nat (length (the (to_vec e))) + 1)] | Err _ \<Rightarrow> [])"
  by (auto simp: queue_push_def Let_def split: if_splits option.splits)

lemma offer_queued:
  "queued (snd (offer to_vec e c)) = queued c @ (if fst (offer to_vec e c) then [e] else [])"
  "fst (offer to_vec e c) \<Longrightarrow> ch_signals (snd (offer to_vec e c)) = ch_signals c @ [EventSignal]"
proof -
  obtain r q where push: "queue_push to_vec e (ch_queue c) = (r, q)" by force
  note events = queue_push_events [OF push]
  show "queued (snd (offer to_vec e c)) = queued c @ (if fst (offer to_vec e c) then [e] else [])"
    using events by (cases r) (simp_all add: offer_def push queued_def)
  show "fst (offer to_vec e c) \<Longrightarrow> ch_signals (snd (offer to_vec e c)) = ch_signals c @ [EventSignal]"
    by (cases r) (simp_all add: offer_def push)
qed

lemma push_all_events:
  "push_all to_vec es q = (Ok (), q') \<Longrightarrow> map fst (sq_events q') = map fst (sq_events q) @ es"
  by (induction es arbitrary: q) (auto dest!: queue_push_events)

lemma publish_sub_inv:
  assumes inv: "sub_inv sid i events seen hub"
  shows "sub_inv sid i (if sev_session_id e = sid then events @ [e] else events) seen (publish to_vec e hub)"
proof (cases "hub_sessions hub (sev_session_id e)")
  case None
  then have "publish to_vec e hub = hub" by (simp add: publish_def)
  moreover have "i \<notin> set (subscribers hub sid)" if "sev_session_id e = sid" using None that by (simp add: subscribers_def)
  ultimately show ?thesis using inv by (auto simp: sub_inv_def filter_empty_conv prefix_def)
next
  case (Some ids)
  let ?r = "retain to_vec e ids (hub_channels hub)"
  have pub: "publish to_vec e hub = set_subscribers (sev_session_id e) (fst ?r) (hub\<lparr>hub_channels := snd ?r\<rparr>)"
    using Some by (simp add: publish_def case_prod_unfold Let_def)
  have ids: "subscribers hub (sev_session_id e) = ids" using Some by (simp add: subscribers_def)
  from inv obtain c where c: "hub_channels hub i = Some c" "prefix (seen @ queued c) events"
    and other: "\<forall>s. s \<noteq> sid \<longrightarrow> i \<notin> set (subscribers hub s)"
    and reg: "filter (\<lambda>j. j = i) (subscribers hub sid) = [] \<or>
        filter (\<lambda>j. j = i) (subscribers hub sid) = [i] \<and> seen @ queued c = events \<and>
          ch_signals c = replicate (length (queued c)) EventSignal"
    by (auto simp: sub_inv_def)
  show ?thesis
  proof (cases "i \<in> set ids")
    case False
    with c retain_absent [OF False, of to_vec e "hub_channels hub"] other reg ids show ?thesis
      unfolding pub sub_inv_def by (auto simp: filter_empty_conv prefix_def)
  next
    case True
    then have sid: "sev_session_id e = sid" using other ids by auto
    with reg ids True have here: "filter (\<lambda>j. j = i) ids = [i]" "seen @ queued c = events"
        "ch_signals c = replicate (length (queued c)) EventSignal" by (auto simp: filter_empty_conv)
    from retain_present [of i ids "hub_channels hub" c to_vec e, OF here(1) c(1)] offer_queued [of to_vec e c] here other sid show ?thesis
      unfolding pub sub_inv_def
      by (cases "fst (offer to_vec e c)") (auto simp: replicate_append_same simp flip: replicate_Suc)
  qed
qed

lemma next_sub_inv:
  assumes inv: "sub_inv sid i events seen hub" and step: "subscription_next sid i hub = (r, hub')"
  shows "sub_inv sid i events (seen @ (case r of Item (EventItem e) \<Rightarrow> [e] | _ \<Rightarrow> [])) hub'"
proof -
  from inv obtain c where c: "hub_channels hub i = Some c" by (auto simp: sub_inv_def)
  show ?thesis
  proof (cases "ch_signals c")
    case Nil
    with step c have "hub' = hub" "r \<in> {Waiting, Ended}" by (auto simp: subscription_next_def split: if_splits)
    with inv show ?thesis by auto
  next
    case (Cons sig sigs)
    show ?thesis
    proof (cases sig)
      case EventSignal
      with Cons step c have "r = (case fst (queue_pop (ch_queue c)) of None \<Rightarrow> Ended | Some e \<Rightarrow> Item (EventItem e))"
          "hub' = hub\<lparr>hub_channels := (hub_channels hub)(i \<mapsto> c\<lparr>ch_queue := snd (queue_pop (ch_queue c)), ch_signals := sigs\<rparr>)\<rparr>"
        by (simp_all add: subscription_next_def Let_def case_prod_unfold)
      with inv c Cons EventSignal show ?thesis
        by (cases "sq_events (ch_queue c)") (auto simp: sub_inv_def queued_def queue_pop_def)
    next
      case LaggedSignal
      with Cons step c have "r = Item LaggedItem"
          "hub' = hub\<lparr>hub_channels := (hub_channels hub)(i \<mapsto> c\<lparr>ch_signals := sigs\<rparr>)\<rparr>"
        by (simp_all add: subscription_next_def)
      with inv c Cons LaggedSignal show ?thesis
        by (auto simp: sub_inv_def queued_def Cons_replicate_eq)
    qed
  qed
qed

text \<open>Steps on other subscribers and the purge of a session.\<close>

lemma sub_inv_frame:
  assumes "sub_inv sid i events seen hub" "hub_channels hub' i = hub_channels hub i"
    and "\<And>s. filter (\<lambda>j. j = i) (subscribers hub' s) = filter (\<lambda>j. j = i) (subscribers hub s)"
  shows "sub_inv sid i events seen hub'"
proof -
  have "i \<in> set (subscribers hub' s) \<longleftrightarrow> i \<in> set (subscribers hub s)" for s
    using arg_cong [OF assms(3) [of s], where f = set] by auto
  with assms(1) show ?thesis unfolding sub_inv_def assms(2,3) by simp
qed

lemma empty_queue_events: "sq_events (empty_queue q) = []"
proof -
  have "sq_events (fold (\<lambda>_ q. snd (queue_pop q)) es q) = drop (length es) (sq_events q)" for es :: "(SessionEvent \<times> usize) list" and q
    by (induction es arbitrary: q) (auto simp: queue_pop_def drop_Suc split: list.splits prod.splits)
  then show ?thesis by (simp add: empty_queue_def)
qed

lemma purge_channel:
  "chs i = Some c \<Longrightarrow> \<exists>c'. fold empty_channel ids chs i = Some c' \<and> (i \<notin> set ids \<longrightarrow> c' = c) \<and> queued c' \<in> {queued c, []}"
proof (induction ids arbitrary: chs c)
  case (Cons j ids)
  obtain c1 where c1: "empty_channel j chs i = Some c1" "j \<noteq> i \<Longrightarrow> c1 = c" "queued c1 \<in> {queued c, []}"
    using Cons.prems by (cases "j = i") (auto simp: empty_channel_def queued_def empty_queue_events)
  from Cons.IH [of "empty_channel j chs" c1, OF c1(1)] c1(2,3) show ?case by auto
qed simp

lemma purge_sub_inv:
  assumes inv: "sub_inv sid i events seen hub"
  shows "sub_inv sid i events seen (purge_session s hub)"
proof -
  from inv obtain c where c: "hub_channels hub i = Some c" "prefix (seen @ queued c) events"
    and other: "\<forall>s. s \<noteq> sid \<longrightarrow> i \<notin> set (subscribers hub s)"
    by (auto simp: sub_inv_def)
  obtain c' where c': "hub_channels (purge_session s hub) i = Some c'"
      "i \<notin> set (subscribers hub s) \<Longrightarrow> c' = c" "queued c' \<in> {queued c, []}"
    using purge_channel [of "hub_channels hub" i c "subscribers hub s", OF c(1)] that
    by (auto simp: purge_session_def)
  have regs: "subscribers (purge_session s hub) s' = (if s' = s then [] else subscribers hub s')" for s'
    by (simp add: purge_session_def)
  have "prefix (seen @ queued c') events" using c(2) c'(3) by (auto dest: append_prefixD)
  with c' inv other show ?thesis unfolding sub_inv_def regs by (cases "s = sid") (auto simp: c(1))
qed

lemma observed_inv: "observed to_vec sid i replay published seen hub \<Longrightarrow> sub_inv sid i (replay @ published) seen hub"
proof (induction rule: observed.induct)
  case (observe_start hub hub')
  then obtain q where q: "push_all to_vec replay SubscriptionQueue_default = (Ok (), q)"
    and hub': "hub' = (set_subscribers sid (subscribers hub sid @ [i]) hub)\<lparr>hub_channels := (hub_channels hub)(i \<mapsto>
      \<lparr>ch_queue = q, ch_signals = replicate (length (sq_events q)) EventSignal\<rparr>)\<rparr>"
    by (auto simp: subscribe_def split: prod.splits sum.splits)
  have "map fst (sq_events q) = replay"
    using push_all_events [OF q] by (simp add: SubscriptionQueue_default_def SubscriptionQueue_new_def)
  moreover from this have "length (sq_events q) = length replay" by (metis length_map)
  ultimately show ?case
    using observe_start(1) by (auto simp: hub' sub_inv_def queued_def fresh_subscriber_def filter_empty_conv)
next
  case (observe_publish published seen hub e)
  then show ?case using publish_sub_inv [of sid i "replay @ published" seen hub e to_vec] by (cases "sev_session_id e = sid") simp_all
next
  case (observe_next published seen hub r hub')
  then show ?case by (intro next_sub_inv)
next
  case (observe_subscribe published seen hub j s evs)
  then show ?case
    by (elim sub_inv_frame) (auto simp: subscribe_def split: prod.splits sum.splits)
next
  case (observe_other published seen hub j s)
  then show ?case
    by (elim sub_inv_frame) (auto simp: subscription_next_def Let_def split: prod.splits option.splits list.splits Signal.splits)
next
  case (observe_drop published seen hub j s)
  then show ?case
    by (elim sub_inv_frame)
       (auto simp: subscription_drop_def hub_remove_def Let_def subscribers_Some intro!: filter_cong split: option.splits)
next
  case (observe_purge published seen hub s)
  then show ?case by (intro purge_sub_inv)
qed

section \<open>A small hub\<close>

definition demo_text_of :: event_text where
  "demo_text_of e = Some ''event''"

definition demo_live :: SessionEvent where
  "demo_live = \<lparr>sev_protocol = PROTOCOL_V1, sev_event_id = 3, sev_session_id = 1, sev_sequence = 1,
     sev_causation_request_id = None, sev_kind = EventKind.SessionCreated, sev_occurred_at = ''now'', sev_data = JObject []\<rparr>"

definition demo_hub :: SubscriptionHub where
  "demo_hub = publish demo_text_of demo_live (snd (subscribe demo_text_of 5 1 [] hub_default))"

lemma demo_subscribe:
  "fresh_subscriber 5 hub_default" "subscribe demo_text_of 5 1 [] hub_default =
     (Ok 5, snd (subscribe demo_text_of 5 1 [] hub_default))"
  by (simp_all add: fresh_subscriber_def hub_default_def subscribers_def subscribe_def)

lemma demo_hub_state:
  "hub_channels demo_hub 5 = Some \<lparr>ch_queue = SubscriptionQueue_default\<lparr>sq_events := [(demo_live, 6)], sq_encoded_bytes := 6\<rparr>,
     ch_signals = [EventSignal]\<rparr>" "subscribers demo_hub 1 = [5]"
  by (simp_all add: demo_hub_def publish_def subscribe_def hub_default_def subscribers_def set_subscribers_def offer_def
      queue_push_def demo_text_of_def demo_live_def SessionEvent_validate_def is_object_def
      SubscriptionQueue_default_def SubscriptionQueue_new_def MAX_QUEUE_EVENTS_def MAX_QUEUE_BYTES_def
      saturating_add_def Let_def)

section \<open>Properties\<close>

text \<open>C34: memory for clients is bounded. In every state of the hub each queue holds at most 1024 events
  and eight mebibytes of their text, and its account of those bytes is exact.\<close>

theorem queues_bounded:
  assumes "texts_bounded to_vec" "(hub_step to_vec)\<^sup>*\<^sup>* hub_default hub" "hub_channels hub i = Some c"
  shows "length (queued c) \<le> 1024 \<and> (\<Sum>e\<leftarrow>queued c. length (the (to_vec e)) + 1) \<le> 8388608 \<and>
    unat (sq_encoded_bytes (ch_queue c)) = (\<Sum>e\<leftarrow>queued c. length (the (to_vec e)) + 1)"
proof -
  have "channels_inv to_vec (hub_channels hub)"
    using assms(2) by (induction rule: rtranclp_induct)
      (auto simp: hub_default_def channels_inv_def intro: hub_step_inv [OF _ assms(1), unfolded channels_inv_def, THEN bspec])
  from channels_invD [OF this assms(3)] have inv: "queue_inv to_vec (ch_queue c)" .
  then have "map (\<lambda>(e, n). unat n) (sq_events (ch_queue c)) = map (\<lambda>e. length (the (to_vec e)) + 1) (queued c)"
    by (auto simp: queue_inv_def queued_def)
  with inv show ?thesis by (simp add: queue_inv_def queued_def comp_def)
qed

theorem queues_bounded_witness:
  "\<exists>c. hub_channels demo_hub 5 = Some c \<and> length (queued c) = 1 \<and> unat (sq_encoded_bytes (ch_queue c)) = 6 \<and>
     (\<Sum>e\<leftarrow>queued c. length (the (demo_text_of e)) + 1) \<le> 8388608"
proof -
  have "texts_bounded demo_text_of" by (simp add: texts_bounded_def demo_text_of_def)
  moreover have "(hub_step demo_text_of)\<^sup>*\<^sup>* hub_default demo_hub"
    unfolding demo_hub_def
    by (rule converse_rtranclp_into_rtranclp [of "hub_step demo_text_of"], rule step_subscribe [OF demo_subscribe(1)])
       (rule r_into_rtranclp, rule step_publish)
  moreover note demo_hub_state(1)
  ultimately show ?thesis
    using queues_bounded [of demo_text_of demo_hub 5] by (simp add: queued_def demo_text_of_def)
qed

text \<open>C35: a client misses nothing silently. What a subscription has delivered is always an initial part
  of its replay followed by the events published since, in order and without repetition; while it
  is registered, that and its queue are all of them, and a call for the next one yields it.\<close>

theorem subscriber_sees_all:
  assumes "observed to_vec sid i replay published seen hub"
  shows "prefix seen (replay @ published) \<and>
    (i \<in> set (subscribers hub sid) \<longrightarrow>
       (\<exists>c. hub_channels hub i = Some c \<and> seen @ queued c = replay @ published \<and>
          fst (subscription_next sid i hub) =
            (case queued c of [] \<Rightarrow> Waiting | e # _ \<Rightarrow> Item (EventItem e))))"
proof -
  from observed_inv [OF assms] obtain c where c: "hub_channels hub i = Some c" "prefix (seen @ queued c) (replay @ published)"
    and reg: "i \<in> set (subscribers hub sid) \<Longrightarrow> seen @ queued c = replay @ published \<and>
      ch_signals c = replicate (length (queued c)) EventSignal"
    by (auto simp: sub_inv_def filter_empty_conv)
  have "fst (subscription_next sid i hub) = (case queued c of [] \<Rightarrow> Waiting | e # _ \<Rightarrow> Item (EventItem e))"
    if "i \<in> set (subscribers hub sid)"
    using reg [OF that] c(1) that
    by (cases "sq_events (ch_queue c)") (auto simp: subscription_next_def queued_def queue_pop_def Let_def split: prod.splits)
  with c reg show ?thesis by (auto dest: append_prefixD)
qed

theorem subscriber_sees_all_witness:
  "\<exists>c. hub_channels demo_hub 5 = Some c \<and> queued c = [demo_live] \<and>
     fst (subscription_next 1 5 demo_hub) = Item (EventItem demo_live)"
proof -
  have "observed demo_text_of 1 5 [] ([] @ [demo_live]) [] demo_hub"
    using observe_publish [OF observe_start [OF demo_subscribe], of demo_live]
    by (simp add: demo_hub_def demo_live_def)
  from subscriber_sees_all [OF this] demo_hub_state show ?thesis by auto
qed

end
