(* ===== verification/Budget.thy ===== *)
theory Budget
  imports Storage_Inv Orchestration
begin

text \<open>
  Paid inference under a budget (\<open>crates/workbench-openrouter/src/budget.rs\<close> and \<open>error.rs\<close>): the
  ledger of each session's spend in millionths of a dollar, the decision taken before a paid
  attempt, and the durable store behind the ledger, whose contract is a locale. The daemon's store
  (\<open>crates/workbench-daemon/src/spend_store.rs\<close>) keeps the totals in the session table.
\<close>

section \<open>Failures\<close>

datatype OpenRouterErrorKind =
    InvalidConfig | CredentialMissing | CredentialEmpty | BudgetExceeded | Transport
  | ResponseTooLarge | MalformedStream | Unavailable | CancelledKind | OutcomeUnknownKind | ShuttingDown

record OpenRouterError =
  ore_kind :: OpenRouterErrorKind
  ore_message :: string

text \<open>The messages are string constants below the limit of 256 bytes; one that comes from the provider
  is cut there, and cutting inside a character panics.\<close>

definition OpenRouterError_new :: "OpenRouterErrorKind \<Rightarrow> string \<Rightarrow> OpenRouterError option" where
  "OpenRouterError_new k msg =
     map_option (\<lambda>m. \<lparr>ore_kind = k, ore_message = m\<rparr>) (string_truncate msg 256)"

definition or_error :: "OpenRouterErrorKind \<Rightarrow> string \<Rightarrow> OpenRouterError" where
  "or_error k msg = \<lparr>ore_kind = k, ore_message = msg\<rparr>"

fun failure_category :: "OpenRouterErrorKind \<Rightarrow> FailureCategory" where
  "failure_category BudgetExceeded = PolicyDenied"
| "failure_category CredentialMissing = ProviderUnavailable"
| "failure_category CredentialEmpty = ProviderUnavailable"
| "failure_category OutcomeUnknownKind = FailureCategory.OutcomeUnknown"
| "failure_category InvalidConfig = InvalidRequest"
| "failure_category _ = ProviderUnavailable"

definition into_provider_failure :: "OpenRouterError \<Rightarrow> bool \<Rightarrow> ProviderFailure" where
  "into_provider_failure e definite =
     \<lparr>pf_category = failure_category (ore_kind e), pf_user_safe_message = ore_message e, pf_definite = definite\<rparr>"

section \<open>The ledger\<close>

record CostPolicyConfig =
  max_session_usd_micros :: u64
  max_attempt_usd_micros :: "u64 option"

datatype BudgetDecision = Allow u64 | DenySession | DenyAttempt

record 'd DurableSpendStore =
  load_spends :: "'d \<Rightarrow> OpenRouterError + (uuid \<times> u64) list"
  persist_spend :: "uuid \<Rightarrow> u64 \<Rightarrow> 'd \<Rightarrow> (OpenRouterError + unit) \<times> 'd"

text \<open>The totals in memory; the durable store, where there is one, is passed along with its state.\<close>

type_synonym SessionCostLedger = "uuid \<rightharpoonup> u64"

definition restore_from_durable ::
  "'d DurableSpendStore option \<Rightarrow> 'd \<Rightarrow> SessionCostLedger \<Rightarrow> (OpenRouterError + unit) \<times> SessionCostLedger" where
  "restore_from_durable durable d ledger =
     (case durable of
        None \<Rightarrow> (Ok (), ledger)
      | Some store \<Rightarrow>
          (case load_spends store d of
             Err e \<Rightarrow> (Err e, ledger)
           | Ok spends \<Rightarrow>
               (Ok (), fold (\<lambda>(session_id, spend) m. if spend > 0 then m(session_id \<mapsto> spend) else m)
                         spends Map.empty)))"

definition with_durable_store :: "'d DurableSpendStore \<Rightarrow> 'd \<Rightarrow> OpenRouterError + SessionCostLedger" where
  "with_durable_store store d =
     (case restore_from_durable (Some store) d Map.empty of
        (Err e, _) \<Rightarrow> Err e | (Ok _, ledger) \<Rightarrow> Ok ledger)"

definition spend_usd_micros :: "SessionCostLedger \<Rightarrow> uuid \<Rightarrow> u64" where
  "spend_usd_micros ledger session_id = (case ledger session_id of None \<Rightarrow> 0 | Some n \<Rightarrow> n)"

definition record_spend ::
  "'d DurableSpendStore option \<Rightarrow> uuid \<Rightarrow> u64 \<Rightarrow> SessionCostLedger \<times> 'd
     \<Rightarrow> (OpenRouterError + u64) \<times> (SessionCostLedger \<times> 'd)" where
  "record_spend durable session_id usd_micros s =
     (let (ledger, d) = s in
      if usd_micros = 0 then (Ok (spend_usd_micros ledger session_id), s)
      else
        (let booked = saturating_add (spend_usd_micros ledger session_id) usd_micros;
             ledger = ledger(session_id \<mapsto> booked) in
         case durable of
           None \<Rightarrow> (Ok booked, (ledger, d))
         | Some store \<Rightarrow>
             (case persist_spend store session_id booked d of
                (Err e, d) \<Rightarrow> (Err e, (ledger, d))
              | (Ok _, d) \<Rightarrow> (Ok booked, (ledger, d)))))"

definition seed_spend :: "uuid \<Rightarrow> u64 \<Rightarrow> SessionCostLedger \<Rightarrow> SessionCostLedger" where
  "seed_spend session_id usd_micros ledger = ledger(session_id \<mapsto> usd_micros)"

definition DEFAULT_ATTEMPT_ESTIMATE_USD_MICROS :: u64 where
  "DEFAULT_ATTEMPT_ESTIMATE_USD_MICROS = 10000"

definition evaluate_budget :: "CostPolicyConfig \<Rightarrow> SessionCostLedger \<Rightarrow> uuid \<Rightarrow> u64 \<Rightarrow> BudgetDecision" where
  "evaluate_budget policy ledger session_id estimate =
     (if (case max_attempt_usd_micros policy of None \<Rightarrow> False | Some max_attempt \<Rightarrow> estimate > max_attempt)
      then DenyAttempt
      else
        (let projected = saturating_add (spend_usd_micros ledger session_id) estimate in
         if projected > max_session_usd_micros policy then DenySession else Allow estimate))"

definition deny_error :: "BudgetDecision \<Rightarrow> OpenRouterError + unit" where
  "deny_error decision =
     (case decision of
        Allow _ \<Rightarrow> Ok ()
      | DenySession \<Rightarrow> Err (or_error BudgetExceeded ''session paid-inference budget would be exceeded'')
      | DenyAttempt \<Rightarrow> Err (or_error BudgetExceeded ''attempt paid-inference budget would be exceeded''))"

definition estimate_attempt_usd_micros :: "CostPolicyConfig \<Rightarrow> u64" where
  "estimate_attempt_usd_micros policy =
     min DEFAULT_ATTEMPT_ESTIMATE_USD_MICROS (max_session_usd_micros policy)"

section \<open>The daemon's store\<close>

text \<open>Opening the database may fail each time; the other faults of the calls are reported alike.\<close>

definition PathSpendStore :: "(Db \<Rightarrow> bool) \<Rightarrow> Db DurableSpendStore" where
  "PathSpendStore opens =
     \<lparr>load_spends = (\<lambda>d. if opens d then Ok (load_all_session_spends d)
        else Err (or_error Unavailable ''cost ledger storage unavailable'')),
      persist_spend = (\<lambda>session_id spend d.
        if opens d
        then (case store_session_spend_usd_micros session_id spend d of
                (Err _, d) \<Rightarrow> (Err (or_error Unavailable ''cost ledger persist failed''), d)
              | (Ok _, d) \<Rightarrow> (Ok (), d))
        else (Err (or_error Unavailable ''cost ledger storage unavailable''), d))\<rparr>"

section \<open>The contract of a spend store\<close>

text \<open>A history of paid attempts: one runs only when the budget allows its estimate and is booked at
  what it cost, which is at most the limit; in between the process may restart from the durable
  totals. The last argument counts what was paid.\<close>

inductive budget_run ::
  "'d DurableSpendStore \<Rightarrow> ('d \<Rightarrow> bool) \<Rightarrow> CostPolicyConfig \<Rightarrow> nat \<Rightarrow> SessionCostLedger \<Rightarrow> 'd \<Rightarrow> (uuid \<Rightarrow> nat) \<Rightarrow> bool"
  for store init policy limit where
  run_start: "init d \<Longrightarrow> with_durable_store store d = Ok ledger \<Longrightarrow>
     budget_run store init policy limit ledger d (\<lambda>_. 0)"
| run_attempt: "budget_run store init policy limit ledger d paid \<Longrightarrow> cost \<noteq> 0 \<Longrightarrow> unat cost \<le> limit \<Longrightarrow>
     evaluate_budget policy ledger s (estimate_attempt_usd_micros policy) = Allow estimate \<Longrightarrow>
     record_spend (Some store) s cost (ledger, d) = (Ok booked, (ledger', d')) \<Longrightarrow>
     budget_run store init policy limit ledger' d' (paid(s := paid s + unat cost))"
| run_restart: "budget_run store init policy limit ledger d paid \<Longrightarrow> with_durable_store store d = Ok ledger' \<Longrightarrow>
     budget_run store init policy limit ledger' d paid"

locale spend_store =
  fixes store :: "'d DurableSpendStore" and store_inv :: "'d \<Rightarrow> bool" and spent :: "'d \<Rightarrow> uuid \<Rightarrow> nat"
  assumes load_law: "store_inv d \<Longrightarrow> load_spends store d = Ok l \<Longrightarrow>
      distinct (map fst l) \<and> (\<forall>s. spent d s = (case map_of l s of None \<Rightarrow> 0 | Some n \<Rightarrow> unat n))"
    and persist_law: "store_inv d \<Longrightarrow> persist_spend store s n d = (Ok (), d') \<Longrightarrow>
      store_inv d' \<and> spent d' = (spent d)(s := unat n) \<and> unat n < 2 ^ 63"
    and persist_Err: "persist_spend store s n d = (Err e, d') \<Longrightarrow> d' = d"
begin

lemma restored:
  assumes "store_inv d" "with_durable_store store d = Ok ledger"
  shows "unat (spend_usd_micros ledger s) = spent d s"
proof -
  from assms(2) obtain l where l: "load_spends store d = Ok l"
    and ledger: "ledger = fold (\<lambda>(i, n) m. if n > 0 then m(i \<mapsto> n) else m) l Map.empty"
    by (auto simp: with_durable_store_def restore_from_durable_def split: sum.splits prod.splits)
  have "fold (\<lambda>(i, n) m. if n > 0 then m(i \<mapsto> n) else m) l m s =
      (case map_of l s of None \<Rightarrow> m s | Some n \<Rightarrow> if n > 0 then Some n else m s)" if "distinct (map fst l)" for m :: SessionCostLedger and l
    using that
  proof (induction l arbitrary: m)
    case (Cons p l)
    then show ?case by (cases p) (auto split: option.splits dest: map_of_SomeD intro: rev_image_eqI)
  qed simp
  with load_law [OF assms(1) l] show ?thesis
    by (auto simp: ledger spend_usd_micros_def word_gt_0 split: option.splits)
qed

lemma recorded:
  assumes "store_inv d" "record_spend (Some store) s n (ledger, d) = (Ok booked, (ledger', d'))" "n \<noteq> 0"
  shows "store_inv d' \<and> ledger' = ledger(s \<mapsto> booked) \<and> spent d' = (spent d)(s := unat booked) \<and>
    unat booked = unat (spend_usd_micros ledger s) + unat n \<and> unat booked < 2 ^ 63"
proof -
  let ?t = "saturating_add (spend_usd_micros ledger s) n"
  from assms(2,3) have p: "persist_spend store s ?t d = (Ok (), d')" "booked = ?t" "ledger' = ledger(s \<mapsto> ?t)"
    by (auto simp: record_spend_def Let_def split: sum.splits prod.splits)
  from persist_law [OF assms(1) p(1)] have "store_inv d'" "spent d' = (spent d)(s := unat ?t)" "unat ?t < 2 ^ 63" by auto
  moreover from this(3) have "unat ?t = unat (spend_usd_micros ledger s) + unat n"
    unfolding unat_saturating_add by simp
  ultimately show ?thesis using p by simp
qed

lemma run_booked: "budget_run store (\<lambda>d. store_inv d \<and> (\<forall>s. spent d s = 0)) policy limit ledger d paid \<Longrightarrow>
    store_inv d \<and> (\<forall>s. unat (spend_usd_micros ledger s) = paid s \<and> spent d s = paid s \<and> paid s < 2 ^ 63 \<and>
      paid s \<le> unat (max_session_usd_micros policy) - unat (estimate_attempt_usd_micros policy) + limit)"
proof (induction rule: budget_run.induct)
  case (run_attempt ledger d paid cost s estimate booked ledger' d')
  let ?e = "estimate_attempt_usd_micros policy"
  from run_attempt(4) have "\<not> saturating_add (spend_usd_micros ledger s) ?e > max_session_usd_micros policy"
    by (auto simp: evaluate_budget_def Let_def split: if_splits option.splits)
  then have "unat (saturating_add (spend_usd_micros ledger s) ?e) \<le> unat (max_session_usd_micros policy)"
    by (simp add: word_less_nat_alt)
  moreover have "unat ?e \<le> 10000"
    by (simp add: estimate_attempt_usd_micros_def DEFAULT_ATTEMPT_ESTIMATE_USD_MICROS_def min_def word_le_nat_alt)
  moreover have paid: "paid s = unat (spend_usd_micros ledger s)" "paid s < 2 ^ 63" using run_attempt.IH by auto
  ultimately have "paid s + unat ?e \<le> unat (max_session_usd_micros policy)"
    unfolding unat_saturating_add by simp
  then have "paid s + unat cost \<le> unat (max_session_usd_micros policy) - unat ?e + limit"
    using run_attempt(3) by linarith
  with run_attempt recorded [OF _ run_attempt(5,2)] show ?case by (auto simp: spend_usd_micros_def)
qed (auto simp: restored)

end

section \<open>The daemon's store keeps the contract\<close>

definition spends_inv :: "Db \<Rightarrow> bool" where
  "spends_inv d \<longleftrightarrow> distinct (map fst (sessions d)) \<and> (\<forall>(i, row) \<in> set (sessions d). s_spend_usd_micros row < 2 ^ 63)"

definition session_spent :: "Db \<Rightarrow> uuid \<Rightarrow> nat" where
  "session_spent d session_id =
     (case map_of (sessions d) session_id of None \<Rightarrow> 0 | Some row \<Rightarrow> s_spend_usd_micros row)"

lemma load_all_spent:
  assumes "spends_inv d"
  shows "distinct (map fst (load_all_session_spends d))"
    "session_spent d s = (case map_of (load_all_session_spends d) s of None \<Rightarrow> 0 | Some n \<Rightarrow> unat n)"
proof -
  let ?l = "\<lambda>rows. [(i, of_nat (s_spend_usd_micros row) :: u64). (i, row) \<leftarrow> rows, s_spend_usd_micros row > 0]"
  have keys: "fst ` set (?l rows) \<subseteq> fst ` set rows" for rows :: "(uuid \<times> SessionRow) list" by force
  have "distinct (map fst (?l rows)) \<and>
      (case map_of rows s of None \<Rightarrow> 0 | Some row \<Rightarrow> s_spend_usd_micros row) =
      (case map_of (?l rows) s of None \<Rightarrow> 0 | Some n \<Rightarrow> unat n)"
    if "distinct (map fst rows)" "\<forall>(i, row) \<in> set rows. s_spend_usd_micros row < 2 ^ 63"
    for rows :: "(uuid \<times> SessionRow) list"
    using that
  proof (induction rows)
    case (Cons r rows)
    obtain i row where r: "r = (i, row)" by force
    from Cons.prems(1) have "i \<notin> fst ` set rows" by (simp add: r)
    then have new: "i \<notin> fst ` set (?l rows)" using keys [of rows] by blast
    then have none: "map_of (?l rows) i = None" by (simp add: map_of_eq_None_iff)
    have n: "unat (of_nat (s_spend_usd_micros row) :: u64) = s_spend_usd_micros row"
      using Cons.prems(2) by (simp add: r unat_of_nat)
    from Cons have IH: "distinct (map fst (?l rows))" "(case map_of rows s of None \<Rightarrow> 0 | Some row \<Rightarrow> s_spend_usd_micros row) =
      (case map_of (?l rows) s of None \<Rightarrow> 0 | Some n \<Rightarrow> unat n)" by simp_all
    show ?case
    proof (cases "s_spend_usd_micros row > 0")
      case True
      with IH new n show ?thesis by (simp add: r del: unat_of_nat)
    next
      case False
      with IH none show ?thesis by (cases "s = i") (simp_all add: r)
    qed
  qed simp
  from this [of "sessions d"] assms show "distinct (map fst (load_all_session_spends d))"
    "session_spent d s = (case map_of (load_all_session_spends d) s of None \<Rightarrow> 0 | Some n \<Rightarrow> unat n)"
    by (simp_all add: spends_inv_def load_all_session_spends_def session_spent_def)
qed

interpretation path_spends: spend_store "PathSpendStore opens" spends_inv session_spent for opens
proof
  show "distinct (map fst l) \<and> (\<forall>s. session_spent d s = (case map_of l s of None \<Rightarrow> 0 | Some n \<Rightarrow> unat n))"
    if "spends_inv d" "load_spends (PathSpendStore opens) d = Ok l" for d l
    using load_all_spent [OF that(1)] that(2) by (auto simp: PathSpendStore_def split: if_splits)
  show "spends_inv d' \<and> session_spent d' = (session_spent d)(s := unat n) \<and> unat n < 2 ^ 63"
    if "spends_inv d" "persist_spend (PathSpendStore opens) s n d = (Ok (), d')" for d s n d'
  proof -
    from that(2) have n: "unat n < 2 ^ 63" and s: "map_of (sessions d) s \<noteq> None"
        and d': "d' = update_session s (\<lambda>row. row\<lparr>s_spend_usd_micros := unat n\<rparr>) d"
      by (auto simp: PathSpendStore_def store_session_spend_usd_micros_def split: if_splits prod.splits sum.splits)
    have "\<forall>(i, row) \<in> set (sessions d'). s_spend_usd_micros row < 2 ^ 63"
      using that(1) n by (auto simp: spends_inv_def d' update_session_def)
    moreover have "session_spent d' = (session_spent d)(s := unat n)"
      using s by (auto simp: session_spent_def d' map_of_update_session)
    ultimately show ?thesis using that(1) n by (simp add: spends_inv_def d')
  qed
  show "d' = d" if "persist_spend (PathSpendStore opens) s n d = (Err e, d')" for s n d e d'
    using that by (auto simp: PathSpendStore_def store_session_spend_usd_micros_def split: if_splits prod.splits sum.splits)
qed

definition demo_spend_db :: "nat \<Rightarrow> Db" where
  "demo_spend_db n = empty_db\<lparr>sessions := [(1, \<lparr>s_key_id = ''key'', s_state = ''running'', s_created_at = 0,
     s_terminal_at = None, s_configuration = \<lparr>ep_nonce = [], ep_ciphertext = []\<rparr>,
     s_lock = \<lparr>ep_nonce = [], ep_ciphertext = []\<rparr>, s_spend_usd_micros = n\<rparr>)]\<rparr>"

definition demo_policy :: CostPolicyConfig where
  "demo_policy = \<lparr>max_session_usd_micros = 1000000, max_attempt_usd_micros = None\<rparr>"

section \<open>Properties\<close>



end
