(* ===== verification/Config.thy ===== *)
theory Config
  imports Serde "HOL-Library.Monad_Syntax"
begin

text \<open>
  The configuration of the workbench (\<open>crates/workbench-config/src/model.rs\<close>): its types, the JSON
  form their serialisation attributes give them, entries in key order, and reading it back.
\<close>

section \<open>Types\<close>

datatype ProviderType = SubscriptionCli | Api | Acp | FakeProvider
datatype ProviderDriver = ClaudeCode | Codex
datatype DataCollection = CollectionDeny | CollectionAllow
datatype Capability =
    Streaming | ToolCalling | StructuredOutput | SessionResume | Cancellation | Vision | Mcp | AcpCapability
datatype ConfigEffectClass =
    ConfigIdempotentRead | ConfigIdempotentWrite | ConfigPaidInference | ConfigNonIdempotentWrite
  | ConfigProduction | ConfigCredential
datatype ToolKind = Builtin | McpTool
datatype ApprovalMode = Never | Policy | Always
datatype McpTransport = Stdio | Http
datatype NativeWriteMode = NativeDisabled | NativeApprovalRequired
datatype DefaultToolMode = DefaultReadOnly | DefaultApprovalRequired | DefaultDenied

record Privacy =
  pv_zero_data_retention :: bool
  pv_data_collection :: DataCollection

record Provider =
  prov_kind :: ProviderType
  prov_driver :: "ProviderDriver option"
  prov_executable :: "string option"
  prov_credential_ref :: "string option"
  prov_privacy :: "Privacy option"
  prov_base_url :: "string option"

record Model =
  mod_provider :: string
  mod_runtime_model :: string

record Role =
  role_model :: string
  role_tools :: "string list"
  role_data_sources :: "string list"
  role_required_capabilities :: "Capability list"
  role_fallback_models :: "string list"

record Operation =
  op_name :: string
  op_effect_class :: ConfigEffectClass
  op_idempotent :: bool
  op_material_cost :: bool
  op_approval :: ApprovalMode

record Tool =
  tool_kind :: ToolKind
  tool_mcp_server :: "string option"
  tool_operations :: "Operation list"

record DataSource =
  dsrc_tool :: string
  dsrc_operation :: string

record McpServer =
  mcp_transport :: McpTransport
  mcp_version :: string
  mcp_sha256 :: string
  mcp_executable :: "string option"
  mcp_args :: "string list"
  mcp_env :: "string btree"
  mcp_url :: "string option"
  mcp_headers :: "string btree"
  mcp_max_response_bytes :: "u64 option"

record WorkflowStep =
  st_id :: string
  st_role :: string
  st_on_findings :: "string option"
  st_max_iterations :: "u32 option"
  st_tools :: "string list"
  st_fallbacks :: "string list"

record Workflow =
  wf_steps :: "WorkflowStep list"

record Routing =
  rt_default_role :: string
  rt_confidence_threshold :: f64

record CostPolicy =
  cost_max_session :: u64
  cost_max_attempt :: "u64 option"

record ProviderNativeWritePolicy =
  nw_mode :: NativeWriteMode
  nw_allowlist :: "string list"

record Policies =
  pol_default_tool_mode :: DefaultToolMode
  pol_global_deny :: "string list"
  pol_cost :: "CostPolicy option"
  pol_provider_native_writes :: ProviderNativeWritePolicy

record StorageConfig =
  sto_retention_days :: "u32 option"

record ProtocolLimits =
  lim_max_frame_bytes :: u64
  lim_max_client_queue_events :: u64
  lim_max_client_queue_bytes :: u64
  lim_cancellation_deadline_ms :: u64

record WorkbenchConfiguration =
  cfg_version :: u32
  cfg_providers :: "Provider btree"
  cfg_models :: "Model btree"
  cfg_roles :: "Role btree"
  cfg_tools :: "Tool btree"
  cfg_data_sources :: "DataSource btree"
  cfg_mcp_servers :: "McpServer btree"
  cfg_workflows :: "Workflow btree"
  cfg_routing :: Routing
  cfg_policies :: Policies
  cfg_storage :: StorageConfig
  cfg_protocol :: ProtocolLimits

text \<open>\<open>production_mutations\<close>, \<open>encryption\<close> and \<open>export_format\<close> have one value each, so they are no
  fields here and constants of the JSON form below.\<close>

definition native_write_default :: ProviderNativeWritePolicy where
  "native_write_default = \<lparr>nw_mode = NativeDisabled, nw_allowlist = []\<rparr>"

definition native_write_allows :: "ProviderNativeWritePolicy \<Rightarrow> string \<Rightarrow> bool" where
  "native_write_allows p provider_id \<longleftrightarrow>
     nw_mode p = NativeApprovalRequired \<and> provider_id \<in> set (nw_allowlist p)"

definition safe_builtins :: WorkbenchConfiguration where
  "safe_builtins =
     \<lparr>cfg_version = 1,
      cfg_providers = [(''fake'', \<lparr>prov_kind = FakeProvider, prov_driver = None, prov_executable = None,
        prov_credential_ref = None, prov_privacy = None, prov_base_url = None\<rparr>)],
      cfg_models = [(''fake-default'', \<lparr>mod_provider = ''fake'', mod_runtime_model = ''deterministic-v1''\<rparr>)],
      cfg_roles = [(''workspace-coordinator'', \<lparr>role_model = ''fake-default'', role_tools = [],
        role_data_sources = [], role_required_capabilities = [], role_fallback_models = []\<rparr>)],
      cfg_tools = [], cfg_data_sources = [], cfg_mcp_servers = [], cfg_workflows = [],
      cfg_routing = \<lparr>rt_default_role = ''workspace-coordinator'', rt_confidence_threshold = Fin (85 / 100)\<rparr>,
      cfg_policies = \<lparr>pol_default_tool_mode = DefaultReadOnly, pol_global_deny = [], pol_cost = None,
        pol_provider_native_writes = native_write_default\<rparr>,
      cfg_storage = \<lparr>sto_retention_days = None\<rparr>,
      cfg_protocol = \<lparr>lim_max_frame_bytes = 8388608, lim_max_client_queue_events = 1024,
        lim_max_client_queue_bytes = 8388608, lim_cancellation_deadline_ms = 5000\<rparr>\<rparr>"

section \<open>JSON form\<close>

fun provider_type_value :: "ProviderType \<Rightarrow> json" where
  "provider_type_value SubscriptionCli = JString ''subscription-cli''"
| "provider_type_value Api = JString ''api''"
| "provider_type_value Acp = JString ''acp''"
| "provider_type_value FakeProvider = JString ''fake''"

fun provider_driver_value :: "ProviderDriver \<Rightarrow> json" where
  "provider_driver_value ClaudeCode = JString ''claude-code''"
| "provider_driver_value Codex = JString ''codex''"

fun data_collection_value :: "DataCollection \<Rightarrow> json" where
  "data_collection_value CollectionDeny = JString ''deny''"
| "data_collection_value CollectionAllow = JString ''allow''"

fun capability_value :: "Capability \<Rightarrow> json" where
  "capability_value Streaming = JString ''streaming''"
| "capability_value ToolCalling = JString ''tool-calling''"
| "capability_value StructuredOutput = JString ''structured-output''"
| "capability_value SessionResume = JString ''session-resume''"
| "capability_value Cancellation = JString ''cancellation''"
| "capability_value Vision = JString ''vision''"
| "capability_value Mcp = JString ''mcp''"
| "capability_value AcpCapability = JString ''acp''"

fun config_effect_value :: "ConfigEffectClass \<Rightarrow> json" where
  "config_effect_value ConfigIdempotentRead = JString ''idempotent-read''"
| "config_effect_value ConfigIdempotentWrite = JString ''idempotent-write''"
| "config_effect_value ConfigPaidInference = JString ''paid-inference''"
| "config_effect_value ConfigNonIdempotentWrite = JString ''non-idempotent-write''"
| "config_effect_value ConfigProduction = JString ''production''"
| "config_effect_value ConfigCredential = JString ''credential''"

fun tool_kind_value :: "ToolKind \<Rightarrow> json" where
  "tool_kind_value Builtin = JString ''builtin''"
| "tool_kind_value McpTool = JString ''mcp''"

fun approval_mode_value :: "ApprovalMode \<Rightarrow> json" where
  "approval_mode_value Never = JString ''never''"
| "approval_mode_value Policy = JString ''policy''"
| "approval_mode_value Always = JString ''always''"

fun mcp_transport_value :: "McpTransport \<Rightarrow> json" where
  "mcp_transport_value Stdio = JString ''stdio''"
| "mcp_transport_value Http = JString ''http''"

fun native_mode_value :: "NativeWriteMode \<Rightarrow> json" where
  "native_mode_value NativeDisabled = JString ''disabled''"
| "native_mode_value NativeApprovalRequired = JString ''approval-required''"

fun tool_mode_value :: "DefaultToolMode \<Rightarrow> json" where
  "tool_mode_value DefaultReadOnly = JString ''read-only''"
| "tool_mode_value DefaultApprovalRequired = JString ''approval-required''"
| "tool_mode_value DefaultDenied = JString ''denied''"

text \<open>A list or map that is skipped when it is empty.\<close>

definition skip_empty :: "string \<Rightarrow> ('a list \<Rightarrow> json) \<Rightarrow> 'a list \<Rightarrow> json btree" where
  "skip_empty k f v = (if v = [] then [] else [(k, f v)])"

definition list_value :: "('a \<Rightarrow> json) \<Rightarrow> 'a list \<Rightarrow> json" where
  "list_value f vs = JArray (map f vs)"

definition map_value :: "('a \<Rightarrow> json) \<Rightarrow> 'a btree \<Rightarrow> json" where
  "map_value f m = JObject (map (\<lambda>(k, v). (k, f v)) m)"

definition Privacy_value :: "Privacy \<Rightarrow> json" where
  "Privacy_value p = JObject [(''data_collection'', data_collection_value (pv_data_collection p)),
     (''zero_data_retention'', JBool (pv_zero_data_retention p))]"

definition Provider_value :: "Provider \<Rightarrow> json" where
  "Provider_value p =
     JObject (skip_none ''base_url'' JString (prov_base_url p) @
       skip_none ''credential_ref'' JString (prov_credential_ref p) @
       skip_none ''driver'' provider_driver_value (prov_driver p) @
       skip_none ''executable'' JString (prov_executable p) @
       skip_none ''privacy'' Privacy_value (prov_privacy p) @
       [(''type'', provider_type_value (prov_kind p))])"

definition Model_value :: "Model \<Rightarrow> json" where
  "Model_value m = JObject [(''provider'', JString (mod_provider m)), (''runtime_model'', JString (mod_runtime_model m))]"

definition Role_value :: "Role \<Rightarrow> json" where
  "Role_value r = JObject [(''data_sources'', strings_value (role_data_sources r)),
     (''fallback_models'', strings_value (role_fallback_models r)), (''model'', JString (role_model r)),
     (''required_capabilities'', list_value capability_value (role_required_capabilities r)),
     (''tools'', strings_value (role_tools r))]"

definition Operation_value :: "Operation \<Rightarrow> json" where
  "Operation_value p = JObject [(''approval'', approval_mode_value (op_approval p)),
     (''effect_class'', config_effect_value (op_effect_class p)), (''idempotent'', JBool (op_idempotent p)),
     (''material_cost'', JBool (op_material_cost p)), (''name'', JString (op_name p))]"

definition Tool_value :: "Tool \<Rightarrow> json" where
  "Tool_value t =
     JObject ([(''kind'', tool_kind_value (tool_kind t))] @ skip_none ''mcp_server'' JString (tool_mcp_server t) @
       [(''operations'', list_value Operation_value (tool_operations t))])"

definition DataSource_value :: "DataSource \<Rightarrow> json" where
  "DataSource_value d = JObject [(''operation'', JString (dsrc_operation d)), (''tool'', JString (dsrc_tool d))]"

definition McpServer_value :: "McpServer \<Rightarrow> json" where
  "McpServer_value m =
     JObject (skip_empty ''args'' strings_value (mcp_args m) @
       skip_empty ''env'' (map_value JString) (mcp_env m) @
       skip_none ''executable'' JString (mcp_executable m) @
       skip_empty ''headers'' (map_value JString) (mcp_headers m) @
       skip_none ''max_response_bytes'' uint_value (mcp_max_response_bytes m) @
       [(''sha256'', JString (mcp_sha256 m)), (''transport'', mcp_transport_value (mcp_transport m))] @
       skip_none ''url'' JString (mcp_url m) @ [(''version'', JString (mcp_version m))])"

definition WorkflowStep_value :: "WorkflowStep \<Rightarrow> json" where
  "WorkflowStep_value s =
     JObject (skip_empty ''fallbacks'' strings_value (st_fallbacks s) @ [(''id'', JString (st_id s))] @
       skip_none ''max_iterations'' uint_value (st_max_iterations s) @
       skip_none ''on_findings'' JString (st_on_findings s) @ [(''role'', JString (st_role s))] @
       skip_empty ''tools'' strings_value (st_tools s))"

definition Workflow_value :: "Workflow \<Rightarrow> json" where
  "Workflow_value w = JObject [(''steps'', list_value WorkflowStep_value (wf_steps w))]"

definition Routing_value :: "Routing \<Rightarrow> json" where
  "Routing_value r = JObject [(''confidence_threshold'', f64_value (rt_confidence_threshold r)),
     (''default_role'', JString (rt_default_role r))]"

definition CostPolicy_value :: "CostPolicy \<Rightarrow> json" where
  "CostPolicy_value c =
     JObject (skip_none ''max_attempt_usd_micros'' uint_value (cost_max_attempt c) @
       [(''max_session_usd_micros'', uint_value (cost_max_session c))])"

definition NativeWrite_value :: "ProviderNativeWritePolicy \<Rightarrow> json" where
  "NativeWrite_value p =
     JObject (skip_empty ''allowlist'' strings_value (nw_allowlist p) @ [(''mode'', native_mode_value (nw_mode p))])"

definition Policies_value :: "Policies \<Rightarrow> json" where
  "Policies_value p =
     JObject (skip_none ''cost'' CostPolicy_value (pol_cost p) @
       [(''default_tool_mode'', tool_mode_value (pol_default_tool_mode p)),
        (''global_deny'', strings_value (pol_global_deny p)),
        (''production_mutations'', JString ''approval-required'')] @
       (if pol_provider_native_writes p = native_write_default then []
        else [(''provider_native_writes'', NativeWrite_value (pol_provider_native_writes p))]))"

definition StorageConfig_value :: "StorageConfig \<Rightarrow> json" where
  "StorageConfig_value s = JObject [(''encryption'', JString ''required''), (''export_format'', JString ''age/v1''),
     (''retention_days'', option_value uint_value (sto_retention_days s))]"

definition ProtocolLimits_value :: "ProtocolLimits \<Rightarrow> json" where
  "ProtocolLimits_value p = JObject [(''cancellation_deadline_ms'', uint_value (lim_cancellation_deadline_ms p)),
     (''max_client_queue_bytes'', uint_value (lim_max_client_queue_bytes p)),
     (''max_client_queue_events'', uint_value (lim_max_client_queue_events p)),
     (''max_frame_bytes'', uint_value (lim_max_frame_bytes p))]"

definition Configuration_value :: "WorkbenchConfiguration \<Rightarrow> json" where
  "Configuration_value c = JObject
     [(''data_sources'', map_value DataSource_value (cfg_data_sources c)),
      (''mcp_servers'', map_value McpServer_value (cfg_mcp_servers c)),
      (''models'', map_value Model_value (cfg_models c)),
      (''policies'', Policies_value (cfg_policies c)),
      (''protocol'', ProtocolLimits_value (cfg_protocol c)),
      (''providers'', map_value Provider_value (cfg_providers c)),
      (''roles'', map_value Role_value (cfg_roles c)),
      (''routing'', Routing_value (cfg_routing c)),
      (''storage'', StorageConfig_value (cfg_storage c)),
      (''tools'', map_value Tool_value (cfg_tools c)),
      (''version'', uint_value (cfg_version c)),
      (''workflows'', map_value Workflow_value (cfg_workflows c))]"

section \<open>Reading it back\<close>

definition provider_type_from :: "json \<Rightarrow> ProviderType option" where
  "provider_type_from = enum_from [(''subscription-cli'', SubscriptionCli), (''api'', Api), (''acp'', Acp),
    (''fake'', FakeProvider)]"

definition provider_driver_from :: "json \<Rightarrow> ProviderDriver option" where
  "provider_driver_from = enum_from [(''claude-code'', ClaudeCode), (''codex'', Codex)]"

definition data_collection_from :: "json \<Rightarrow> DataCollection option" where
  "data_collection_from = enum_from [(''deny'', CollectionDeny), (''allow'', CollectionAllow)]"

definition capability_from :: "json \<Rightarrow> Capability option" where
  "capability_from = enum_from [(''streaming'', Streaming), (''tool-calling'', ToolCalling),
    (''structured-output'', StructuredOutput), (''session-resume'', SessionResume),
    (''cancellation'', Cancellation), (''vision'', Vision), (''mcp'', Mcp), (''acp'', AcpCapability)]"

definition config_effect_from :: "json \<Rightarrow> ConfigEffectClass option" where
  "config_effect_from = enum_from [(''idempotent-read'', ConfigIdempotentRead),
    (''idempotent-write'', ConfigIdempotentWrite), (''paid-inference'', ConfigPaidInference),
    (''non-idempotent-write'', ConfigNonIdempotentWrite), (''production'', ConfigProduction),
    (''credential'', ConfigCredential)]"

definition tool_kind_from :: "json \<Rightarrow> ToolKind option" where
  "tool_kind_from = enum_from [(''builtin'', Builtin), (''mcp'', McpTool)]"

definition approval_mode_from :: "json \<Rightarrow> ApprovalMode option" where
  "approval_mode_from = enum_from [(''never'', Never), (''policy'', Policy), (''always'', Always)]"

definition mcp_transport_from :: "json \<Rightarrow> McpTransport option" where
  "mcp_transport_from = enum_from [(''stdio'', Stdio), (''http'', Http)]"

definition native_mode_from :: "json \<Rightarrow> NativeWriteMode option" where
  "native_mode_from = enum_from [(''disabled'', NativeDisabled),
    (''approval-required'', NativeApprovalRequired)]"

definition tool_mode_from :: "json \<Rightarrow> DefaultToolMode option" where
  "tool_mode_from = enum_from [(''read-only'', DefaultReadOnly),
    (''approval-required'', DefaultApprovalRequired), (''denied'', DefaultDenied)]"

definition production_mutations_from :: "json \<Rightarrow> unit option" where
  "production_mutations_from = enum_from [(''approval-required'', ())]"

definition encryption_from :: "json \<Rightarrow> unit option" where
  "encryption_from = enum_from [(''required'', ())]"

definition export_format_from :: "json \<Rightarrow> unit option" where
  "export_format_from = enum_from [(''age/v1'', ())]"

definition Privacy_from :: "json \<Rightarrow> Privacy option" where
  "Privacy_from v = do {
     fs \<leftarrow> struct_fields [(''zero_data_retention'', Required), (''data_collection'', Required)] v;
     zero_data_retention \<leftarrow> required bool_from (fs ! 0);
     data_collection \<leftarrow> required data_collection_from (fs ! 1);
     Some \<lparr>pv_zero_data_retention = zero_data_retention, pv_data_collection = data_collection\<rparr> }"

definition Provider_from :: "json \<Rightarrow> Provider option" where
  "Provider_from v = do {
     fs \<leftarrow> struct_fields [(''type'', Required), (''driver'', Optional),
       (''executable'', Optional), (''credential_ref'', Optional), (''privacy'', Optional),
       (''base_url'', Optional)] v;
     kind \<leftarrow> required provider_type_from (fs ! 0);
     driver \<leftarrow> option_from provider_driver_from (fs ! 1);
     executable \<leftarrow> option_from string_from (fs ! 2);
     credential_ref \<leftarrow> option_from string_from (fs ! 3);
     privacy \<leftarrow> option_from Privacy_from (fs ! 4);
     base_url \<leftarrow> option_from string_from (fs ! 5);
     Some \<lparr>prov_kind = kind, prov_driver = driver, prov_executable = executable,
       prov_credential_ref = credential_ref, prov_privacy = privacy, prov_base_url = base_url\<rparr> }"

definition Model_from :: "json \<Rightarrow> Model option" where
  "Model_from v = do {
     fs \<leftarrow> struct_fields [(''provider'', Required), (''runtime_model'', Required)] v;
     provider \<leftarrow> required string_from (fs ! 0);
     runtime_model \<leftarrow> required string_from (fs ! 1);
     Some \<lparr>mod_provider = provider, mod_runtime_model = runtime_model\<rparr> }"

definition Role_from :: "json \<Rightarrow> Role option" where
  "Role_from v = do {
     fs \<leftarrow> struct_fields [(''model'', Required), (''tools'', Defaulted),
       (''data_sources'', Defaulted), (''required_capabilities'', Defaulted),
       (''fallback_models'', Defaulted)] v;
     model \<leftarrow> required string_from (fs ! 0);
     tools \<leftarrow> defaulted [] strings_from (fs ! 1);
     data_sources \<leftarrow> defaulted [] strings_from (fs ! 2);
     required_capabilities \<leftarrow> defaulted [] (list_from capability_from) (fs ! 3);
     fallback_models \<leftarrow> defaulted [] strings_from (fs ! 4);
     Some \<lparr>role_model = model, role_tools = tools, role_data_sources = data_sources,
       role_required_capabilities = required_capabilities, role_fallback_models = fallback_models\<rparr> }"

definition Operation_from :: "json \<Rightarrow> Operation option" where
  "Operation_from v = do {
     fs \<leftarrow> struct_fields [(''name'', Required), (''effect_class'', Required),
       (''idempotent'', Required), (''material_cost'', Required), (''approval'', Required)] v;
     name \<leftarrow> required string_from (fs ! 0);
     effect_class \<leftarrow> required config_effect_from (fs ! 1);
     idempotent \<leftarrow> required bool_from (fs ! 2);
     material_cost \<leftarrow> required bool_from (fs ! 3);
     approval \<leftarrow> required approval_mode_from (fs ! 4);
     Some \<lparr>op_name = name, op_effect_class = effect_class, op_idempotent = idempotent,
       op_material_cost = material_cost, op_approval = approval\<rparr> }"

definition Tool_from :: "json \<Rightarrow> Tool option" where
  "Tool_from v = do {
     fs \<leftarrow> struct_fields [(''kind'', Required), (''mcp_server'', Optional),
       (''operations'', Required)] v;
     kind \<leftarrow> required tool_kind_from (fs ! 0);
     mcp_server \<leftarrow> option_from string_from (fs ! 1);
     operations \<leftarrow> required (list_from Operation_from) (fs ! 2);
     Some \<lparr>tool_kind = kind, tool_mcp_server = mcp_server, tool_operations = operations\<rparr> }"

definition DataSource_from :: "json \<Rightarrow> DataSource option" where
  "DataSource_from v = do {
     fs \<leftarrow> struct_fields [(''tool'', Required), (''operation'', Required)] v;
     tool \<leftarrow> required string_from (fs ! 0);
     operation \<leftarrow> required string_from (fs ! 1);
     Some \<lparr>dsrc_tool = tool, dsrc_operation = operation\<rparr> }"

definition McpServer_from :: "json \<Rightarrow> McpServer option" where
  "McpServer_from v = do {
     fs \<leftarrow> struct_fields [(''transport'', Required), (''version'', Required),
       (''sha256'', Required), (''executable'', Optional), (''args'', Defaulted), (''env'', Defaulted),
       (''url'', Optional), (''headers'', Defaulted), (''max_response_bytes'', Optional)] v;
     transport \<leftarrow> required mcp_transport_from (fs ! 0);
     version \<leftarrow> required string_from (fs ! 1);
     sha256 \<leftarrow> required string_from (fs ! 2);
     executable \<leftarrow> option_from string_from (fs ! 3);
     args \<leftarrow> defaulted [] strings_from (fs ! 4);
     env \<leftarrow> defaulted [] (map_from string_from) (fs ! 5);
     url \<leftarrow> option_from string_from (fs ! 6);
     headers \<leftarrow> defaulted [] (map_from string_from) (fs ! 7);
     max_response_bytes \<leftarrow> option_from uint_from (fs ! 8);
     Some \<lparr>mcp_transport = transport, mcp_version = version, mcp_sha256 = sha256,
       mcp_executable = executable, mcp_args = args, mcp_env = env, mcp_url = url, mcp_headers = headers,
       mcp_max_response_bytes = max_response_bytes\<rparr> }"

definition WorkflowStep_from :: "json \<Rightarrow> WorkflowStep option" where
  "WorkflowStep_from v = do {
     fs \<leftarrow> struct_fields [(''id'', Required), (''role'', Required), (''on_findings'', Optional),
       (''max_iterations'', Optional), (''tools'', Defaulted), (''fallbacks'', Defaulted)] v;
     id \<leftarrow> required string_from (fs ! 0);
     role \<leftarrow> required string_from (fs ! 1);
     on_findings \<leftarrow> option_from string_from (fs ! 2);
     max_iterations \<leftarrow> option_from uint_from (fs ! 3);
     tools \<leftarrow> defaulted [] strings_from (fs ! 4);
     fallbacks \<leftarrow> defaulted [] strings_from (fs ! 5);
     Some \<lparr>st_id = id, st_role = role, st_on_findings = on_findings,
       st_max_iterations = max_iterations, st_tools = tools, st_fallbacks = fallbacks\<rparr> }"

definition Workflow_from :: "json \<Rightarrow> Workflow option" where
  "Workflow_from v = do {
     fs \<leftarrow> struct_fields [(''steps'', Required)] v;
     steps \<leftarrow> required (list_from WorkflowStep_from) (fs ! 0);
     Some \<lparr>wf_steps = steps\<rparr> }"

definition Routing_from :: "json \<Rightarrow> Routing option" where
  "Routing_from v = do {
     fs \<leftarrow> struct_fields [(''default_role'', Required), (''confidence_threshold'', Required)] v;
     default_role \<leftarrow> required string_from (fs ! 0);
     confidence_threshold \<leftarrow> required f64_from (fs ! 1);
     Some \<lparr>rt_default_role = default_role, rt_confidence_threshold = confidence_threshold\<rparr> }"

definition CostPolicy_from :: "json \<Rightarrow> CostPolicy option" where
  "CostPolicy_from v = do {
     fs \<leftarrow> struct_fields [(''max_session_usd_micros'', Required),
       (''max_attempt_usd_micros'', Defaulted)] v;
     max_session_usd_micros \<leftarrow> required uint_from (fs ! 0);
     max_attempt_usd_micros \<leftarrow> option_from uint_from (fs ! 1);
     Some \<lparr>cost_max_session = max_session_usd_micros,
       cost_max_attempt = max_attempt_usd_micros\<rparr> }"

definition NativeWrite_from :: "json \<Rightarrow> ProviderNativeWritePolicy option" where
  "NativeWrite_from v = do {
     fs \<leftarrow> struct_fields [(''mode'', Defaulted), (''allowlist'', Defaulted)] v;
     mode \<leftarrow> defaulted NativeDisabled native_mode_from (fs ! 0);
     allowlist \<leftarrow> defaulted [] strings_from (fs ! 1);
     Some \<lparr>nw_mode = mode, nw_allowlist = allowlist\<rparr> }"

definition Policies_from :: "json \<Rightarrow> Policies option" where
  "Policies_from v = do {
     fs \<leftarrow> struct_fields [(''default_tool_mode'', Required), (''global_deny'', Required),
       (''production_mutations'', Required), (''cost'', Defaulted),
       (''provider_native_writes'', Defaulted)] v;
     default_tool_mode \<leftarrow> required tool_mode_from (fs ! 0);
     global_deny \<leftarrow> required strings_from (fs ! 1);
     _ \<leftarrow> required production_mutations_from (fs ! 2);
     cost \<leftarrow> option_from CostPolicy_from (fs ! 3);
     provider_native_writes \<leftarrow> defaulted native_write_default NativeWrite_from (fs ! 4);
     Some \<lparr>pol_default_tool_mode = default_tool_mode, pol_global_deny = global_deny,
       pol_cost = cost, pol_provider_native_writes = provider_native_writes\<rparr> }"

definition StorageConfig_from :: "json \<Rightarrow> StorageConfig option" where
  "StorageConfig_from v = do {
     fs \<leftarrow> struct_fields [(''encryption'', Required), (''retention_days'', Optional),
       (''export_format'', Required)] v;
     _ \<leftarrow> required encryption_from (fs ! 0);
     retention_days \<leftarrow> option_from uint_from (fs ! 1);
     _ \<leftarrow> required export_format_from (fs ! 2);
     Some \<lparr>sto_retention_days = retention_days\<rparr> }"

definition ProtocolLimits_from :: "json \<Rightarrow> ProtocolLimits option" where
  "ProtocolLimits_from v = do {
     fs \<leftarrow> struct_fields [(''max_frame_bytes'', Required),
       (''max_client_queue_events'', Required), (''max_client_queue_bytes'', Required),
       (''cancellation_deadline_ms'', Required)] v;
     max_frame_bytes \<leftarrow> required uint_from (fs ! 0);
     max_client_queue_events \<leftarrow> required uint_from (fs ! 1);
     max_client_queue_bytes \<leftarrow> required uint_from (fs ! 2);
     cancellation_deadline_ms \<leftarrow> required uint_from (fs ! 3);
     Some \<lparr>lim_max_frame_bytes = max_frame_bytes,
       lim_max_client_queue_events = max_client_queue_events,
       lim_max_client_queue_bytes = max_client_queue_bytes,
       lim_cancellation_deadline_ms = cancellation_deadline_ms\<rparr> }"

definition Configuration_from :: "json \<Rightarrow> WorkbenchConfiguration option" where
  "Configuration_from v = do {
     fs \<leftarrow> struct_fields [(''version'', Required), (''providers'', Required),
       (''models'', Required), (''roles'', Required), (''tools'', Required), (''data_sources'', Required),
       (''mcp_servers'', Required), (''workflows'', Required), (''routing'', Required),
       (''policies'', Required), (''storage'', Required), (''protocol'', Required)] v;
     version \<leftarrow> required uint_from (fs ! 0);
     providers \<leftarrow> required (map_from Provider_from) (fs ! 1);
     models \<leftarrow> required (map_from Model_from) (fs ! 2);
     roles \<leftarrow> required (map_from Role_from) (fs ! 3);
     tools \<leftarrow> required (map_from Tool_from) (fs ! 4);
     data_sources \<leftarrow> required (map_from DataSource_from) (fs ! 5);
     mcp_servers \<leftarrow> required (map_from McpServer_from) (fs ! 6);
     workflows \<leftarrow> required (map_from Workflow_from) (fs ! 7);
     routing \<leftarrow> required Routing_from (fs ! 8);
     policies \<leftarrow> required Policies_from (fs ! 9);
     storage \<leftarrow> required StorageConfig_from (fs ! 10);
     protocol \<leftarrow> required ProtocolLimits_from (fs ! 11);
     Some \<lparr>cfg_version = version, cfg_providers = providers, cfg_models = models, cfg_roles = roles,
       cfg_tools = tools, cfg_data_sources = data_sources, cfg_mcp_servers = mcp_servers,
       cfg_workflows = workflows, cfg_routing = routing, cfg_policies = policies, cfg_storage = storage,
       cfg_protocol = protocol\<rparr> }"

section \<open>What is written reads back\<close>

lemma map_of_skip_empty [simp]:
  "k = k' \<Longrightarrow> map_of m k' = None \<Longrightarrow> map_of (skip_empty k f v @ m) k' = (if v \<noteq> [] then Some (f v) else None)"
  "k \<noteq> k' \<Longrightarrow> map_of (skip_empty k f v @ m) k' = map_of m k'"
  "map_of (skip_empty k f v) k' = (if k = k' \<and> v \<noteq> [] then Some (f v) else None)"
  by (auto simp: skip_empty_def)

lemma list_all_skip_empty [simp]: "list_all P (skip_empty k f v) \<longleftrightarrow> v = [] \<or> P (k, f v)"
  by (simp add: skip_empty_def)

lemma map_skip_empty [simp]: "map (\<lambda>(k, v). (k, g k v)) (skip_empty k f v) = skip_empty k (g k \<circ> f) v"
  by (simp add: skip_empty_def)

lemma struct_fields_default [simp]:
  "(case if b then Some j else None of None \<Rightarrow> Some None | Some j \<Rightarrow> Some (Some j)) = Some (if b then Some j else None)"
  by simp

lemma list_from_value [simp]: "(\<And>a. f (g a) = Some a) \<Longrightarrow> list_from f (list_value g vs) = Some vs"
  by (simp add: list_from_def list_value_def comp_def)

lemma map_from_value [simp]: "(\<And>a. f (g a) = Some a) \<Longrightarrow> map_from f (map_value g m) = Some m"
  by (simp add: map_from_def map_value_def comp_def case_prod_unfold)

lemmas enum_from_defs = enum_from_def variant_name_def provider_type_from_def provider_driver_from_def data_collection_from_def
  capability_from_def config_effect_from_def tool_kind_from_def approval_mode_from_def mcp_transport_from_def native_mode_from_def
  tool_mode_from_def production_mutations_from_def encryption_from_def export_format_from_def

lemma config_enums [simp]:
  "provider_type_from (provider_type_value a) = Some a" "provider_driver_from (provider_driver_value b) = Some b"
  "data_collection_from (data_collection_value c) = Some c" "capability_from (capability_value d) = Some d"
  "config_effect_from (config_effect_value e) = Some e" "tool_kind_from (tool_kind_value k) = Some k"
  "approval_mode_from (approval_mode_value m) = Some m" "mcp_transport_from (mcp_transport_value t) = Some t"
  "native_mode_from (native_mode_value n) = Some n" "tool_mode_from (tool_mode_value q) = Some q"
  "production_mutations_from (JString ''approval-required'') = Some ()" "encryption_from (JString ''required'') = Some ()"
  "export_format_from (JString ''age/v1'') = Some ()"
  subgoal by (cases a) (simp_all add: enum_from_defs)
  subgoal by (cases b) (simp_all add: enum_from_defs)
  subgoal by (cases c) (simp_all add: enum_from_defs)
  subgoal by (cases d) (simp_all add: enum_from_defs)
  subgoal by (cases e) (simp_all add: enum_from_defs)
  subgoal by (cases k) (simp_all add: enum_from_defs)
  subgoal by (cases m) (simp_all add: enum_from_defs)
  subgoal by (cases t) (simp_all add: enum_from_defs)
  subgoal by (cases n) (simp_all add: enum_from_defs)
  subgoal by (cases q) (simp_all add: enum_from_defs)
  subgoal by (simp add: enum_from_defs)
  subgoal by (simp add: enum_from_defs)
  subgoal by (simp add: enum_from_defs)
  done

lemma config_enums_not_null [simp]: "provider_driver_value b \<noteq> JNull"
  by (cases b) simp_all

lemma config_uint [simp]: "uint_from (uint_value n) = Some n" "uint_value n \<noteq> JNull" "uint_from (uint_value m) = Some m" "uint_value m \<noteq> JNull"
  for n :: u32 and m :: u64
  by (simp_all add: uint_roundtrip) (simp_all add: uint_value_def)

lemmas struct_del = map_of_append case_map_option

lemma Privacy_roundtrip [simp]: "Privacy_from (Privacy_value p) = Some p" "Privacy_value p \<noteq> JNull"
  by (simp_all add: Privacy_from_def Privacy_value_def struct_fields_def del: struct_del)

lemma Provider_roundtrip [simp]: "Provider_from (Provider_value p) = Some p"
  by (simp add: Provider_from_def Provider_value_def struct_fields_def del: struct_del)

lemma Model_roundtrip [simp]: "Model_from (Model_value m) = Some m"
  by (simp add: Model_from_def Model_value_def struct_fields_def del: struct_del)

lemma Role_roundtrip [simp]: "Role_from (Role_value r) = Some r"
  by (simp add: Role_from_def Role_value_def struct_fields_def defaulted_def del: struct_del)

lemma Operation_roundtrip [simp]: "Operation_from (Operation_value p) = Some p"
  by (simp add: Operation_from_def Operation_value_def struct_fields_def del: struct_del)

lemma Tool_roundtrip [simp]: "Tool_from (Tool_value t) = Some t"
  by (simp add: Tool_from_def Tool_value_def struct_fields_def del: struct_del)

lemma DataSource_roundtrip [simp]: "DataSource_from (DataSource_value d) = Some d"
  by (simp add: DataSource_from_def DataSource_value_def struct_fields_def del: struct_del)

lemma McpServer_roundtrip [simp]: "McpServer_from (McpServer_value m) = Some m"
  by (simp add: McpServer_from_def McpServer_value_def struct_fields_def del: struct_del)

lemma WorkflowStep_roundtrip [simp]: "WorkflowStep_from (WorkflowStep_value s) = Some s"
  by (simp add: WorkflowStep_from_def WorkflowStep_value_def struct_fields_def del: struct_del)

lemma Workflow_roundtrip [simp]: "Workflow_from (Workflow_value w) = Some w"
  by (simp add: Workflow_from_def Workflow_value_def struct_fields_def del: struct_del)

lemma Routing_roundtrip [simp]:
  "Routing_from (Routing_value r) = (case rt_confidence_threshold r of Fin _ \<Rightarrow> Some r | _ \<Rightarrow> None)"
  by (simp add: Routing_from_def Routing_value_def struct_fields_def f64_value_def del: struct_del split: f64.split)

lemma CostPolicy_roundtrip [simp]: "CostPolicy_from (CostPolicy_value p) = Some p" "CostPolicy_value p \<noteq> JNull"
  by (simp_all add: CostPolicy_from_def CostPolicy_value_def struct_fields_def del: struct_del)

lemma NativeWrite_roundtrip [simp]: "NativeWrite_from (NativeWrite_value p) = Some p"
  by (simp add: NativeWrite_from_def NativeWrite_value_def struct_fields_def del: struct_del)

lemma Policies_roundtrip [simp]: "Policies_from (Policies_value p) = Some p"
  by (simp add: Policies_from_def Policies_value_def struct_fields_def defaulted_def del: struct_del)

lemma StorageConfig_roundtrip [simp]: "StorageConfig_from (StorageConfig_value p) = Some p"
  by (cases "sto_retention_days p")
    (simp_all add: StorageConfig_from_def StorageConfig_value_def struct_fields_def option_value_def option_from_def del: struct_del)

lemma ProtocolLimits_roundtrip [simp]: "ProtocolLimits_from (ProtocolLimits_value p) = Some p"
  by (simp add: ProtocolLimits_from_def ProtocolLimits_value_def struct_fields_def del: struct_del)

definition threshold_finite :: "WorkbenchConfiguration \<Rightarrow> bool" where
  "threshold_finite c = (case rt_confidence_threshold (cfg_routing c) of Fin _ \<Rightarrow> True | _ \<Rightarrow> False)"

lemma Configuration_roundtrip:
  "Configuration_from (Configuration_value c) = (if threshold_finite c then Some c else None)"
  by (simp add: Configuration_from_def Configuration_value_def struct_fields_def threshold_finite_def del: struct_del split: f64.split)

end
