(* ===== verification/Config_Validate.thy ===== *)
theory Config_Validate
  imports Config
begin

text \<open>
  The checks of a resolved configuration (\<open>crates/workbench-config/src/validate.rs\<close>), section by section
  in the order of the code, and the choice of a model for a role
  (\<open>crates/workbench-config/src/preflight.rs\<close>).
\<close>

section \<open>Errors and scalars\<close>

datatype ConfigError =
    Syntax | Invalid string string | UnsafeSource string | ConfigIo string | LockError string
  | CapabilityUnavailable string

definition invalid :: "string \<Rightarrow> string \<Rightarrow> ConfigError + 'a" where
  "invalid path msg = Err (Invalid path msg)"

definition config_validate_identifier :: "string \<Rightarrow> string \<Rightarrow> ConfigError + unit" where
  "config_validate_identifier v path =
     (let first_valid = (case v of [] \<Rightarrow> False | c # _ \<Rightarrow> is_ascii_lowercase c);
          rest_valid = list_all (\<lambda>c. is_ascii_lowercase c \<or> is_ascii_digit c \<or> c = CHR ''-'') (tl v) in
      if first_valid \<and> rest_valid \<and> length v \<le> 63 then Ok ()
      else invalid path ''must match ^[a-z][a-z0-9-]{0,62}$'')"

definition validate_digest :: "string \<Rightarrow> string \<Rightarrow> ConfigError + unit" where
  "validate_digest v path =
     (if length v = 64 \<and> list_all is_lower_hex v then Ok ()
      else invalid path ''must be a lowercase 64-character hexadecimal digest'')"

definition validate_secret_handle :: "string \<Rightarrow> string \<Rightarrow> ConfigError + unit" where
  "validate_secret_handle reference path =
     (let accepted_prefix =
            list_ex (\<lambda>prefix. starts_with reference prefix) [''platform:'', ''keychain:'', ''secret-service:''];
          suffix = (case split_once_char CHR '':'' reference of None \<Rightarrow> [] | Some (_, v) \<Rightarrow> v) in
      if accepted_prefix \<and> suffix \<noteq> [] \<and>
         list_all (\<lambda>c. is_ascii_lowercase c \<or> is_ascii_uppercase c \<or> is_ascii_digit c \<or> c \<in> set ''._/-'') suffix
      then Ok () else invalid path ''must be an opaque platform credential reference'')"

definition validate_credential_reference :: "string \<Rightarrow> string \<Rightarrow> ConfigError + unit" where
  "validate_credential_reference reference provider =
     validate_secret_handle reference (''providers.'' @ provider @ ''.credential_ref'')"

definition validate_api_base_url :: "string \<Rightarrow> string \<Rightarrow> ConfigError + unit" where
  "validate_api_base_url base_url provider =
     (if base_url = [] \<or> length base_url > 2048
      then invalid (''providers.'' @ provider @ ''.base_url'') ''must contain 1 to 2048 bytes''
      else if starts_with base_url ''https://'' \<or> starts_with base_url ''http://127.0.0.1'' \<or>
         starts_with base_url ''http://localhost'' \<or> starts_with base_url ''http://[::1]'' \<or>
         base_url = ''fake://openrouter''
      then Ok ()
      else invalid (''providers.'' @ provider @ ''.base_url'') ''must be https, loopback http, or fake://openrouter'')"

definition validate_unique :: "string list \<Rightarrow> string \<Rightarrow> ConfigError + unit" where
  "validate_unique vs path = (if distinct vs then Ok () else invalid path ''values must be unique'')"

definition check :: "bool \<Rightarrow> string \<Rightarrow> string \<Rightarrow> ConfigError + unit" where
  "check ok path msg = (if ok then Ok () else invalid path msg)"

definition all_ok :: "(ConfigError + unit) list \<Rightarrow> ConfigError + unit" where
  "all_ok = try_for_each id"

section \<open>Sections of a configuration\<close>

definition validate_limits :: "WorkbenchConfiguration \<Rightarrow> ConfigError + unit" where
  "validate_limits c = all_ok
     [check (cfg_version c = 1) ''version'' ''only schema version 1 is supported'',
      check (cfg_providers c \<noteq> [] \<and> cfg_models c \<noteq> [] \<and> cfg_roles c \<noteq> []) ''configuration''
        ''providers, models, and roles must not be empty'',
      check (unit_interval_contains (rt_confidence_threshold (cfg_routing c))) ''routing.confidence_threshold''
        ''must be between 0 and 1'',
      check (sto_retention_days (cfg_storage c) \<noteq> Some 0) ''storage.retention_days''
        ''must be at least 1 when configured'',
      check (lim_max_frame_bytes (cfg_protocol c) = 8388608 \<and>
             lim_max_client_queue_events (cfg_protocol c) = 1024 \<and>
             lim_max_client_queue_bytes (cfg_protocol c) = 8388608 \<and>
             lim_cancellation_deadline_ms (cfg_protocol c) = 5000)
        ''protocol'' ''feature 001 protocol limits are fixed'']"

definition is_none_or_empty :: "string option \<Rightarrow> bool" where
  "is_none_or_empty v \<longleftrightarrow> v = None \<or> v = Some []"

definition validate_provider :: "string \<times> Provider \<Rightarrow> ConfigError + unit" where
  "validate_provider = (\<lambda>(name, p). let path = ''providers.'' @ name in all_ok
     [config_validate_identifier name path,
      if prov_kind p = Api
      then all_ok [check (prov_credential_ref p \<noteq> None \<and> prov_privacy p \<noteq> None) path
                     ''API providers require credential_ref and privacy'',
                   case prov_base_url p of None \<Rightarrow> Ok () | Some base_url \<Rightarrow> validate_api_base_url base_url name]
      else Ok (),
      check (\<not> (prov_kind p = Acp \<and> is_none_or_empty (prov_executable p))) (path @ ''.executable'')
        ''ACP providers require an explicit executable'',
      if prov_kind p = SubscriptionCli
      then all_ok [check (prov_driver p \<noteq> None) (path @ ''.driver'')
                     ''subscription CLI providers require a supported driver'',
                   check (\<not> is_none_or_empty (prov_executable p)) (path @ ''.executable'')
                     ''subscription CLI providers require an explicit executable'']
      else check (prov_driver p = None) (path @ ''.driver'')
             ''driver is only valid for subscription CLI providers'',
      check (prov_kind p = Api \<or> prov_base_url p = None) (path @ ''.base_url'')
        ''base_url is only valid for API providers'',
      case prov_credential_ref p of None \<Rightarrow> Ok ()
      | Some reference \<Rightarrow> validate_credential_reference reference name])"

definition validate_cost :: "WorkbenchConfiguration \<Rightarrow> ConfigError + unit" where
  "validate_cost c =
     (if list_ex (\<lambda>(_, p). prov_kind p = Api) (cfg_providers c)
      then case pol_cost (cfg_policies c) of
             None \<Rightarrow> invalid ''policies.cost''
               ''API providers require policies.cost with a positive session budget''
           | Some cost \<Rightarrow> all_ok
               [check (cost_max_session cost \<noteq> 0) ''policies.cost.max_session_usd_micros'' ''must be greater than zero'',
                check (cost_max_attempt cost \<noteq> Some 0) ''policies.cost.max_attempt_usd_micros''
                  ''must be greater than zero when set'']
      else Ok ())"

definition validate_model :: "WorkbenchConfiguration \<Rightarrow> string \<times> Model \<Rightarrow> ConfigError + unit" where
  "validate_model c = (\<lambda>(name, m). let path = ''models.'' @ name in all_ok
     [config_validate_identifier name path,
      check (contains_key (cfg_providers c) (mod_provider m)) (path @ ''.provider'') ''references an unknown provider'',
      check (mod_runtime_model m \<noteq> [] \<and> length (mod_runtime_model m) \<le> 255) (path @ ''.runtime_model'')
        ''must contain 1 to 255 bytes''])"

definition validate_server :: "string \<times> McpServer \<Rightarrow> ConfigError + unit" where
  "validate_server = (\<lambda>(name, m). let path = ''mcp_servers.'' @ name in all_ok
     [config_validate_identifier name path,
      validate_digest (mcp_sha256 m) (path @ ''.sha256''),
      check (mcp_version m \<noteq> []) (path @ ''.version'') ''must not be empty'',
      case mcp_transport m of
        Stdio \<Rightarrow> all_ok
          [check (\<not> is_none_or_empty (mcp_executable m)) (path @ ''.executable'')
             ''stdio MCP servers require an absolute executable path'',
           check (mcp_url m = None) (path @ ''.url'') ''stdio MCP servers cannot declare a URL'',
           check (mcp_headers m = []) (path @ ''.headers'') ''stdio MCP servers cannot declare HTTP headers'',
           try_for_each (\<lambda>(key, handle). validate_secret_handle handle (path @ ''.env.'' @ key)) (mcp_env m)]
      | Http \<Rightarrow> all_ok
          [check (\<not> is_none_or_empty (mcp_url m)) (path @ ''.url'') ''HTTP MCP servers require an absolute URL'',
           check (mcp_executable m = None \<and> mcp_args m = [] \<and> mcp_env m = []) path
             ''HTTP MCP servers cannot declare stdio launch fields'',
           check (case mcp_max_response_bytes m of None \<Rightarrow> True | Some limit \<Rightarrow> 1 \<le> limit \<and> limit \<le> 8388608)
             (path @ ''.max_response_bytes'') ''must be between 1 and 8388608'',
           try_for_each (\<lambda>(key, handle). validate_secret_handle handle (path @ ''.headers.'' @ key)) (mcp_headers m)]])"

definition not_idempotent :: "ConfigEffectClass \<Rightarrow> bool" where
  "not_idempotent e \<longleftrightarrow>
     e \<in> {ConfigPaidInference, ConfigNonIdempotentWrite, ConfigProduction, ConfigCredential}"

fun validate_operations :: "string \<Rightarrow> string list \<Rightarrow> Operation list \<Rightarrow> ConfigError + unit" where
  "validate_operations path seen [] = Ok ()"
| "validate_operations path seen (p # ps) =
     and_then (all_ok
       [config_validate_identifier (op_name p) (path @ ''.operations.'' @ op_name p),
        check (op_name p \<notin> set seen) (path @ ''.operations'') ''operation names must be unique'',
        check (\<not> (op_idempotent p \<and> not_idempotent (op_effect_class p)))
          (path @ ''.operations.'' @ op_name p @ ''.idempotent'') ''effect class cannot be declared idempotent''])
     (\<lambda>_. validate_operations path (op_name p # seen) ps)"

definition validate_tool :: "WorkbenchConfiguration \<Rightarrow> string \<times> Tool \<Rightarrow> ConfigError + unit" where
  "validate_tool c = (\<lambda>(name, t). let path = ''tools.'' @ name in all_ok
     [config_validate_identifier name path,
      check (tool_operations t \<noteq> []) (path @ ''.operations'') ''must not be empty'',
      case tool_kind t of
        McpTool \<Rightarrow>
          (case tool_mcp_server t of
             None \<Rightarrow> invalid path ''MCP tool requires mcp_server''
           | Some server \<Rightarrow> check (contains_key (cfg_mcp_servers c) server) (path @ ''.mcp_server'')
               ''references an unknown MCP server'')
      | Builtin \<Rightarrow> check (tool_mcp_server t = None) (path @ ''.mcp_server'')
          ''built-in tool cannot reference an MCP server'',
      validate_operations path [] (tool_operations t)])"

definition validate_data_source :: "WorkbenchConfiguration \<Rightarrow> string \<times> DataSource \<Rightarrow> ConfigError + unit" where
  "validate_data_source c = (\<lambda>(name, s). let path = ''data_sources.'' @ name in
     and_then (config_validate_identifier name path) (\<lambda>_.
       case map_of (cfg_tools c) (dsrc_tool s) of
         None \<Rightarrow> invalid (path @ ''.tool'') ''references an unknown tool''
       | Some tool \<Rightarrow>
           (case find (\<lambda>p. op_name p = dsrc_operation s) (tool_operations tool) of
              None \<Rightarrow> invalid (path @ ''.operation'') ''references an unknown operation''
            | Some p \<Rightarrow> check (op_effect_class p = ConfigIdempotentRead \<and> op_idempotent p) path
                ''data source must resolve to an explicitly idempotent read'')))"

definition validate_role :: "WorkbenchConfiguration \<Rightarrow> string \<times> Role \<Rightarrow> ConfigError + unit" where
  "validate_role c = (\<lambda>(name, r). let path = ''roles.'' @ name in all_ok
     [config_validate_identifier name path,
      check (contains_key (cfg_models c) (role_model r)) (path @ ''.model'') ''references an unknown model'',
      validate_unique (role_tools r) (path @ ''.tools''),
      validate_unique (role_data_sources r) (path @ ''.data_sources''),
      validate_unique (role_fallback_models r) (path @ ''.fallback_models''),
      check (distinct (role_required_capabilities r)) (path @ ''.required_capabilities'') ''values must be unique'',
      try_for_each (\<lambda>t. check (contains_key (cfg_tools c) t) (path @ ''.tools'') ''references an unknown tool'')
        (role_tools r),
      try_for_each (\<lambda>s. check (contains_key (cfg_data_sources c) s) (path @ ''.data_sources'')
        ''references an unknown data source'') (role_data_sources r),
      try_for_each (\<lambda>m. check (contains_key (cfg_models c) m) (path @ ''.fallback_models'')
        ''references an unknown model'') (role_fallback_models r)])"

definition validate_step ::
  "WorkbenchConfiguration \<Rightarrow> string \<Rightarrow> string list \<Rightarrow> WorkflowStep \<Rightarrow> ConfigError + unit" where
  "validate_step c name ids s =
     (let path = ''workflows.'' @ name @ ''.steps.'' @ st_id s in all_ok
     [config_validate_identifier (st_id s) (''workflows.'' @ name @ ''.steps''),
      check (contains_key (cfg_roles c) (st_role s)) (path @ ''.role'') ''references an unknown role'',
      check (case st_on_findings s of None \<Rightarrow> True | Some target \<Rightarrow> target \<in> set ids) (path @ ''.on_findings'')
        ''references an unknown workflow step'',
      check (case st_max_iterations s of None \<Rightarrow> True | Some n \<Rightarrow> \<not> (n = 0 \<or> n > 8)) (path @ ''.max_iterations'')
        ''must be between 1 and 8'',
      validate_unique (st_tools s) (path @ ''.tools''),
      try_for_each (\<lambda>t. check (contains_key (cfg_tools c) t) (path @ ''.tools'') ''references an unknown tool'')
        (st_tools s),
      validate_unique (st_fallbacks s) (path @ ''.fallbacks''),
      try_for_each (\<lambda>m. check (contains_key (cfg_models c) m) (path @ ''.fallbacks'')
        ''references an unknown model alias'') (st_fallbacks s)])"

definition validate_workflow :: "WorkbenchConfiguration \<Rightarrow> string \<times> Workflow \<Rightarrow> ConfigError + unit" where
  "validate_workflow c = (\<lambda>(name, w). let path = ''workflows.'' @ name; ids = map st_id (wf_steps w) in all_ok
     [config_validate_identifier name path,
      check (wf_steps w \<noteq> []) (path @ ''.steps'') ''must not be empty'',
      check (distinct ids) (path @ ''.steps'') ''step identifiers must be unique'',
      try_for_each (validate_step c name ids) (wf_steps w)])"

definition validate :: "WorkbenchConfiguration \<Rightarrow> ConfigError + unit" where
  "validate c = all_ok
     [validate_limits c,
      try_for_each validate_provider (cfg_providers c),
      validate_cost c,
      try_for_each (validate_model c) (cfg_models c),
      try_for_each validate_server (cfg_mcp_servers c),
      try_for_each (validate_tool c) (cfg_tools c),
      try_for_each (validate_data_source c) (cfg_data_sources c),
      try_for_each (validate_role c) (cfg_roles c),
      check (contains_key (cfg_roles c) (rt_default_role (cfg_routing c))) ''routing.default_role''
        ''references an unknown role'',
      try_for_each (\<lambda>t. check (contains_key (cfg_tools c) t) ''policies.global_deny'' ''references an unknown tool'')
        (pol_global_deny (cfg_policies c)),
      try_for_each (validate_workflow c) (cfg_workflows c)]"

section \<open>The model of a role\<close>

datatype Authentication = Available | Unavailable | Expired | InteractiveRequired

record ProviderCapabilities =
  pc_adapter_id :: string
  pc_adapter_version :: string
  pc_protocol :: string
  pc_authentication :: Authentication
  pc_capabilities :: "Capability list"
  pc_context_window_tokens :: "u64 option"
  pc_operations :: "Operation list"

record ResolvedModel =
  rm_role :: string
  rm_model_alias :: string
  rm_provider :: string
  rm_runtime_model :: string
  rm_used_fallback :: bool

fun capability_operations :: "string list \<Rightarrow> Operation list \<Rightarrow> ConfigError + unit" where
  "capability_operations seen [] = Ok ()"
| "capability_operations seen (p # ps) =
     and_then (all_ok
       [check (op_name p \<noteq> [] \<and> op_name p \<notin> set seen) ''provider_capabilities.operations''
          ''operation names must be non-empty and unique'',
        check (\<not> (op_idempotent p \<and> not_idempotent (op_effect_class p)))
          (''provider_capabilities.operations.'' @ op_name p) ''effect class cannot be declared idempotent''])
     (\<lambda>_. capability_operations (op_name p # seen) ps)"

definition capabilities_validate :: "ProviderCapabilities \<Rightarrow> ConfigError + unit" where
  "capabilities_validate p = all_ok
     [check (\<not> (pc_adapter_id p = [] \<or> pc_adapter_version p = [] \<or> pc_protocol p = [] \<or> pc_operations p = []))
        ''provider_capabilities'' ''adapter fields and operations must not be empty'',
      check (distinct (pc_capabilities p)) ''provider_capabilities.capabilities'' ''capabilities must be unique'',
      capability_operations [] (pc_operations p)]"

text \<open>The loop over the aliases of a role; \<open>None\<close> is the panic of indexing \<open>config.models\<close> with an
  unknown alias.\<close>

fun resolve_aliases ::
  "WorkbenchConfiguration \<Rightarrow> ProviderCapabilities btree \<Rightarrow> string \<Rightarrow> Role \<Rightarrow> bool \<Rightarrow> string list
     \<Rightarrow> (ConfigError + ResolvedModel) option" where
  "resolve_aliases c available role_name role fallback [] = Some (Err (CapabilityUnavailable role_name))"
| "resolve_aliases c available role_name role fallback (alias # aliases) =
     (case map_of (cfg_models c) alias of
        None \<Rightarrow> None
      | Some model \<Rightarrow>
          (case map_of available (mod_provider model) of
             None \<Rightarrow> resolve_aliases c available role_name role True aliases
           | Some capabilities \<Rightarrow>
               (case capabilities_validate capabilities of
                  Err e \<Rightarrow> Some (Err e)
                | Ok _ \<Rightarrow>
                    if pc_authentication capabilities = Available \<and>
                       list_all (\<lambda>k. k \<in> set (pc_capabilities capabilities)) (role_required_capabilities role)
                    then Some (Ok \<lparr>rm_role = role_name, rm_model_alias = alias, rm_provider = mod_provider model,
                           rm_runtime_model = mod_runtime_model model, rm_used_fallback = fallback\<rparr>)
                    else resolve_aliases c available role_name role True aliases)))"

definition resolve_role ::
  "WorkbenchConfiguration \<Rightarrow> string \<Rightarrow> ProviderCapabilities btree \<Rightarrow> (ConfigError + ResolvedModel) option" where
  "resolve_role c role_name available =
     (case config_validate_identifier role_name ''role'' of
        Err e \<Rightarrow> Some (Err e)
      | Ok _ \<Rightarrow>
          (case map_of (cfg_roles c) role_name of
             None \<Rightarrow> Some (invalid ''role'' ''unknown role'')
           | Some role \<Rightarrow>
               resolve_aliases c available role_name role False (role_model role # role_fallback_models role)))"

end
