(* ===== verification/Config_Merge.thy ===== *)
theory Config_Merge
  imports Config_Validate
begin

text \<open>
  Merging configuration layers (\<open>crates/workbench-config/src/merge.rs\<close>): a later layer replaces what an
  earlier one sets, except that the deny list of tools grows and the default mode only tightens.
\<close>

section \<open>Merging\<close>

definition TOP_LEVEL_KEYS :: "string list" where
  "TOP_LEVEL_KEYS = [''version'', ''providers'', ''models'', ''roles'', ''tools'', ''data_sources'', ''mcp_servers'',
     ''workflows'', ''routing'', ''policies'', ''storage'', ''protocol'']"

definition policy_rank :: "string \<Rightarrow> nat" where
  "policy_rank m = (if m = ''read-only'' then 0 else if m = ''approval-required'' then 1 else if m = ''denied'' then 2 else 255)"

definition child_path :: "string \<Rightarrow> string \<Rightarrow> string" where
  "child_path path key = (if path = [] then key else path @ ''.'' @ key)"

definition push_new :: "json list \<Rightarrow> json list \<Rightarrow> json list" where
  "push_new overlay base = fold (\<lambda>v acc. if v \<in> set acc then acc else acc @ [v]) overlay base"

fun merge_value :: "string \<Rightarrow> json \<Rightarrow> json \<Rightarrow> json"
  and merge_entries :: "string \<Rightarrow> json btree \<Rightarrow> json btree \<Rightarrow> json btree" where
  "merge_value path (JObject base) (JObject overlay) = JObject (merge_entries path base overlay)"
| "merge_value path (JArray base) (JArray overlay) =
     JArray (if path = ''policies.global_deny'' then push_new overlay base else overlay)"
| "merge_value path (JString base) (JString overlay) =
     JString (if path = ''policies.default_tool_mode'' \<and> policy_rank overlay \<le> policy_rank base then base else overlay)"
| "merge_value path base overlay = overlay"
| "merge_entries path base [] = base"
| "merge_entries path base ((key, v) # overlay) =
     merge_entries path
       (btree_insert key
          (case map_of base key of Some existing \<Rightarrow> merge_value (child_path path key) existing v | None \<Rightarrow> v) base)
       overlay"

section \<open>Layers\<close>

fun decimal :: "nat \<Rightarrow> string" where
  "decimal n = (if n < 10 then [char_of (48 + n)] else decimal (n div 10) @ [char_of (48 + n mod 10)])"

declare decimal.simps [simp del]

definition ends_with :: "string \<Rightarrow> string \<Rightarrow> bool" where
  "ends_with s p = starts_with (rev s) (rev p)"

fun reject_nulls :: "string \<Rightarrow> json \<Rightarrow> ConfigError + unit"
  and reject_entries :: "string \<Rightarrow> json btree \<Rightarrow> ConfigError + unit"
  and reject_items :: "string \<Rightarrow> nat \<Rightarrow> json list \<Rightarrow> ConfigError + unit" where
  "reject_nulls path JNull =
     (if ends_with path ''.storage.retention_days'' then Ok () else invalid path ''explicit null is not allowed here'')"
| "reject_nulls path (JObject kvs) = reject_entries path kvs"
| "reject_nulls path (JArray vs) = reject_items path 0 vs"
| "reject_nulls path v = Ok ()"
| "reject_entries path [] = Ok ()"
| "reject_entries path ((key, v) # kvs) =
     and_then (reject_nulls (path @ ''.'' @ key) v) (\<lambda>_. reject_entries path kvs)"
| "reject_items path index [] = Ok ()"
| "reject_items path index (v # vs) =
     and_then (reject_nulls (path @ ''.'' @ decimal index) v) (\<lambda>_. reject_items path (Suc index) vs)"

definition validate_layer_value :: "string \<Rightarrow> json \<Rightarrow> ConfigError + unit" where
  "validate_layer_value name v =
     (case v of
        JObject kvs \<Rightarrow> all_ok
          [try_for_each (\<lambda>(key, _). check (key \<in> set TOP_LEVEL_KEYS) (name @ ''.'' @ key) ''unknown top-level field'') kvs,
           reject_nulls name v,
           check (case map_of kvs ''version'' of None \<Rightarrow> True | Some version \<Rightarrow> version = JNumber (PosInt 1))
             (name @ ''.version'') ''only schema version 1 is supported'']
      | _ \<Rightarrow> invalid name ''configuration layer must be a mapping'')"

record ConfigLayer =
  layer_name :: string
  layer_value :: json

text \<open>\<open>from_str\<close> is the YAML parser.\<close>

definition layer_from_yaml :: "(string \<Rightarrow> json option) \<Rightarrow> string \<Rightarrow> string \<Rightarrow> ConfigError + ConfigLayer" where
  "layer_from_yaml from_str name yaml =
     (case from_str yaml of
        None \<Rightarrow> Err Syntax
      | Some v \<Rightarrow> and_then (validate_layer_value name v) (\<lambda>_. Ok \<lparr>layer_name = name, layer_value = v\<rparr>))"

definition layer_from_configuration :: "string \<Rightarrow> WorkbenchConfiguration \<Rightarrow> ConfigLayer" where
  "layer_from_configuration name c = \<lparr>layer_name = name, layer_value = Configuration_value c\<rparr>"

record ResolvedConfiguration =
  rc_configuration :: WorkbenchConfiguration
  rc_sources :: "string list"

definition merge_layers :: "ConfigLayer list \<Rightarrow> json" where
  "merge_layers layers = fold (\<lambda>l merged. merge_value [] merged (layer_value l)) layers (JObject [])"

definition resolve :: "ConfigLayer list \<Rightarrow> ConfigError + ResolvedConfiguration" where
  "resolve layers =
     (if layers = [] then invalid ''layers'' ''at least the built-in layer is required''
      else case Configuration_from (merge_layers layers) of
        None \<Rightarrow> Err Syntax
      | Some c \<Rightarrow> and_then (validate c) (\<lambda>_.
          Ok \<lparr>rc_configuration = c, rc_sources = map layer_name layers\<rparr>))"

definition resolve_with_builtins :: "ConfigLayer list \<Rightarrow> ConfigError + ResolvedConfiguration" where
  "resolve_with_builtins higher_precedence =
     resolve (layer_from_configuration ''builtins'' safe_builtins # higher_precedence)"

section \<open>The order of default modes\<close>

fun mode_name :: "DefaultToolMode \<Rightarrow> string" where
  "mode_name DefaultReadOnly = ''read-only''"
| "mode_name DefaultApprovalRequired = ''approval-required''"
| "mode_name DefaultDenied = ''denied''"

instantiation DefaultToolMode :: linorder
begin

definition less_eq_DefaultToolMode :: "DefaultToolMode \<Rightarrow> DefaultToolMode \<Rightarrow> bool" where
  "less_eq_DefaultToolMode a b \<longleftrightarrow> policy_rank (mode_name a) \<le> policy_rank (mode_name b)"

definition less_DefaultToolMode :: "DefaultToolMode \<Rightarrow> DefaultToolMode \<Rightarrow> bool" where
  "less_DefaultToolMode a b \<longleftrightarrow> policy_rank (mode_name a) < policy_rank (mode_name b)"

instance
proof
  fix a b :: DefaultToolMode
  show "a \<le> b \<Longrightarrow> b \<le> a \<Longrightarrow> a = b"
    by (cases a; cases b) (simp_all add: less_eq_DefaultToolMode_def policy_rank_def)
qed (auto simp: less_eq_DefaultToolMode_def less_DefaultToolMode_def)

end

section \<open>Merged objects\<close>

lemma merge_entries_wf: "btree_wf base \<Longrightarrow> btree_wf (merge_entries path base overlay)"
  by (induction overlay arbitrary: base) auto

text \<open>An entry of the overlay replaces or is merged into the one of the base.\<close>

definition merged_entry :: "string \<Rightarrow> string \<Rightarrow> json option \<Rightarrow> json option \<Rightarrow> json option" where
  "merged_entry path key base overlay =
     (case overlay of
        None \<Rightarrow> base
      | Some v \<Rightarrow> Some (case base of Some existing \<Rightarrow> merge_value (child_path path key) existing v | None \<Rightarrow> v))"

lemma map_of_merge_entries:
  "btree_wf base \<Longrightarrow> distinct (map fst overlay) \<Longrightarrow>
     map_of (merge_entries path base overlay) k = merged_entry path k (map_of base k) (map_of overlay k)"
proof (induction overlay arbitrary: base)
  case Nil
  then show ?case by (simp add: merged_entry_def)
next
  case (Cons e overlay)
  obtain key v where e: "e = (key, v)" by fastforce
  from Cons.prems have "map_of overlay key = None" by (auto simp: e map_of_eq_None_iff)
  with Cons show ?case by (auto simp: e merged_entry_def map_of_btree_insert split: option.split)
qed

lemma merge_entries_append: "btree_wf (base @ overlay) \<Longrightarrow> merge_entries path base overlay = base @ overlay"
proof (induction overlay arbitrary: base)
  case (Cons e overlay)
  obtain key v where e: "e = (key, v)" by fastforce
  from Cons.prems have less: "\<forall>k \<in> fst ` set base. k < key" by (auto simp: e btree_wf_def sorted_wrt_append)
  then have "map_of base key = None" by (auto simp: map_of_eq_None_iff)
  with less Cons.IH [of "base @ [(key, v)]"] Cons.prems show ?case by (simp add: e btree_insert_greater)
qed simp

lemma Configuration_value_wf: "\<exists>kvs. Configuration_value c = JObject kvs \<and> btree_wf kvs"
  by (simp add: Configuration_value_def less_char_def)

lemma merge_first: "merge_value path (JObject []) (Configuration_value c) = Configuration_value c"
  using Configuration_value_wf [of c] by (auto simp: merge_entries_append)

lemma reject_entries_Ok:
  "reject_entries path kvs = Ok u \<longleftrightarrow> (\<forall>(k, v) \<in> set kvs. reject_nulls (path @ ''.'' @ k) v = Ok ())"
  by (induction kvs) (auto simp: and_then_Ok_iff)

section \<open>Policies only tighten\<close>

lemma strings_from_array: "strings_from v = Some ss \<longleftrightarrow> v = JArray (map JString ss)"
proof
  assume "strings_from v = Some ss"
  then obtain vs where v: "v = JArray vs" "those (map string_from vs) = Some ss" by (cases v) (auto simp: strings_from_def)
  from v(2) have "vs = map JString ss"
  proof (induction vs arbitrary: ss)
    case (Cons w vs)
    then show ?case by (cases w) (auto simp: string_from_def split: option.splits)
  qed simp
  with v show "v = JArray (map JString ss)" by simp
next
  assume "v = JArray (map JString ss)"
  then show "strings_from v = Some ss" by (simp add: strings_from_def comp_def)
qed

lemma push_new_superset: "set base \<subseteq> set (push_new overlay base)"
proof (induction overlay arbitrary: base)
  case (Cons v overlay)
  show ?case using Cons.IH [of "if v \<in> set base then base else base @ [v]"] by (auto simp: push_new_def split: if_splits)
qed (simp add: push_new_def)

lemma deny_list_grows:
  assumes "strings_from (merge_value ''policies.global_deny'' (strings_value ds) v) = Some ds'"
  shows "set ds \<subseteq> set ds'"
proof -
  from assms obtain vs where v: "v = JArray vs" by (cases v) (auto simp: strings_from_array strings_value_def)
  with assms have "push_new vs (map JString ds) = map JString ds'" by (simp add: strings_from_array strings_value_def)
  with push_new_superset [of "map JString ds" vs] show ?thesis by auto
qed

lemma variant_name_iff: "variant_name v = Some s \<longleftrightarrow> v = JString s \<or> v = JObject [(s, JNull)]"
proof (cases v)
  case (JObject kvs)
  then show ?thesis by (auto simp: variant_name_def split: list.splits json.splits)
qed (auto simp: variant_name_def)

lemma mode_names: "map_of [(''read-only'', DefaultReadOnly), (''approval-required'', DefaultApprovalRequired), (''denied'', DefaultDenied)] s
    = Some m \<longleftrightarrow> s = mode_name m"
  by (cases m) auto

lemma tool_mode_from_iff:
  "tool_mode_from v = Some m \<longleftrightarrow> v = JString (mode_name m) \<or> v = JObject [(mode_name m, JNull)]"
  unfolding tool_mode_from_def enum_from_def bind_eq_Some_conv mode_names variant_name_iff by auto

lemma tool_mode_value_name: "tool_mode_value m = JString (mode_name m)"
  by (cases m) simp_all

lemma mode_tightens:
  assumes "tool_mode_from (merge_value ''policies.default_tool_mode'' (tool_mode_value m) v) = Some m'"
    and "reject_nulls (path @ ''.default_tool_mode'') v = Ok ()"
  shows "m \<le> m'"
proof (cases "\<exists>s. v = JString s")
  case True
  with assms(1) show ?thesis
    by (auto simp: tool_mode_value_name tool_mode_from_iff less_eq_DefaultToolMode_def split: if_splits)
next
  case False
  with assms(1) have "tool_mode_from v = Some m'" by (cases v) (simp_all add: tool_mode_value_name)
  with False have "v = JObject [(mode_name m', JNull)]" by (auto simp: tool_mode_from_iff)
  with assms(2) show ?thesis
    by (cases m') (simp_all add: ends_with_def starts_with_iff invalid_def reject_entries_Ok)
qed

lemma Policies_from_object:
  assumes "Policies_from (JObject kvs) = Some p"
  obtains deny md where "map_of kvs ''global_deny'' = Some deny" "strings_from deny = Some (pol_global_deny p)"
    "map_of kvs ''default_tool_mode'' = Some md" "tool_mode_from md = Some (pol_default_tool_mode p)"
  using assms
  by (auto simp: Policies_from_def struct_fields_def bind_eq_Some_conv split: option.splits if_splits)

lemma policies_tighten:
  assumes "Policies_from (merge_value ''policies'' (Policies_value p) (JObject overlay)) = Some p'"
    and "distinct (map fst overlay)" "reject_nulls path (JObject overlay) = Ok ()"
  shows "set (pol_global_deny p) \<subseteq> set (pol_global_deny p') \<and> pol_default_tool_mode p \<le> pol_default_tool_mode p'"
proof -
  obtain kvs where kvs: "Policies_value p = JObject kvs" "btree_wf kvs"
    "map_of kvs ''global_deny'' = Some (strings_value (pol_global_deny p))"
    "map_of kvs ''default_tool_mode'' = Some (tool_mode_value (pol_default_tool_mode p))"
    by (simp add: Policies_value_def skip_none_def less_char_def split: option.split)
  from assms(1) kvs(1) have "Policies_from (JObject (merge_entries ''policies'' kvs overlay)) = Some p'" by simp
  then obtain deny md where merged: "map_of (merge_entries ''policies'' kvs overlay) ''global_deny'' = Some deny"
      "strings_from deny = Some (pol_global_deny p')"
      "map_of (merge_entries ''policies'' kvs overlay) ''default_tool_mode'' = Some md"
      "tool_mode_from md = Some (pol_default_tool_mode p')"
    by (rule Policies_from_object)
  note entry = map_of_merge_entries [OF kvs(2) assms(2), of "''policies''"]
  have "set (pol_global_deny p) \<subseteq> set (pol_global_deny p')"
  proof (cases "map_of overlay ''global_deny''")
    case None
    with merged(1,2) show ?thesis by (auto simp: entry kvs merged_entry_def)
  next
    case (Some v)
    with merged(1,2) show ?thesis
      by (intro deny_list_grows [of _ v]) (simp add: entry kvs merged_entry_def child_path_def)
  qed
  moreover have "pol_default_tool_mode p \<le> pol_default_tool_mode p'"
  proof (cases "map_of overlay ''default_tool_mode''")
    case None
    with merged(3,4) show ?thesis by (auto simp: entry kvs merged_entry_def)
  next
    case (Some v)
    then have "reject_nulls (path @ ''.default_tool_mode'') v = Ok ()"
      using assms(3) by (auto simp: reject_entries_Ok dest: map_of_SomeD)
    with Some merged(3,4) show ?thesis
      by (intro mode_tightens [of _ v]) (simp_all add: entry kvs merged_entry_def child_path_def)
  qed
  ultimately show ?thesis ..
qed

lemma Configuration_from_policies:
  assumes "Configuration_from (JObject kvs) = Some c"
  obtains v where "map_of kvs ''policies'' = Some v" "Policies_from v = Some (cfg_policies c)"
proof -
  from assms obtain fs where fs: "struct_fields [(''version'', Required), (''providers'', Required), (''models'', Required),
      (''roles'', Required), (''tools'', Required), (''data_sources'', Required), (''mcp_servers'', Required),
      (''workflows'', Required), (''routing'', Required), (''policies'', Required), (''storage'', Required),
      (''protocol'', Required)] (JObject kvs) = Some fs" and j: "required Policies_from (fs ! 9) = Some (cfg_policies c)"
    by (auto simp: Configuration_from_def bind_eq_Some_conv)
  from struct_fields_nth [OF fs, of 9] have "fs ! 9 = map_of kvs ''policies''" by simp
  with j show thesis by (auto simp: required_def bind_eq_Some_conv intro: that)
qed

lemma session_policies_tighten:
  assumes "resolve [layer_from_configuration n base, \<lparr>layer_name = name, layer_value = JObject overlay\<rparr>] = Ok r"
    and "validate_layer_value name (JObject overlay) = Ok ()" "json_wf (JObject overlay)"
    and "\<forall>vs. map_of overlay ''policies'' \<noteq> Some (JArray vs)"
  shows "set (pol_global_deny (cfg_policies base)) \<subseteq> set (pol_global_deny (cfg_policies (rc_configuration r))) \<and>
    pol_default_tool_mode (cfg_policies base) \<le> pol_default_tool_mode (cfg_policies (rc_configuration r))"
proof -
  obtain kvs where kvs: "Configuration_value base = JObject kvs" "btree_wf kvs"
    "map_of kvs ''policies'' = Some (Policies_value (cfg_policies base))"
    by (simp add: Configuration_value_def less_char_def)
  have distinct: "distinct (map fst overlay)" using assms(3) by (simp add: btree_distinct)
  from assms(1) have "Configuration_from (JObject (merge_entries [] kvs overlay)) = Some (rc_configuration r)"
    by (auto simp: resolve_def merge_layers_def layer_from_configuration_def merge_first kvs(1) [symmetric]
        and_then_Ok_iff split: option.splits) (auto simp: kvs(1))
  then obtain v where v: "map_of (merge_entries [] kvs overlay) ''policies'' = Some v"
      "Policies_from v = Some (cfg_policies (rc_configuration r))"
    by (rule Configuration_from_policies)
  note entry = map_of_merge_entries [OF kvs(2) distinct, of "[]"]
  show ?thesis
  proof (cases "map_of overlay ''policies''")
    case None
    with v show ?thesis by (auto simp: entry kvs merged_entry_def)
  next
    case (Some w)
    with v(1) have merged: "v = merge_value ''policies'' (Policies_value (cfg_policies base)) w"
      by (simp add: entry kvs merged_entry_def child_path_def)
    from Some assms(3) have wf: "json_wf w" by (auto dest!: map_of_SomeD simp: list_all_iff)
    from Some assms(2) have nulls: "reject_nulls (name @ ''.policies'') w = Ok ()"
      by (auto simp: validate_layer_value_def all_ok_def and_then_Ok_iff reject_entries_Ok dest!: map_of_SomeD)
    show ?thesis
    proof (cases w)
      case (JObject po)
      with wf nulls v(2) merged show ?thesis
        by (intro policies_tighten [of _ po _ "name @ ''.policies''"]) (simp_all add: btree_distinct)
    next
      case (JArray vs)
      with Some assms(4) show ?thesis by simp
    qed (use merged v(2) in \<open>simp_all add: Policies_value_def Policies_from_def struct_fields_def\<close>)
  qed
qed

end
