(* ===== verification/Config_Lock.thy ===== *)
theory Config_Lock
  imports Config_Validate Wire
begin

text \<open>
  Snapshots of a configuration without its secrets (\<open>crates/workbench-config/src/snapshot.rs\<close>) and the
  locks that pin what a session may run (\<open>crates/workbench-config/src/lock.rs\<close>). What the file system answers
  about an executable is a parameter.
\<close>

section \<open>Snapshots\<close>

record ConfigurationSnapshot =
  snap_schema_version :: u32
  snap_sources :: "string list"
  snap_content_hash :: string
  snap_configuration :: json

definition redacted_keys :: "string list" where
  "redacted_keys = [''credential_ref'', ''executable'', ''url'', ''env'', ''headers'', ''args'']"

fun redact :: "string option \<Rightarrow> json \<Rightarrow> json" where
  "redact key (JObject kvs) =
     (if key \<in> Some ` set redacted_keys then JString ''[redacted]''
      else JObject (map (\<lambda>(k, v). (k, redact (Some k) v)) kvs))"
| "redact key (JArray vs) =
     (if key \<in> Some ` set redacted_keys then JString ''[redacted]'' else JArray (map (redact None) vs))"
| "redact key v = (if key \<in> Some ` set redacted_keys then JString ''[redacted]'' else v)"

definition snapshot_create :: "Externals \<Rightarrow> WorkbenchConfiguration \<Rightarrow> string list \<Rightarrow> ConfigurationSnapshot" where
  "snapshot_create x c sources =
     (let v = redact None (Configuration_value c) in
      \<lparr>snap_schema_version = 1, snap_sources = sources, snap_content_hash = blake3_hex x (json_to_vec x v),
       snap_configuration = v\<rparr>)"

definition ConfigurationSnapshot_value :: "ConfigurationSnapshot \<Rightarrow> json" where
  "ConfigurationSnapshot_value s = JObject [(''configuration'', snap_configuration s),
     (''content_hash'', JString (snap_content_hash s)), (''schema_version'', uint_value (snap_schema_version s)),
     (''sources'', strings_value (snap_sources s))]"

definition ConfigurationSnapshot_from :: "json \<Rightarrow> ConfigurationSnapshot option" where
  "ConfigurationSnapshot_from v = do {
     fs \<leftarrow> struct_fields [(''schema_version'', Required), (''sources'', Required),
       (''content_hash'', Required), (''configuration'', Required)] v;
     schema_version \<leftarrow> required uint_from (fs ! 0);
     sources \<leftarrow> required strings_from (fs ! 1);
     content_hash \<leftarrow> required string_from (fs ! 2);
     configuration \<leftarrow> required Some (fs ! 3);
     Some \<lparr>snap_schema_version = schema_version, snap_sources = sources,
       snap_content_hash = content_hash, snap_configuration = configuration\<rparr> }"

section \<open>Locks\<close>

datatype LockScope = RepositoryScope | SessionScope

record LockedConfiguration =
  lc_schema_version :: u32
  lc_hash_algorithm :: string
  lc_resolved_hash :: string

record LockedProtocol =
  lp_major :: u32
  lp_minor :: u32

record LockedAdapter =
  la_protocol :: string
  la_version :: string
  la_executable_sha256 :: string

record LockedModel =
  lm_provider :: string
  lm_runtime_model :: string

record LockedMcp =
  lmcp_version :: string
  lmcp_sha256 :: string

record WorkbenchLock =
  lk_version :: u32
  lk_scope :: LockScope
  lk_base_lock_hash :: "string option"
  lk_configuration :: LockedConfiguration
  lk_protocol :: LockedProtocol
  lk_adapters :: "LockedAdapter btree"
  lk_models :: "LockedModel btree"
  lk_mcps :: "LockedMcp btree"

record AdapterInput =
  ai_protocol :: string
  ai_version :: string
  ai_executable :: string
  ai_executable_sha256 :: string

definition ACP_PROTOCOL :: string where "ACP_PROTOCOL = ''acp/1''"

definition CLAUDE_CODE_STREAM_PROTOCOL :: string where
  "CLAUDE_CODE_STREAM_PROTOCOL = ''claude-code-stream-json/1''"

definition CODEX_EXEC_JSONL_PROTOCOL :: string where "CODEX_EXEC_JSONL_PROTOCOL = ''codex-exec-jsonl/1''"

text \<open>\<open>canonicalize_adapter_executable\<close> and \<open>sha256_file\<close> as the file system answers them.\<close>

record Files =
  canonicalize :: "string \<Rightarrow> ConfigError + string"
  sha256_file :: "string \<Rightarrow> ConfigError + string"

definition locked_configuration :: "ConfigurationSnapshot \<Rightarrow> LockedConfiguration" where
  "locked_configuration s =
     \<lparr>lc_schema_version = 1, lc_hash_algorithm = ''blake3-256'', lc_resolved_hash = snap_content_hash s\<rparr>"

definition lock_models :: "WorkbenchConfiguration \<Rightarrow> LockedModel btree" where
  "lock_models c =
     map (\<lambda>(name, m). (name, \<lparr>lm_provider = mod_provider m, lm_runtime_model = mod_runtime_model m\<rparr>)) (cfg_models c)"

definition lock_mcps :: "WorkbenchConfiguration \<Rightarrow> LockedMcp btree" where
  "lock_mcps c =
     map (\<lambda>(name, m). (name, \<lparr>lmcp_version = mcp_version m, lmcp_sha256 = mcp_sha256 m\<rparr>)) (cfg_mcp_servers c)"

text \<open>\<open>chars().any(char::is_control)\<close> on UTF-8 bytes: the C0 and C1 controls and DEL.\<close>

fun has_control :: "string \<Rightarrow> bool" where
  "has_control [] = False"
| "has_control (c # cs) =
     (byte c < 32 \<or> byte c = 127 \<or>
      byte c = 194 \<and> (case cs of [] \<Rightarrow> False | d # _ \<Rightarrow> 128 \<le> byte d \<and> byte d \<le> 159) \<or> has_control cs)"

definition bad_version :: "string \<Rightarrow> string \<Rightarrow> bool" where
  "bad_version protocol version \<longleftrightarrow> protocol = [] \<or> version = [] \<or> length version > 255 \<or> has_control version"

definition expected_adapter_protocol :: "Provider \<Rightarrow> ConfigError + string" where
  "expected_adapter_protocol p =
     (case (prov_kind p, prov_driver p) of
        (Acp, None) \<Rightarrow> Ok ACP_PROTOCOL
      | (SubscriptionCli, Some ClaudeCode) \<Rightarrow> Ok CLAUDE_CODE_STREAM_PROTOCOL
      | (SubscriptionCli, Some Codex) \<Rightarrow> Ok CODEX_EXEC_JSONL_PROTOCOL
      | (FakeProvider, None) \<Rightarrow> Err (LockError ''fake providers do not have executable adapter protocols'')
      | _ \<Rightarrow> Err (LockError ''provider has an unsupported executable adapter identity''))"

definition validate_adapter_identity :: "string \<Rightarrow> Provider \<Rightarrow> AdapterInput \<Rightarrow> ConfigError + unit" where
  "validate_adapter_identity name p input =
     (if bad_version (ai_protocol input) (ai_version input)
      then Err (LockError (''adapter '' @ name @ '' reported an invalid version''))
      else and_then (expected_adapter_protocol p) (\<lambda>expected.
        if ai_protocol input \<noteq> expected
        then Err (LockError (''adapter '' @ name @ '' must use protocol '' @ expected)) else Ok ()))"

definition lock_check :: "bool \<Rightarrow> string \<Rightarrow> ConfigError + unit" where
  "lock_check ok msg = (if ok then Ok () else Err (LockError msg))"

definition lock_adapter ::
  "Files \<Rightarrow> WorkbenchConfiguration \<Rightarrow> string \<times> AdapterInput \<Rightarrow> ConfigError + string \<times> LockedAdapter" where
  "lock_adapter fs c = (\<lambda>(name, input).
     and_then (ok_or (LockError (''adapter input '' @ name @ '' has no matching configured provider''))
                 (map_of (cfg_providers c) name)) (\<lambda>provider.
     and_then (ok_or (LockError (''adapter input '' @ name @ '' has no configured executable''))
                 (prov_executable provider)) (\<lambda>configured.
     and_then (canonicalize fs configured) (\<lambda>configured.
     and_then (canonicalize fs (ai_executable input)) (\<lambda>executable.
     and_then (lock_check (configured = executable)
                 (''adapter input '' @ name @ '' differs from its configured executable'')) (\<lambda>_.
     and_then (validate_adapter_identity name provider input) (\<lambda>_.
     and_then (validate_digest (ai_executable_sha256 input) (''adapter_inputs.'' @ name @ ''.executable_sha256'')) (\<lambda>_.
     and_then (sha256_file fs executable) (\<lambda>digest.
     and_then (lock_check (digest = ai_executable_sha256 input)
                 (''adapter input '' @ name @ '' changed after identity capture'')) (\<lambda>_.
       Ok (name, \<lparr>la_protocol = ai_protocol input, la_version = ai_version input,
                  la_executable_sha256 = ai_executable_sha256 input\<rparr>)))))))))))"

definition lock_provider :: "LockedAdapter btree \<Rightarrow> string \<times> Provider \<Rightarrow> ConfigError + unit" where
  "lock_provider adapters = (\<lambda>(name, p). all_ok
     [lock_check (\<not> (prov_kind p = Acp \<and> prov_executable p = None))
        (''ACP provider '' @ name @ '' has no configured executable''),
      lock_check (\<not> (prov_kind p = SubscriptionCli \<and> (prov_driver p = None \<or> prov_executable p = None)))
        (''subscription CLI provider '' @ name @ '' has no configured driver or executable''),
      lock_check (\<not> (prov_kind p \<noteq> FakeProvider \<and> prov_executable p \<noteq> None \<and> \<not> contains_key adapters name))
        (''provider '' @ name @ '' has no pinned adapter executable'')])"

definition lock_repository ::
  "Files \<Rightarrow> WorkbenchConfiguration \<Rightarrow> ConfigurationSnapshot \<Rightarrow> AdapterInput btree \<Rightarrow> ConfigError + WorkbenchLock" where
  "lock_repository fs c snapshot adapter_inputs =
     and_then (try_map (lock_adapter fs c) adapter_inputs) (\<lambda>adapters.
     and_then (try_for_each (lock_provider adapters) (cfg_providers c)) (\<lambda>_.
       Ok \<lparr>lk_version = 1, lk_scope = RepositoryScope, lk_base_lock_hash = None,
           lk_configuration = locked_configuration snapshot, lk_protocol = \<lparr>lp_major = 1, lp_minor = 0\<rparr>,
           lk_adapters = adapters, lk_models = lock_models c, lk_mcps = lock_mcps c\<rparr>))"

text \<open>The text a lock is hashed from: its fields in the order of the structure.\<close>

definition raw_strings :: "(string \<times> string) list \<Rightarrow> raw_json" where
  "raw_strings kvs = RawObject (map (\<lambda>(k, v). (k, RawString v)) kvs)"

definition raw_map :: "('a \<Rightarrow> raw_json) \<Rightarrow> 'a btree \<Rightarrow> raw_json" where
  "raw_map f m = RawObject (map (\<lambda>(k, v). (k, f v)) m)"

definition raw_u32 :: "u32 \<Rightarrow> raw_json" where
  "raw_u32 n = RawU64 (ucast n)"

fun scope_name :: "LockScope \<Rightarrow> string" where
  "scope_name RepositoryScope = ''repository''"
| "scope_name SessionScope = ''session''"

definition lock_raw :: "WorkbenchLock \<Rightarrow> raw_json" where
  "lock_raw l = RawObject ([(''version'', raw_u32 (lk_version l)), (''scope'', RawString (scope_name (lk_scope l)))] @
     (case lk_base_lock_hash l of None \<Rightarrow> [] | Some h \<Rightarrow> [(''base_lock_hash'', RawString h)]) @
     [(''configuration'', RawObject [(''schema_version'', raw_u32 (lc_schema_version (lk_configuration l))),
        (''hash_algorithm'', RawString (lc_hash_algorithm (lk_configuration l))),
        (''resolved_hash'', RawString (lc_resolved_hash (lk_configuration l)))]),
      (''protocol'', RawObject [(''major'', raw_u32 (lp_major (lk_protocol l))), (''minor'', raw_u32 (lp_minor (lk_protocol l)))]),
      (''adapters'', raw_map (\<lambda>a. raw_strings [(''protocol'', la_protocol a), (''version'', la_version a),
         (''executable_sha256'', la_executable_sha256 a)]) (lk_adapters l)),
      (''models'', raw_map (\<lambda>m. raw_strings [(''provider'', lm_provider m), (''runtime_model'', lm_runtime_model m)]) (lk_models l)),
      (''mcps'', raw_map (\<lambda>m. raw_strings [(''version'', lmcp_version m), (''sha256'', lmcp_sha256 m)]) (lk_mcps l))])"

definition lock_hash :: "Externals \<Rightarrow> (raw_json \<Rightarrow> bytes) \<Rightarrow> WorkbenchLock \<Rightarrow> string" where
  "lock_hash x text_of_raw l = blake3_hex x (text_of_raw (lock_raw l))"

definition lock_session ::
  "Externals \<Rightarrow> (raw_json \<Rightarrow> bytes) \<Rightarrow> WorkbenchLock \<Rightarrow> WorkbenchConfiguration \<Rightarrow> ConfigurationSnapshot
     \<Rightarrow> ConfigError + WorkbenchLock" where
  "lock_session x text_of_raw base c snapshot =
     and_then (try_for_each (\<lambda>(name, p).
         lock_check (\<not> (prov_kind p \<noteq> FakeProvider \<and> prov_executable p \<noteq> None \<and> \<not> contains_key (lk_adapters base) name))
           (''session override introduced unpinned adapter '' @ name)) (cfg_providers c)) (\<lambda>_.
     and_then (lock_check (list_all (\<lambda>(name, _). contains_key (lk_mcps base) name) (cfg_mcp_servers c))
         ''session override introduced an MCP absent from the base lock'') (\<lambda>_.
       Ok \<lparr>lk_version = 1, lk_scope = SessionScope, lk_base_lock_hash = Some (lock_hash x text_of_raw base),
           lk_configuration = locked_configuration snapshot, lk_protocol = lk_protocol base,
           lk_adapters = lk_adapters base, lk_models = lock_models c, lk_mcps = lock_mcps c\<rparr>))"

definition lock_verify :: "WorkbenchLock \<Rightarrow> ConfigError + unit" where
  "lock_verify l = all_ok
     [lock_check (lk_version l = 1 \<and> lc_schema_version (lk_configuration l) = 1) ''unsupported lock version'',
      lock_check (lc_hash_algorithm (lk_configuration l) = ''blake3-256'') ''unsupported lock hash algorithm'',
      lock_check (lp_major (lk_protocol l) = 1) ''unsupported protocol major'',
      validate_digest (lc_resolved_hash (lk_configuration l)) ''lock.configuration.resolved_hash'',
      try_for_each (\<lambda>(name, a). all_ok
        [lock_check (\<not> bad_version (la_protocol a) (la_version a)) (''locked adapter '' @ name @ '' has an invalid identity''),
         validate_digest (la_executable_sha256 a) (''lock.adapters.'' @ name @ ''.executable_sha256'')]) (lk_adapters l),
      try_for_each (\<lambda>(name, m). validate_digest (lmcp_sha256 m) (''lock.mcps.'' @ name @ ''.sha256'')) (lk_mcps l),
      case lk_base_lock_hash l of None \<Rightarrow> Ok () | Some h \<Rightarrow> validate_digest h ''lock.base_lock_hash'',
      case lk_scope l of
        RepositoryScope \<Rightarrow> lock_check (lk_base_lock_hash l = None) ''repository lock cannot have a base hash''
      | SessionScope \<Rightarrow> lock_check (lk_base_lock_hash l \<noteq> None) ''session lock requires a base hash'']"

definition verify_executables :: "Files \<Rightarrow> WorkbenchLock \<Rightarrow> AdapterInput btree \<Rightarrow> ConfigError + unit" where
  "verify_executables fs l adapter_inputs =
     and_then (lock_verify l) (\<lambda>_.
     and_then (lock_check (length (lk_adapters l) = length adapter_inputs) ''adapter inputs do not match the lock'') (\<lambda>_.
       try_for_each (\<lambda>(name, adapter).
         and_then (ok_or (LockError (''locked adapter '' @ name @ '' has no executable input'')) (map_of adapter_inputs name)) (\<lambda>input.
           let differs = Err (LockError (''adapter '' @ name @ '' differs from its lock pin'')) in
           if la_protocol adapter \<noteq> ai_protocol input \<or> la_version adapter \<noteq> ai_version input \<or>
              la_executable_sha256 adapter \<noteq> ai_executable_sha256 input
           then differs
           else and_then (canonicalize fs (ai_executable input)) (\<lambda>executable.
             and_then (sha256_file fs executable) (\<lambda>digest.
               if ai_executable_sha256 input \<noteq> digest then differs else Ok ())))) (lk_adapters l)))"

definition verify_configured_executables :: "Files \<Rightarrow> WorkbenchLock \<Rightarrow> WorkbenchConfiguration \<Rightarrow> ConfigError + unit" where
  "verify_configured_executables fs l c =
     and_then (lock_verify l) (\<lambda>_.
       try_for_each (\<lambda>(name, p).
         if prov_kind p = FakeProvider then Ok ()
         else case prov_executable p of
           None \<Rightarrow> Ok ()
         | Some executable \<Rightarrow>
             and_then (ok_or (LockError (''provider '' @ name @ '' has no pinned adapter'')) (map_of (lk_adapters l) name)) (\<lambda>adapter.
             and_then (canonicalize fs executable) (\<lambda>executable.
             let differs = Err (LockError (''provider '' @ name @ '' differs from its lock pin'')) in
             and_then (expected_adapter_protocol p) (\<lambda>expected.
               if la_protocol adapter \<noteq> expected then differs
               else and_then (sha256_file fs executable) (\<lambda>digest.
                 if la_executable_sha256 adapter \<noteq> digest then differs else Ok ())))))
         (cfg_providers c))"

definition verify_linked_to ::
  "Externals \<Rightarrow> (raw_json \<Rightarrow> bytes) \<Rightarrow> WorkbenchLock \<Rightarrow> WorkbenchLock \<Rightarrow> ConfigError + unit" where
  "verify_linked_to x text_of_raw l base = all_ok
     [lock_verify l, lock_verify base,
      lock_check (lk_scope l = SessionScope \<and> lk_base_lock_hash l = Some (lock_hash x text_of_raw base))
        ''session lock does not link to the supplied base lock'']"

section \<open>JSON form of a lock\<close>

definition lock_scope_value :: "LockScope \<Rightarrow> json" where
  "lock_scope_value s = JString (scope_name s)"

definition LockedConfiguration_value :: "LockedConfiguration \<Rightarrow> json" where
  "LockedConfiguration_value c = JObject [(''hash_algorithm'', JString (lc_hash_algorithm c)),
     (''resolved_hash'', JString (lc_resolved_hash c)), (''schema_version'', uint_value (lc_schema_version c))]"

definition LockedProtocol_value :: "LockedProtocol \<Rightarrow> json" where
  "LockedProtocol_value p = JObject [(''major'', uint_value (lp_major p)), (''minor'', uint_value (lp_minor p))]"

definition LockedAdapter_value :: "LockedAdapter \<Rightarrow> json" where
  "LockedAdapter_value a = JObject [(''executable_sha256'', JString (la_executable_sha256 a)),
     (''protocol'', JString (la_protocol a)), (''version'', JString (la_version a))]"

definition LockedModel_value :: "LockedModel \<Rightarrow> json" where
  "LockedModel_value m = JObject [(''provider'', JString (lm_provider m)), (''runtime_model'', JString (lm_runtime_model m))]"

definition LockedMcp_value :: "LockedMcp \<Rightarrow> json" where
  "LockedMcp_value m = JObject [(''sha256'', JString (lmcp_sha256 m)), (''version'', JString (lmcp_version m))]"

definition WorkbenchLock_value :: "WorkbenchLock \<Rightarrow> json" where
  "WorkbenchLock_value l =
     JObject ([(''adapters'', map_value LockedAdapter_value (lk_adapters l))] @
       skip_none ''base_lock_hash'' JString (lk_base_lock_hash l) @
       [(''configuration'', LockedConfiguration_value (lk_configuration l)),
        (''mcps'', map_value LockedMcp_value (lk_mcps l)), (''models'', map_value LockedModel_value (lk_models l)),
        (''protocol'', LockedProtocol_value (lk_protocol l)), (''scope'', lock_scope_value (lk_scope l)),
        (''version'', uint_value (lk_version l))])"

definition lock_scope_from :: "json \<Rightarrow> LockScope option" where
  "lock_scope_from = enum_from [(''repository'', RepositoryScope), (''session'', SessionScope)]"

definition LockedConfiguration_from :: "json \<Rightarrow> LockedConfiguration option" where
  "LockedConfiguration_from v = do {
     fs \<leftarrow> struct_fields [(''schema_version'', Required), (''hash_algorithm'', Required),
       (''resolved_hash'', Required)] v;
     schema_version \<leftarrow> required uint_from (fs ! 0);
     hash_algorithm \<leftarrow> required string_from (fs ! 1);
     resolved_hash \<leftarrow> required string_from (fs ! 2);
     Some \<lparr>lc_schema_version = schema_version, lc_hash_algorithm = hash_algorithm,
       lc_resolved_hash = resolved_hash\<rparr> }"

definition LockedProtocol_from :: "json \<Rightarrow> LockedProtocol option" where
  "LockedProtocol_from v = do {
     fs \<leftarrow> struct_fields [(''major'', Required), (''minor'', Required)] v;
     major \<leftarrow> required uint_from (fs ! 0);
     minor \<leftarrow> required uint_from (fs ! 1);
     Some \<lparr>lp_major = major, lp_minor = minor\<rparr> }"

definition LockedAdapter_from :: "json \<Rightarrow> LockedAdapter option" where
  "LockedAdapter_from v = do {
     fs \<leftarrow> struct_fields [(''protocol'', Required), (''version'', Required),
       (''executable_sha256'', Required)] v;
     protocol \<leftarrow> required string_from (fs ! 0);
     version \<leftarrow> required string_from (fs ! 1);
     executable_sha256 \<leftarrow> required string_from (fs ! 2);
     Some \<lparr>la_protocol = protocol, la_version = version,
       la_executable_sha256 = executable_sha256\<rparr> }"

definition LockedModel_from :: "json \<Rightarrow> LockedModel option" where
  "LockedModel_from v = do {
     fs \<leftarrow> struct_fields [(''provider'', Required), (''runtime_model'', Required)] v;
     provider \<leftarrow> required string_from (fs ! 0);
     runtime_model \<leftarrow> required string_from (fs ! 1);
     Some \<lparr>lm_provider = provider, lm_runtime_model = runtime_model\<rparr> }"

definition LockedMcp_from :: "json \<Rightarrow> LockedMcp option" where
  "LockedMcp_from v = do {
     fs \<leftarrow> struct_fields [(''version'', Required), (''sha256'', Required)] v;
     version \<leftarrow> required string_from (fs ! 0);
     sha256 \<leftarrow> required string_from (fs ! 1);
     Some \<lparr>lmcp_version = version, lmcp_sha256 = sha256\<rparr> }"

definition WorkbenchLock_from :: "json \<Rightarrow> WorkbenchLock option" where
  "WorkbenchLock_from v = do {
     fs \<leftarrow> struct_fields [(''version'', Required), (''scope'', Required), (''base_lock_hash'', Optional),
       (''configuration'', Required), (''protocol'', Required),
       (''adapters'', Required), (''models'', Required), (''mcps'', Required)] v;
     version \<leftarrow> required uint_from (fs ! 0);
     scope \<leftarrow> required lock_scope_from (fs ! 1);
     base_lock_hash \<leftarrow> option_from string_from (fs ! 2);
     configuration \<leftarrow> required LockedConfiguration_from (fs ! 3);
     protocol \<leftarrow> required LockedProtocol_from (fs ! 4);
     adapters \<leftarrow> required (map_from LockedAdapter_from) (fs ! 5);
     models \<leftarrow> required (map_from LockedModel_from) (fs ! 6);
     mcps \<leftarrow> required (map_from LockedMcp_from) (fs ! 7);
     Some \<lparr>lk_version = version, lk_scope = scope, lk_base_lock_hash = base_lock_hash,
       lk_configuration = configuration, lk_protocol = protocol, lk_adapters = adapters,
       lk_models = models, lk_mcps = mcps\<rparr> }"

section \<open>What is written reads back\<close>

lemma snapshot_roundtrip [simp]: "ConfigurationSnapshot_from (ConfigurationSnapshot_value s) = Some s"
  by (simp add: ConfigurationSnapshot_from_def ConfigurationSnapshot_value_def struct_fields_def del: struct_del)

lemma lock_scope_roundtrip [simp]: "lock_scope_from (lock_scope_value s) = Some s"
  by (cases s) (simp_all add: lock_scope_from_def lock_scope_value_def enum_from_def variant_name_def)

lemma LockedConfiguration_roundtrip [simp]: "LockedConfiguration_from (LockedConfiguration_value c) = Some c"
  by (simp add: LockedConfiguration_from_def LockedConfiguration_value_def struct_fields_def)

lemma LockedProtocol_roundtrip [simp]: "LockedProtocol_from (LockedProtocol_value p) = Some p"
  by (simp add: LockedProtocol_from_def LockedProtocol_value_def struct_fields_def)

lemma LockedAdapter_roundtrip [simp]: "LockedAdapter_from (LockedAdapter_value a) = Some a"
  by (simp add: LockedAdapter_from_def LockedAdapter_value_def struct_fields_def)

lemma LockedModel_roundtrip [simp]: "LockedModel_from (LockedModel_value m) = Some m"
  by (simp add: LockedModel_from_def LockedModel_value_def struct_fields_def)

lemma LockedMcp_roundtrip [simp]: "LockedMcp_from (LockedMcp_value m) = Some m"
  by (simp add: LockedMcp_from_def LockedMcp_value_def struct_fields_def)

lemma WorkbenchLock_roundtrip [simp]: "WorkbenchLock_from (WorkbenchLock_value l) = Some l"
  by (simp add: WorkbenchLock_from_def WorkbenchLock_value_def struct_fields_def del: struct_del)

end
