(* ===== verification/Snapshot_Reload.thy ===== *)
theory Snapshot_Reload
  imports Config_Lock Config_Merge
begin

text \<open>
  What of a configuration survives its snapshot: reading a redacted configuration back.
\<close>

section \<open>Redaction of a configuration\<close>

lemma redact_key:
  "k \<notin> set redacted_keys \<Longrightarrow> redact (Some k) v = redact None v"
  "k \<in> set redacted_keys \<Longrightarrow> redact (Some k) v = JString ''[redacted]''"
  subgoal by (cases v) auto
  subgoal by (cases v) auto
  done

lemma redact_strings [simp]: "redact None (strings_value ss) = strings_value ss"
  by (simp add: strings_value_def)

lemma redact_object: "redact None (JObject kvs) = JObject (map (\<lambda>(k, v). (k, redact (Some k) v)) kvs)"
  by simp

lemma redact_list: "(\<And>a. redact None (f a) = f (h a)) \<Longrightarrow> redact None (list_value f vs) = list_value f (map h vs)"
  by (simp add: list_value_def)

lemma redact_uint [simp]: "redact None (uint_value n) = uint_value n"
  by (simp add: uint_value_def)

lemma redact_f64 [simp]: "redact None (f64_value c) = f64_value c"
  by (simp add: f64_value_def split: f64.split)

lemma redact_enum [simp]:
  "redact None (provider_type_value a) = provider_type_value a" "redact None (provider_driver_value b) = provider_driver_value b"
  "redact None (data_collection_value c) = data_collection_value c" "redact None (capability_value d) = capability_value d"
  "redact None (config_effect_value e) = config_effect_value e" "redact None (tool_kind_value k) = tool_kind_value k"
  "redact None (approval_mode_value m) = approval_mode_value m" "redact None (mcp_transport_value t) = mcp_transport_value t"
  "redact None (native_mode_value n) = native_mode_value n" "redact None (tool_mode_value q) = tool_mode_value q"
  subgoal by (cases a) simp_all
  subgoal by (cases b) simp_all
  subgoal by (cases c) simp_all
  subgoal by (cases d) simp_all
  subgoal by (cases e) simp_all
  subgoal by (cases k) simp_all
  subgoal by (cases m) simp_all
  subgoal by (cases t) simp_all
  subgoal by (cases n) simp_all
  subgoal by (cases q) simp_all
  done

definition masked :: "string option \<Rightarrow> string option" where
  "masked v = map_option (\<lambda>_. ''[redacted]'') v"

definition masked_provider :: "Provider \<Rightarrow> Provider" where
  "masked_provider p = p\<lparr>prov_executable := masked (prov_executable p), prov_credential_ref := masked (prov_credential_ref p)\<rparr>"

definition masked_server :: "McpServer \<Rightarrow> McpServer" where
  "masked_server m = m\<lparr>mcp_executable := masked (mcp_executable m), mcp_url := masked (mcp_url m)\<rparr>"

definition server_reloads :: "McpServer \<Rightarrow> bool" where
  "server_reloads m \<longleftrightarrow> mcp_args m = [] \<and> mcp_env m = [] \<and> mcp_headers m = []"

definition masked_configuration :: "WorkbenchConfiguration \<Rightarrow> WorkbenchConfiguration" where
  "masked_configuration c = c\<lparr>cfg_providers := map (\<lambda>(k, p). (k, masked_provider p)) (cfg_providers c),
     cfg_mcp_servers := map (\<lambda>(k, m). (k, masked_server m)) (cfg_mcp_servers c)\<rparr>"

text \<open>No entry has the name of a redacted field, and no server has launch arguments, an environment or
  headers.\<close>

definition names_reload :: "'a btree \<Rightarrow> bool" where
  "names_reload m \<longleftrightarrow> list_all (\<lambda>(k, _). k \<notin> set redacted_keys) m"

definition reloadable :: "WorkbenchConfiguration \<Rightarrow> bool" where
  "reloadable c \<longleftrightarrow> threshold_finite c \<and> names_reload (cfg_providers c) \<and> names_reload (cfg_models c) \<and>
     names_reload (cfg_roles c) \<and> names_reload (cfg_tools c) \<and> names_reload (cfg_data_sources c) \<and>
     names_reload (cfg_mcp_servers c) \<and> names_reload (cfg_workflows c) \<and>
     list_all (\<lambda>(_, m). server_reloads m) (cfg_mcp_servers c)"

lemmas redact_simps = redact_object redact_key redacted_keys_def

lemma redact_skip_none:
  "map (\<lambda>(k, v). (k, redact (Some k) v)) (skip_none k f v) = skip_none k (redact (Some k) \<circ> f) v"
  by (simp add: skip_none_def split: option.split)

lemma redact_skip_empty:
  "map (\<lambda>(k, v). (k, redact (Some k) v)) (skip_empty k f v) = skip_empty k (redact (Some k) \<circ> f) v"
  by (simp add: skip_empty_def)

lemma redact_Privacy [simp]: "redact None (Privacy_value p) = Privacy_value p"
  by (simp add: Privacy_value_def redact_simps)

lemma skip_none_masked: "skip_none k (\<lambda>_. JString ''[redacted]'') v = skip_none k JString (masked v)"
  by (cases v) (simp_all add: skip_none_def masked_def)

lemma redact_Provider: "redact None (Provider_value p) = Provider_value (masked_provider p)"
  by (simp add: Provider_value_def redact_simps redact_skip_none comp_def skip_none_masked masked_provider_def)

lemma redact_plain [simp]:
  "redact None (Model_value m) = Model_value m" "redact None (Role_value r) = Role_value r"
  "redact None (Operation_value p) = Operation_value p" "redact None (DataSource_value d) = DataSource_value d"
  "redact None (WorkflowStep_value s) = WorkflowStep_value s" "redact None (Routing_value t) = Routing_value t"
  "redact None (CostPolicy_value q) = CostPolicy_value q" "redact None (NativeWrite_value w) = NativeWrite_value w"
  "redact None (StorageConfig_value u) = StorageConfig_value u" "redact None (ProtocolLimits_value l) = ProtocolLimits_value l"
  by (simp_all add: Model_value_def Role_value_def Operation_value_def DataSource_value_def WorkflowStep_value_def
      Routing_value_def CostPolicy_value_def NativeWrite_value_def StorageConfig_value_def ProtocolLimits_value_def
      redact_simps redact_skip_none redact_skip_empty comp_def redact_list [where h = id, simplified] option_value_def
      split: option.split)

lemma redact_nested [simp]:
  "redact None (Tool_value t) = Tool_value t" "redact None (Workflow_value w) = Workflow_value w"
  "redact None (Policies_value p) = Policies_value p"
  by (simp_all add: Tool_value_def Workflow_value_def Policies_value_def redact_simps redact_skip_none comp_def
      redact_list [where h = id, simplified])

lemma strings_from_string [simp]: "strings_from (JString s) = None" "map_from f (JString s) = None"
  by (simp_all add: strings_from_def map_from_def)

lemma McpServer_reload:
  "McpServer_from (redact None (McpServer_value m)) = (if server_reloads m then Some (masked_server m) else None)"
proof -
  have "redact None (McpServer_value m) =
      JObject (skip_empty ''args'' (\<lambda>_. JString ''[redacted]'') (mcp_args m) @
       skip_empty ''env'' (\<lambda>_. JString ''[redacted]'') (mcp_env m) @
       skip_none ''executable'' JString (masked (mcp_executable m)) @
       skip_empty ''headers'' (\<lambda>_. JString ''[redacted]'') (mcp_headers m) @
       skip_none ''max_response_bytes'' uint_value (mcp_max_response_bytes m) @
       [(''sha256'', JString (mcp_sha256 m)), (''transport'', mcp_transport_value (mcp_transport m))] @
       skip_none ''url'' JString (masked (mcp_url m)) @ [(''version'', JString (mcp_version m))])"
    by (simp add: McpServer_value_def redact_simps redact_skip_none redact_skip_empty comp_def skip_none_masked)
  then show ?thesis
    by (cases "mcp_args m = []"; cases "mcp_env m = []"; cases "mcp_headers m = []")
      (simp_all add: McpServer_from_def struct_fields_def server_reloads_def masked_server_def skip_empty_def del: struct_del)
qed

lemma map_from_redact:
  assumes "\<And>s. g (JString s) = None" "\<And>v. g (redact None (f v)) = (if P v then Some (h v) else None)"
  shows "map_from g (redact None (map_value f m)) =
    (if list_all (\<lambda>(k, v). k \<notin> set redacted_keys \<and> P v) m then Some (map (\<lambda>(k, v). (k, h v)) m) else None)"
proof (cases "list_all (\<lambda>(k, v). k \<notin> set redacted_keys \<and> P v) m")
  case True
  then have "those (map (\<lambda>(k, v). map_option (Pair k) (g (redact (Some k) (f v)))) m) = Some (map (\<lambda>(k, v). (k, h v)) m)"
    by (intro those_map_Some) (auto simp: list_all_iff redact_key assms(2))
  with True show ?thesis
    by (simp add: map_from_def map_value_def case_prod_unfold comp_def)
next
  case False
  then obtain k v where "(k, v) \<in> set m" "k \<in> set redacted_keys \<or> \<not> P v" by (auto simp: list_all_iff)
  then have "None \<in> (\<lambda>(k, v). map_option (Pair k) (g (redact (Some k) (f v)))) ` set m"
    by (intro image_eqI [where x = "(k, v)"])
      (cases "k \<in> set redacted_keys"; simp add: redact_key assms)+
  with False show ?thesis
    by (simp add: map_from_def map_value_def case_prod_unfold comp_def)
qed

lemma from_string [simp]:
  "Provider_from (JString s) = None" "Model_from (JString s) = None" "Role_from (JString s) = None"
  "Tool_from (JString s) = None" "DataSource_from (JString s) = None" "McpServer_from (JString s) = None"
  "Workflow_from (JString s) = None"
  by (simp_all add: Provider_from_def Model_from_def Role_from_def Tool_from_def DataSource_from_def McpServer_from_def
      Workflow_from_def struct_fields_def)

lemma maps_reload:
  "map_from Provider_from (redact None (map_value Provider_value ps)) =
     (if names_reload ps then Some (map (\<lambda>(k, p). (k, masked_provider p)) ps) else None)"
  "map_from Model_from (redact None (map_value Model_value ms)) = (if names_reload ms then Some ms else None)"
  "map_from Role_from (redact None (map_value Role_value rs)) = (if names_reload rs then Some rs else None)"
  "map_from Tool_from (redact None (map_value Tool_value ts)) = (if names_reload ts then Some ts else None)"
  "map_from DataSource_from (redact None (map_value DataSource_value ds)) = (if names_reload ds then Some ds else None)"
  "map_from Workflow_from (redact None (map_value Workflow_value ws)) = (if names_reload ws then Some ws else None)"
  "map_from McpServer_from (redact None (map_value McpServer_value ss)) =
     (if names_reload ss \<and> list_all (\<lambda>(_, m). server_reloads m) ss
      then Some (map (\<lambda>(k, m). (k, masked_server m)) ss) else None)"
  unfolding names_reload_def
  subgoal by (subst map_from_redact [where P = "\<lambda>_. True" and h = masked_provider]) (simp_all add: redact_Provider)
  subgoal by (subst map_from_redact [where P = "\<lambda>_. True" and h = id]) simp_all
  subgoal by (subst map_from_redact [where P = "\<lambda>_. True" and h = id]) simp_all
  subgoal by (subst map_from_redact [where P = "\<lambda>_. True" and h = id]) simp_all
  subgoal by (subst map_from_redact [where P = "\<lambda>_. True" and h = id]) simp_all
  subgoal by (subst map_from_redact [where P = "\<lambda>_. True" and h = id]) simp_all
  subgoal by (subst map_from_redact [where P = server_reloads and h = masked_server])
      (simp_all add: McpServer_reload list_all_iff case_prod_unfold ball_conj_distrib)
  done

lemma configuration_reload:
  "Configuration_from (redact None (Configuration_value c)) =
     (if reloadable c then Some (masked_configuration c) else None)"
proof -
  let ?v = "JObject
     [(''data_sources'', redact None (map_value DataSource_value (cfg_data_sources c))),
      (''mcp_servers'', redact None (map_value McpServer_value (cfg_mcp_servers c))),
      (''models'', redact None (map_value Model_value (cfg_models c))),
      (''policies'', Policies_value (cfg_policies c)),
      (''protocol'', ProtocolLimits_value (cfg_protocol c)),
      (''providers'', redact None (map_value Provider_value (cfg_providers c))),
      (''roles'', redact None (map_value Role_value (cfg_roles c))),
      (''routing'', Routing_value (cfg_routing c)),
      (''storage'', StorageConfig_value (cfg_storage c)),
      (''tools'', redact None (map_value Tool_value (cfg_tools c))),
      (''version'', uint_value (cfg_version c)),
      (''workflows'', redact None (map_value Workflow_value (cfg_workflows c)))]"
  have "redact None (Configuration_value c) = ?v"
    by (simp add: Configuration_value_def redact_simps)
  moreover have "Configuration_from ?v = (if reloadable c then Some (masked_configuration c) else None)"
    by (simp add: Configuration_from_def struct_fields_def maps_reload reloadable_def masked_configuration_def
        threshold_finite_def split: f64.split)
  ultimately show ?thesis by simp
qed

end
