(* ===== verification/Responses.thy ===== *)
theory Responses
  imports Wire Serde "HOL-Library.Monad_Syntax"
begin

text \<open>
  The replies of the daemon (\<open>crates/workbench-protocol/src/response.rs\<close>): protocol errors with their
  check, the results of the commands in JSON, and replies on the wire.
\<close>

section \<open>States and errors on the wire\<close>

datatype WireState =
    ReadyState | RunningState | PausingState | PausedState | AwaitingClarificationState
  | AwaitingApprovalState | CancelRequestedState | OutcomeUnknownState | CompletedState
  | FailedState | CancelledState | AbandonedState | DeletingState

fun state_name :: "WireState \<Rightarrow> string" where
  "state_name ReadyState = ''ready''"
| "state_name RunningState = ''running''"
| "state_name PausingState = ''pausing''"
| "state_name PausedState = ''paused''"
| "state_name AwaitingClarificationState = ''awaiting_clarification''"
| "state_name AwaitingApprovalState = ''awaiting_approval''"
| "state_name CancelRequestedState = ''cancel_requested''"
| "state_name OutcomeUnknownState = ''outcome_unknown''"
| "state_name CompletedState = ''completed''"
| "state_name FailedState = ''failed''"
| "state_name CancelledState = ''cancelled''"
| "state_name AbandonedState = ''abandoned''"
| "state_name DeletingState = ''deleting''"

datatype ErrorCode =
    InvalidRequestCode | UnsupportedVersionCode | FrameTooLargeCode | UnauthorizedPeerCode
  | SessionNotFoundCode | InvalidTransitionCode | CapabilityUnavailableCode | PolicyDeniedCode
  | ApprovalRequiredCode | ProviderUnavailableCode | ProviderTimeoutCode | OutcomeUnknownCode
  | ClientLaggedCode | StorageUnavailableCode | KeyStoreUnavailableCode | InternalCode

fun code_name :: "ErrorCode \<Rightarrow> string" where
  "code_name InvalidRequestCode = ''invalid_request''"
| "code_name UnsupportedVersionCode = ''unsupported_version''"
| "code_name FrameTooLargeCode = ''frame_too_large''"
| "code_name UnauthorizedPeerCode = ''unauthorized_peer''"
| "code_name SessionNotFoundCode = ''session_not_found''"
| "code_name InvalidTransitionCode = ''invalid_transition''"
| "code_name CapabilityUnavailableCode = ''capability_unavailable''"
| "code_name PolicyDeniedCode = ''policy_denied''"
| "code_name ApprovalRequiredCode = ''approval_required''"
| "code_name ProviderUnavailableCode = ''provider_unavailable''"
| "code_name ProviderTimeoutCode = ''provider_timeout''"
| "code_name OutcomeUnknownCode = ''outcome_unknown''"
| "code_name ClientLaggedCode = ''client_lagged''"
| "code_name StorageUnavailableCode = ''storage_unavailable''"
| "code_name KeyStoreUnavailableCode = ''key_store_unavailable''"
| "code_name InternalCode = ''internal''"

record ProtocolError =
  err_code :: ErrorCode
  err_message :: string
  err_retryable :: bool
  err_correlation_id :: uuid

definition ProtocolError_validate :: "ProtocolError \<Rightarrow> string + unit" where
  "ProtocolError_validate e =
     (if err_message e = [] \<or> length (err_message e) > 512
      then Err ''error message must contain 1 to 512 bytes''
      else if err_code e \<notin> {ProviderUnavailableCode, ProviderTimeoutCode, StorageUnavailableCode} \<and> err_retryable e
      then Err ''error category cannot be marked retryable'' else Ok ())"

definition ProtocolError_value :: "Externals \<Rightarrow> ProtocolError \<Rightarrow> json" where
  "ProtocolError_value x e = JObject [(''code'', JString (code_name (err_code e))),
     (''correlation_id'', uuid_value x (err_correlation_id e)), (''message'', JString (err_message e)),
     (''retryable'', JBool (err_retryable e))]"

definition code_from :: "json \<Rightarrow> ErrorCode option" where
  "code_from = enum_from
     [(''invalid_request'', InvalidRequestCode), (''unsupported_version'', UnsupportedVersionCode),
      (''frame_too_large'', FrameTooLargeCode), (''unauthorized_peer'', UnauthorizedPeerCode),
      (''session_not_found'', SessionNotFoundCode), (''invalid_transition'', InvalidTransitionCode),
      (''capability_unavailable'', CapabilityUnavailableCode),
      (''policy_denied'', PolicyDeniedCode), (''approval_required'', ApprovalRequiredCode),
      (''provider_unavailable'', ProviderUnavailableCode),
      (''provider_timeout'', ProviderTimeoutCode), (''outcome_unknown'', OutcomeUnknownCode),
      (''client_lagged'', ClientLaggedCode), (''storage_unavailable'', StorageUnavailableCode),
      (''key_store_unavailable'', KeyStoreUnavailableCode), (''internal'', InternalCode)]"

definition ProtocolError_from   :: "Externals \<Rightarrow> json \<Rightarrow> ProtocolError option" where
  "ProtocolError_from x v = do {
     fs \<leftarrow> struct_fields [(''code'', Required), (''message'', Required), (''retryable'', Required),
       (''correlation_id'', Required)] v;
     code \<leftarrow> required code_from (fs ! 0);
     message \<leftarrow> required string_from (fs ! 1);
     retryable \<leftarrow> required bool_from (fs ! 2);
     correlation_id \<leftarrow> required (uuid_from x) (fs ! 3);
     Some \<lparr>err_code = code, err_message = message, err_retryable = retryable,
       err_correlation_id = correlation_id\<rparr> }"

section \<open>Results\<close>

definition state_value :: "WireState \<Rightarrow> json" where
  "state_value s = JString (state_name s)"

definition InitializeResult_value :: json where
  "InitializeResult_value = JObject [(''max_client_queue_bytes'', JNumber (PosInt 8388608)),
     (''max_client_queue_events'', JNumber (PosInt 1024)), (''max_frame_bytes'', JNumber (PosInt 8388608)),
     (''selected_protocol'', JString ''workbench/1'')]"

definition CreateSessionResult_value :: "Externals \<Rightarrow> uuid \<Rightarrow> string \<Rightarrow> string \<Rightarrow> json" where
  "CreateSessionResult_value x session_id configuration_hash lock_hash = JObject
     [(''configuration_hash'', JString configuration_hash), (''lock_hash'', JString lock_hash),
      (''session_id'', uuid_value x session_id), (''state'', JString ''ready'')]"

definition SessionSummary_value :: "Externals \<Rightarrow> uuid \<Rightarrow> WireState \<Rightarrow> string \<Rightarrow> string option \<Rightarrow> json" where
  "SessionSummary_value x session_id state created_at terminal_at = JObject
     ([(''created_at'', JString created_at), (''session_id'', uuid_value x session_id), (''state'', state_value state)] @
      skip_none ''terminal_at'' JString terminal_at)"

definition ListSessionsResult_value :: "Externals \<Rightarrow> json list \<Rightarrow> uuid option \<Rightarrow> json" where
  "ListSessionsResult_value x summaries before = JObject
     (skip_none ''next_before_session_id'' (uuid_value x) before @ [(''sessions'', JArray summaries)])"

definition SessionResult_value ::
  "Externals \<Rightarrow> uuid \<Rightarrow> WireState \<Rightarrow> u64 \<Rightarrow> uuid option \<Rightarrow> uuid option \<Rightarrow> json" where
  "SessionResult_value x session_id state last_sequence pending uncertain = JObject
     ([(''last_sequence'', JNumber (PosInt last_sequence))] @
      skip_none ''pending_approval_id'' (uuid_value x) pending @
      [(''session_id'', uuid_value x session_id), (''state'', state_value state)] @
      skip_none ''uncertain_attempt_id'' (uuid_value x) uncertain)"

definition AttachSessionResult_value :: "Externals \<Rightarrow> uuid \<Rightarrow> WireState \<Rightarrow> u64 \<Rightarrow> u64 \<Rightarrow> json" where
  "AttachSessionResult_value x session_id state after last_sequence = JObject
     [(''last_sequence'', JNumber (PosInt last_sequence)), (''replay_after_sequence'', JNumber (PosInt after)),
      (''session_id'', uuid_value x session_id), (''state'', state_value state)]"

definition PromptResult_value :: "Externals \<Rightarrow> uuid \<Rightarrow> u64 \<Rightarrow> json" where
  "PromptResult_value x input_id sequence = JObject
     [(''input_id'', uuid_value x input_id), (''sequence'', JNumber (PosInt sequence))]"

datatype Control = PauseControl | ResumeControl | RedirectControl | CancelControl

fun control_name :: "Control \<Rightarrow> string" where
  "control_name PauseControl = ''pause''"
| "control_name ResumeControl = ''resume''"
| "control_name RedirectControl = ''redirect''"
| "control_name CancelControl = ''cancel''"

definition ControlResult_value :: "Externals \<Rightarrow> uuid \<Rightarrow> Control \<Rightarrow> WireState \<Rightarrow> json" where
  "ControlResult_value x control_id control state = JObject
     [(''control'', JString (control_name control)), (''control_id'', uuid_value x control_id), (''state'', state_value state)]"

definition ApprovalResult_value :: "Externals \<Rightarrow> uuid \<Rightarrow> ApprovalDecision \<Rightarrow> WireState \<Rightarrow> json" where
  "ApprovalResult_value x approval_id decision state = JObject
     [(''approval_id'', uuid_value x approval_id), (''decision'', decision_value decision), (''state'', state_value state)]"

definition ReconciliationResult_value ::
  "Externals \<Rightarrow> uuid \<Rightarrow> ReconciliationResolution \<Rightarrow> uuid option \<Rightarrow> WireState \<Rightarrow> json" where
  "ReconciliationResult_value x attempt resolution replacement state = JObject
     ([(''attempt_id'', uuid_value x attempt)] @ skip_none ''replacement_attempt_id'' (uuid_value x) replacement @
      [(''resolution'', resolution_value resolution), (''state'', state_value state)])"

definition DeleteResult_value :: "Externals \<Rightarrow> uuid \<Rightarrow> json" where
  "DeleteResult_value x deletion_id = JObject
     [(''deletion_id'', uuid_value x deletion_id), (''state'', JString ''deleted'')]"

section \<open>Replies\<close>

datatype ServerReply = SuccessReply uuid json | FailureReply uuid ProtocolError

text \<open>Serialisation fails on an error that does not pass its check.\<close>

definition ServerReply_serialize :: "Externals \<Rightarrow> ServerReply \<Rightarrow> json option" where
  "ServerReply_serialize x r =
     (case r of
        SuccessReply request_id result \<Rightarrow> Some (JObject [(''ok'', JBool True), (''protocol'', JString PROTOCOL_V1),
          (''request_id'', uuid_value x request_id), (''result'', result)])
      | FailureReply request_id e \<Rightarrow>
          if is_ok (ProtocolError_validate e)
          then Some (JObject [(''error'', ProtocolError_value x e), (''ok'', JBool False), (''protocol'', JString PROTOCOL_V1),
            (''request_id'', uuid_value x request_id)])
          else None)"

definition ServerReply_deserialize :: "Externals \<Rightarrow> json \<Rightarrow> ServerReply option" where
  "ServerReply_deserialize x v = do {
     fs \<leftarrow> struct_fields [(''protocol'', Required), (''request_id'', Required), (''ok'', Required), (''result'', Defaulted),
       (''error'', Defaulted)] v;
     protocol \<leftarrow> required string_from (fs ! 0);
     request_id \<leftarrow> required (uuid_from x) (fs ! 1);
     ok \<leftarrow> required bool_from (fs ! 2);
     result \<leftarrow> option_from Some (fs ! 3);
     error \<leftarrow> option_from (ProtocolError_from x) (fs ! 4);
     if protocol \<noteq> PROTOCOL_V1 then None
     else case (ok, result, error) of
       (True, Some result, None) \<Rightarrow> Some (SuccessReply request_id result)
     | (False, None, Some error) \<Rightarrow>
         if is_ok (ProtocolError_validate error) then Some (FailureReply request_id error) else None
     | _ \<Rightarrow> None }"

section \<open>What is written reads back\<close>

lemma code_roundtrip [simp]: "code_from (JString (code_name c)) = Some c"
  by (cases c) (simp_all add: code_from_def enum_from_def variant_name_def)

lemma ProtocolError_roundtrip:
  assumes "externals_ok x"
  shows "ProtocolError_from x (ProtocolError_value x e) = Some e"
  by (simp add: ProtocolError_from_def ProtocolError_value_def struct_fields_def uuid_roundtrip [OF assms])

lemma ProtocolError_value_not_null [simp]: "ProtocolError_value x e \<noteq> JNull"
  by (simp add: ProtocolError_value_def)

lemma reply_roundtrip:
  assumes "externals_ok x" "ServerReply_serialize x r = Some v" "\<And>i. r \<noteq> SuccessReply i JNull"
  shows "ServerReply_deserialize x v = Some r"
  using assms(2,3)
  by (cases r) (auto simp: ServerReply_serialize_def ServerReply_deserialize_def struct_fields_def uuid_roundtrip [OF assms(1)]
      option_from_def ProtocolError_roundtrip [OF assms(1)] split: if_splits)

end
