(* ===== verification/Daemon_Base.thy ===== *)
theory Daemon_Base
  imports Responses Storage Subscriptions Config_Merge
begin

text \<open>
  What the handlers of the daemon share (\<open>crates/workbench-daemon/src/application.rs\<close>): errors, event
  names and payloads, the events of a dispatch, and the fold of a session's history. Fresh identifiers
  are arguments.
\<close>

section \<open>Errors\<close>

datatype DaemonError =
    RecordedError ProtocolError | InvalidRequestError string | UnsupportedVersionError | SessionNotFoundError
  | InvalidTransitionError | CapabilityUnavailableError | PolicyDeniedError | StorageUnavailableError
  | KeyStoreUnavailableError | ClientLaggedError | InternalError

fun daemon_code_name :: "DaemonError \<Rightarrow> string" where
  "daemon_code_name (RecordedError e) = code_name (err_code e)"
| "daemon_code_name (InvalidRequestError _) = ''invalid_request''"
| "daemon_code_name UnsupportedVersionError = ''unsupported_version''"
| "daemon_code_name SessionNotFoundError = ''session_not_found''"
| "daemon_code_name InvalidTransitionError = ''invalid_transition''"
| "daemon_code_name CapabilityUnavailableError = ''capability_unavailable''"
| "daemon_code_name PolicyDeniedError = ''policy_denied''"
| "daemon_code_name StorageUnavailableError = ''storage_unavailable''"
| "daemon_code_name KeyStoreUnavailableError = ''key_store_unavailable''"
| "daemon_code_name ClientLaggedError = ''client_lagged''"
| "daemon_code_name InternalError = ''internal''"

fun error_parts :: "DaemonError \<Rightarrow> ErrorCode \<times> string" where
  "error_parts (RecordedError e) = (err_code e, err_message e)"
| "error_parts (InvalidRequestError m) = (InvalidRequestCode, m)"
| "error_parts UnsupportedVersionError = (UnsupportedVersionCode, ''no compatible protocol version is available'')"
| "error_parts SessionNotFoundError = (SessionNotFoundCode, ''session was not found'')"
| "error_parts InvalidTransitionError = (InvalidTransitionCode, ''session transition is not allowed'')"
| "error_parts CapabilityUnavailableError = (CapabilityUnavailableCode, ''required provider capability is unavailable'')"
| "error_parts PolicyDeniedError = (PolicyDeniedCode, ''effective policy denied the action'')"
| "error_parts StorageUnavailableError = (StorageUnavailableCode, ''encrypted storage is unavailable'')"
| "error_parts KeyStoreUnavailableError = (KeyStoreUnavailableCode, ''platform key store is unavailable'')"
| "error_parts ClientLaggedError = (ClientLaggedCode, ''client exceeded the bounded event queue'')"
| "error_parts InternalError = (InternalCode, ''internal daemon failure'')"

definition into_protocol :: "uuid \<Rightarrow> DaemonError \<Rightarrow> ProtocolError" where
  "into_protocol correlation_id e =
     (case e of
        RecordedError error \<Rightarrow> error
      | _ \<Rightarrow> (let (code, msg) = error_parts e in
          \<lparr>err_code = code, err_message = msg, err_retryable = (code = StorageUnavailableCode),
           err_correlation_id = correlation_id\<rparr>))"

fun of_storage :: "StorageError \<Rightarrow> DaemonError" where
  "of_storage (InvalidInput _) = InvalidRequestError ''storage rejected the command''"
| "of_storage RequestConflict = InvalidRequestError ''storage rejected the command''"
| "of_storage SessionNotFound = SessionNotFoundError"
| "of_storage KeyStoreUnavailable = KeyStoreUnavailableError"
| "of_storage _ = StorageUnavailableError"

fun of_config :: "ConfigError \<Rightarrow> DaemonError" where
  "of_config (CapabilityUnavailable _) = CapabilityUnavailableError"
| "of_config (ConfigIo _) = StorageUnavailableError"
| "of_config _ = InvalidRequestError ''configuration is invalid''"

fun of_subscription :: "SubscriptionError \<Rightarrow> DaemonError" where
  "of_subscription SubscriptionError.ClientLagged = ClientLaggedError"
| "of_subscription _ = InternalError"

section \<open>Names\<close>

fun wire_kind_name :: "EventKind \<Rightarrow> string" where
  "wire_kind_name EventKind.SessionCreated = ''session_created''"
| "wire_kind_name EventKind.ConfigurationResolved = ''configuration_resolved''"
| "wire_kind_name EventKind.InputRecorded = ''input_recorded''"
| "wire_kind_name EventKind.RoutingPlanned = ''routing_planned''"
| "wire_kind_name EventKind.ClarificationRequested = ''clarification_requested''"
| "wire_kind_name EventKind.ApprovalRequested = ''approval_requested''"
| "wire_kind_name EventKind.ApprovalRecorded = ''approval_recorded''"
| "wire_kind_name EventKind.DispatchPlanned = ''dispatch_planned''"
| "wire_kind_name EventKind.DispatchStarted = ''dispatch_started''"
| "wire_kind_name EventKind.DispatchAcknowledged = ''dispatch_acknowledged''"
| "wire_kind_name EventKind.ProviderEvent = ''provider_event''"
| "wire_kind_name EventKind.ToolEvent = ''tool_event''"
| "wire_kind_name EventKind.PauseRequested = ''pause_requested''"
| "wire_kind_name EventKind.SessionPaused = ''session_paused''"
| "wire_kind_name EventKind.SessionResumed = ''session_resumed''"
| "wire_kind_name EventKind.SessionRedirected = ''session_redirected''"
| "wire_kind_name EventKind.CancelRequested = ''cancel_requested''"
| "wire_kind_name EventKind.CancelConfirmed = ''cancel_confirmed''"
| "wire_kind_name EventKind.OutcomeUnknown = ''outcome_unknown''"
| "wire_kind_name EventKind.OutcomeReconciled = ''outcome_reconciled''"
| "wire_kind_name EventKind.SessionCompleted = ''session_completed''"
| "wire_kind_name EventKind.SessionFailed = ''session_failed''"
| "wire_kind_name EventKind.SessionCancelled = ''session_cancelled''"
| "wire_kind_name EventKind.SessionAbandoned = ''session_abandoned''"
| "wire_kind_name EventKind.SessionExported = ''session_exported''"
| "wire_kind_name EventKind.SessionDeletionRequested = ''session_deletion_requested''"
| "wire_kind_name EventKind.SessionDeleted = ''session_deleted''"
| "wire_kind_name EventKind.WorkflowTransition = ''workflow_transition''"

definition parse_event_kind :: "string \<Rightarrow> DaemonError + EventKind" where
  "parse_event_kind k = ok_or StorageUnavailableError (map_of
     [(''session_created'', EventKind.SessionCreated),
      (''configuration_resolved'', EventKind.ConfigurationResolved),
      (''input_recorded'', EventKind.InputRecorded), (''routing_planned'', EventKind.RoutingPlanned),
      (''clarification_requested'', EventKind.ClarificationRequested),
      (''approval_requested'', EventKind.ApprovalRequested),
      (''approval_recorded'', EventKind.ApprovalRecorded),
      (''dispatch_planned'', EventKind.DispatchPlanned),
      (''dispatch_started'', EventKind.DispatchStarted),
      (''dispatch_acknowledged'', EventKind.DispatchAcknowledged),
      (''provider_event'', EventKind.ProviderEvent), (''tool_event'', EventKind.ToolEvent),
      (''pause_requested'', EventKind.PauseRequested), (''session_paused'', EventKind.SessionPaused),
      (''session_resumed'', EventKind.SessionResumed),
      (''session_redirected'', EventKind.SessionRedirected),
      (''cancel_requested'', EventKind.CancelRequested),
      (''cancel_confirmed'', EventKind.CancelConfirmed), (''outcome_unknown'', EventKind.OutcomeUnknown),
      (''outcome_reconciled'', EventKind.OutcomeReconciled),
      (''session_completed'', EventKind.SessionCompleted), (''session_failed'', EventKind.SessionFailed),
      (''session_cancelled'', EventKind.SessionCancelled),
      (''session_abandoned'', EventKind.SessionAbandoned),
      (''session_exported'', EventKind.SessionExported),
      (''session_deletion_requested'', EventKind.SessionDeletionRequested),
      (''session_deleted'', EventKind.SessionDeleted),
      (''workflow_transition'', EventKind.WorkflowTransition)] k)"

definition parse_session_state :: "string \<Rightarrow> DaemonError + WireState" where
  "parse_session_state s = ok_or StorageUnavailableError (map_of
     [(''ready'', ReadyState), (''running'', RunningState), (''pausing'', PausingState), (''paused'', PausedState),
      (''awaiting_clarification'', AwaitingClarificationState), (''awaiting_approval'', AwaitingApprovalState),
      (''cancel_requested'', CancelRequestedState), (''outcome_unknown'', OutcomeUnknownState),
      (''completed'', CompletedState), (''failed'', FailedState), (''cancelled'', CancelledState),
      (''abandoned'', AbandonedState), (''deleting'', DeletingState)] s)"

definition value_uuid :: "Externals \<Rightarrow> json \<Rightarrow> string \<Rightarrow> uuid option" where
  "value_uuid x v field = Option.bind (get_str field v) (uuid_parse x)"

definition uuid_field :: "Externals \<Rightarrow> json \<Rightarrow> string \<Rightarrow> DaemonError + uuid" where
  "uuid_field x v field = ok_or StorageUnavailableError (value_uuid x v field)"

definition json_get :: "string \<Rightarrow> json \<Rightarrow> json option" where
  "json_get field v = (case v of JObject kvs \<Rightarrow> map_of kvs field | _ \<Rightarrow> None)"

section \<open>Payloads and events\<close>

record ClientContext =
  ctx_uid :: u32
  ctx_client_name :: string

definition actor :: "ClientContext \<Rightarrow> string" where
  "actor c = ''local-user:'' @ decimal (unat (ctx_uid c))"

definition terminal_payload :: "Externals \<Rightarrow> uuid \<Rightarrow> string \<Rightarrow> json" where
  "terminal_payload x correlation_id summary = JObject
     [(''correlation_id'', uuid_value x correlation_id), (''summary'', JString summary)]"

definition control_payload :: "Externals \<Rightarrow> uuid \<Rightarrow> ClientContext \<Rightarrow> string option \<Rightarrow> json" where
  "control_payload x control_id context instruction = JObject
     ([(''actor'', JString (actor context)), (''control_id'', uuid_value x control_id)] @
      skip_none ''instruction'' JString instruction)"

definition unknown_payload :: "Externals \<Rightarrow> uuid \<Rightarrow> string \<Rightarrow> json" where
  "unknown_payload x attempt reason = JObject [(''attempt_id'', uuid_value x attempt), (''reason'', JString reason),
     (''reconciliation_options'', strings_value [''retry'', ''accept_result'', ''abandon''])]"

definition command_event ::
  "uuid \<Rightarrow> uuid \<Rightarrow> uuid \<Rightarrow> time \<Rightarrow> EventKind \<Rightarrow> json \<Rightarrow> uuid option \<Rightarrow> string option \<Rightarrow> EventInput" where
  "command_event event_id session_id request_id occurred_at k payload attempt effect =
     \<lparr>ei_event_id = event_id, ei_session_id = session_id, ei_occurred_at = occurred_at, ei_kind = wire_kind_name k,
      ei_causation_request_id = Some request_id, ei_attempt_id = attempt, ei_effect_class = effect,
      ei_payload = payload\<rparr>"

definition dispatch_events ::
  "Externals \<Rightarrow> uuid \<Rightarrow> uuid \<Rightarrow> uuid \<Rightarrow> uuid \<Rightarrow> time \<Rightarrow> uuid \<Rightarrow> uuid option \<Rightarrow> EventInput list" where
  "dispatch_events x id1 id2 session_id request_id occurred_at attempt predecessor =
     [command_event id1 session_id request_id occurred_at EventKind.DispatchPlanned
        (JObject [(''attempt_id'', uuid_value x attempt), (''effect_class'', JString ''paid-inference''),
           (''idempotent'', JBool False), (''operation'', JString ''provider.prompt''),
           (''predecessor_attempt_id'', option_value (uuid_value x) predecessor)])
        (Some attempt) (Some ''paid-inference''),
      command_event id2 session_id request_id occurred_at EventKind.DispatchStarted
        (JObject [(''attempt_id'', uuid_value x attempt)]) (Some attempt) (Some ''paid-inference'')]"

definition DURABLE_FAILURE_FIELD :: string where
  "DURABLE_FAILURE_FIELD = ''_workbench_failure''"

definition durable_failure :: "Externals \<Rightarrow> uuid \<Rightarrow> DaemonError \<Rightarrow> json" where
  "durable_failure x correlation_id e =
     JObject [(DURABLE_FAILURE_FIELD, ProtocolError_value x (into_protocol correlation_id e))]"

definition replay_command_outcome :: "Externals \<Rightarrow> json \<Rightarrow> DaemonError + json" where
  "replay_command_outcome x outcome =
     (case json_get DURABLE_FAILURE_FIELD outcome of
        None \<Rightarrow> Ok outcome
      | Some failure \<Rightarrow>
          (case ProtocolError_from x failure of
             None \<Rightarrow> Err StorageUnavailableError
           | Some error \<Rightarrow> Err (RecordedError error)))"

definition protocol_event :: "Externals \<Rightarrow> StoredEvent \<Rightarrow> DaemonError + SessionEvent" where
  "protocol_event x e =
     and_then (parse_event_kind (se_kind e)) (\<lambda>k.
     and_then (ok_or InternalError (rfc3339 x (se_occurred_at e))) (\<lambda>occurred_at.
       Ok \<lparr>sev_protocol = PROTOCOL_V1, sev_event_id = se_event_id e, sev_session_id = se_session_id e,
           sev_sequence = se_sequence e, sev_causation_request_id = se_causation_request_id e, sev_kind = k,
           sev_occurred_at = occurred_at, sev_data = se_payload e\<rparr>))"

section \<open>The fold of a history\<close>

record FoldedSession =
  fs_state :: WireState
  fs_last_sequence :: u64
  fs_pending_approval_id :: "uuid option"
  fs_pending_request_id :: "uuid option"
  fs_uncertain_attempt_id :: "uuid option"
  fs_approval_decisions :: "uuid \<rightharpoonup> ApprovalDecision"

definition granted_state :: "ApprovalDecision \<Rightarrow> WireState" where
  "granted_state d = (case d of Grant \<Rightarrow> RunningState | Deny \<Rightarrow> PausedState)"

definition fold_kind :: "Externals \<Rightarrow> StoredEvent \<Rightarrow> FoldedSession \<Rightarrow> DaemonError + FoldedSession" where
  "fold_kind x e f =
     (let k = se_kind e in
      if k \<in> {''dispatch_started'', ''session_resumed''} then Ok (f\<lparr>fs_state := RunningState\<rparr>)
      else if k = ''clarification_requested'' then Ok (f\<lparr>fs_state := AwaitingClarificationState\<rparr>)
      else if k = ''approval_requested'' then
        Ok (f\<lparr>fs_state := AwaitingApprovalState, fs_pending_approval_id := value_uuid x (se_payload e) ''approval_id'',
              fs_pending_request_id := se_causation_request_id e\<rparr>)
      else if k = ''approval_recorded'' then
        and_then (ok_or StorageUnavailableError (value_uuid x (se_payload e) ''approval_id'')) (\<lambda>approval_id.
        and_then (ok_or StorageUnavailableError (json_get ''decision'' (se_payload e))) (\<lambda>v.
        and_then (ok_or InternalError (decision_from v)) (\<lambda>decision.
          Ok (f\<lparr>fs_approval_decisions := (fs_approval_decisions f)(approval_id \<mapsto> decision),
                fs_pending_approval_id := None, fs_pending_request_id := None, fs_state := granted_state decision\<rparr>))))
      else if k = ''pause_requested'' then Ok (f\<lparr>fs_state := PausingState\<rparr>)
      else if k = ''session_paused'' then Ok (f\<lparr>fs_state := PausedState\<rparr>)
      else if k = ''session_redirected'' \<and> fs_state f = AwaitingClarificationState then Ok (f\<lparr>fs_state := ReadyState\<rparr>)
      else if k = ''cancel_requested'' then Ok (f\<lparr>fs_state := CancelRequestedState\<rparr>)
      else if k = ''outcome_unknown'' then
        Ok (f\<lparr>fs_state := OutcomeUnknownState,
              fs_uncertain_attempt_id := (case se_attempt_id e of Some a \<Rightarrow> Some a
                                          | None \<Rightarrow> value_uuid x (se_payload e) ''attempt_id'')\<rparr>)
      else if k = ''outcome_reconciled'' then Ok (f\<lparr>fs_uncertain_attempt_id := None\<rparr>)
      else if k = ''session_completed'' then Ok (f\<lparr>fs_state := CompletedState\<rparr>)
      else if k = ''session_failed'' then Ok (f\<lparr>fs_state := FailedState\<rparr>)
      else if k = ''session_cancelled'' then Ok (f\<lparr>fs_state := CancelledState\<rparr>)
      else if k = ''session_abandoned'' then Ok (f\<lparr>fs_state := AbandonedState\<rparr>)
      else if k = ''session_deletion_requested'' then Ok (f\<lparr>fs_state := DeletingState\<rparr>)
      else Ok f)"

fun fold_events :: "Externals \<Rightarrow> FoldedSession \<Rightarrow> StoredEvent list \<Rightarrow> DaemonError + FoldedSession" where
  "fold_events x f [] = Ok f"
| "fold_events x f (e # es) =
     (if se_sequence e \<noteq> fs_last_sequence f + 1 then Err StorageUnavailableError
      else and_then (fold_kind x e (f\<lparr>fs_last_sequence := se_sequence e\<rparr>)) (\<lambda>f. fold_events x f es))"

definition folded_start :: FoldedSession where
  "folded_start = \<lparr>fs_state = ReadyState, fs_last_sequence = 0, fs_pending_approval_id = None,
     fs_pending_request_id = None, fs_uncertain_attempt_id = None, fs_approval_decisions = Map.empty\<rparr>"

definition fold_session :: "Externals \<Rightarrow> StoredEvent list \<Rightarrow> DaemonError + FoldedSession" where
  "fold_session x history =
     (if history = [] \<or> se_kind (hd history) \<noteq> ''session_created'' then Err SessionNotFoundError
      else fold_events x folded_start history)"

definition session_result :: "Externals \<Rightarrow> uuid \<Rightarrow> FoldedSession \<Rightarrow> json" where
  "session_result x session_id f = SessionResult_value x session_id (fs_state f) (fs_last_sequence f)
     (fs_pending_approval_id f) (fs_uncertain_attempt_id f)"

section \<open>Searches in a history\<close>

definition latest_started_attempt :: "StoredEvent list \<Rightarrow> uuid option" where
  "latest_started_attempt history =
     Option.bind (find (\<lambda>e. se_kind e = ''dispatch_started'') (rev history)) (\<lambda>started.
     Option.bind (se_attempt_id started) (\<lambda>attempt.
       if list_ex (\<lambda>e. se_sequence e > se_sequence started \<and> se_attempt_id e = Some attempt \<and>
            se_kind e \<in> {''session_completed'', ''session_failed'', ''session_cancelled'', ''session_abandoned'',
                         ''outcome_unknown''}) history
       then None else Some attempt))"

record ProviderExecutionContext =
  pec_provider :: string
  pec_runtime_model :: string
  pec_prompt :: string

definition select_event :: "StoredEvent list \<Rightarrow> uuid \<Rightarrow> string \<Rightarrow> StoredEvent option" where
  "select_event history preferred k =
     (case find (\<lambda>e. se_kind e = k \<and> se_causation_request_id e = Some preferred) (rev history) of
        Some e \<Rightarrow> Some e
      | None \<Rightarrow> find (\<lambda>e. se_kind e = k) (rev history))"

definition provider_execution_context ::
  "StoredEvent list \<Rightarrow> uuid \<Rightarrow> DaemonError + ProviderExecutionContext" where
  "provider_execution_context history preferred =
     ok_or StorageUnavailableError (do {
       routing \<leftarrow> select_event history preferred ''routing_planned'';
       input \<leftarrow> select_event history preferred ''input_recorded'';
       provider \<leftarrow> get_str ''provider'' (se_payload routing);
       runtime_model \<leftarrow> get_str ''runtime_model'' (se_payload routing);
       prompt \<leftarrow> get_str ''content'' (se_payload input);
       if is_ok (identifier_parse provider)
       then Some \<lparr>pec_provider = provider, pec_runtime_model = runtime_model, pec_prompt = prompt\<rparr> else None })"

end
