(* ===== verification/Workflow_Exec.thy ===== *)
theory Workflow_Exec
  imports Daemon_Base Workflows Reference
begin

text \<open>
  Workflows in the daemon (\<open>crates/workbench-daemon/src/workflow_exec.rs\<close>): runs started from a
  configuration and recovered from a history, and the step an attempt's end takes a run to
  (\<open>advance_workflow_after_attempt\<close> in \<open>application.rs\<close>).
\<close>

section \<open>Runs in JSON\<close>

fun phase_name :: "WorkflowPhase \<Rightarrow> string" where
  "phase_name WorkflowPhase.Planned = ''planned''"
| "phase_name WorkflowPhase.Running = ''running''"
| "phase_name WorkflowPhase.Paused = ''paused''"
| "phase_name WorkflowPhase.AwaitingHuman = ''awaiting_human''"
| "phase_name WorkflowPhase.Completed = ''completed''"
| "phase_name WorkflowPhase.Cancelled = ''cancelled''"
| "phase_name WorkflowPhase.Failed = ''failed''"

definition usize_value :: "nat \<Rightarrow> json" where
  "usize_value n = JNumber (PosInt (of_nat n))"

definition WorkflowRun_value :: "WorkflowRun \<Rightarrow> json" where
  "WorkflowRun_value r = JObject
     [(''active_step_index'', usize_value (active_step_index r)), (''iteration'', uint_value (iteration r)),
      (''max_iterations'', uint_value (max_iterations r)),
      (''on_findings_step_index'', option_value usize_value (on_findings_step_index r)),
      (''phase'', JString (phase_name (phase r))), (''run_id'', JString (wr_run_id r)),
      (''step_ids'', strings_value (step_ids r)), (''workflow_id'', JString (wr_workflow_id r))]"

definition phase_from :: "json \<Rightarrow> WorkflowPhase option" where
  "phase_from = enum_from [(''planned'', WorkflowPhase.Planned), (''running'', WorkflowPhase.Running),
     (''paused'', WorkflowPhase.Paused), (''awaiting_human'', WorkflowPhase.AwaitingHuman),
     (''completed'', WorkflowPhase.Completed), (''cancelled'', WorkflowPhase.Cancelled), (''failed'', WorkflowPhase.Failed)]"

definition usize_from :: "json \<Rightarrow> nat option" where
  "usize_from v = map_option unat (uint_from v :: u64 option)"

definition parsed_from :: "(string \<Rightarrow> CoreError + string) \<Rightarrow> json \<Rightarrow> string option" where
  "parsed_from parse v = Option.bind (string_from v) (\<lambda>s. case parse s of Ok t \<Rightarrow> Some t | Err _ \<Rightarrow> None)"

definition WorkflowRun_from :: "json \<Rightarrow> WorkflowRun option" where
  "WorkflowRun_from v = do {
     fs \<leftarrow> struct_fields_open [(''workflow_id'', Required), (''run_id'', Required), (''step_ids'', Required),
       (''active_step_index'', Required), (''iteration'', Required), (''phase'', Required), (''max_iterations'', Required),
       (''on_findings_step_index'', Optional)] v;
     workflow_id \<leftarrow> required (parsed_from identifier_parse) (fs ! 0);
     run_id \<leftarrow> required (parsed_from NonEmptyText_parse) (fs ! 1);
     steps \<leftarrow> required (list_from (parsed_from NonEmptyText_parse)) (fs ! 2);
     index \<leftarrow> required usize_from (fs ! 3);
     its \<leftarrow> required uint_from (fs ! 4);
     p \<leftarrow> required phase_from (fs ! 5);
     max_its \<leftarrow> required uint_from (fs ! 6);
     findings \<leftarrow> option_from usize_from (fs ! 7);
     Some \<lparr>wr_workflow_id = workflow_id, wr_run_id = run_id, step_ids = steps, active_step_index = index, iteration = its,
       phase = p, max_iterations = max_its, on_findings_step_index = findings\<rparr> }"

section \<open>Runs and histories\<close>

definition FINDINGS_MARKER :: string where
  "FINDINGS_MARKER = ''findings_present=true''"

definition content_has_findings :: "string \<Rightarrow> bool" where
  "content_has_findings content = str_contains content FINDINGS_MARKER"

definition step_max_iterations :: "WorkflowStep \<Rightarrow> u32" where
  "step_max_iterations s = (case st_max_iterations s of None \<Rightarrow> 1 | Some n \<Rightarrow> max 1 (min n 8))"

definition step_position :: "Workflow \<Rightarrow> string option \<Rightarrow> nat option" where
  "step_position w target = Option.bind target (\<lambda>t. position (\<lambda>s. st_id s = t) (wf_steps w))"

text \<open>The texts of the errors are dropped by every caller.\<close>

definition start_run :: "Externals \<Rightarrow> WorkbenchConfiguration \<Rightarrow> string \<Rightarrow> uuid \<Rightarrow> unit + WorkflowRun \<times> Workflow" where
  "start_run x c workflow_id run_id =
     (case map_of (cfg_workflows c) workflow_id of
        None \<Rightarrow> Err ()
      | Some w \<Rightarrow>
          (case wf_steps w of
             [] \<Rightarrow> Err ()
           | first # _ \<Rightarrow>
               and_then (map_err (\<lambda>_. ()) (try_map (\<lambda>s. NonEmptyText_parse (st_id s)) (wf_steps w))) (\<lambda>steps.
               and_then (map_err (\<lambda>_. ()) (identifier_parse workflow_id)) (\<lambda>workflow_id.
               and_then (map_err (\<lambda>_. ()) (NonEmptyText_parse (uuid_text x run_id))) (\<lambda>run_id.
               and_then (map_err (\<lambda>_. ()) (WorkflowRun_start workflow_id run_id steps (step_max_iterations first)
                           (step_position w (st_on_findings first)))) (\<lambda>run. Ok (run, w)))))))"

definition recover_run :: "StoredEvent list \<Rightarrow> WorkflowRun option" where
  "recover_run history =
     (case filter (\<lambda>r. r \<noteq> None) (map (\<lambda>e. if se_kind e = ''workflow_transition''
           then Option.bind (json_get ''run'' (se_payload e)) WorkflowRun_from else None) (rev history)) of
        r # _ \<Rightarrow> r
      | [] \<Rightarrow> None)"

definition session_workflow_id :: "StoredEvent list \<Rightarrow> string option" where
  "session_workflow_id history =
     Option.bind (find (\<lambda>e. se_kind e = ''session_created'') history) (\<lambda>e. get_str ''workflow_id'' (se_payload e))"

definition latest_redirect_instruction :: "StoredEvent list \<Rightarrow> string option" where
  "latest_redirect_instruction history =
     (case filter (\<lambda>r. r \<noteq> None) (map (\<lambda>e. if se_kind e = ''session_redirected''
           then get_str ''instruction'' (se_payload e) else None) (rev history)) of
        r # _ \<Rightarrow> r
      | [] \<Rightarrow> None)"

definition active_step :: "Workflow \<Rightarrow> WorkflowRun \<Rightarrow> WorkflowStep option" where
  "active_step w run = slice_get (wf_steps w) (active_step_index run)"

definition refresh_step_bounds :: "WorkflowStep \<Rightarrow> Workflow \<Rightarrow> WorkflowRun \<Rightarrow> WorkflowRun" where
  "refresh_step_bounds s w run =
     run\<lparr>max_iterations := step_max_iterations s, on_findings_step_index := step_position w (st_on_findings s)\<rparr>"

definition transition_payload :: "WorkflowRun \<Rightarrow> string \<Rightarrow> json" where
  "transition_payload run reason = JObject
     [(''iteration'', uint_value (iteration run)), (''phase'', JString (phase_name (phase run))), (''reason'', JString reason),
      (''run'', WorkflowRun_value run), (''run_id'', JString (wr_run_id run)),
      (''step_id'', JString (case active_step_id run of None \<Rightarrow> ''none'' | Some i \<Rightarrow> i)),
      (''step_index'', usize_value (active_step_index run)), (''workflow_id'', JString (wr_workflow_id run))]"

definition effective_step_tools :: "string list \<Rightarrow> string list \<Rightarrow> string list" where
  "effective_step_tools granted allowed =
     (if allowed = [] then granted else filter (\<lambda>t. t \<in> set allowed) granted)"

section \<open>The end of an attempt\<close>

definition refresh_active :: "Workflow \<Rightarrow> WorkflowRun \<Rightarrow> WorkflowRun" where
  "refresh_active w run = (case active_step w run of None \<Rightarrow> run | Some s \<Rightarrow> refresh_step_bounds s w run)"

text \<open>The run after an attempt with or without findings, and the reason recorded with it.\<close>

definition advance_run :: "Workflow \<Rightarrow> bool \<Rightarrow> WorkflowRun \<Rightarrow> DaemonError + WorkflowRun \<times> string" where
  "advance_run w findings run =
     (let run = refresh_active w run in
      if findings \<and> on_findings_step_index run \<noteq> None
      then (case apply_findings run of
              Err _ \<Rightarrow> Err InvalidTransitionError
            | Ok run \<Rightarrow> Ok (run, if phase run = WorkflowPhase.AwaitingHuman then ''awaiting_human'' else ''findings''))
      else (let clean_findings_step = (on_findings_step_index run \<noteq> None) in
            case advance_after_success run of
              Err _ \<Rightarrow> Err InvalidTransitionError
            | Ok run \<Rightarrow>
                (let run = (if clean_findings_step then reset_iteration run else run) in
                 if phase run = WorkflowPhase.Completed then Ok (run, ''completed'')
                 else Ok (refresh_active w run, ''advanced''))))"

section \<open>Correction loops\<close>

text \<open>The steps a run takes without a human: the daemon dispatches the next attempt after each.\<close>

inductive auto_advance :: "Workflow \<Rightarrow> WorkflowRun \<Rightarrow> WorkflowRun \<Rightarrow> bool" for w where
  "advance_run w findings r = Ok (r', reason) \<Longrightarrow> reason \<in> {''findings'', ''advanced''} \<Longrightarrow> auto_advance w r r'"

definition corrects :: "Workflow \<Rightarrow> nat \<Rightarrow> nat option" where
  "corrects w i = (if i < length (wf_steps w) then step_position w (st_on_findings (wf_steps w ! i)) else None)"

text \<open>No step that corrects lies inside the correction loop of another.\<close>

definition loops_separate :: "Workflow \<Rightarrow> bool" where
  "loops_separate w \<longleftrightarrow>
     list_all (\<lambda>i. case corrects w i of None \<Rightarrow> True
       | Some t \<Rightarrow> list_all (\<lambda>j. corrects w j = None) [t..<i]) [0..<length (wf_steps w)]"

definition run_of :: "Workflow \<Rightarrow> WorkflowRun \<Rightarrow> bool" where
  "run_of w r \<longleftrightarrow> length (step_ids r) = length (wf_steps w) \<and> active_step_index r < length (wf_steps w)"

definition corrections_from :: "Workflow \<Rightarrow> nat \<Rightarrow> nat" where
  "corrections_from w p = length (filter (\<lambda>i. corrects w i \<noteq> None) [p..<length (wf_steps w)])"

definition effort :: "Workflow \<Rightarrow> WorkflowRun \<Rightarrow> nat" where
  "effort w r = corrections_from w (active_step_index r) * (9 * Suc (length (wf_steps w))) +
     (8 - unat (iteration r)) * Suc (length (wf_steps w)) + (length (wf_steps w) - active_step_index r)"

lemma corrects_less: "corrects w i = Some t \<Longrightarrow> t < length (wf_steps w)"
  by (auto simp: corrects_def step_position_def bind_eq_Some_conv position_Some split: if_splits)

lemma corrections_from_Suc:
  "p < length (wf_steps w) \<Longrightarrow>
     corrections_from w p = (if corrects w p = None then 0 else 1) + corrections_from w (Suc p)"
  by (simp add: corrections_from_def upt_conv_Cons)

lemma corrections_from_mono: "p \<le> q \<Longrightarrow> corrections_from w q \<le> corrections_from w p"
proof (induction q rule: dec_induct)
  case (step q)
  then show ?case
    by (cases "q < length (wf_steps w)") (auto simp: corrections_from_Suc, simp add: corrections_from_def)
qed simp

lemma corrections_from_skip:
  "p \<le> q \<Longrightarrow> q \<le> length (wf_steps w) \<Longrightarrow> \<forall>j \<in> {p..<q}. corrects w j = None \<Longrightarrow> corrections_from w p = corrections_from w q"
proof (induction q rule: dec_induct)
  case (step q)
  then have "corrections_from w p = corrections_from w q" by simp
  with step show ?case by (simp add: corrections_from_Suc)
qed simp

lemma loops_separateD:
  assumes "loops_separate w" "corrects w i = Some t" "t \<le> j" "j < i" "i < length (wf_steps w)"
  shows "corrects w j = None"
proof -
  from assms(1,5) have "case corrects w i of None \<Rightarrow> True | Some t \<Rightarrow> list_all (\<lambda>j. corrects w j = None) [t..<i]"
    by (auto simp: loops_separate_def list_all_iff)
  with assms(2-4) show ?thesis by (simp add: list_all_iff)
qed

lemma refresh_active_run:
  assumes "run_of w r"
  shows "refresh_active w r = r\<lparr>max_iterations := step_max_iterations (wf_steps w ! active_step_index r),
    on_findings_step_index := corrects w (active_step_index r)\<rparr>"
  using assms by (simp add: refresh_active_def active_step_def slice_get_def run_of_def refresh_step_bounds_def corrects_def)

lemma step_max_iterations_le: "unat (step_max_iterations s) \<le> 8"
  by (auto simp: step_max_iterations_def word_le_nat_alt max_def min_def split: option.split)

text \<open>What an automatic step does to a run: on to the next step, or back for a correction.\<close>

lemma auto_advance_cases:
  assumes "auto_advance w r r'" "run_of w r"
  obtains "active_step_index r' = Suc (active_step_index r)" "Suc (active_step_index r) < length (wf_steps w)"
      "corrects w (active_step_index r) = None" "iteration r' = iteration r" "run_of w r'"
    | "active_step_index r' = Suc (active_step_index r)" "Suc (active_step_index r) < length (wf_steps w)"
      "corrects w (active_step_index r) \<noteq> None" "run_of w r'"
    | t where "corrects w (active_step_index r) = Some t" "active_step_index r' = t"
      "unat (iteration r') = Suc (unat (iteration r))" "unat (iteration r) < 8" "run_of w r'"
  using assms(1)
proof (cases rule: auto_advance.cases)
  case (1 findings reason)
  let ?i = "active_step_index r"
  let ?r = "r\<lparr>max_iterations := step_max_iterations (wf_steps w ! ?i), on_findings_step_index := corrects w ?i\<rparr>"
  note refresh = refresh_active_run [OF assms(2)]
  show thesis
  proof (cases "findings \<and> corrects w ?i \<noteq> None")
    case True
    with 1 obtain t where t: "corrects w ?i = Some t" and found: "apply_findings ?r = Ok r'"
      and go: "phase r' \<noteq> WorkflowPhase.AwaitingHuman"
      by (auto simp: advance_run_def refresh Let_def split: sum.splits if_splits)
    from found t go have less: "iteration r < step_max_iterations (wf_steps w ! ?i)"
      and r': "r' = ?r\<lparr>active_step_index := t, iteration := saturating_add (iteration r) 1\<rparr>"
      by (auto simp: step_simps not_le split: if_splits)
    from less have "unat (iteration r) < 8"
      using step_max_iterations_le [of "wf_steps w ! ?i"] by (simp add: word_less_nat_alt)
    with t r' unat_saturating_add_one [OF less] assms(2) corrects_less [OF t] show thesis
      by (intro that(3)) (simp_all add: run_of_def)
  next
    case False
    with 1 obtain s where s: "advance_after_success ?r = Ok s"
      and open_run: "phase (if corrects w ?i \<noteq> None then reset_iteration s else s) \<noteq> WorkflowPhase.Completed"
      and r': "r' = refresh_active w (if corrects w ?i \<noteq> None then reset_iteration s else s)"
      by (auto simp: advance_run_def refresh Let_def split: sum.splits if_splits)
    from s open_run assms(2) have s: "s = ?r\<lparr>active_step_index := Suc ?i\<rparr>" "Suc ?i < length (wf_steps w)"
      by (auto simp: step_simps run_of_def split: if_splits)
    from s assms(2) have run: "run_of w (if corrects w ?i \<noteq> None then reset_iteration s else s)"
      by (simp add: run_of_def reset_iteration_def)
    from r' refresh_active_run [OF run] s assms(2) show thesis
      by (cases "corrects w ?i") (auto intro: that(1,2) simp: run_of_def reset_iteration_def)
  qed
qed

lemma auto_advance_effort:
  assumes "auto_advance w r r'" "run_of w r" "loops_separate w"
  shows "effort w r' < effort w r \<and> run_of w r'"
  using assms(1,2)
proof (cases rule: auto_advance_cases)
  case 1
  then show ?thesis by (simp add: effort_def corrections_from_Suc)
next
  case 2
  let ?n = "Suc (length (wf_steps w))"
  have "(8 - unat (iteration r')) * ?n + (length (wf_steps w) - active_step_index r') < 9 * ?n"
  proof -
    have "(8 - unat (iteration r')) * ?n \<le> 8 * ?n" by (rule mult_right_mono) simp_all
    then show ?thesis by simp
  qed
  moreover have "corrections_from w (active_step_index r) = Suc (corrections_from w (active_step_index r'))"
    using 2 corrections_from_Suc [of "active_step_index r" w] by simp
  ultimately have "effort w r' < effort w r" unfolding effort_def by (simp only: mult_Suc)
  with 2 show ?thesis by simp
next
  case (3 t)
  let ?i = "active_step_index r" and ?n = "Suc (length (wf_steps w))"
  from assms(2) have i: "?i < length (wf_steps w)" by (simp add: run_of_def)
  have "corrections_from w t \<le> corrections_from w ?i"
  proof (cases "t \<le> ?i")
    case True
    with corrections_from_skip [of t ?i w] loops_separateD [OF assms(3) 3(1) _ _ i] i show ?thesis by simp
  qed (simp add: corrections_from_mono)
  then have "corrections_from w t * (9 * ?n) \<le> corrections_from w ?i * (9 * ?n)" by (rule mult_right_mono) simp
  moreover have "(8 - unat (iteration r')) * ?n + ?n = (8 - unat (iteration r)) * ?n"
  proof -
    from 3(3,4) have "8 - unat (iteration r) = Suc (8 - unat (iteration r'))" by simp
    then show ?thesis by simp
  qed
  ultimately have "effort w r' < effort w r" unfolding effort_def 3(2) by linarith
  with 3 show ?thesis by simp
qed

lemma auto_advance_bound:
  "(auto_advance w ^^ n) r r' \<Longrightarrow> run_of w r \<Longrightarrow> loops_separate w \<Longrightarrow> n + effort w r' \<le> effort w r \<and> run_of w r'"
proof (induction n arbitrary: r')
  case (Suc n)
  then obtain s where s: "(auto_advance w ^^ n) r s" "auto_advance w s r'" by auto
  from Suc.IH [OF s(1) Suc.prems(2,3)] auto_advance_effort [OF s(2) _ Suc.prems(3)] show ?case by auto
qed simp

lemma sum_bound: "a \<le> a' \<Longrightarrow> b \<le> 8 * n \<Longrightarrow> a' + 9 * n = d \<Longrightarrow> c \<le> n \<Longrightarrow> a + b + c \<le> d" for a b c d n :: nat
  by linarith

lemma effort_bound: "run_of w r \<Longrightarrow> effort w r \<le> 9 * (Suc (length (wf_steps w)))\<^sup>2"
proof -
  let ?n = "Suc (length (wf_steps w))"
  have "corrections_from w (active_step_index r) \<le> length (wf_steps w)"
    unfolding corrections_from_def by (rule order_trans [OF length_filter_le]) simp
  then have "corrections_from w (active_step_index r) * (9 * ?n) \<le> length (wf_steps w) * (9 * ?n)"
    by (rule mult_right_mono) simp
  moreover have "(8 - unat (iteration r)) * ?n \<le> 8 * ?n" by (rule mult_right_mono) simp_all
  moreover have "length (wf_steps w) * (9 * ?n) + 9 * ?n = 9 * ?n\<^sup>2" by (simp add: power2_eq_square algebra_simps)
  ultimately show ?thesis unfolding effort_def by (rule sum_bound) simp
qed

lemma start_run_of: "start_run x c workflow_id run_id = Ok (r, w) \<Longrightarrow> run_of w r"
  by (auto simp: start_run_def run_of_def WorkflowRun_start_def and_then_Ok_iff map_err_def
      split: option.splits list.splits if_splits sum.splits dest!: try_map_length)

text \<open>Where one loop contains another, the counter is reset on the way and the run goes on for ever.\<close>

definition nested_workflow :: Workflow where
  "nested_workflow = \<lparr>wf_steps =
     [\<lparr>st_id = ''implement'', st_role = ''workspace-coordinator'', st_on_findings = None, st_max_iterations = None,
       st_tools = [], st_fallbacks = []\<rparr>,
      \<lparr>st_id = ''review'', st_role = ''workspace-coordinator'', st_on_findings = Some ''implement'',
       st_max_iterations = Some 3, st_tools = [], st_fallbacks = []\<rparr>,
      \<lparr>st_id = ''validate'', st_role = ''workspace-coordinator'', st_on_findings = Some ''implement'',
       st_max_iterations = Some 3, st_tools = [], st_fallbacks = []\<rparr>]\<rparr>"

definition nested_run :: "nat \<Rightarrow> u32 \<Rightarrow> WorkflowRun" where
  "nested_run i k = \<lparr>wr_workflow_id = ''w'', wr_run_id = ''r'', step_ids = [''implement'', ''review'', ''validate''],
     active_step_index = i, iteration = k, phase = WorkflowPhase.Running, max_iterations = (if i = 0 then 1 else 3),
     on_findings_step_index = (if i = 0 then None else Some 0)\<rparr>"

definition nested_back :: WorkflowRun where
  "nested_back = (nested_run 0 2)\<lparr>max_iterations := 3, on_findings_step_index := Some 0\<rparr>"

lemmas nested_simps = advance_run_def refresh_active_def active_step_def slice_get_def refresh_step_bounds_def
  nested_workflow_def nested_run_def nested_back_def step_max_iterations_def step_position_def step_simps
  permits_dispatch_def saturating_add_def Let_def max_def min_def

lemma nested_steps:
  "advance_run nested_workflow True (nested_run 2 1) = Ok (nested_back, ''findings'')"
  "advance_run nested_workflow False nested_back = Ok (nested_run 1 2, ''advanced'')"
  "advance_run nested_workflow False (nested_run 1 2) = Ok (nested_run 2 1, ''advanced'')"
  by (simp_all add: nested_simps) (simp add: word_le_nat_alt)

lemma nested_cycle: "(auto_advance nested_workflow ^^ 3) (nested_run 2 1) (nested_run 2 1)"
  using nested_steps by (auto simp: numeral_3_eq_3 relcompp_apply intro!: exI auto_advance.intros)

text \<open>A configuration that passes validation need not have separate loops: this one runs for ever.\<close>

theorem correction_loop_unbounded:
  "validate (safe_builtins\<lparr>cfg_workflows := [(''w'', nested_workflow)]\<rparr>) = Ok () \<and>
   (\<forall>n. (auto_advance nested_workflow ^^ (3 * n)) (nested_run 2 1) (nested_run 2 1))"
proof
  show "validate (safe_builtins\<lparr>cfg_workflows := [(''w'', nested_workflow)]\<rparr>) = Ok ()"
    by (simp add: validate_def all_ok_def validate_limits_def validate_provider_def validate_cost_def validate_model_def
        validate_role_def validate_workflow_def validate_step_def nested_workflow_def safe_builtins_def check_def Let_def
        config_validate_identifier_def ascii_defs contains_key_def unit_interval_contains_def validate_unique_def
        is_none_or_empty_def and_then_def word_less_nat_alt)
  show "\<forall>n. (auto_advance nested_workflow ^^ (3 * n)) (nested_run 2 1) (nested_run 2 1)"
  proof
    fix n show "(auto_advance nested_workflow ^^ (3 * n)) (nested_run 2 1) (nested_run 2 1)"
    proof (induction n)
      case (Suc n)
      then show ?case using nested_cycle by (simp only: mult_Suc_right relpowp_add) (auto simp: relcompp_apply)
    qed simp
  qed
qed

section \<open>Properties\<close>

text \<open>C40: correction loops of the daemon end. Where no correcting step lies inside the loop of another, a run
  started from the configuration makes a bounded number of attempts before it completes, fails or waits
  for a human, whatever the attempts find.\<close>

theorem corrections_bounded:
  assumes "start_run x c workflow_id run_id = Ok (r, w)" "loops_separate w" "(auto_advance w ^^ n) r r'"
  shows "n \<le> 9 * (Suc (length (wf_steps w)))\<^sup>2"
  using auto_advance_bound [OF assms(3) start_run_of [OF assms(1)] assms(2)] effort_bound [OF start_run_of [OF assms(1)]]
  by simp

definition simple_workflow :: Workflow where
  "simple_workflow = \<lparr>wf_steps =
     [\<lparr>st_id = ''implement'', st_role = ''workspace-coordinator'', st_on_findings = None, st_max_iterations = None,
       st_tools = [], st_fallbacks = []\<rparr>,
      \<lparr>st_id = ''review'', st_role = ''workspace-coordinator'', st_on_findings = Some ''implement'',
       st_max_iterations = Some 2, st_tools = [], st_fallbacks = []\<rparr>]\<rparr>"

theorem corrections_bounded_witness:
  "\<exists>r r'. start_run reference (safe_builtins\<lparr>cfg_workflows := [(''w'', simple_workflow)]\<rparr>) ''w'' 7 = Ok (r, simple_workflow) \<and>
     loops_separate simple_workflow \<and> (auto_advance simple_workflow ^^ 1) r r' \<and> 1 \<le> 9 * (Suc (length (wf_steps simple_workflow)))\<^sup>2"
proof -
  let ?c = "safe_builtins\<lparr>cfg_workflows := [(''w'', simple_workflow)]\<rparr>"
  define r where "r = \<lparr>wr_workflow_id = ''w'', wr_run_id = uuid_text reference 7, step_ids = [''implement'', ''review''],
    active_step_index = 0, iteration = 1, phase = WorkflowPhase.Running, max_iterations = 1, on_findings_step_index = None\<rparr>"
  have start: "start_run reference ?c ''w'' 7 = Ok (r, simple_workflow)"
    by (simp add: start_run_def simple_workflow_def NonEmptyText_parse_def identifier_parse_def ascii_defs
        step_max_iterations_def step_position_def WorkflowRun_start_def MAX_CORRECTION_ITERATIONS_def r_def map_err_def
        reference_def word_less_nat_alt and_then_def)
  have sep: "loops_separate simple_workflow"
    by (simp add: loops_separate_def simple_workflow_def corrects_def step_position_def upt_rec)
  have "advance_run simple_workflow False r = Ok (r\<lparr>active_step_index := 1, max_iterations := 2,
      on_findings_step_index := Some 0\<rparr>, ''advanced'')"
    by (simp add: nested_simps simple_workflow_def r_def)
  then have step: "(auto_advance simple_workflow ^^ 1) r (r\<lparr>active_step_index := 1, max_iterations := 2, on_findings_step_index := Some 0\<rparr>)"
    by (auto simp: eq_OO intro: auto_advance.intros)
  from corrections_bounded [OF start sep step] start sep step show ?thesis by blast
qed

end
