(* ===== verification/Startup.thy ===== *)
theory Startup
  imports Snapshot_Reload Workflow_Exec
begin

text \<open>
  The configuration a daemon runs with (\<open>crates/workbench-daemon/src/startup.rs\<close>), the configuration and lock of
  a new session, and reading both back from a stored session (\<open>hydrate_stored_session\<close> and its
  neighbours in \<open>application.rs\<close>). The layers and the committed lock are arguments: reading their files is
  I/O. YAML text is a parameter.
\<close>

section \<open>Startup\<close>

record StartupConfiguration =
  su_resolved :: WorkbenchConfiguration
  su_snapshot :: ConfigurationSnapshot
  su_base_lock :: WorkbenchLock
  su_sources :: "string list"
  su_lock_verified :: bool

definition startup_from_resolved ::
  "Externals \<Rightarrow> Files \<Rightarrow> ResolvedConfiguration \<Rightarrow> AdapterInput btree \<Rightarrow> ConfigError + StartupConfiguration" where
  "startup_from_resolved x fs resolved adapter_inputs =
     (let snapshot = snapshot_create x (rc_configuration resolved) (rc_sources resolved) in
      and_then (lock_repository fs (rc_configuration resolved) snapshot adapter_inputs) (\<lambda>base_lock.
        Ok \<lparr>su_resolved = rc_configuration resolved, su_snapshot = snapshot, su_base_lock = base_lock,
            su_sources = rc_sources resolved, su_lock_verified = False\<rparr>))"

definition adapter_inputs_from_lock ::
  "WorkbenchConfiguration \<Rightarrow> WorkbenchLock \<Rightarrow> ConfigError + AdapterInput btree" where
  "adapter_inputs_from_lock c committed =
     try_map (\<lambda>(name, locked).
       and_then (ok_or (LockError (''locked adapter '' @ name @ '' has no configured provider''))
                   (map_of (cfg_providers c) name)) (\<lambda>provider.
       and_then (ok_or (LockError (''locked adapter '' @ name @ '' has no configured executable''))
                   (prov_executable provider)) (\<lambda>executable.
         Ok (name, \<lparr>ai_protocol = la_protocol locked, ai_version = la_version locked, ai_executable = executable,
                    ai_executable_sha256 = la_executable_sha256 locked\<rparr>)))) (lk_adapters committed)"

definition verify_expected_lock :: "StartupConfiguration \<Rightarrow> WorkbenchLock \<Rightarrow> ConfigError + StartupConfiguration" where
  "verify_expected_lock expected committed =
     (if committed \<noteq> su_base_lock expected
      then Err (LockError ''repository lock differs from resolved configuration'')
      else Ok (expected\<lparr>su_base_lock := committed, su_lock_verified := True\<rparr>))"

text \<open>\<open>load_with_configuration\<close>, after the layers and the lock have been read.\<close>

definition read_lock :: "json \<Rightarrow> ConfigError + WorkbenchLock" where
  "read_lock v =
     (case WorkbenchLock_from v of
        None \<Rightarrow> Err (LockError ''repository lock is invalid'')
      | Some l \<Rightarrow> and_then (lock_verify l) (\<lambda>_. Ok l))"

definition load_startup ::
  "Externals \<Rightarrow> Files \<Rightarrow> ConfigLayer list \<Rightarrow> json \<Rightarrow> ConfigError + StartupConfiguration" where
  "load_startup x fs layers lock =
     and_then (resolve_with_builtins layers) (\<lambda>resolved.
     and_then (read_lock lock) (\<lambda>committed.
     and_then (adapter_inputs_from_lock (rc_configuration resolved) committed) (\<lambda>adapter_inputs.
     and_then (startup_from_resolved x fs resolved adapter_inputs) (\<lambda>expected.
       verify_expected_lock expected committed))))"

section \<open>The configuration of a session\<close>

definition is_executable_adapter :: "Provider \<Rightarrow> bool" where
  "is_executable_adapter p \<longleftrightarrow>
     prov_kind p = Acp \<and> prov_driver p = None \<or> prov_kind p = SubscriptionCli \<and> prov_driver p \<noteq> None"

definition reject_adapter_executable_overrides ::
  "Files \<Rightarrow> WorkbenchConfiguration \<Rightarrow> WorkbenchConfiguration \<Rightarrow> ConfigError + unit" where
  "reject_adapter_executable_overrides fs base session = all_ok
     [try_for_each (\<lambda>(name, p).
        lock_check (\<not> (is_executable_adapter p \<and>
            (case map_of (cfg_providers base) name of None \<Rightarrow> True | Some q \<Rightarrow> \<not> is_executable_adapter q)))
          (''session override introduced executable provider '' @ name)) (cfg_providers session),
      try_for_each (\<lambda>(name, p).
        if \<not> is_executable_adapter p then Ok ()
        else and_then (ok_or (LockError (''session override removed pinned executable provider '' @ name))
                         (map_of (cfg_providers session) name)) (\<lambda>candidate.
          if prov_kind candidate \<noteq> prov_kind p \<or> prov_driver candidate \<noteq> prov_driver p
          then Err (LockError (''session override changed pinned executable provider '' @ name))
          else
            (let missing = LockError (''provider '' @ name @ '' has no executable'') in
             and_then (ok_or missing (prov_executable p)) (\<lambda>base_executable.
             and_then (ok_or missing (prov_executable candidate)) (\<lambda>candidate_executable.
             and_then (canonicalize fs base_executable) (\<lambda>base_executable.
             and_then (canonicalize fs candidate_executable) (\<lambda>candidate_executable.
               lock_check (base_executable = candidate_executable)
                 (''session override replaced pinned executable for provider '' @ name)))))))) (cfg_providers base)]"

text \<open>\<open>to_string\<close> writes YAML, \<open>from_str\<close> reads it.\<close>

definition resolve_session ::
  "Externals \<Rightarrow> (raw_json \<Rightarrow> bytes) \<Rightarrow> Files \<Rightarrow> (json btree \<Rightarrow> string option) \<Rightarrow> (string \<Rightarrow> json option) \<Rightarrow> StartupConfiguration
     \<Rightarrow> json btree option \<Rightarrow> ConfigError + ResolvedConfiguration \<times> ConfigurationSnapshot \<times> WorkbenchLock" where
  "resolve_session x text_of_raw fs to_string from_str su overrides =
     (let base = layer_from_configuration ''resolved-base'' (su_resolved su) in
      and_then (case overrides of
          Some o' \<Rightarrow> and_then (ok_or Syntax (to_string o')) (\<lambda>yaml.
            and_then (layer_from_yaml from_str ''session'' yaml) (\<lambda>override_layer. resolve [base, override_layer]))
        | None \<Rightarrow> resolve [base]) (\<lambda>resolved.
      and_then (reject_adapter_executable_overrides fs (su_resolved su) (rc_configuration resolved)) (\<lambda>_.
      and_then (verify_configured_executables fs (su_base_lock su) (rc_configuration resolved)) (\<lambda>_.
      let sources = su_sources su @ (if overrides = None then [] else [''session'']);
          snapshot = snapshot_create x (rc_configuration resolved) sources in
      and_then (lock_session x text_of_raw (su_base_lock su) (rc_configuration resolved) snapshot) (\<lambda>session_lock.
      and_then (verify_linked_to x text_of_raw session_lock (su_base_lock su)) (\<lambda>_.
        Ok (resolved, snapshot, session_lock)))))))"

section \<open>Sessions read back\<close>

record SessionCache =
  sc_configs :: "uuid \<rightharpoonup> WorkbenchConfiguration"
  sc_locks :: "uuid \<rightharpoonup> WorkbenchLock"
  sc_known :: "uuid set"
  sc_workflows :: "uuid \<rightharpoonup> string"

definition cache_empty :: SessionCache where
  "cache_empty = \<lparr>sc_configs = Map.empty, sc_locks = Map.empty, sc_known = {}, sc_workflows = Map.empty\<rparr>"

text \<open>\<open>history\<close> is what replaying the session answers.\<close>

definition hydrate_stored_session ::
  "StorageError + StoredEvent list \<Rightarrow> StoredSession \<Rightarrow> SessionCache \<Rightarrow> (StorageError + unit) \<times> SessionCache" where
  "hydrate_stored_session history stored cache =
     (case ConfigurationSnapshot_from (ss_configuration_snapshot stored) of
        None \<Rightarrow> (Err StorageUnavailable, cache)
      | Some snapshot \<Rightarrow>
          if snap_schema_version snapshot \<noteq> 1
          then (Err (InvalidInput ''persisted configuration snapshot version is unsupported''), cache)
          else case Configuration_from (snap_configuration snapshot) of
            None \<Rightarrow> (Err StorageUnavailable, cache)
          | Some configuration \<Rightarrow>
              (case WorkbenchLock_from (ss_lock_snapshot stored) of
                 None \<Rightarrow> (Err StorageUnavailable, cache)
               | Some session_lock \<Rightarrow>
                   if \<not> is_ok (lock_verify session_lock)
                   then (Err (InvalidInput ''persisted session lock is invalid''), cache)
                   else if lc_resolved_hash (lk_configuration session_lock) \<noteq> snap_content_hash snapshot
                   then (Err AuthenticationFailed, cache)
                   else
                     (let i = ss_session_id stored;
                          cache = cache\<lparr>sc_configs := (sc_configs cache)(i \<mapsto> configuration),
                                        sc_locks := (sc_locks cache)(i \<mapsto> session_lock),
                                        sc_known := insert i (sc_known cache)\<rparr> in
                      (Ok (),
                       case history of
                         Err _ \<Rightarrow> cache
                       | Ok events \<Rightarrow>
                           (case session_workflow_id events of
                              None \<Rightarrow> cache
                            | Some workflow_id \<Rightarrow> cache\<lparr>sc_workflows := (sc_workflows cache)(i \<mapsto> workflow_id)\<rparr>)))))"

fun hydrate_all ::
  "(uuid \<Rightarrow> StorageError + StoredEvent list) \<Rightarrow> StoredSession list \<Rightarrow> SessionCache \<Rightarrow> (StorageError + unit) \<times> SessionCache" where
  "hydrate_all history [] cache = (Ok (), cache)"
| "hydrate_all history (s # ss) cache =
     st_then (hydrate_stored_session (history (ss_session_id s)) s cache) (\<lambda>_ cache. hydrate_all history ss cache)"

definition evict_session :: "uuid \<Rightarrow> SessionCache \<Rightarrow> SessionCache" where
  "evict_session i cache =
     \<lparr>sc_configs = (sc_configs cache)(i := None), sc_locks = (sc_locks cache)(i := None), sc_known = sc_known cache - {i},
      sc_workflows = (sc_workflows cache)(i := None)\<rparr>"

text \<open>Whether the retention of its own configuration lets an ended session go.\<close>

definition retention_due :: "SessionCache \<Rightarrow> StoredSession \<Rightarrow> time \<Rightarrow> StorageError + bool" where
  "retention_due cache s now =
     (if ss_state s \<notin> {''completed'', ''failed'', ''cancelled'', ''abandoned''} then Ok False
      else case ss_terminal_at s of
        None \<Rightarrow> Ok False
      | Some terminal_at \<Rightarrow>
          (case sc_configs cache (ss_session_id s) of
             None \<Rightarrow> Err StorageUnavailable
           | Some c \<Rightarrow>
               (case sto_retention_days (cfg_storage c) of
                  None \<Rightarrow> Ok False
                | Some days \<Rightarrow>
                    if days = 0 then Err (InvalidInput ''retention must be at least one day'')
                    else Ok (terminal_at \<le> now - int (unat days) * NANOS_PER_DAY))))"

section \<open>What a session override can change\<close>

lemma all_ok_Ok_iff [simp]: "all_ok rs = Ok u \<longleftrightarrow> list_all (\<lambda>r. r = Ok ()) rs"
  by (induction rs) (auto simp: all_ok_def and_then_Ok_iff)

lemma lock_check_Ok_iff [simp]: "lock_check b msg = Ok u \<longleftrightarrow> b"
  by (simp add: lock_check_def)

lemma expected_executable: "expected_adapter_protocol p = Ok s \<Longrightarrow> is_executable_adapter p"
  by (auto simp: expected_adapter_protocol_def is_executable_adapter_def split: ProviderType.splits option.splits)

lemma resolve_session_Ok:
  assumes "resolve_session x text_of_raw fs to_string from_str su overrides = Ok (r, snap, l)"
  shows "reject_adapter_executable_overrides fs (su_resolved su) (rc_configuration r) = Ok ()"
    and "verify_configured_executables fs (su_base_lock su) (rc_configuration r) = Ok ()"
    and "\<exists>sources. snap = snapshot_create x (rc_configuration r) sources"
    and "lock_session x text_of_raw (su_base_lock su) (rc_configuration r) snap = Ok l"
    and "lock_verify l = Ok ()"
    and "lk_adapters l = lk_adapters (su_base_lock su)"
  using assms by (auto simp: resolve_session_def Let_def and_then_Ok_iff verify_linked_to_def lock_session_def)

text \<open>A verified executable is the one the base configuration names, with the digest its lock pins.\<close>

lemma executable_pinned:
  assumes "reject_adapter_executable_overrides fs base session = Ok ()" "verify_configured_executables fs l session = Ok ()"
    and "map_of (cfg_providers session) name = Some p" "prov_kind p \<noteq> FakeProvider" "prov_executable p = Some executable"
  shows "\<exists>q e path a. map_of (cfg_providers base) name = Some q \<and> prov_kind q = prov_kind p \<and> prov_driver q = prov_driver p \<and>
    prov_executable q = Some e \<and> canonicalize fs e = Ok path \<and> canonicalize fs executable = Ok path \<and>
    map_of (lk_adapters l) name = Some a \<and> sha256_file fs path = Ok (la_executable_sha256 a)"
proof -
  have p: "(name, p) \<in> set (cfg_providers session)" using assms(3) by (rule map_of_SomeD)
  with assms(2,4,5) obtain a path where a: "map_of (lk_adapters l) name = Some a" "canonicalize fs executable = Ok path"
    "expected_adapter_protocol p = Ok (la_protocol a)" "sha256_file fs path = Ok (la_executable_sha256 a)"
    by (fastforce simp: verify_configured_executables_def and_then_Ok_iff try_for_each_Ok_iff Let_def split: if_splits)
  from assms(1) p a(3) obtain q where q: "map_of (cfg_providers base) name = Some q" "is_executable_adapter q"
    by (fastforce simp: reject_adapter_executable_overrides_def try_for_each_Ok_iff dest: expected_executable split: option.splits)
  from assms(1) map_of_SomeD [OF q(1)] q(2) assms(3,5) a(2)
  have "prov_kind p = prov_kind q \<and> prov_driver p = prov_driver q \<and>
    (\<exists>e. prov_executable q = Some e \<and> canonicalize fs e = Ok path)"
    by (fastforce simp: reject_adapter_executable_overrides_def try_for_each_Ok_iff and_then_Ok_iff Let_def split: if_splits)
  with q(1) a show ?thesis by auto
qed


definition demo_agent :: Provider where
  "demo_agent = \<lparr>prov_kind = Acp, prov_driver = None, prov_executable = Some ''/opt/agent'', prov_credential_ref = None,
     prov_privacy = None, prov_base_url = None\<rparr>"

definition demo_configuration :: WorkbenchConfiguration where
  "demo_configuration = safe_builtins\<lparr>cfg_providers := (''agent'', demo_agent) # cfg_providers safe_builtins\<rparr>"

definition demo_digest :: string where
  "demo_digest = replicate 64 CHR ''0''"

definition demo_files :: Files where
  "demo_files = \<lparr>canonicalize = Ok, sha256_file = (\<lambda>_. Ok demo_digest)\<rparr>"

definition demo_hashing :: Externals where
  "demo_hashing = reference\<lparr>blake3_hex := \<lambda>_. demo_digest\<rparr>"

definition demo_startup :: StartupConfiguration where
  "demo_startup = \<lparr>su_resolved = demo_configuration, su_snapshot = snapshot_create demo_hashing demo_configuration [''builtins''],
     su_base_lock = \<lparr>lk_version = 1, lk_scope = RepositoryScope, lk_base_lock_hash = None,
       lk_configuration = locked_configuration (snapshot_create demo_hashing demo_configuration [''builtins'']),
       lk_protocol = \<lparr>lp_major = 1, lp_minor = 0\<rparr>,
       lk_adapters = [(''agent'', \<lparr>la_protocol = ACP_PROTOCOL, la_version = ''1'', la_executable_sha256 = demo_digest\<rparr>)],
       lk_models = lock_models demo_configuration, lk_mcps = []\<rparr>,
     su_sources = [''builtins''], su_lock_verified = True\<rparr>"

lemmas demo_config_defs = demo_configuration_def demo_agent_def safe_builtins_def

lemma demo_validates:
  "validate (demo_configuration\<lparr>cfg_policies := \<lparr>pol_default_tool_mode = m, pol_global_deny = [], pol_cost = None,
     pol_provider_native_writes = native_write_default\<rparr>\<rparr>) = Ok ()"
  by (simp add: validate_def all_ok_def validate_limits_def validate_provider_def validate_cost_def validate_model_def
      validate_role_def demo_config_defs check_def Let_def config_validate_identifier_def ascii_defs contains_key_def
      unit_interval_contains_def validate_unique_def is_none_or_empty_def and_then_def word_less_nat_alt)

lemma demo_digest_valid: "validate_digest demo_digest path = Ok ()"
  by (simp add: validate_digest_def demo_digest_def list_all_iff is_lower_hex_def ascii_defs)

text \<open>A startup from the layers and lock of the demonstration repository, and any session of it.\<close>

lemma demo_session:
  assumes "(case overrides of None \<Rightarrow> resolve [layer_from_configuration ''resolved-base'' demo_configuration]
      | Some o' \<Rightarrow> and_then (ok_or Syntax (to_string o')) (\<lambda>yaml. and_then (layer_from_yaml from_str ''session'' yaml) (\<lambda>layer.
          resolve [layer_from_configuration ''resolved-base'' demo_configuration, layer]))) = Ok r"
    and "cfg_providers (rc_configuration r) = cfg_providers demo_configuration"
    and "cfg_mcp_servers (rc_configuration r) = []"
  shows "\<exists>snap l. resolve_session demo_hashing text_of_raw demo_files to_string from_str demo_startup overrides = Ok (r, snap, l)"
proof -
  have base: "lock_verify (su_base_lock demo_startup) = Ok ()"
    by (simp add: demo_startup_def lock_verify_def locked_configuration_def snapshot_create_def demo_hashing_def Let_def
        demo_digest_valid bad_version_def ACP_PROTOCOL_def all_ok_def lock_check_def)
  moreover have "reject_adapter_executable_overrides demo_files (su_resolved demo_startup) (rc_configuration r) = Ok ()"
    by (simp add: reject_adapter_executable_overrides_def assms(2) demo_startup_def demo_config_defs is_executable_adapter_def
        demo_files_def Let_def lock_check_def all_ok_def)
  moreover have "verify_configured_executables demo_files (su_base_lock demo_startup) (rc_configuration r) = Ok ()"
    unfolding verify_configured_executables_def
    by (simp add: base assms(2)) (simp add: demo_startup_def demo_config_defs demo_files_def expected_adapter_protocol_def Let_def)
  moreover have "\<exists>l. lock_session demo_hashing text_of_raw (su_base_lock demo_startup) (rc_configuration r) snap = Ok l \<and>
      verify_linked_to demo_hashing text_of_raw l (su_base_lock demo_startup) = Ok ()"
    if "snap = snapshot_create demo_hashing (rc_configuration r) sources" for snap sources
    unfolding verify_linked_to_def
    by (simp add: that base lock_session_def assms(2,3))
      (simp add: lock_verify_def demo_startup_def demo_config_defs locked_configuration_def snapshot_create_def demo_hashing_def
        Let_def demo_digest_valid bad_version_def ACP_PROTOCOL_def all_ok_def lock_check_def lock_hash_def contains_key_def lock_mcps_def assms(3))
  ultimately show ?thesis
    using assms(1) by (fastforce simp: resolve_session_def Let_def demo_startup_def and_then_Ok_iff)
qed

definition demo_resolved :: ResolvedConfiguration where
  "demo_resolved = \<lparr>rc_configuration = demo_configuration, rc_sources = [''resolved-base'']\<rparr>"

lemma demo_plain_session:
  "\<exists>snap l. resolve_session demo_hashing text_of_raw demo_files to_string from_str demo_startup None = Ok (demo_resolved, snap, l)"
proof (rule demo_session)
  have finite: "threshold_finite demo_configuration" by (simp add: threshold_finite_def demo_config_defs)
  have "validate demo_configuration = Ok ()"
    using demo_validates [of DefaultReadOnly] by (simp add: demo_config_defs)
  then show "(case None of None \<Rightarrow> resolve [layer_from_configuration ''resolved-base'' demo_configuration]
      | Some o' \<Rightarrow> and_then (ok_or Syntax (to_string o')) (\<lambda>yaml. and_then (layer_from_yaml from_str ''session'' yaml) (\<lambda>layer.
          resolve [layer_from_configuration ''resolved-base'' demo_configuration, layer]))) = Ok demo_resolved"
    by (simp add: resolve_def merge_layers_def layer_from_configuration_def merge_first Configuration_roundtrip finite demo_resolved_def)
qed (simp_all add: demo_resolved_def demo_config_defs)


text \<open>C38: the overrides of a session only tighten the tool policy. The denied tools of the base configuration stay
  denied and the default mode is at least as strict, provided the overrides do not give the policies as an
  array. The parsed overrides are an object with distinct keys.\<close>

theorem session_override_tightens:
  assumes "resolve_session x text_of_raw fs to_string from_str su (Some o') = Ok (r, snap, l)"
    and "to_string o' = Some yaml" "from_str yaml = Some (JObject overlay)" "json_wf (JObject overlay)"
    and "\<forall>vs. map_of overlay ''policies'' \<noteq> Some (JArray vs)"
  shows "set (pol_global_deny (cfg_policies (su_resolved su))) \<subseteq> set (pol_global_deny (cfg_policies (rc_configuration r))) \<and>
    pol_default_tool_mode (cfg_policies (su_resolved su)) \<le> pol_default_tool_mode (cfg_policies (rc_configuration r))"
proof -
  from assms(1-3) have "resolve [layer_from_configuration ''resolved-base'' (su_resolved su),
      \<lparr>layer_name = ''session'', layer_value = JObject overlay\<rparr>] = Ok r"
    and "validate_layer_value ''session'' (JObject overlay) = Ok ()"
    by (auto simp: resolve_session_def Let_def and_then_Ok_iff layer_from_yaml_def)
  then show ?thesis using assms(4,5) by (rule session_policies_tighten)
qed

text \<open>An override of the policies alone, in whatever form serde reads.\<close>

lemma resolve_policies:
  assumes "Policies_from (merge_value ''policies'' (Policies_value (cfg_policies base)) v) = Some p" "threshold_finite base"
  shows "resolve [layer_from_configuration n base, \<lparr>layer_name = name, layer_value = JObject [(''policies'', v)]\<rparr>] =
    and_then (validate (base\<lparr>cfg_policies := p\<rparr>)) (\<lambda>_. Ok \<lparr>rc_configuration = base\<lparr>cfg_policies := p\<rparr>, rc_sources = [n, name]\<rparr>)"
proof -
  have merged: "merge_layers [layer_from_configuration n base, \<lparr>layer_name = name, layer_value = JObject [(''policies'', v)]\<rparr>] =
      merge_value [] (Configuration_value base) (JObject [(''policies'', v)])"
    by (simp add: merge_layers_def layer_from_configuration_def merge_first)
  have "Configuration_from (merge_value [] (Configuration_value base) (JObject [(''policies'', v)])) = Some (base\<lparr>cfg_policies := p\<rparr>)"
    using assms by (simp add: Configuration_value_def Configuration_from_def struct_fields_def child_path_def less_char_def
        threshold_finite_def del: struct_del split: f64.splits)
  then show ?thesis by (simp add: resolve_def merged) (simp add: layer_from_configuration_def)
qed

theorem session_override_tightens_witness:
  "\<exists>r snap l. resolve_session demo_hashing (\<lambda>_. []) demo_files (\<lambda>_. Some ''y'')
      (\<lambda>_. Some (JObject [(''policies'', JObject [(''default_tool_mode'', JString ''denied'')])])) demo_startup (Some []) = Ok (r, snap, l) \<and>
     pol_default_tool_mode (cfg_policies demo_configuration) \<le> pol_default_tool_mode (cfg_policies (rc_configuration r))"
proof -
  let ?v = "JObject [(''default_tool_mode'', JString ''denied'')]"
  let ?p = "\<lparr>pol_default_tool_mode = DefaultDenied, pol_global_deny = [], pol_cost = None, pol_provider_native_writes = native_write_default\<rparr>"
  define r where "r = \<lparr>rc_configuration = demo_configuration\<lparr>cfg_policies := ?p\<rparr>, rc_sources = [''resolved-base'', ''session'']\<rparr>"
  have "Policies_from (merge_value ''policies'' (Policies_value (cfg_policies demo_configuration)) ?v) = Some ?p"
    by (simp add: demo_config_defs Policies_value_def Policies_from_def struct_fields_def child_path_def less_char_def
        policy_rank_def skip_none_def production_mutations_from_def tool_mode_from_def enum_from_def variant_name_def)
  from resolve_policies [OF this]
  have "resolve [layer_from_configuration ''resolved-base'' demo_configuration,
      \<lparr>layer_name = ''session'', layer_value = JObject [(''policies'', ?v)]\<rparr>] = Ok r"
    by (simp add: threshold_finite_def demo_validates r_def) (simp add: demo_config_defs)
  moreover have "validate_layer_value ''session'' (JObject [(''policies'', ?v)]) = Ok ()"
    by (simp add: validate_layer_value_def all_ok_def check_def TOP_LEVEL_KEYS_def)
  ultimately obtain snap l where session: "resolve_session demo_hashing (\<lambda>_. []) demo_files (\<lambda>_. Some ''y'')
      (\<lambda>_. Some (JObject [(''policies'', ?v)])) demo_startup (Some []) = Ok (r, snap, l)"
    using demo_session [where overrides = "Some []" and to_string = "\<lambda>_. Some ''y''" and
        from_str = "\<lambda>_. Some (JObject [(''policies'', ?v)])" and r = r]
    by (fastforce simp: layer_from_yaml_def r_def demo_config_defs)
  have "pol_default_tool_mode (cfg_policies (su_resolved demo_startup)) \<le> pol_default_tool_mode (cfg_policies (rc_configuration r))"
    using session_override_tightens [OF session] by simp
  with session show ?thesis by (auto simp: demo_startup_def)
qed

text \<open>Given as an array, the policies of an override replace the stricter mode of the base.\<close>

lemma array_override_loosens:
  "resolve [layer_from_configuration n (demo_configuration\<lparr>cfg_policies := (cfg_policies safe_builtins)\<lparr>pol_default_tool_mode := DefaultDenied\<rparr>\<rparr>),
     \<lparr>layer_name = name, layer_value = JObject [(''policies'', JArray [JString ''read-only'', JArray [], JString ''approval-required''])]\<rparr>] =
   Ok \<lparr>rc_configuration = demo_configuration, rc_sources = [n, name]\<rparr>"
proof -
  let ?base = "demo_configuration\<lparr>cfg_policies := (cfg_policies safe_builtins)\<lparr>pol_default_tool_mode := DefaultDenied\<rparr>\<rparr>"
  let ?p = "cfg_policies safe_builtins"
  have "Policies_from (merge_value ''policies'' (Policies_value (cfg_policies ?base))
      (JArray [JString ''read-only'', JArray [], JString ''approval-required''])) = Some ?p"
    by (simp add: safe_builtins_def Policies_value_def Policies_from_def struct_fields_def strings_from_def
        production_mutations_from_def tool_mode_from_def enum_from_def variant_name_def)
  from resolve_policies [OF this, of n name] show ?thesis
    using demo_validates [of DefaultReadOnly] by (simp add: threshold_finite_def demo_config_defs)
qed

section \<open>A session after a restart\<close>

lemma hydrate_created:
  assumes "snap = snapshot_create x c sources" "lock_session x text_of_raw base c snap = Ok l" "lock_verify l = Ok ()"
    and "ss_configuration_snapshot stored = ConfigurationSnapshot_value snap" "ss_lock_snapshot stored = WorkbenchLock_value l"
  shows "fst (hydrate_stored_session history stored cache) = (if reloadable c then Ok () else Err StorageUnavailable)"
    and "\<not> reloadable c \<Longrightarrow> snd (hydrate_stored_session history stored cache) = cache"
    and "reloadable c \<Longrightarrow>
      sc_configs (snd (hydrate_stored_session history stored cache)) = (sc_configs cache)(ss_session_id stored \<mapsto> masked_configuration c)"
    and "reloadable c \<Longrightarrow>
      sc_locks (snd (hydrate_stored_session history stored cache)) = (sc_locks cache)(ss_session_id stored \<mapsto> l)"
proof -
  have "lc_resolved_hash (lk_configuration l) = snap_content_hash snap"
    using assms(2) by (auto simp: lock_session_def and_then_Ok_iff locked_configuration_def)
  moreover have "snap_schema_version snap = 1" "snap_configuration snap = redact None (Configuration_value c)"
    by (simp_all add: assms(1) snapshot_create_def Let_def)
  ultimately show "fst (hydrate_stored_session history stored cache) = (if reloadable c then Ok () else Err StorageUnavailable)"
    and "\<not> reloadable c \<Longrightarrow> snd (hydrate_stored_session history stored cache) = cache"
    and "reloadable c \<Longrightarrow>
      sc_configs (snd (hydrate_stored_session history stored cache)) = (sc_configs cache)(ss_session_id stored \<mapsto> masked_configuration c)"
    and "reloadable c \<Longrightarrow>
      sc_locks (snd (hydrate_stored_session history stored cache)) = (sc_locks cache)(ss_session_id stored \<mapsto> l)"
    using assms(3-5)
    by (simp_all add: hydrate_stored_session_def configuration_reload Let_def split: sum.split option.split)
qed

text \<open>C39: a stored session reads back after a restart exactly when its snapshot can be read. The configuration
  comes back with its secrets masked and with the lock the session was created with; a session whose
  configuration has an argument list, an environment, headers or an entry named like a secret field does not
  come back at all, and reading it leaves the cache unchanged.\<close>

theorem session_reload:
  assumes "resolve_session x text_of_raw fs to_string from_str su overrides = Ok (r, snap, l)"
    and "ss_configuration_snapshot stored = ConfigurationSnapshot_value snap" "ss_lock_snapshot stored = WorkbenchLock_value l"
  shows "case hydrate_stored_session history stored cache of
     (Ok _, cache') \<Rightarrow> reloadable (rc_configuration r) \<and>
       sc_configs cache' = (sc_configs cache)(ss_session_id stored \<mapsto> masked_configuration (rc_configuration r)) \<and>
       sc_locks cache' = (sc_locks cache)(ss_session_id stored \<mapsto> l)
   | (Err e, cache') \<Rightarrow> \<not> reloadable (rc_configuration r) \<and> e = StorageUnavailable \<and> cache' = cache"
proof -
  obtain sources where "snap = snapshot_create x (rc_configuration r) sources"
    using resolve_session_Ok(3) [OF assms(1)] by blast
  from hydrate_created [OF this resolve_session_Ok(4,5) [OF assms(1)] assms(2,3), of history cache] show ?thesis
    by (cases "hydrate_stored_session history stored cache"; cases "fst (hydrate_stored_session history stored cache)")
      (auto split: if_splits)
qed

theorem session_reload_witness:
  "\<exists>snap l stored. resolve_session demo_hashing (\<lambda>_. []) demo_files (\<lambda>_. None) (\<lambda>_. None) demo_startup None = Ok (demo_resolved, snap, l) \<and>
     ss_configuration_snapshot stored = ConfigurationSnapshot_value snap \<and> ss_lock_snapshot stored = WorkbenchLock_value l \<and>
     sc_configs (snd (hydrate_stored_session (Err StorageUnavailable) stored cache_empty)) (ss_session_id stored) =
       Some (masked_configuration demo_configuration)"
proof -
  obtain snap l where session:
    "resolve_session demo_hashing (\<lambda>_. []) demo_files (\<lambda>_. None) (\<lambda>_. None) demo_startup None = Ok (demo_resolved, snap, l)"
    using demo_plain_session by blast
  define stored where "stored = \<lparr>ss_session_id = 1, ss_state = ''ready'', ss_terminal_at = None,
    ss_configuration_snapshot = ConfigurationSnapshot_value snap, ss_lock_snapshot = WorkbenchLock_value l\<rparr>"
  have "reloadable (rc_configuration demo_resolved)"
    by (simp add: reloadable_def demo_resolved_def demo_config_defs threshold_finite_def names_reload_def redacted_keys_def)
  with session_reload [OF session, where stored = stored and history = "Err StorageUnavailable" and cache = cache_empty]
  have "sc_configs (snd (hydrate_stored_session (Err StorageUnavailable) stored cache_empty)) (ss_session_id stored) =
      Some (masked_configuration demo_configuration)"
    by (auto simp: stored_def demo_resolved_def split: prod.splits sum.splits)
  moreover have "ss_configuration_snapshot stored = ConfigurationSnapshot_value snap" "ss_lock_snapshot stored = WorkbenchLock_value l"
    by (simp_all add: stored_def)
  ultimately show ?thesis using session by blast
qed

end
