(* ===== verification/Daemon_Routes.thy ===== *)
theory Daemon_Routes
  imports Workflow_Exec Policies Startup
begin

text \<open>
  How the daemon chooses an executor for a prompt or a workflow step
  (\<open>plan_route\<close> and its neighbours in \<open>crates/workbench-daemon/src/application.rs\<close>): the capabilities of the fake
  provider, the permission of a paid prompt, the candidate handed to the ordered router, and the
  fallbacks of a step. The version of the package is an argument.
\<close>

section \<open>Candidates and permission\<close>

definition fake_provider_capabilities :: "string \<Rightarrow> WorkbenchConfiguration \<Rightarrow> ProviderCapabilities btree" where
  "fake_provider_capabilities daemon_version c =
     map (\<lambda>(name, _). (name,
       \<lparr>pc_adapter_id = name, pc_adapter_version = daemon_version, pc_protocol = ''workbench-fake/1'',
        pc_authentication = Available, pc_capabilities = [Streaming, SessionResume, Cancellation],
        pc_context_window_tokens = None,
        pc_operations = [\<lparr>op_name = ''provider.prompt'', op_effect_class = ConfigPaidInference, op_idempotent = False,
          op_material_cost = True, op_approval = Policy\<rparr>]\<rparr>))
       (filter (\<lambda>(_, p). prov_kind p = FakeProvider) (cfg_providers c))"

record WorkflowRouteContext =
  wrc_role :: string
  wrc_step_tools :: "string list"
  wrc_fallbacks :: "string list"

record WorkflowRouteTarget =
  wrt_run :: WorkflowRun
  wrt_role :: string
  wrt_context :: WorkflowRouteContext

fun scope_of_mode :: "DefaultToolMode \<Rightarrow> PermissionScope" where
  "scope_of_mode DefaultReadOnly = PermissionScope.ReadOnly"
| "scope_of_mode DefaultApprovalRequired = PermissionScope.ApprovalRequired"
| "scope_of_mode DefaultDenied = PermissionScope.Denied"

fun permission_from_scope :: "PermissionScope \<Rightarrow> DefaultToolMode" where
  "permission_from_scope PermissionScope.ReadOnly = DefaultReadOnly"
| "permission_from_scope PermissionScope.ApprovalRequired = DefaultApprovalRequired"
| "permission_from_scope PermissionScope.Denied = DefaultDenied"

fun permission_of_mode :: "DefaultToolMode \<Rightarrow> PermissionMode" where
  "permission_of_mode DefaultReadOnly = PermissionMode.ReadOnly"
| "permission_of_mode DefaultApprovalRequired = PermissionMode.ApprovalRequired"
| "permission_of_mode DefaultDenied = PermissionMode.Denied"

fun mode_of_permission :: "PermissionMode \<Rightarrow> DefaultToolMode" where
  "mode_of_permission PermissionMode.ReadOnly = DefaultReadOnly"
| "mode_of_permission PermissionMode.ApprovalRequired = DefaultApprovalRequired"
| "mode_of_permission PermissionMode.Denied = DefaultDenied"

definition internal :: "CoreError + 'a \<Rightarrow> DaemonError + 'a" where
  "internal r = map_err (\<lambda>_. InternalError) r"

definition route_candidate_for_step ::
  "WorkbenchConfiguration \<Rightarrow> ResolvedModel \<Rightarrow> DefaultToolMode \<Rightarrow> WorkflowRouteContext option
     \<Rightarrow> DaemonError + RouteCandidate" where
  "route_candidate_for_step c resolved permission context =
     and_then (ok_or StorageUnavailableError (map_of (cfg_roles c) (rm_role resolved))) (\<lambda>role.
     let tools = (case context of Some ctx \<Rightarrow> effective_step_tools (role_tools role) (wrc_step_tools ctx)
                  | None \<Rightarrow> role_tools role) in
     and_then (internal (identifier_parse (rm_role resolved))) (\<lambda>role_id.
     and_then (internal (identifier_parse (rm_model_alias resolved))) (\<lambda>alias.
     and_then (internal (identifier_parse (rm_provider resolved))) (\<lambda>provider.
     and_then (internal (try_map identifier_parse tools)) (\<lambda>tools.
     and_then (internal (try_map identifier_parse (role_data_sources role))) (\<lambda>sources.
       internal (RouteCandidate_new ''prompt''
         \<lparr>rd_role = role_id, rd_model_alias = alias, rd_provider = provider,
          rd_runtime_model = rm_runtime_model resolved\<rparr>
         \<lparr>rc_tools = tools, rc_data_sources = sources, rc_permission = scope_of_mode permission\<rparr>
         Low (Fin 1))))))))"

definition effective_provider_permission :: "WorkbenchConfiguration \<Rightarrow> DefaultToolMode" where
  "effective_provider_permission c =
     (let layer = \<lparr>pl_source = PolicySource.Session,
            pl_default_mode = permission_of_mode (pol_default_tool_mode (cfg_policies c)),
            pl_tool_modes = [],
            pl_denied_tools = filter (\<lambda>t. is_ok (identifier_parse t)) (pol_global_deny (cfg_policies c))\<rparr>;
          protected = protect_effect (resolve_tool_policy ''provider-prompt'' [layer]) PaidInference True in
      mode_of_permission (mode protected))"

section \<open>Payloads\<close>

fun permission_scope_name :: "PermissionScope \<Rightarrow> string" where
  "permission_scope_name PermissionScope.ReadOnly = ''read-only''"
| "permission_scope_name PermissionScope.ApprovalRequired = ''approval-required''"
| "permission_scope_name PermissionScope.Denied = ''denied''"

definition routing_payload :: "RoutingPlan \<Rightarrow> json btree" where
  "routing_payload plan =
     [(''confidence'', f64_value (rp_confidence plan)),
      (''context_sources'', strings_value (rc_data_sources (rp_context plan))),
      (''intent'', JString (rp_intent plan)),
      (''model_alias'', JString (rd_model_alias (rp_destination plan))),
      (''permission_scope'', strings_value [permission_scope_name (rc_permission (rp_context plan))]),
      (''provider'', JString (rd_provider (rp_destination plan))),
      (''risk'', risk_value (rp_risk plan)),
      (''role'', JString (rd_role (rp_destination plan))),
      (''runtime_model'', JString (rd_runtime_model (rp_destination plan))),
      (''selected_by'', selected_rule_value (rp_selected_by plan)),
      (''tools'', strings_value (rc_tools (rp_context plan)))]"

definition enrich_workflow_routing :: "WorkflowRun \<Rightarrow> json btree \<Rightarrow> json btree" where
  "enrich_workflow_routing run object =
     btree_insert ''step_index'' (usize_value (active_step_index run))
       (btree_insert ''iteration'' (uint_value (iteration run))
         (btree_insert ''step_id'' (JString (case active_step_id run of None \<Rightarrow> ''none'' | Some i \<Rightarrow> i))
           (btree_insert ''workflow_id'' (JString (wr_workflow_id run)) object)))"

section \<open>Decisions\<close>

datatype RouteDecision =
    SelectedRoute RoutingPlan DefaultToolMode
  | ClarificationRoute string string
  | UnavailableRoute string

definition routed :: "WorkbenchConfiguration \<Rightarrow> string \<Rightarrow> RoutingInputs \<Rightarrow> DaemonError + RouteDecision" where
  "routed c selected_rule inputs =
     and_then (map_err (\<lambda>_. InvalidRequestError ''routing threshold is invalid'')
                 (OrderedRouter_new (rt_confidence_threshold (cfg_routing c)))) (\<lambda>router.
       Ok (case OrderedRouter_resolve router inputs of
             Selected plan \<Rightarrow> SelectedRoute plan (permission_from_scope (rc_permission (rp_context plan)))
           | NeedsClarification reason _ \<Rightarrow> ClarificationRoute reason selected_rule))"

abbreviation no_inputs :: RoutingInputs where
  "no_inputs \<equiv> \<lparr>ri_explicit = None, ri_workflow = None, ri_deterministic = None, ri_coordinator = None\<rparr>"

fun try_fallbacks ::
  "WorkbenchConfiguration \<Rightarrow> ProviderCapabilities btree \<Rightarrow> string \<Rightarrow> WorkflowRouteContext \<Rightarrow> string list
     \<Rightarrow> DaemonError + RouteDecision" where
  "try_fallbacks c available selected_rule context [] = Ok (UnavailableRoute selected_rule)"
| "try_fallbacks c available selected_rule context (alias # aliases) =
     (case map_of (cfg_models c) alias of
        None \<Rightarrow> try_fallbacks c available selected_rule context aliases
      | Some model \<Rightarrow>
          (case map_of available (mod_provider model) of
             None \<Rightarrow> try_fallbacks c available selected_rule context aliases
           | Some capabilities \<Rightarrow>
               if pc_authentication capabilities \<noteq> Available
               then try_fallbacks c available selected_rule context aliases
               else
                 and_then (route_candidate_for_step c
                   \<lparr>rm_role = wrc_role context, rm_model_alias = alias, rm_provider = mod_provider model,
                    rm_runtime_model = mod_runtime_model model, rm_used_fallback = True\<rparr>
                   (effective_provider_permission c) (Some context)) (\<lambda>candidate.
                   routed c selected_rule (no_inputs\<lparr>ri_workflow := Some candidate\<rparr>))))"

definition try_workflow_fallback ::
  "WorkbenchConfiguration \<Rightarrow> ProviderCapabilities btree \<Rightarrow> string \<Rightarrow> WorkflowRouteContext option
     \<Rightarrow> DaemonError + RouteDecision" where
  "try_workflow_fallback c available selected_rule context =
     (case context of
        None \<Rightarrow> Ok (UnavailableRoute selected_rule)
      | Some ctx \<Rightarrow> try_fallbacks c available selected_rule ctx (wrc_fallbacks ctx))"

text \<open>\<open>plan_route\<close> on the configuration of the session. \<open>None\<close> is the panic of \<open>resolve_role\<close>.\<close>

definition plan_route ::
  "string \<Rightarrow> ProviderCapabilities btree \<Rightarrow> WorkbenchConfiguration \<Rightarrow> string option \<Rightarrow> string option
     \<Rightarrow> WorkflowRouteContext option \<Rightarrow> (DaemonError + RouteDecision) option" where
  "plan_route daemon_version catalog c explicit workflow_role context =
     (let available = fold (\<lambda>(k, v). btree_insert k v) (fake_provider_capabilities daemon_version c) catalog;
          selected_rule = (if explicit \<noteq> None then ''explicit''
                           else if workflow_role \<noteq> None then ''workflow'' else ''coordinator'');
          role_name = (case explicit of Some r \<Rightarrow> r | None \<Rightarrow>
                        (case workflow_role of Some r \<Rightarrow> r | None \<Rightarrow> rt_default_role (cfg_routing c))) in
      case resolve_role c role_name available of
        None \<Rightarrow> None
      | Some (Err (CapabilityUnavailable _)) \<Rightarrow> Some (try_workflow_fallback c available selected_rule context)
      | Some (Err (Invalid path msg)) \<Rightarrow>
          Some (if path = ''role''
                then Ok (ClarificationRoute (''configured role '' @ role_name @ '' does not exist'') selected_rule)
                else Err (InvalidRequestError ''routing configuration is invalid''))
      | Some (Err _) \<Rightarrow> Some (Err (InvalidRequestError ''routing configuration is invalid''))
      | Some (Ok resolved) \<Rightarrow>
          Some (and_then (route_candidate_for_step c resolved (effective_provider_permission c) context) (\<lambda>candidate.
            routed c selected_rule
              (if explicit \<noteq> None then no_inputs\<lparr>ri_explicit := Some candidate\<rparr>
               else if workflow_role \<noteq> None then no_inputs\<lparr>ri_workflow := Some candidate\<rparr>
               else no_inputs\<lparr>ri_coordinator := Some candidate\<rparr>))))"

definition workflow_route_target ::
  "Externals \<Rightarrow> uuid \<Rightarrow> WorkbenchConfiguration \<Rightarrow> StoredEvent list \<Rightarrow> DaemonError + WorkflowRouteTarget option" where
  "workflow_route_target x run_id c history =
     (case session_workflow_id history of
        None \<Rightarrow> Ok None
      | Some workflow_id \<Rightarrow>
          and_then (case recover_run history of
              Some run \<Rightarrow> Ok run
            | None \<Rightarrow> map_err (\<lambda>_. InvalidRequestError ''workflow could not be started from configuration'')
                (and_then (start_run x c workflow_id run_id) (\<lambda>(run, _). Ok run))) (\<lambda>run.
          if phase_is_terminal (phase run) then Ok None
          else
            and_then (ok_or (InvalidRequestError ''workflow is not configured'') (map_of (cfg_workflows c) workflow_id)) (\<lambda>w.
            and_then (ok_or (InvalidRequestError ''workflow active step is missing'') (active_step w run)) (\<lambda>s.
              Ok (Some \<lparr>wrt_run = run, wrt_role = st_role s,
                        wrt_context = \<lparr>wrc_role = st_role s, wrc_step_tools = st_tools s, wrc_fallbacks = st_fallbacks s\<rparr>\<rparr>)))))"

section \<open>The permission of a paid prompt\<close>

lemma provider_permission:
  "effective_provider_permission c =
     (if ''provider-prompt'' \<in> set (pol_global_deny (cfg_policies c)) \<or> pol_default_tool_mode (cfg_policies c) = DefaultDenied
      then DefaultDenied else DefaultApprovalRequired)"
proof -
  have "is_ok (identifier_parse ''provider-prompt'')"
    by (simp add: identifier_parse_def ascii_defs is_ok_def)
  then show ?thesis
    by (cases "pol_default_tool_mode (cfg_policies c)")
      (simp_all add: effective_provider_permission_def Let_def protect_effect_def resolve_tool_policy_def resolve_layer_def
        proposed_mode_def mandatory_mode_def PermissionMode_intersect_def)
qed

section \<open>Selected plans\<close>

definition available_providers :: "string \<Rightarrow> ProviderCapabilities btree \<Rightarrow> WorkbenchConfiguration \<Rightarrow> ProviderCapabilities btree" where
  "available_providers daemon_version catalog c =
     fold (\<lambda>(k, v). btree_insert k v) (fake_provider_capabilities daemon_version c) catalog"

text \<open>What makes a plan executable: a configured model, of a provider that is there and logged in, with no tool the
  role does not have.\<close>

definition executable_plan :: "WorkbenchConfiguration \<Rightarrow> ProviderCapabilities btree \<Rightarrow> RoutingPlan \<Rightarrow> bool" where
  "executable_plan c available plan \<longleftrightarrow>
     (let destination = rp_destination plan in
      (case (map_of (cfg_models c) (rd_model_alias destination), map_of available (rd_provider destination),
             map_of (cfg_roles c) (rd_role destination)) of
         (Some model, Some capabilities, Some role) \<Rightarrow>
           rd_provider destination = mod_provider model \<and> rd_runtime_model destination = mod_runtime_model model \<and>
           pc_authentication capabilities = Available \<and> set (rc_tools (rp_context plan)) \<subseteq> set (role_tools role)
       | _ \<Rightarrow> False))"

lemma try_map_identifiers: "try_map identifier_parse xs = Ok ys \<Longrightarrow> ys = xs"
  by (induction xs arbitrary: ys) (auto simp: identifier_parse_pattern)

lemma candidate_for_step:
  assumes "route_candidate_for_step c resolved permission context = Ok candidate"
  shows "cand_destination candidate = \<lparr>rd_role = rm_role resolved, rd_model_alias = rm_model_alias resolved,
      rd_provider = rm_provider resolved, rd_runtime_model = rm_runtime_model resolved\<rparr> \<and>
    rc_permission (cand_context candidate) = scope_of_mode permission \<and> cand_confidence candidate = Fin 1 \<and>
    (\<exists>role. map_of (cfg_roles c) (rm_role resolved) = Some role \<and> set (rc_tools (cand_context candidate)) \<subseteq> set (role_tools role))"
  using assms
  by (auto simp: route_candidate_for_step_def internal_def map_err_Ok_iff identifier_parse_pattern RouteCandidate_new_def
      effective_step_tools_def Let_def and_then_Ok_iff ok_or_def dest!: try_map_identifiers split: if_splits option.splits)

lemma permission_scope [simp]: "permission_from_scope (scope_of_mode m) = m"
  by (cases m) simp_all

lemma routed_selected:
  assumes "routed c rule inputs = Ok (SelectedRoute plan permission)"
    and "\<And>k. k \<in> {ri_explicit inputs, ri_workflow inputs, ri_deterministic inputs, ri_coordinator inputs} \<Longrightarrow>
      k = None \<or> k = Some candidate"
  shows "permission = permission_from_scope (rc_permission (cand_context candidate)) \<and> (\<exists>by. plan = into_plan candidate by)"
  using assms
  by (fastforce simp: routed_def OrderedRouter_resolve_def into_plan_def map_err_Ok_iff and_then_Ok_iff
      split: RoutingOutcome.splits option.splits if_splits)

lemma candidate_plan:
  assumes "route_candidate_for_step c resolved (effective_provider_permission c) context = Ok candidate"
    and "routed c rule inputs = Ok (SelectedRoute plan permission)"
    and "\<And>k. k \<in> {ri_explicit inputs, ri_workflow inputs, ri_deterministic inputs, ri_coordinator inputs} \<Longrightarrow>
      k = None \<or> k = Some candidate"
    and "map_of (cfg_models c) (rm_model_alias resolved) = Some model" "rm_provider resolved = mod_provider model"
      "rm_runtime_model resolved = mod_runtime_model model"
      "map_of available (mod_provider model) = Some capabilities" "pc_authentication capabilities = Available"
  shows "permission = effective_provider_permission c \<and> rp_confidence plan = Fin 1 \<and> executable_plan c available plan"
  using candidate_for_step [OF assms(1)] routed_selected [OF assms(2,3)] assms(4-)
  by (auto simp: into_plan_def executable_plan_def)

lemma resolve_aliases_Ok:
  "resolve_aliases c available name role fallback aliases = Some (Ok r) \<Longrightarrow>
     \<exists>model capabilities. map_of (cfg_models c) (rm_model_alias r) = Some model \<and> rm_provider r = mod_provider model \<and>
       rm_runtime_model r = mod_runtime_model model \<and> map_of available (mod_provider model) = Some capabilities \<and>
       pc_authentication capabilities = Available"
  by (induction aliases arbitrary: fallback) (auto split: option.splits sum.splits if_splits)

lemma try_fallbacks_selected:
  "try_fallbacks c available rule context aliases = Ok (SelectedRoute plan permission) \<Longrightarrow>
     permission = effective_provider_permission c \<and> rp_confidence plan = Fin 1 \<and> executable_plan c available plan"
proof (induction aliases)
  case (Cons al aliases)
  show ?case
  proof (cases "\<exists>model capabilities. map_of (cfg_models c) al = Some model \<and>
      map_of available (mod_provider model) = Some capabilities \<and> pc_authentication capabilities = Available")
    case True
    then obtain model capabilities where found: "map_of (cfg_models c) al = Some model"
      "map_of available (mod_provider model) = Some capabilities" "pc_authentication capabilities = Available" by blast
    with Cons.prems obtain candidate where "route_candidate_for_step c \<lparr>rm_role = wrc_role context, rm_model_alias = al,
        rm_provider = mod_provider model, rm_runtime_model = mod_runtime_model model, rm_used_fallback = True\<rparr>
        (effective_provider_permission c) (Some context) = Ok candidate"
      "routed c rule (no_inputs\<lparr>ri_workflow := Some candidate\<rparr>) = Ok (SelectedRoute plan permission)" by auto
    then show ?thesis by (rule candidate_plan) (use found in auto)
  qed (use Cons in \<open>auto split: option.splits if_splits\<close>)
qed simp

lemma plan_route_selected:
  assumes "plan_route v catalog c explicit workflow_role context = Some (Ok (SelectedRoute plan permission))"
  shows "permission = effective_provider_permission c \<and> rp_confidence plan = Fin 1 \<and>
    executable_plan c (available_providers v catalog c) plan"
proof -
  define role_name where "role_name = (case explicit of Some r \<Rightarrow> r | None \<Rightarrow>
    (case workflow_role of Some r \<Rightarrow> r | None \<Rightarrow> rt_default_role (cfg_routing c)))"
  note run = assms [unfolded plan_route_def Let_def, folded available_providers_def role_name_def]
  show ?thesis
  proof (cases "\<exists>resolved. resolve_role c role_name (available_providers v catalog c) = Some (Ok resolved)")
    case True
    then obtain resolved where resolved: "resolve_role c role_name (available_providers v catalog c) = Some (Ok resolved)" ..
    then obtain model capabilities where found: "map_of (cfg_models c) (rm_model_alias resolved) = Some model"
      "rm_provider resolved = mod_provider model" "rm_runtime_model resolved = mod_runtime_model model"
      "map_of (available_providers v catalog c) (mod_provider model) = Some capabilities"
      "pc_authentication capabilities = Available"
      by (auto simp: resolve_role_def invalid_def simp del: resolve_aliases.simps split: sum.splits option.splits
          dest!: resolve_aliases_Ok)
    from run resolved obtain candidate rule inputs where
      "route_candidate_for_step c resolved (effective_provider_permission c) context = Ok candidate"
      "routed c rule inputs = Ok (SelectedRoute plan permission)"
      "\<And>k. k \<in> {ri_explicit inputs, ri_workflow inputs, ri_deterministic inputs, ri_coordinator inputs} \<Longrightarrow>
        k = None \<or> k = Some candidate" by (fastforce split: if_splits)
    from this found show ?thesis by (rule candidate_plan)
  next
    case False
    with run show ?thesis
      by (auto simp: try_workflow_fallback_def split: option.splits sum.splits ConfigError.splits if_splits
          dest: try_fallbacks_selected)
  qed
qed

text \<open>C3: a prompt is never sent without a human: when a route is selected, its permission is the denial of the policy if the
  prompt is denied there (by name or by default) and the need for an approval otherwise, whatever the default mode
  says. The executor is a configured model of a provider that is available and logged in, and is offered no tool
  that its role does not have.\<close>

theorem selected_route_guarded:
  assumes "plan_route v catalog c explicit workflow_role context = Some (Ok (SelectedRoute plan permission))"
  shows "permission = (if ''provider-prompt'' \<in> set (pol_global_deny (cfg_policies c)) \<or>
           pol_default_tool_mode (cfg_policies c) = DefaultDenied then DefaultDenied else DefaultApprovalRequired) \<and>
    executable_plan c (available_providers v catalog c) plan"
  using plan_route_selected [OF assms] provider_permission [of c] by simp

definition demo_route_plan :: RoutingPlan where
  "demo_route_plan = \<lparr>rp_intent = ''prompt'', rp_destination = \<lparr>rd_role = ''workspace-coordinator'', rd_model_alias = ''fake-default'',
     rd_provider = ''fake'', rd_runtime_model = ''deterministic-v1''\<rparr>,
     rp_context = \<lparr>rc_tools = [], rc_data_sources = [], rc_permission = PermissionScope.ApprovalRequired\<rparr>,
     rp_risk = Low, rp_confidence = Fin 1, rp_selected_by = SelectedRule.Coordinator\<rparr>"

lemma demo_route_selected:
  "plan_route ''1'' [] safe_builtins None None None = Some (Ok (SelectedRoute demo_route_plan DefaultApprovalRequired))"
  by (simp add: plan_route_def fake_provider_capabilities_def resolve_role_def config_validate_identifier_def ascii_defs
      check_def capabilities_validate_def all_ok_def route_candidate_for_step_def identifier_parse_def
      internal_def RouteCandidate_new_def unit_interval_contains_def f64_is_nan_def routed_def OrderedRouter_new_def
      OrderedRouter_resolve_def into_plan_def demo_route_plan_def Let_def provider_permission safe_builtins_def)

theorem selected_route_guarded_witness:
  "plan_route ''1'' [] safe_builtins None None None = Some (Ok (SelectedRoute demo_route_plan DefaultApprovalRequired)) \<and>
   executable_plan safe_builtins (available_providers ''1'' [] safe_builtins) demo_route_plan"
  using selected_route_guarded [OF demo_route_selected] demo_route_selected by simp

end
