(* ===== verification/Daemon.thy ===== *)
theory Daemon
  imports Daemon_Routes Client_Protocol Orchestration
begin

text \<open>
  The application of the daemon (\<open>crates/workbench-daemon/src/application.rs\<close>): its state, what its handlers
  share, and the activation of an attempt. The configuration, provider adapters and third-party code are one
  record of parameters; identifiers, times and nonces a call draws are another. A future the code spawns is
  an entry of the list of tasks, run later. Telemetry and logging are left out; a poisoned lock is not
  represented.
\<close>

section \<open>State\<close>

record FakeBehavior =
  fb_confirms_cancellation :: bool
  fb_report_findings :: bool

datatype ActiveBackend = FakeBackend | ProviderBackend ProviderAdapter ProviderSessionHandle

record ActiveExecution =
  ax_attempt_id :: uuid
  ax_request_id :: uuid
  ax_backend :: ActiveBackend
  ax_cancel_started :: bool

definition ActiveExecution_fake :: "uuid \<Rightarrow> uuid \<Rightarrow> ActiveExecution" where
  "ActiveExecution_fake attempt request_id =
     \<lparr>ax_attempt_id = attempt, ax_request_id = request_id, ax_backend = FakeBackend, ax_cancel_started = False\<rparr>"

definition ActiveExecution_provider ::
  "uuid \<Rightarrow> uuid \<Rightarrow> ProviderAdapter \<Rightarrow> ProviderSessionHandle \<Rightarrow> ActiveExecution" where
  "ActiveExecution_provider attempt request_id adapter handle =
     \<lparr>ax_attempt_id = attempt, ax_request_id = request_id, ax_backend = ProviderBackend adapter handle,
      ax_cancel_started = False\<rparr>"

definition is_fake :: "ActiveExecution \<Rightarrow> bool" where
  "is_fake ax = (case ax_backend ax of FakeBackend \<Rightarrow> True | ProviderBackend _ _ \<Rightarrow> False)"

text \<open>Spawned futures, and what remains of a future once it has released the session lock.\<close>

datatype Task =
    FakeCompletion uuid
  | ProviderActivation uuid uuid ProviderAdapter ProviderSessionHandle ProviderPrompt
  | ProviderConsumption uuid uuid ProviderStream nat
  | CancelResolution uuid uuid uuid "uuid option"
  | CancelAnswer uuid uuid uuid "uuid option" bool string
  | WorkflowAdvance uuid uuid uuid bool
  | WorkflowDispatch uuid uuid WorkflowRun
  | StepActivation uuid uuid uuid ProviderType ProviderId string string

record 'k Daemon =
  de_externals :: Externals
  de_keys :: "'k KeyStore"
  de_event_text :: event_text
  de_raw_text :: "raw_json \<Rightarrow> bytes"
  de_to_yaml :: "json btree \<Rightarrow> string option"
  de_from_yaml :: "string \<Rightarrow> json option"
  de_files :: Files
  de_startup :: StartupConfiguration
  de_catalog :: "ProviderCapabilities btree"
  de_adapters :: "ProviderId \<Rightarrow> ProviderAdapter option"
  de_version :: string
  de_fake :: FakeBehavior

record Fresh =
  fresh_id :: "nat \<Rightarrow> uuid"
  fresh_time :: time
  fresh_nonce :: "uuid \<Rightarrow> bytes"
  fresh_creation :: CreationFresh

definition later :: "nat \<Rightarrow> Fresh \<Rightarrow> Fresh" where
  "later n f = f\<lparr>fresh_id := \<lambda>i. fresh_id f (n + i)\<rparr>"

record 'k Application =
  dm_storage :: "'k SqliteStorage"
  dm_cache :: SessionCache
  dm_active :: "uuid \<rightharpoonup> ActiveExecution"
  dm_hub :: SubscriptionHub
  dm_tasks :: "Task list"
  dm_shutting_down :: bool
  dm_blocked :: "uuid set"

definition spawn :: "Task \<Rightarrow> 'k Application \<Rightarrow> 'k Application" where
  "spawn t a = a\<lparr>dm_tasks := dm_tasks a @ [t]\<rparr>"

section \<open>Storage and subscriptions\<close>

definition on_storage ::
  "('k SqliteStorage \<Rightarrow> (StorageError + 'a) \<times> 'k SqliteStorage) \<Rightarrow> 'k Application
     \<Rightarrow> (DaemonError + 'a) \<times> 'k Application" where
  "on_storage f a = (case f (dm_storage a) of (r, st) \<Rightarrow> (map_err of_storage r, a\<lparr>dm_storage := st\<rparr>))"

definition history :: "'k Daemon \<Rightarrow> uuid \<Rightarrow> 'k Application \<Rightarrow> (DaemonError + StoredEvent list) \<times> 'k Application" where
  "history d session_id a =
     st_then (on_storage (replay (de_externals d) (de_keys d) session_id 0) a) (\<lambda>events a.
       (Ok events, a\<lparr>dm_cache := (dm_cache a)\<lparr>sc_known := insert session_id (sc_known (dm_cache a))\<rparr>\<rparr>))"

definition folded :: "'k Daemon \<Rightarrow> uuid \<Rightarrow> 'k Application \<Rightarrow> (DaemonError + FoldedSession) \<times> 'k Application" where
  "folded d session_id a =
     st_then (history d session_id a) (\<lambda>events a. (fold_session (de_externals d) events, a))"

definition hydrate :: "'k Daemon \<Rightarrow> StoredSession \<Rightarrow> 'k Application \<Rightarrow> (StorageError + unit) \<times> 'k Application" where
  "hydrate d stored a =
     (let (events, st) = replay (de_externals d) (de_keys d) (ss_session_id stored) 0 (dm_storage a);
          (r, cache) = hydrate_stored_session events stored (dm_cache a) in
      (r, a\<lparr>dm_cache := cache, dm_storage := if is_ok r then st else dm_storage a\<rparr>))"

definition session_configuration ::
  "'k Daemon \<Rightarrow> uuid \<Rightarrow> 'k Application \<Rightarrow> (DaemonError + WorkbenchConfiguration) \<times> 'k Application" where
  "session_configuration d session_id a =
     (case sc_configs (dm_cache a) session_id of
        Some c \<Rightarrow> (Ok c, a)
      | None \<Rightarrow>
          st_then (on_storage (load_session (de_externals d) (de_keys d) session_id) a) (\<lambda>stored a.
            case hydrate d stored a of
              (Err e, a) \<Rightarrow> (Err (of_storage e), a)
            | (Ok _, a) \<Rightarrow> (ok_or StorageUnavailableError (sc_configs (dm_cache a) session_id), a)))"

definition publish_event :: "'k Daemon \<Rightarrow> StoredEvent \<Rightarrow> 'k Application \<Rightarrow> (DaemonError + unit) \<times> 'k Application" where
  "publish_event d e a =
     (case protocol_event (de_externals d) e of
        Err err \<Rightarrow> (Err err, a)
      | Ok event \<Rightarrow> (Ok (), a\<lparr>dm_hub := publish (de_event_text d) event (dm_hub a)\<rparr>))"

fun publish_events :: "'k Daemon \<Rightarrow> StoredEvent list \<Rightarrow> 'k Application \<Rightarrow> (DaemonError + unit) \<times> 'k Application" where
  "publish_events d [] a = (Ok (), a)"
| "publish_events d (e # es) a = st_then (publish_event d e a) (\<lambda>_ a. publish_events d es a)"

definition daemon_append ::
  "'k Daemon \<Rightarrow> Fresh \<Rightarrow> uuid \<Rightarrow> uuid option \<Rightarrow> EventKind \<Rightarrow> json \<Rightarrow> uuid option \<Rightarrow> string option
     \<Rightarrow> 'k Application \<Rightarrow> (DaemonError + unit) \<times> 'k Application" where
  "daemon_append d f session_id request_id k payload attempt effect a =
     st_then (on_storage (append_event (de_externals d) (de_keys d) (fresh_nonce f)
         \<lparr>ei_event_id = fresh_id f 0, ei_session_id = session_id, ei_occurred_at = fresh_time f,
          ei_kind = wire_kind_name k, ei_causation_request_id = request_id, ei_attempt_id = attempt,
          ei_effect_class = effect, ei_payload = payload\<rparr>) a)
       (\<lambda>e a. publish_event d e a)"

definition cached_outcome ::
  "'k Daemon \<Rightarrow> uuid \<Rightarrow> uuid \<Rightarrow> string \<Rightarrow> json \<Rightarrow> 'k Application \<Rightarrow> DaemonError + json option" where
  "cached_outcome d session_id request_id m parameters a =
     map_err of_storage (lookup_command_outcome (de_externals d) (Some session_id) request_id m parameters (db (dm_storage a)))"

definition daemon_record_outcome ::
  "'k Daemon \<Rightarrow> uuid \<Rightarrow> uuid \<Rightarrow> string \<Rightarrow> json \<Rightarrow> json \<Rightarrow> 'k Application \<Rightarrow> (DaemonError + json) \<times> 'k Application" where
  "daemon_record_outcome d session_id request_id m parameters outcome a =
     st_then (on_storage (record_command_outcome (de_externals d) (command_scope (de_externals d) (Some session_id))
         request_id (Some session_id) m parameters outcome) a)
       (\<lambda>r a. (Ok (case r of Recorded v \<Rightarrow> v | Replay v \<Rightarrow> v), a))"

definition current_session_state :: "uuid \<Rightarrow> 'k Application \<Rightarrow> DaemonError + WireState" where
  "current_session_state session_id a =
     and_then (map_err of_storage (load_session_state (db (dm_storage a)) session_id)) parse_session_state"

definition daemon_commit_events ::
  "'k Daemon \<Rightarrow> Fresh \<Rightarrow> uuid \<Rightarrow> string \<Rightarrow> json \<Rightarrow> json \<Rightarrow> EventInput list \<Rightarrow> 'k Application
     \<Rightarrow> (DaemonError + json \<times> bool) \<times> 'k Application" where
  "daemon_commit_events d f request_id m parameters outcome batch a =
     st_then (on_storage (commit_command_events (de_externals d) (de_keys d) (fresh_nonce f) request_id m
         parameters outcome batch) a)
       (\<lambda>r a. case r of
          EventsRecorded stored v \<Rightarrow> st_then (publish_events d stored a) (\<lambda>_ a. (Ok (v, False), a))
        | EventsReplay v \<Rightarrow> (Ok (v, True), a))"

definition daemon_commit_event ::
  "'k Daemon \<Rightarrow> Fresh \<Rightarrow> uuid \<Rightarrow> uuid \<Rightarrow> string \<Rightarrow> json \<Rightarrow> json \<Rightarrow> EventKind \<Rightarrow> json \<Rightarrow> 'k Application
     \<Rightarrow> (DaemonError + json \<times> bool) \<times> 'k Application" where
  "daemon_commit_event d f session_id request_id m parameters outcome k payload a =
     st_then (on_storage (commit_command_event (de_externals d) (de_keys d) (fresh_nonce f) request_id m
         parameters outcome
         (command_event (fresh_id f 0) session_id request_id (fresh_time f) k payload None None)) a)
       (\<lambda>r a. case r of
          EventRecorded event v \<Rightarrow> st_then (publish_event d event a) (\<lambda>_ a. (Ok (v, False), a))
        | EventReplay v \<Rightarrow> (Ok (v, True), a))"

section \<open>Attempts\<close>

definition active_for_attempt :: "uuid \<Rightarrow> uuid \<Rightarrow> 'k Application \<Rightarrow> ActiveExecution option" where
  "active_for_attempt session_id attempt a =
     (case dm_active a session_id of
        Some ax \<Rightarrow> if ax_attempt_id ax = attempt then Some ax else None
      | None \<Rightarrow> None)"

definition remove_active :: "uuid \<Rightarrow> 'k Application \<Rightarrow> 'k Application" where
  "remove_active session_id a = a\<lparr>dm_active := (dm_active a)(session_id := None)\<rparr>"

definition remove_active_attempt :: "uuid \<Rightarrow> uuid \<Rightarrow> 'k Application \<Rightarrow> 'k Application" where
  "remove_active_attempt session_id attempt a =
     (if active_for_attempt session_id attempt a = None then a else remove_active session_id a)"

definition activate :: "uuid \<Rightarrow> ActiveExecution \<Rightarrow> 'k Application \<Rightarrow> 'k Application" where
  "activate session_id ax a = a\<lparr>dm_active := (dm_active a)(session_id \<mapsto> ax)\<rparr>"

definition activate_fake_attempt :: "uuid \<Rightarrow> uuid \<Rightarrow> uuid \<Rightarrow> 'k Application \<Rightarrow> 'k Application" where
  "activate_fake_attempt session_id request_id attempt a =
     spawn (FakeCompletion session_id) (activate session_id (ActiveExecution_fake attempt request_id) a)"

definition record_provider_failure ::
  "'k Daemon \<Rightarrow> Fresh \<Rightarrow> uuid \<Rightarrow> uuid \<Rightarrow> uuid \<Rightarrow> ProviderFailure \<Rightarrow> 'k Application
     \<Rightarrow> (DaemonError + unit) \<times> 'k Application" where
  "record_provider_failure d f session_id request_id attempt failure a =
     (case current_session_state session_id a of
        Err e \<Rightarrow> (Err e, a)
      | Ok state \<Rightarrow>
          if pf_definite failure \<and> state \<noteq> CancelRequestedState
          then daemon_append d f session_id (Some request_id) EventKind.SessionFailed
                 (terminal_payload (de_externals d) (fresh_id f 1) (pf_user_safe_message failure))
                 (Some attempt) (Some ''paid-inference'') a
          else daemon_append d f session_id (Some request_id) EventKind.OutcomeUnknown
                 (unknown_payload (de_externals d) attempt (pf_user_safe_message failure))
                 (Some attempt) (Some ''paid-inference'') a)"

definition adapter_unavailable :: ProviderFailure where
  "adapter_unavailable = \<lparr>pf_category = FailureCategory.CapabilityUnavailable,
     pf_user_safe_message = ''configured provider adapter is unavailable'', pf_definite = True\<rparr>"

definition activate_attempt ::
  "'k Daemon \<Rightarrow> Fresh \<Rightarrow> uuid \<Rightarrow> uuid \<Rightarrow> uuid \<Rightarrow> ProviderId \<Rightarrow> string \<Rightarrow> string \<Rightarrow> 'k Application
     \<Rightarrow> (DaemonError + unit) \<times> 'k Application" where
  "activate_attempt d f session_id request_id attempt provider runtime_model prompt a =
     st_then (session_configuration d session_id a) (\<lambda>c a.
       case map_of (cfg_providers c) provider of
         None \<Rightarrow> (Err CapabilityUnavailableError, a)
       | Some p \<Rightarrow>
           if prov_kind p = FakeProvider then (Ok (), activate_fake_attempt session_id request_id attempt a)
           else case de_adapters d provider of
             None \<Rightarrow> record_provider_failure d f session_id request_id attempt adapter_unavailable a
           | Some adapter \<Rightarrow>
               (case start_session adapter of
                  Err failure \<Rightarrow> record_provider_failure d f session_id request_id attempt failure a
                | Ok handle \<Rightarrow>
                    (case NonEmptyText_parse prompt of
                       Err _ \<Rightarrow> (Err (InvalidRequestError ''prompt text must not be empty''), a)
                     | Ok content \<Rightarrow>
                         (let prompt = \<lparr>pp_session_id = session_id, pp_attempt_id = attempt,
                                        pp_runtime_model = runtime_model, pp_content = content\<rparr>;
                              ax = ActiveExecution_provider attempt request_id adapter handle in
                          if prov_kind p = SubscriptionCli
                          then (Ok (), spawn (ProviderActivation session_id attempt adapter handle prompt)
                                         (activate session_id ax a))
                          else case prompt_stream adapter handle prompt of
                            Err failure \<Rightarrow> record_provider_failure d f session_id request_id attempt failure a
                          | Ok stream \<Rightarrow>
                              (Ok (), spawn (ProviderConsumption session_id attempt stream 0)
                                        (activate session_id ax a))))))"

datatype ProviderOutputState = StreamingState | CancellationPending | TerminalState

definition output_event :: "Externals \<Rightarrow> uuid \<Rightarrow> string \<Rightarrow> string \<Rightarrow> json" where
  "output_event x attempt event_type content = JObject [(''attempt_id'', uuid_value x attempt),
     (''content'', JString content), (''event_type'', JString event_type)]"

definition record_provider_output ::
  "'k Daemon \<Rightarrow> Fresh \<Rightarrow> uuid \<Rightarrow> ActiveExecution \<Rightarrow> ProviderOutput \<Rightarrow> 'k Application
     \<Rightarrow> (DaemonError + ProviderOutputState) \<times> 'k Application" where
  "record_provider_output d f session_id ax output a =
     (let x = de_externals d; attempt = ax_attempt_id ax;
          record = (\<lambda>k payload a. daemon_append d f session_id (Some (ax_request_id ax)) k payload
                     (Some attempt) (Some ''paid-inference'') a);
          streaming = (\<lambda>r. st_then r (\<lambda>_ a. (Ok StreamingState, a))) in
      case output of
        Acknowledged provider_request_id \<Rightarrow> streaming (record EventKind.DispatchAcknowledged
          (JObject [(''attempt_id'', uuid_value x attempt),
                    (''provider_request_id'', option_value JString provider_request_id)]) a)
      | Content event_type content \<Rightarrow>
          streaming (record EventKind.ProviderEvent (output_event x attempt event_type content) a)
      | Tool event_type content \<Rightarrow>
          streaming (record EventKind.ToolEvent (output_event x attempt event_type content) a)
      | ProviderOutput.Completed summary \<Rightarrow>
          (case current_session_state session_id a of
             Err e \<Rightarrow> (Err e, a)
           | Ok state \<Rightarrow>
               if state = CancelRequestedState then (Ok CancellationPending, a)
               else st_then (history d session_id a) (\<lambda>events a.
                 if session_workflow_id events \<noteq> None then (Ok TerminalState, a)
                 else st_then (record EventKind.SessionCompleted (terminal_payload x (fresh_id f 1) summary) a)
                        (\<lambda>_ a. (Ok TerminalState, a)))))"

end
