(* ===== verification/Daemon_Handlers.thy ===== *)
theory Daemon_Handlers
  imports Daemon
begin

text \<open>
  The command handlers of the daemon (\<open>handle_*\<close> and \<open>dispatch\<close> in
  \<open>crates/workbench-daemon/src/application.rs\<close>). A handler of a session runs under the lock of that session, so it
  is one step on the state. Export and status are I/O on files and provider processes and are left out.
\<close>

section \<open>How a handler ends\<close>

text \<open>A handler returns, panics, or waits for ever for a lock it already holds.\<close>

datatype 'a Run = Returned "DaemonError + 'a" | Panicked | Blocked

definition run_then ::
  "(DaemonError + 'a) \<times> 's \<Rightarrow> ('a \<Rightarrow> 's \<Rightarrow> 'b Run \<times> 's) \<Rightarrow> 'b Run \<times> 's" where
  "run_then p g = (case p of (Err e, s) \<Rightarrow> (Returned (Err e), s) | (Ok v, s) \<Rightarrow> g v s)"

definition finished :: "(DaemonError + 'a) \<times> 's \<Rightarrow> 'a Run \<times> 's" where
  "finished p = (Returned (fst p), snd p)"

definition with_result :: "DaemonError + 'a \<Rightarrow> 's \<Rightarrow> (DaemonError + 'a) \<times> 's" where
  "with_result r s = (r, s)"

section \<open>Sessions\<close>

definition handle_initialize :: "InitializeParams \<Rightarrow> DaemonError + json" where
  "handle_initialize p =
     (if PROTOCOL_V1 \<in> set (ip_supported_protocols p) then Ok InitializeResult_value else Err UnsupportedVersionError)"

definition created_payload :: "string \<Rightarrow> string \<Rightarrow> string option \<Rightarrow> json" where
  "created_payload configuration_hash h workflow =
     JObject ([(''configuration_hash'', JString configuration_hash), (''lock_hash'', JString h)] @
       skip_none ''workflow_id'' JString workflow)"

definition hydrate_replayed ::
  "'k Daemon \<Rightarrow> uuid \<Rightarrow> json \<Rightarrow> 'k Application \<Rightarrow> (DaemonError + json) \<times> 'k Application" where
  "hydrate_replayed d session_id v a =
     st_then (on_storage (load_session (de_externals d) (de_keys d) session_id) a) (\<lambda>stored a.
     st_then (let (r, a) = hydrate d stored a in (map_err of_storage r, a)) (\<lambda>_ a. (Ok v, a)))"

definition handle_create ::
  "'k Daemon \<Rightarrow> Fresh \<Rightarrow> uuid \<Rightarrow> CreateSessionParams \<Rightarrow> 'k Application
     \<Rightarrow> (DaemonError + json) \<times> 'k Application" where
  "handle_create d f request_id p a =
     (let x = de_externals d; parameters = CreateSessionParams_value p in
      case map_err of_storage (lookup_command_outcome x None request_id ''session.create'' parameters (db (dm_storage a))) of
        Err e \<Rightarrow> (Err e, a)
      | Ok (Some v) \<Rightarrow>
          st_then (uuid_field x v ''session_id'', a) (\<lambda>session_id a.
            if is_deleted (db (dm_storage a)) session_id then (Ok v, a) else hydrate_replayed d session_id v a)
      | Ok None \<Rightarrow>
          st_then (map_err of_config (resolve_session x (de_raw_text d) (de_files d) (de_to_yaml d) (de_from_yaml d)
              (de_startup d) (cp_configuration_overrides p)), a) (\<lambda>(resolved, snapshot, lock) a.
            let c = rc_configuration resolved in
            if (case cp_workflow p of None \<Rightarrow> False | Some w \<Rightarrow> \<not> contains_key (cfg_workflows c) w)
            then (Err (InvalidRequestError ''session workflow is not present in the resolved configuration''), a)
            else
              (let session_id = fresh_id f 0; h = lock_hash x (de_raw_text d) lock;
                   configuration_hash = snap_content_hash snapshot in
               st_then (on_storage (create_session x (de_keys d) (fresh_creation f)
                   \<lparr>cs_session_id = session_id, cs_request_id = request_id, cs_occurred_at = fresh_time f,
                    cs_request_parameters = parameters,
                    cs_command_outcome = CreateSessionResult_value x session_id configuration_hash h,
                    cs_configuration_snapshot = ConfigurationSnapshot_value snapshot,
                    cs_lock_snapshot = WorkbenchLock_value lock,
                    cs_initial_event_payload = created_payload configuration_hash h (cp_workflow p)\<rparr>) a)
                 (\<lambda>r a. case r of
                    Recorded v \<Rightarrow>
                      (let cache = dm_cache a in
                       (Ok v, a\<lparr>dm_cache := cache\<lparr>
                          sc_configs := (sc_configs cache)(session_id \<mapsto> c),
                          sc_locks := (sc_locks cache)(session_id \<mapsto> lock),
                          sc_known := insert session_id (sc_known cache),
                          sc_workflows := (case cp_workflow p of None \<Rightarrow> sc_workflows cache
                                           | Some w \<Rightarrow> (sc_workflows cache)(session_id \<mapsto> w))\<rparr>\<rparr>))
                  | Replay v \<Rightarrow> st_then (uuid_field x v ''session_id'', a) (\<lambda>replayed a. hydrate_replayed d replayed v a)))))"

definition format_time :: "Externals \<Rightarrow> time \<Rightarrow> DaemonError + string" where
  "format_time x t = ok_or InternalError (rfc3339 x t)"

definition session_summary :: "Externals \<Rightarrow> StoredSessionMetadata \<Rightarrow> DaemonError + json" where
  "session_summary x s =
     and_then (parse_session_state (sm_state s)) (\<lambda>state.
     and_then (format_time x (sm_created_at s)) (\<lambda>created_at.
     and_then (case sm_terminal_at s of None \<Rightarrow> Ok None
               | Some t \<Rightarrow> and_then (format_time x t) (\<lambda>t. Ok (Some t))) (\<lambda>terminal_at.
       Ok (SessionSummary_value x (sm_session_id s) state created_at terminal_at))))"

definition handle_list :: "'k Daemon \<Rightarrow> ListSessionsParams \<Rightarrow> 'k Application \<Rightarrow> DaemonError + json" where
  "handle_list d p a =
     and_then (map_err of_storage (list_session_metadata (db (dm_storage a)) (lp_limit p) (lp_before_session_id p)))
       (\<lambda>(page, next_before).
     and_then (try_map (session_summary (de_externals d)) page) (\<lambda>summaries.
       Ok (ListSessionsResult_value (de_externals d) summaries next_before)))"

definition handle_get :: "'k Daemon \<Rightarrow> uuid \<Rightarrow> 'k Application \<Rightarrow> (DaemonError + json) \<times> 'k Application" where
  "handle_get d session_id a =
     st_then (folded d session_id a) (\<lambda>s a. (Ok (session_result (de_externals d) session_id s), a))"

text \<open>The subscription is named by the fresh identifier.\<close>

definition handle_attach ::
  "'k Daemon \<Rightarrow> Fresh \<Rightarrow> uuid \<Rightarrow> AttachSessionParams \<Rightarrow> 'k Application
     \<Rightarrow> (DaemonError + json \<times> uuid) \<times> 'k Application" where
  "handle_attach d f session_id p a =
     st_then (history d session_id a) (\<lambda>evs a.
     st_then (fold_session (de_externals d) evs, a) (\<lambda>s a.
     st_then (try_map (protocol_event (de_externals d)) (filter (\<lambda>e. se_sequence e > ap_after_sequence p) evs), a)
       (\<lambda>replayed a.
       case subscribe (de_event_text d) (fresh_id f 0) session_id replayed (dm_hub a) of
         (Err e, hub) \<Rightarrow> (Err (of_subscription e), a\<lparr>dm_hub := hub\<rparr>)
       | (Ok subscription, hub) \<Rightarrow>
           (Ok (AttachSessionResult_value (de_externals d) session_id (fs_state s) (ap_after_sequence p)
                  (fs_last_sequence s), subscription), a\<lparr>dm_hub := hub\<rparr>))))"

section \<open>Prompts\<close>

text \<open>The last part of \<open>handle_prompt\<close>, once a route is selected.\<close>

definition prompt_selected ::
  "'k Daemon \<Rightarrow> Fresh \<Rightarrow> uuid \<Rightarrow> uuid \<Rightarrow> PromptParams \<Rightarrow> json \<Rightarrow> StoredEvent list \<Rightarrow> EventInput list
     \<Rightarrow> WorkflowRouteTarget option \<Rightarrow> RoutingPlan \<Rightarrow> DefaultToolMode \<Rightarrow> 'k Application
     \<Rightarrow> (DaemonError + json) \<times> 'k Application" where
  "prompt_selected d f session_id request_id p outcome past batch target plan permission a =
     (let x = de_externals d; now = fresh_time f; parameters = PromptParams_value p;
          commit_with = (\<lambda>v extra. daemon_commit_events d f request_id ''session.prompt'' parameters v (batch @ extra) a);
          payload = (case target of None \<Rightarrow> routing_payload plan
                     | Some t \<Rightarrow> enrich_workflow_routing (wrt_run t) (routing_payload plan));
          routing = command_event (fresh_id f 4) session_id request_id now EventKind.RoutingPlanned (JObject payload) None None in
      if permission = DefaultDenied
      then st_then (commit_with (durable_failure x (fresh_id f 5) PolicyDeniedError) [routing])
             (\<lambda>(v, _) a. with_result (replay_command_outcome x v) a)
      else if permission = DefaultApprovalRequired
      then st_then (commit_with outcome [routing,
               command_event (fresh_id f 6) session_id request_id now EventKind.ApprovalRequested
                 (JObject [(''action'', JString ''provider.prompt''), (''approval_id'', uuid_value x (fresh_id f 5)),
                           (''risk'', JString ''medium''), (''scope'', strings_value [''provider''])]) None None])
             (\<lambda>(v, _) a. with_result (replay_command_outcome x v) a)
      else st_then (commit_with outcome ([routing] @
               dispatch_events x (fresh_id f 6) (fresh_id f 7) session_id request_id now (fresh_id f 5) None))
             (\<lambda>(v, replayed) a.
               if replayed then with_result (replay_command_outcome x v) a
               else
                 (let prompt = (case latest_redirect_instruction past of None \<Rightarrow> pp_text p
                                | Some instruction \<Rightarrow> pp_text p @ [CHR 10, CHR 10] @ ''Redirect: '' @ instruction) in
                  st_then (activate_attempt d (later 8 f) session_id request_id (fresh_id f 5)
                      (rd_provider (rp_destination plan)) (rd_runtime_model (rp_destination plan)) prompt a)
                    (\<lambda>_ a. with_result (replay_command_outcome x v) a))))"

definition prompt_decided ::
  "'k Daemon \<Rightarrow> Fresh \<Rightarrow> uuid \<Rightarrow> uuid \<Rightarrow> PromptParams \<Rightarrow> json \<Rightarrow> StoredEvent list \<Rightarrow> EventInput list
     \<Rightarrow> WorkflowRouteTarget option \<Rightarrow> RouteDecision \<Rightarrow> 'k Application
     \<Rightarrow> (DaemonError + json) \<times> 'k Application" where
  "prompt_decided d f session_id request_id p outcome past batch target decision a =
     (let x = de_externals d; parameters = PromptParams_value p in
      case decision of
        UnavailableRoute _ \<Rightarrow>
          st_then (daemon_commit_events d f request_id ''session.prompt'' parameters
              (durable_failure x (fresh_id f 4) CapabilityUnavailableError) batch a)
            (\<lambda>(v, _) a. with_result (replay_command_outcome x v) a)
      | ClarificationRoute reason _ \<Rightarrow>
          st_then (daemon_commit_events d f request_id ''session.prompt'' parameters outcome
              (batch @ [command_event (fresh_id f 4) session_id request_id (fresh_time f) EventKind.ClarificationRequested
                 (JObject [(''question'', JString ''Which configured role should execute this prompt?''),
                           (''reason'', JString reason)]) None None]) a)
            (\<lambda>(v, _) a. with_result (replay_command_outcome x v) a)
      | SelectedRoute plan permission \<Rightarrow>
          prompt_selected d f session_id request_id p outcome past batch target plan permission a)"

text \<open>The target of a session that follows a workflow; its configuration is read only then.\<close>

definition route_target ::
  "'k Daemon \<Rightarrow> uuid \<Rightarrow> uuid \<Rightarrow> StoredEvent list \<Rightarrow> 'k Application
     \<Rightarrow> (DaemonError + WorkflowRouteTarget option) \<times> 'k Application" where
  "route_target d run_id session_id past a =
     (if session_workflow_id past = None then (Ok None, a)
      else st_then (session_configuration d session_id a) (\<lambda>c a.
        (workflow_route_target (de_externals d) run_id c past, a)))"

definition route ::
  "'k Daemon \<Rightarrow> uuid \<Rightarrow> string option \<Rightarrow> string option \<Rightarrow> WorkflowRouteContext option \<Rightarrow> 'k Application
     \<Rightarrow> RouteDecision Run \<times> 'k Application" where
  "route d session_id explicit role context a =
     run_then (session_configuration d session_id a) (\<lambda>c a.
       (case plan_route (de_version d) (de_catalog d) c explicit role context of
          None \<Rightarrow> Panicked
        | Some r \<Rightarrow> Returned r, a))"

definition handle_prompt ::
  "'k Daemon \<Rightarrow> Fresh \<Rightarrow> uuid \<Rightarrow> uuid \<Rightarrow> PromptParams \<Rightarrow> 'k Application \<Rightarrow> json Run \<times> 'k Application" where
  "handle_prompt d f session_id request_id p a =
     (let x = de_externals d in
      case cached_outcome d session_id request_id ''session.prompt'' (PromptParams_value p) a of
        Err e \<Rightarrow> (Returned (Err e), a)
      | Ok (Some v) \<Rightarrow> (Returned (replay_command_outcome x v), a)
      | Ok None \<Rightarrow>
          run_then (history d session_id a) (\<lambda>past a.
          run_then (fold_session x past, a) (\<lambda>s a.
            if fs_state s \<noteq> ReadyState then (Returned (Err InvalidTransitionError), a)
            else
              run_then (ok_or InternalError (checked_add (fs_last_sequence s) 1), a) (\<lambda>sequence a.
              let outcome = PromptResult_value x (fresh_id f 0) sequence;
                  input = command_event (fresh_id f 1) session_id request_id (fresh_time f) EventKind.InputRecorded
                    (JObject [(''content'', JString (pp_text p)), (''input_id'', uuid_value x (fresh_id f 0))]) None None in
              run_then (route_target d (fresh_id f 2) session_id past a) (\<lambda>target a.
              let started = (case target of
                      Some t \<Rightarrow> if recover_run past = None
                        then [command_event (fresh_id f 3) session_id request_id (fresh_time f) EventKind.WorkflowTransition
                                (transition_payload (wrt_run t) ''started'') None None] else []
                    | None \<Rightarrow> []) in
              case route d session_id (pp_explicit_target p) (map_option wrt_role target) (map_option wrt_context target) a of
                (Panicked, a) \<Rightarrow> (Panicked, a)
              | (Blocked, a) \<Rightarrow> (Blocked, a)
              | (Returned (Err e), a) \<Rightarrow> (Returned (Err e), a)
              | (Returned (Ok decision), a) \<Rightarrow>
                  finished (prompt_decided d f session_id request_id p outcome past (input # started) target decision a))))))"

section \<open>Controls\<close>

definition handle_pause ::
  "'k Daemon \<Rightarrow> Fresh \<Rightarrow> uuid \<Rightarrow> uuid \<Rightarrow> ClientContext \<Rightarrow> 'k Application
     \<Rightarrow> (DaemonError + json) \<times> 'k Application" where
  "handle_pause d f session_id request_id context a =
     (let x = de_externals d; m = ''session.pause''; parameters = JObject [] in
      case cached_outcome d session_id request_id m parameters a of
        Err e \<Rightarrow> (Err e, a)
      | Ok (Some v) \<Rightarrow> (replay_command_outcome x v, a)
      | Ok None \<Rightarrow>
          st_then (current_session_state session_id a, a) (\<lambda>state a.
            if state \<in> {PausedState, PausingState}
            then daemon_record_outcome d session_id request_id m parameters
                   (ControlResult_value x request_id PauseControl PausedState) a
            else if state \<noteq> RunningState then (Err InvalidTransitionError, a)
            else if (case dm_active a session_id of None \<Rightarrow> False | Some ax \<Rightarrow> \<not> is_fake ax)
            then (Err CapabilityUnavailableError, a)
            else
              (let control = fresh_id f 0; now = fresh_time f in
               st_then (daemon_commit_events d f request_id m parameters
                   (ControlResult_value x control PauseControl PausedState)
                   [command_event (fresh_id f 1) session_id request_id now EventKind.PauseRequested
                      (control_payload x control context None) None None,
                    command_event (fresh_id f 2) session_id request_id now EventKind.SessionPaused
                      (control_payload x control context None) None None] a) (\<lambda>(v, _) a.
               st_then (if sc_workflows (dm_cache a) session_id = None then (Ok (), a)
                        else st_then (history d session_id a) (\<lambda>past a.
                          case recover_run past of
                            None \<Rightarrow> (Ok (), a)
                          | Some run \<Rightarrow>
                              if phase_is_terminal (phase run) then (Ok (), a)
                              else
                                (let run = (case WorkflowRun_pause run of Ok r \<Rightarrow> r | Err _ \<Rightarrow> run) in
                                 (Ok (), snd (daemon_append d (later 3 f) session_id (Some request_id)
                                    EventKind.WorkflowTransition (transition_payload run ''paused'') None None a)))))
                 (\<lambda>_ a. with_result (replay_command_outcome x v) a)))))"

text \<open>A workflow that waits and has no attempt under way is dispatched at once, by a call that takes the lock
  the handler holds.\<close>

definition handle_resume ::
  "'k Daemon \<Rightarrow> Fresh \<Rightarrow> uuid \<Rightarrow> uuid \<Rightarrow> ClientContext \<Rightarrow> 'k Application \<Rightarrow> json Run \<times> 'k Application" where
  "handle_resume d f session_id request_id context a =
     (let x = de_externals d; m = ''session.resume''; parameters = JObject [] in
      case cached_outcome d session_id request_id m parameters a of
        Err e \<Rightarrow> (Returned (Err e), a)
      | Ok (Some v) \<Rightarrow> (Returned (Ok v), a)
      | Ok None \<Rightarrow>
          run_then (current_session_state session_id a, a) (\<lambda>state a.
            if state = RunningState
            then finished (daemon_record_outcome d session_id request_id m parameters
                   (ControlResult_value x request_id ResumeControl RunningState) a)
            else if state \<noteq> PausedState then (Returned (Err InvalidTransitionError), a)
            else
              (let control = fresh_id f 1;
                   complete = (\<lambda>v a. (Returned (Ok v),
                     if (case dm_active a session_id of None \<Rightarrow> False | Some ax \<Rightarrow> is_fake ax)
                     then spawn (FakeCompletion session_id) a else a)) in
               run_then (daemon_commit_event d f session_id request_id m parameters
                   (ControlResult_value x control ResumeControl RunningState) EventKind.SessionResumed
                   (control_payload x control context None) a) (\<lambda>(v, replayed) a.
                 if replayed then (Returned (Ok v), a)
                 else if sc_workflows (dm_cache a) session_id = None then complete v a
                 else run_then (history d session_id a) (\<lambda>past a.
                   case recover_run past of
                     None \<Rightarrow> complete v a
                   | Some run \<Rightarrow>
                       if phase run \<notin> {WorkflowPhase.Paused, WorkflowPhase.AwaitingHuman} then complete v a
                       else
                         (let run = (case WorkflowRun_resume run of Ok r \<Rightarrow> r | Err _ \<Rightarrow> run) in
                          run_then (daemon_append d (later 2 f) session_id (Some request_id)
                              EventKind.WorkflowTransition (transition_payload run ''resumed'') None None a) (\<lambda>_ a.
                            if permits_dispatch (phase run) \<and> dm_active a session_id = None
                            then (Blocked, a\<lparr>dm_blocked := insert session_id (dm_blocked a)\<rparr>)
                            else complete v a)))))))"

definition handle_redirect ::
  "'k Daemon \<Rightarrow> Fresh \<Rightarrow> uuid \<Rightarrow> uuid \<Rightarrow> ClientContext \<Rightarrow> RedirectParams \<Rightarrow> 'k Application
     \<Rightarrow> (DaemonError + json) \<times> 'k Application" where
  "handle_redirect d f session_id request_id context p a =
     (let x = de_externals d; m = ''session.redirect''; parameters = RedirectParams_value p in
      case cached_outcome d session_id request_id m parameters a of
        Err e \<Rightarrow> (Err e, a)
      | Ok (Some v) \<Rightarrow> (Ok v, a)
      | Ok None \<Rightarrow>
          st_then (folded d session_id a) (\<lambda>s a.
            if fs_state s \<notin> {PausedState, AwaitingClarificationState} then (Err InvalidTransitionError, a)
            else
              (let control = fresh_id f 1;
                   next_state = (if fs_state s = AwaitingClarificationState then ReadyState else PausedState) in
               st_then (daemon_commit_event d f session_id request_id m parameters
                   (ControlResult_value x control RedirectControl next_state) EventKind.SessionRedirected
                   (control_payload x control context (Some (rdp_instruction p))) a)
                 (\<lambda>(v, _) a. (Ok v, a)))))"

definition handle_cancel ::
  "'k Daemon \<Rightarrow> Fresh \<Rightarrow> uuid \<Rightarrow> uuid \<Rightarrow> ClientContext \<Rightarrow> 'k Application
     \<Rightarrow> (DaemonError + json) \<times> 'k Application" where
  "handle_cancel d f session_id request_id context a =
     (let x = de_externals d; m = ''session.cancel''; parameters = JObject [] in
      case cached_outcome d session_id request_id m parameters a of
        Err e \<Rightarrow> (Err e, a)
      | Ok (Some v) \<Rightarrow>
          st_then (history d session_id a) (\<lambda>past a.
          st_then (fold_session x past, a) (\<lambda>s a.
            if fs_state s = CancelRequestedState
            then st_then (uuid_field x v ''control_id'', a) (\<lambda>control a.
                   with_result (replay_command_outcome x v)
                     (spawn (CancelResolution session_id request_id control (latest_started_attempt past)) a))
            else (replay_command_outcome x v, a)))
      | Ok None \<Rightarrow>
          st_then (history d session_id a) (\<lambda>past a.
          st_then (fold_session x past, a) (\<lambda>s a.
            if fs_state s \<in> {CompletedState, FailedState, CancelledState, AbandonedState, DeletingState}
            then (Err InvalidTransitionError, a)
            else
              (let control = fresh_id f 0; now = fresh_time f;
                   attempt = (case dm_active a session_id of Some ax \<Rightarrow> Some (ax_attempt_id ax)
                              | None \<Rightarrow> latest_started_attempt past);
                   requested = command_event (fresh_id f 1) session_id request_id now EventKind.CancelRequested
                     (control_payload x control context None) None None;
                   confirmed = (if attempt = None then
                     [command_event (fresh_id f 2) session_id request_id now EventKind.CancelConfirmed
                        (JObject [(''control_id'', uuid_value x control)]) None None,
                      command_event (fresh_id f 3) session_id request_id now EventKind.SessionCancelled
                        (terminal_payload x (fresh_id f 4) ''cancelled before any external attempt started'') None None]
                     else []) in
               st_then (daemon_commit_events d f request_id m parameters
                   (ControlResult_value x control CancelControl
                      (if attempt = None then CancelledState else CancelRequestedState)) (requested # confirmed) a)
                 (\<lambda>(v, replayed) a.
                   with_result (replay_command_outcome x v)
                     (if replayed \<or> attempt = None then a
                      else spawn (CancelResolution session_id request_id control attempt) a))))))"

section \<open>Human decisions\<close>

definition activate_from_history ::
  "'k Daemon \<Rightarrow> Fresh \<Rightarrow> uuid \<Rightarrow> uuid \<Rightarrow> uuid \<Rightarrow> StoredEvent list \<Rightarrow> 'k Application
     \<Rightarrow> (DaemonError + unit) \<times> 'k Application" where
  "activate_from_history d f session_id causation attempt past a =
     st_then (provider_execution_context past causation, a) (\<lambda>context a.
       activate_attempt d f session_id causation attempt (pec_provider context) (pec_runtime_model context)
         (pec_prompt context) a)"

definition approval_replayed ::
  "'k Daemon \<Rightarrow> Fresh \<Rightarrow> uuid \<Rightarrow> uuid \<Rightarrow> ApprovalParams \<Rightarrow> json \<Rightarrow> 'k Application
     \<Rightarrow> (DaemonError + json) \<times> 'k Application" where
  "approval_replayed d f session_id request_id p v a =
     (let x = de_externals d in
      if app_decision p \<noteq> Grant then (replay_command_outcome x v, a)
      else
        st_then (history d session_id a) (\<lambda>past a.
        st_then (fold_session x past, a) (\<lambda>s a.
          case latest_started_attempt past of
            Some attempt \<Rightarrow>
              if fs_state s = RunningState \<and> dm_active a session_id = None
              then
                (let causation = (case Option.bind (find (\<lambda>e. se_kind e = ''dispatch_started'') (rev past)) se_causation_request_id of
                       Some c \<Rightarrow> c | None \<Rightarrow> request_id) in
                 st_then (activate_from_history d f session_id causation attempt past a)
                   (\<lambda>_ a. with_result (replay_command_outcome x v) a))
              else (replay_command_outcome x v, a)
          | None \<Rightarrow> (replay_command_outcome x v, a))))"

definition handle_approval ::
  "'k Daemon \<Rightarrow> Fresh \<Rightarrow> uuid \<Rightarrow> uuid \<Rightarrow> ClientContext \<Rightarrow> ApprovalParams \<Rightarrow> 'k Application
     \<Rightarrow> (DaemonError + json) \<times> 'k Application" where
  "handle_approval d f session_id request_id context p a =
     (let x = de_externals d; m = ''session.approval.resolve''; parameters = ApprovalParams_value x p;
          outcome = ApprovalResult_value x (app_approval_id p) (app_decision p) (granted_state (app_decision p)) in
      case cached_outcome d session_id request_id m parameters a of
        Err e \<Rightarrow> (Err e, a)
      | Ok (Some v) \<Rightarrow> approval_replayed d f session_id request_id p v a
      | Ok None \<Rightarrow>
          st_then (folded d session_id a) (\<lambda>s a.
            case fs_approval_decisions s (app_approval_id p) of
              Some recorded \<Rightarrow>
                if recorded \<noteq> app_decision p then (Err InvalidTransitionError, a)
                else daemon_record_outcome d session_id request_id m parameters outcome a
            | None \<Rightarrow>
                if fs_state s \<noteq> AwaitingApprovalState \<or> fs_pending_approval_id s \<noteq> Some (app_approval_id p)
                then (Err InvalidTransitionError, a)
                else
                  (let now = fresh_time f;
                       recorded = command_event (fresh_id f 0) session_id request_id now EventKind.ApprovalRecorded
                         (JObject [(''actor'', JString (actor context)), (''approval_id'', uuid_value x (app_approval_id p)),
                                   (''decision'', decision_value (app_decision p))]) None None in
                   case app_decision p of
                     Grant \<Rightarrow>
                       (let causation = (case fs_pending_request_id s of Some r \<Rightarrow> r | None \<Rightarrow> request_id);
                            attempt = fresh_id f 1 in
                        st_then (daemon_commit_events d f request_id m parameters outcome
                            (recorded # dispatch_events x (fresh_id f 2) (fresh_id f 3) session_id causation now attempt None) a)
                          (\<lambda>(v, replayed) a.
                            if replayed then (replay_command_outcome x v, a)
                            else st_then (history d session_id a) (\<lambda>past a.
                              st_then (activate_from_history d (later 4 f) session_id causation attempt past a)
                                (\<lambda>_ a. with_result (replay_command_outcome x v) a))))
                   | Deny \<Rightarrow>
                       st_then (daemon_commit_events d f request_id m parameters outcome
                           [recorded, command_event (fresh_id f 2) session_id request_id now EventKind.SessionPaused
                              (control_payload x (fresh_id f 1) context None) None None] a)
                         (\<lambda>(v, _) a. with_result (replay_command_outcome x v) a))))"

fun reconciled_state :: "ReconciliationResolution \<Rightarrow> WireState" where
  "reconciled_state Retry = RunningState"
| "reconciled_state AcceptResult = CompletedState"
| "reconciled_state Abandon = AbandonedState"

definition reconciliation_events ::
  "Externals \<Rightarrow> Fresh \<Rightarrow> uuid \<Rightarrow> uuid \<Rightarrow> ReconciliationParams \<Rightarrow> EventInput list" where
  "reconciliation_events x f session_id request_id p =
     (let now = fresh_time f; replacement = (if rcp_resolution p = Retry then Some (fresh_id f 0) else None) in
      command_event (fresh_id f 1) session_id request_id now EventKind.OutcomeReconciled
        (JObject [(''attempt_id'', uuid_value x (rcp_attempt_id p)), (''evidence_recorded'', JBool (rcp_evidence p \<noteq> None)),
                  (''replacement_attempt_id'', option_value (uuid_value x) replacement),
                  (''resolution'', resolution_value (rcp_resolution p))])
        (Some (rcp_attempt_id p)) None #
      (case rcp_resolution p of
         Retry \<Rightarrow> dispatch_events x (fresh_id f 2) (fresh_id f 3) session_id request_id now (fresh_id f 0) (Some (rcp_attempt_id p))
       | AcceptResult \<Rightarrow> [command_event (fresh_id f 2) session_id request_id now EventKind.SessionCompleted
           (terminal_payload x (fresh_id f 3) ''result accepted by human reconciliation'') (Some (rcp_attempt_id p)) None]
       | Abandon \<Rightarrow> [command_event (fresh_id f 2) session_id request_id now EventKind.SessionAbandoned
           (terminal_payload x (fresh_id f 3) ''execution abandoned by human reconciliation'') (Some (rcp_attempt_id p)) None]))"

definition handle_reconcile ::
  "'k Daemon \<Rightarrow> Fresh \<Rightarrow> uuid \<Rightarrow> uuid \<Rightarrow> ReconciliationParams \<Rightarrow> 'k Application
     \<Rightarrow> (DaemonError + json) \<times> 'k Application" where
  "handle_reconcile d f session_id request_id p a =
     (let x = de_externals d; m = ''session.reconcile''; parameters = ReconciliationParams_value x p in
      case cached_outcome d session_id request_id m parameters a of
        Err e \<Rightarrow> (Err e, a)
      | Ok (Some v) \<Rightarrow> (replay_command_outcome x v, a)
      | Ok None \<Rightarrow>
          st_then (folded d session_id a) (\<lambda>s a.
            if fs_state s \<noteq> OutcomeUnknownState \<or> fs_uncertain_attempt_id s \<noteq> Some (rcp_attempt_id p)
            then (Err InvalidTransitionError, a)
            else
              (let replacement = (if rcp_resolution p = Retry then Some (fresh_id f 0) else None) in
               st_then (daemon_commit_events d f request_id m parameters
                   (ReconciliationResult_value x (rcp_attempt_id p) (rcp_resolution p) replacement
                      (reconciled_state (rcp_resolution p)))
                   (reconciliation_events x f session_id request_id p) a)
                 (\<lambda>(v, replayed) a.
                   if rcp_resolution p \<noteq> Retry \<or> replayed then (replay_command_outcome x v, a)
                   else st_then (history d session_id a) (\<lambda>past a.
                     st_then (activate_from_history d (later 4 f) session_id request_id (fresh_id f 0) past a)
                       (\<lambda>_ a. with_result (replay_command_outcome x v) a))))))"

section \<open>Deletion\<close>

definition handle_delete ::
  "'k Daemon \<Rightarrow> Fresh \<Rightarrow> uuid \<Rightarrow> uuid \<Rightarrow> ClientContext \<Rightarrow> DeleteParams \<Rightarrow> 'k Application
     \<Rightarrow> (DaemonError + json) \<times> 'k Application" where
  "handle_delete d f session_id request_id context p a =
     (let x = de_externals d; parameters = DeleteParams_value x p in
      if dp_confirm_session_id p \<noteq> session_id
      then (Err (InvalidRequestError ''delete confirmation does not match session''), a)
      else case cached_outcome d session_id request_id ''session.delete'' parameters a of
        Err e \<Rightarrow> (Err e, a)
      | Ok (Some v) \<Rightarrow> st_then (uuid_field x v ''deletion_id'', a) (\<lambda>i a. (Ok (DeleteResult_value x i), a))
      | Ok None \<Rightarrow>
          st_then (folded d session_id a) (\<lambda>s a.
            if fs_state s \<notin> {CompletedState, FailedState, CancelledState, AbandonedState}
            then (Err InvalidTransitionError, a)
            else
              st_then (ok_or InternalError (checked_add (fs_last_sequence s) 2), a) (\<lambda>next_sequence a.
              st_then (map_err of_storage (ensure_no_pending_export (db (dm_storage a)) session_id), a) (\<lambda>_ a.
              st_then (on_storage (request_deletion x (de_keys d) (fresh_nonce f) (fresh_id f 1) session_id (fresh_id f 0)
                  request_id (fresh_time f) (actor context)) a) (\<lambda>summary a.
              let a = (remove_active session_id a)\<lparr>dm_cache := evict_session session_id (dm_cache a),
                         dm_hub := purge_session session_id (dm_hub a)\<rparr> in
              st_then (format_time x (fresh_time f), a) (\<lambda>occurred_at a.
                (Ok (DeleteResult_value x (ds_deletion_id summary)),
                 a\<lparr>dm_hub := publish (de_event_text d)
                    \<lparr>sev_protocol = PROTOCOL_V1, sev_event_id = fresh_id f 2, sev_session_id = session_id,
                     sev_sequence = next_sequence, sev_causation_request_id = Some request_id,
                     sev_kind = EventKind.SessionDeleted, sev_occurred_at = occurred_at,
                     sev_data = JObject [(''deletion_id'', uuid_value x (ds_deletion_id summary)),
                       (''key_destroyed'', JBool (ds_key_destroyed summary))]\<rparr> (dm_hub a)\<rparr>)))))))"

end
