(* ===== verification/Daemon_Tasks.thy ===== *)
theory Daemon_Tasks
  imports Daemon_Handlers
begin

text \<open>
  What the daemon does besides answering (\<open>crates/workbench-daemon/src/application.rs\<close>): the spawned futures of
  attempts, workflows and cancellations, shutdown, recovery and maintenance, and the dispatch of a command.
  A future that drops the session lock and goes on is split there: what remains is another task.
\<close>

section \<open>Attempts under way\<close>

definition finish_fake :: "'k Daemon \<Rightarrow> Fresh \<Rightarrow> uuid \<Rightarrow> 'k Application \<Rightarrow> (DaemonError + unit) \<times> 'k Application" where
  "finish_fake d f session_id a =
     (if dm_shutting_down a then (Ok (), a)
      else case dm_active a session_id of
        None \<Rightarrow> (Ok (), a)
      | Some ax \<Rightarrow>
          if \<not> is_fake ax then (Ok (), a)
          else
            st_then (history d session_id a) (\<lambda>past a.
            st_then (fold_session (de_externals d) past, a) (\<lambda>s a.
              if fs_state s \<noteq> RunningState then (Ok (), a)
              else
                (let content = (if fb_report_findings (de_fake d)
                       then ''deterministic fake provider response; '' @ FINDINGS_MARKER
                       else ''deterministic fake provider response'');
                     attempt = ax_attempt_id ax in
                 st_then (daemon_append d f session_id (Some (ax_request_id ax)) EventKind.ProviderEvent
                     (output_event (de_externals d) attempt ''message'' content) (Some attempt) (Some ''paid-inference'') a) (\<lambda>_ a.
                 let a = remove_active session_id a in
                 if recover_run past \<noteq> None \<or> session_workflow_id past \<noteq> None
                 then (Ok (), spawn (WorkflowAdvance session_id (ax_request_id ax) attempt (content_has_findings content)) a)
                 else daemon_append d (later 1 f) session_id (Some (ax_request_id ax)) EventKind.SessionCompleted
                        (terminal_payload (de_externals d) (fresh_id f 2) ''deterministic fake provider completed'')
                        (Some attempt) (Some ''paid-inference'') a)))))"

definition finish_provider_activation_failure ::
  "'k Daemon \<Rightarrow> Fresh \<Rightarrow> uuid \<Rightarrow> uuid \<Rightarrow> ProviderFailure \<Rightarrow> 'k Application
     \<Rightarrow> (DaemonError + unit) \<times> 'k Application" where
  "finish_provider_activation_failure d f session_id attempt failure a =
     (if dm_shutting_down a then (Ok (), a)
      else case active_for_attempt session_id attempt a of
        None \<Rightarrow> (Ok (), a)
      | Some ax \<Rightarrow>
          st_then (current_session_state session_id a, a) (\<lambda>state a.
            if state = CancelRequestedState then (Ok (), a)
            else st_then (record_provider_failure d f session_id (ax_request_id ax) attempt failure a)
                   (\<lambda>_ a. (Ok (), remove_active_attempt session_id attempt a))))"

definition provider_activation ::
  "'k Daemon \<Rightarrow> Fresh \<Rightarrow> uuid \<Rightarrow> uuid \<Rightarrow> ProviderAdapter \<Rightarrow> ProviderSessionHandle \<Rightarrow> ProviderPrompt
     \<Rightarrow> 'k Application \<Rightarrow> (DaemonError + unit) \<times> 'k Application" where
  "provider_activation d f session_id attempt adapter handle prompt a =
     (case prompt_stream adapter handle prompt of
        Ok stream \<Rightarrow> (Ok (), spawn (ProviderConsumption session_id attempt stream 0) a)
      | Err failure \<Rightarrow> finish_provider_activation_failure d f session_id attempt failure a)"

definition stream_ended :: ProviderFailure where
  "stream_ended = \<lparr>pf_category = FailureCategory.OutcomeUnknown,
     pf_user_safe_message = ''provider stream ended without a definite terminal result'', pf_definite = False\<rparr>"

definition attempt_findings :: "StoredEvent list \<Rightarrow> uuid \<Rightarrow> bool" where
  "attempt_findings past attempt \<longleftrightarrow>
     list_ex (\<lambda>e. se_kind e = ''provider_event'' \<and> se_attempt_id e = Some attempt \<and>
       (case get_str ''content'' (se_payload e) of None \<Rightarrow> False | Some c \<Rightarrow> content_has_findings c)) past"

text \<open>One turn of the loop of \<open>consume_provider_stream\<close>, on item \<open>i\<close> of the stream.\<close>

definition consume_provider_stream ::
  "'k Daemon \<Rightarrow> Fresh \<Rightarrow> uuid \<Rightarrow> uuid \<Rightarrow> ProviderStream \<Rightarrow> nat \<Rightarrow> 'k Application
     \<Rightarrow> (DaemonError + unit) \<times> 'k Application" where
  "consume_provider_stream d f session_id attempt stream i a =
     (if dm_shutting_down a then (Ok (), a)
      else case active_for_attempt session_id attempt a of
        None \<Rightarrow> (Ok (), a)
      | Some ax \<Rightarrow>
          (case stream i of
             Some (Ok output) \<Rightarrow>
               st_then (record_provider_output d f session_id ax output a) (\<lambda>r a.
                 if r \<noteq> TerminalState then (Ok (), spawn (ProviderConsumption session_id attempt stream (Suc i)) a)
                 else st_then (history d session_id a) (\<lambda>past a.
                   let a = remove_active_attempt session_id attempt a in
                   (Ok (), if session_workflow_id past \<noteq> None \<and> (case output of ProviderOutput.Completed _ \<Rightarrow> True | _ \<Rightarrow> False)
                           then spawn (WorkflowAdvance session_id (ax_request_id ax) attempt (attempt_findings past attempt)) a
                           else a)))
           | Some (Err failure) \<Rightarrow>
               st_then (current_session_state session_id a, a) (\<lambda>state a.
                 if state = CancelRequestedState then (Ok (), a)
                 else st_then (record_provider_failure d f session_id (ax_request_id ax) attempt failure a)
                        (\<lambda>_ a. (Ok (), remove_active_attempt session_id attempt a)))
           | None \<Rightarrow>
               st_then (current_session_state session_id a, a) (\<lambda>state a.
                 if state = RunningState
                 then st_then (record_provider_failure d f session_id (ax_request_id ax) attempt stream_ended a)
                        (\<lambda>_ a. (Ok (), remove_active_attempt session_id attempt a))
                 else (Ok (), a))))"

section \<open>Workflows\<close>

definition system_payload :: "Externals \<Rightarrow> uuid \<Rightarrow> json" where
  "system_payload x control = JObject [(''actor'', JString ''system:workflow''), (''control_id'', uuid_value x control)]"

definition advance_workflow_after_attempt ::
  "'k Daemon \<Rightarrow> Fresh \<Rightarrow> uuid \<Rightarrow> uuid \<Rightarrow> uuid \<Rightarrow> bool \<Rightarrow> 'k Application
     \<Rightarrow> (DaemonError + unit) \<times> 'k Application" where
  "advance_workflow_after_attempt d f session_id request_id attempt findings a =
     (let x = de_externals d;
          moved = (\<lambda>run reason a. daemon_append d f session_id (Some request_id) EventKind.WorkflowTransition
             (transition_payload run reason) (Some attempt) None a);
          completed = (\<lambda>summary a. daemon_append d (later 1 f) session_id (Some request_id) EventKind.SessionCompleted
             (terminal_payload x (fresh_id f 2) summary) (Some attempt) (Some ''paid-inference'') a) in
      st_then (history d session_id a) (\<lambda>past a.
      st_then (session_configuration d session_id a) (\<lambda>c a.
        case session_workflow_id past of
          None \<Rightarrow> completed ''workflow session missing workflow id'' a
        | Some workflow_id \<Rightarrow>
            st_then (ok_or StorageUnavailableError (recover_run past), a) (\<lambda>run a.
              if phase_is_terminal (phase run) then (Ok (), a)
              else
                st_then (ok_or (InvalidRequestError ''workflow is not configured'') (map_of (cfg_workflows c) workflow_id), a) (\<lambda>w a.
                st_then (advance_run w findings run, a) (\<lambda>(run, reason) a.
                st_then (moved run reason a) (\<lambda>_ a.
                  if reason = ''awaiting_human'' then
                    (let control = fresh_id f 1 in
                     st_then (daemon_append d (later 2 f) session_id (Some request_id) EventKind.PauseRequested
                         (system_payload x control) None None a) (\<lambda>_ a.
                       daemon_append d (later 3 f) session_id (Some request_id) EventKind.SessionPaused
                         (system_payload x control) None None a))
                  else if reason = ''completed'' then completed ''workflow completed'' a
                  else (Ok (), spawn (WorkflowDispatch session_id request_id run) a))))))))"

definition dispatch_workflow_step ::
  "'k Daemon \<Rightarrow> Fresh \<Rightarrow> uuid \<Rightarrow> uuid \<Rightarrow> WorkflowRun \<Rightarrow> 'k Application \<Rightarrow> unit Run \<times> 'k Application" where
  "dispatch_workflow_step d f session_id request_id run a =
     (let x = de_externals d;
          failed = (\<lambda>summary a. finished (daemon_append d (later 1 f) session_id (Some request_id) EventKind.SessionFailed
             (terminal_payload x (fresh_id f 2) summary) None (Some ''paid-inference'') a)) in
      if \<not> permits_dispatch (phase run) then (Returned (Ok ()), a)
      else
        run_then (history d session_id a) (\<lambda>past a.
        run_then (route_target d (fresh_id f 0) session_id past a) (\<lambda>target a.
        case target of
          None \<Rightarrow> (Returned (Err (InvalidRequestError ''workflow has no active step'')), a)
        | Some target \<Rightarrow>
            (case route d session_id None (Some (wrt_role target)) (Some (wrt_context target)) a of
               (Panicked, a) \<Rightarrow> (Panicked, a)
             | (Blocked, a) \<Rightarrow> (Blocked, a)
             | (Returned (Err e), a) \<Rightarrow> (Returned (Err e), a)
             | (Returned (Ok (SelectedRoute plan permission)), a) \<Rightarrow>
                 if permission = DefaultDenied then failed ''workflow step denied by policy'' a
                 else
                   run_then (daemon_append d (later 1 f) session_id (Some request_id) EventKind.RoutingPlanned
                       (JObject (enrich_workflow_routing run (routing_payload plan))) None None a) (\<lambda>_ a.
                   let attempt = fresh_id f 2;
                       es = dispatch_events x (fresh_id f 3) (fresh_id f 4) session_id request_id (fresh_time f) attempt None;
                       store = (\<lambda>e a. st_then (on_storage (append_event x (de_keys d) (fresh_nonce f) e) a)
                                  (\<lambda>p a. publish_event d p a)) in
                   run_then (store (es ! 0) a) (\<lambda>_ a.
                   run_then (store (es ! 1) a) (\<lambda>_ a.
                   let input = (case Option.bind (find (\<lambda>e. se_kind e = ''input_recorded'') (rev past))
                                  (\<lambda>e. get_str ''content'' (se_payload e)) of
                                None \<Rightarrow> ''continue workflow'' | Some c \<Rightarrow> c);
                       prompt = (case latest_redirect_instruction past of None \<Rightarrow> input
                                 | Some instruction \<Rightarrow> input @ [CHR 10, CHR 10] @ ''Redirect: '' @ instruction) in
                   run_then (session_configuration d session_id a) (\<lambda>c a.
                     case map_of (cfg_providers c) (rd_provider (rp_destination plan)) of
                       None \<Rightarrow> (Returned (Err CapabilityUnavailableError), a)
                     | Some p \<Rightarrow> (Returned (Ok ()), spawn (StepActivation session_id request_id attempt (prov_kind p)
                         (rd_provider (rp_destination plan)) (rd_runtime_model (rp_destination plan)) prompt) a)))))
             | (Returned (Ok _), a) \<Rightarrow> failed ''workflow step could not be routed'' a))))"

text \<open>The rest of \<open>dispatch_workflow_step\<close>, after the lock is dropped.\<close>

definition step_activation ::
  "'k Daemon \<Rightarrow> Fresh \<Rightarrow> uuid \<Rightarrow> uuid \<Rightarrow> uuid \<Rightarrow> ProviderType \<Rightarrow> ProviderId \<Rightarrow> string \<Rightarrow> string \<Rightarrow> 'k Application
     \<Rightarrow> (DaemonError + unit) \<times> 'k Application" where
  "step_activation d f session_id request_id attempt provider_kind provider runtime_model prompt a =
     (if provider_kind = FakeProvider then (Ok (), activate_fake_attempt session_id request_id attempt a)
      else case de_adapters d provider of
        None \<Rightarrow> record_provider_failure d f session_id request_id attempt adapter_unavailable a
      | Some adapter \<Rightarrow>
          (case start_session adapter of
             Err failure \<Rightarrow> record_provider_failure d f session_id request_id attempt failure a
           | Ok handle \<Rightarrow>
               (case NonEmptyText_parse prompt of
                  Err _ \<Rightarrow> (Err (InvalidRequestError ''prompt text must not be empty''), a)
                | Ok content \<Rightarrow>
                    (Ok (), spawn (ProviderActivation session_id attempt adapter handle
                         \<lparr>pp_session_id = session_id, pp_attempt_id = attempt, pp_runtime_model = runtime_model,
                          pp_content = content\<rparr>)
                       (activate session_id (ActiveExecution_provider attempt request_id adapter handle) a)))))"

section \<open>Cancellation\<close>

text \<open>\<open>answer\<close> is whether the adapter confirms the cancellation.\<close>

definition start_cancel_resolution ::
  "'k Daemon \<Rightarrow> bool \<Rightarrow> uuid \<Rightarrow> uuid \<Rightarrow> uuid \<Rightarrow> uuid option \<Rightarrow> 'k Application \<Rightarrow> 'k Application" where
  "start_cancel_resolution d answer session_id request_id control attempt a =
     (let ask = (\<lambda>confirmed summary a. spawn (CancelAnswer session_id request_id control attempt confirmed summary) a) in
      case dm_active a session_id of
        Some ax \<Rightarrow>
          if attempt \<noteq> Some (ax_attempt_id ax) then ask False ''provider cancellation could not be confirmed'' a
          else if ax_cancel_started ax then a
          else
            (let a = activate session_id (ax\<lparr>ax_cancel_started := True\<rparr>) a in
             if is_fake ax then ask (fb_confirms_cancellation (de_fake d)) ''fake provider confirmed cancellation'' a
             else ask answer ''provider confirmed cancellation'' a)
      | None \<Rightarrow> ask False ''provider cancellation could not be confirmed'' a)"

definition resolve_cancel ::
  "'k Daemon \<Rightarrow> Fresh \<Rightarrow> uuid \<Rightarrow> uuid \<Rightarrow> uuid \<Rightarrow> uuid option \<Rightarrow> bool \<Rightarrow> string \<Rightarrow> 'k Application
     \<Rightarrow> (DaemonError + unit) \<times> 'k Application" where
  "resolve_cancel d f session_id request_id control attempt confirmed summary a =
     (let x = de_externals d; now = fresh_time f in
      st_then (folded d session_id a) (\<lambda>s a.
        if fs_state s \<noteq> CancelRequestedState then (Ok (), a)
        else
          (let batch = (if confirmed then
                [command_event (fresh_id f 0) session_id request_id now EventKind.CancelConfirmed
                   (JObject [(''control_id'', uuid_value x control)]) attempt None,
                 command_event (fresh_id f 1) session_id request_id now EventKind.SessionCancelled
                   (terminal_payload x (fresh_id f 2) summary) attempt None]
                else
                 (let attempt = (case attempt of Some i \<Rightarrow> i | None \<Rightarrow> fresh_id f 1) in
                  [command_event (fresh_id f 0) session_id request_id now EventKind.OutcomeUnknown
                     (unknown_payload x attempt ''cancellation confirmation deadline expired'') (Some attempt) None])) in
           st_then (on_storage (append_events x (de_keys d) (fresh_nonce f) batch) a) (\<lambda>stored a.
           st_then (publish_events d stored a) (\<lambda>_ a. (Ok (), remove_active session_id a))))))"

definition cancel_answer ::
  "'k Daemon \<Rightarrow> Fresh \<Rightarrow> uuid \<Rightarrow> uuid \<Rightarrow> uuid \<Rightarrow> uuid option \<Rightarrow> bool \<Rightarrow> string \<Rightarrow> 'k Application
     \<Rightarrow> (DaemonError + unit) \<times> 'k Application" where
  "cancel_answer d f session_id request_id control attempt confirmed summary a =
     (if dm_shutting_down a then (Ok (), a)
      else resolve_cancel d f session_id request_id control attempt confirmed summary a)"

section \<open>Shutdown\<close>

fun mark_unknown ::
  "'k Daemon \<Rightarrow> Fresh \<Rightarrow> (uuid \<times> ActiveExecution) list \<Rightarrow> 'k Application \<Rightarrow> (DaemonError + unit) \<times> 'k Application" where
  "mark_unknown d f [] a = (Ok (), a)"
| "mark_unknown d f ((session_id, ax) # rest) a =
     st_then (on_storage (append_event (de_externals d) (de_keys d) (fresh_nonce f)
         \<lparr>ei_event_id = fresh_id f 0, ei_session_id = session_id, ei_occurred_at = fresh_time f,
          ei_kind = ''outcome_unknown'', ei_causation_request_id = None, ei_attempt_id = Some (ax_attempt_id ax),
          ei_effect_class = Some ''paid-inference'',
          ei_payload = unknown_payload (de_externals d) (ax_attempt_id ax) ''daemon_shutdown''\<rparr>) a)
       (\<lambda>_ a. mark_unknown d (later 1 f) rest a)"

text \<open>\<open>taken\<close> is the table of active executions in the order the code visits it.\<close>

definition prepare_shutdown ::
  "'k Daemon \<Rightarrow> Fresh \<Rightarrow> (uuid \<times> ActiveExecution) list \<Rightarrow> 'k Application \<Rightarrow> (DaemonError + unit) \<times> 'k Application" where
  "prepare_shutdown d f taken a =
     mark_unknown d f taken (a\<lparr>dm_shutting_down := True, dm_active := Map.empty\<rparr>)"

section \<open>Recovery and maintenance\<close>

fun load_each ::
  "Externals \<Rightarrow> 'k KeyStore \<Rightarrow> uuid list \<Rightarrow> 'k SqliteStorage \<Rightarrow> (StorageError + StoredSession list) \<times> 'k SqliteStorage" where
  "load_each x ks [] st = (Ok [], st)"
| "load_each x ks (i # is) st =
     st_then (load_session x ks i st) (\<lambda>s st. st_then (load_each x ks is st) (\<lambda>ss st. (Ok (s # ss), st)))"

definition load_sessions ::
  "Externals \<Rightarrow> 'k KeyStore \<Rightarrow> 'k SqliteStorage \<Rightarrow> (StorageError + StoredSession list) \<times> 'k SqliteStorage" where
  "load_sessions x ks st = load_each x ks (sort (map fst (sessions (db st)))) st"

definition storage_step ::
  "('k SqliteStorage \<Rightarrow> (StorageError + 'a) \<times> 'k SqliteStorage) \<Rightarrow> 'k Application
     \<Rightarrow> (StorageError + 'a) \<times> 'k Application" where
  "storage_step g a = (case g (dm_storage a) of (r, st) \<Rightarrow> (r, a\<lparr>dm_storage := st\<rparr>))"

fun hydrate_sessions ::
  "'k Daemon \<Rightarrow> StoredSession list \<Rightarrow> 'k Application \<Rightarrow> (StorageError + unit) \<times> 'k Application" where
  "hydrate_sessions d [] a = (Ok (), a)"
| "hydrate_sessions d (s # ss) a = st_then (hydrate d s a) (\<lambda>_ a. hydrate_sessions d ss a)"

text \<open>The events that complete a control the last run left half done. A single one is appended as a batch of one.\<close>

definition recovery_events :: "Externals \<Rightarrow> Fresh \<Rightarrow> uuid \<Rightarrow> StoredEvent list \<Rightarrow> EventInput list" where
  "recovery_events x f session_id past =
     (if past = [] then [] else
      let e = last past;
          event = (\<lambda>i k attempt payload. \<lparr>ei_event_id = fresh_id f i, ei_session_id = session_id, ei_occurred_at = fresh_time f,
             ei_kind = k, ei_causation_request_id = se_causation_request_id e, ei_attempt_id = attempt,
             ei_effect_class = None, ei_payload = payload\<rparr>) in
      if se_kind e = ''pause_requested'' then [event 0 ''session_paused'' None (se_payload e)]
      else if se_kind e = ''cancel_requested'' then
        (case latest_started_attempt past of
           None \<Rightarrow> [event 0 ''cancel_confirmed'' None
                      (JObject [(''control_id'', option_value (uuid_value x) (value_uuid x (se_payload e) ''control_id''))]),
                    event 1 ''session_cancelled'' None (terminal_payload x (fresh_id f 2) ''provider cancellation recovered'')]
         | Some attempt \<Rightarrow> [event 0 ''outcome_unknown'' (Some attempt)
             (unknown_payload x attempt ''cancellation recovery could not confirm provider outcome'')])
      else if se_kind e = ''cancel_confirmed'' then
        [event 0 ''session_cancelled'' (se_attempt_id e)
           (terminal_payload x (fresh_id f 1) ''confirmed cancellation recovered'')]
      else [])"

fun recover_incomplete_controls ::
  "'k Daemon \<Rightarrow> Fresh \<Rightarrow> uuid list \<Rightarrow> 'k Application \<Rightarrow> (StorageError + nat) \<times> 'k Application" where
  "recover_incomplete_controls d f [] a = (Ok 0, a)"
| "recover_incomplete_controls d f (i # is) a =
     st_then (storage_step (replay (de_externals d) (de_keys d) i 0) a) (\<lambda>past a.
       let es = recovery_events (de_externals d) f i past in
       if es = [] then recover_incomplete_controls d (later 3 f) is a
       else st_then (storage_step (append_events (de_externals d) (de_keys d) (fresh_nonce f) es) a) (\<lambda>_ a.
         st_then (recover_incomplete_controls d (later 3 f) is a) (\<lambda>n a. (Ok (Suc n), a))))"

fun publish_recovered :: "'k Daemon \<Rightarrow> StoredEvent list \<Rightarrow> 'k Application \<Rightarrow> (StorageError + unit) \<times> 'k Application" where
  "publish_recovered d [] a = (Ok (), a)"
| "publish_recovered d (e # es) a =
     (case publish_event d e a of
        (Err _, a) \<Rightarrow> (Err StorageUnavailable, a)
      | (Ok _, a) \<Rightarrow> publish_recovered d es a)"

text \<open>\<open>resume_exports\<close> works on files and is an argument.\<close>

definition daemon_recover ::
  "('k SqliteStorage \<Rightarrow> (StorageError + StoredEvent list) \<times> 'k SqliteStorage) \<Rightarrow> 'k Daemon \<Rightarrow> Fresh
     \<Rightarrow> (uuid \<times> uuid \<Rightarrow> uuid) \<Rightarrow> 'k Application \<Rightarrow> (StorageError + unit) \<times> 'k Application" where
  "daemon_recover resume_exports d f fresh a =
     (let x = de_externals d; ks = de_keys d in
      st_then (storage_step (resume_session_creations x ks) a) (\<lambda>_ a.
      st_then (storage_step resume_exports a) (\<lambda>exported a.
      st_then (publish_recovered d exported a) (\<lambda>_ a.
      st_then (storage_step (resume_deletions x ks) a) (\<lambda>_ a.
      st_then (storage_step (load_sessions x ks) a) (\<lambda>loaded a.
      st_then (hydrate_sessions d loaded a) (\<lambda>_ a.
      st_then (recover_incomplete_controls d f (map ss_session_id loaded) a) (\<lambda>_ a.
      st_then (storage_step (recover_uncertain_attempts x ks (fresh_nonce f) fresh (fresh_time f)) a)
        (\<lambda>_ a. (Ok (), a))))))))))"

definition MAX_RETENTION_DELETIONS_PER_PASS :: nat where
  "MAX_RETENTION_DELETIONS_PER_PASS = 64"

fun retention_candidates ::
  "'k Daemon \<Rightarrow> time \<Rightarrow> nat \<Rightarrow> StoredSession list \<Rightarrow> 'k Application \<Rightarrow> (StorageError + uuid list) \<times> 'k Application" where
  "retention_candidates d now room [] a = (Ok [], a)"
| "retention_candidates d now room (s # ss) a =
     st_then (hydrate d s a) (\<lambda>_ a.
     st_then (retention_due (dm_cache a) s now, a) (\<lambda>due a.
       if \<not> due then retention_candidates d now room ss a
       else if room = 1 then (Ok [ss_session_id s], a)
       else st_then (retention_candidates d now (room - 1) ss a) (\<lambda>is a. (Ok (ss_session_id s # is), a))))"

fun delete_candidates ::
  "'k Daemon \<Rightarrow> Fresh \<Rightarrow> time \<Rightarrow> uuid list \<Rightarrow> 'k Application \<Rightarrow> (StorageError + nat) \<times> 'k Application" where
  "delete_candidates d f now [] a = (Ok 0, a)"
| "delete_candidates d f now (i # is) a =
     (let x = de_externals d; ks = de_keys d in
      case storage_step (load_session x ks i) a of
        (Err SessionNotFound, a) \<Rightarrow> delete_candidates d (later 3 f) now is a
      | (Err e, a) \<Rightarrow> (Err e, a)
      | (Ok stored, a) \<Rightarrow>
          st_then (hydrate d stored a) (\<lambda>_ a.
          st_then (retention_due (dm_cache a) stored now, a) (\<lambda>due a.
            if \<not> due then delete_candidates d (later 3 f) now is a
            else case ensure_no_pending_export (db (dm_storage a)) i of
              Err (InvalidInput _) \<Rightarrow> delete_candidates d (later 3 f) now is a
            | Err e \<Rightarrow> (Err e, a)
            | Ok _ \<Rightarrow>
                st_then (storage_step (request_deletion x ks (fresh_nonce f) (fresh_id f 2) i (fresh_id f 0) (fresh_id f 1)
                    now ''system:retention'') a) (\<lambda>_ a.
                let a = (remove_active i a)\<lparr>dm_cache := evict_session i (dm_cache a),
                           dm_hub := purge_session i (dm_hub a)\<rparr> in
                st_then (delete_candidates d (later 3 f) now is a) (\<lambda>n a. (Ok (Suc n), a))))))"

definition run_maintenance ::
  "'k Daemon \<Rightarrow> Fresh \<Rightarrow> time \<Rightarrow> 'k Application \<Rightarrow> (StorageError + nat) \<times> 'k Application" where
  "run_maintenance d f now a =
     st_then (storage_step (load_sessions (de_externals d) (de_keys d)) a) (\<lambda>loaded a.
     st_then (retention_candidates d now MAX_RETENTION_DELETIONS_PER_PASS loaded a) (\<lambda>candidates a.
       delete_candidates d f now candidates a))"

section \<open>Commands\<close>

text \<open>\<open>export\<close> is the handler of exports.\<close>

definition dispatch_session ::
  "(uuid \<Rightarrow> uuid \<Rightarrow> ExportParams \<Rightarrow> 'k Application \<Rightarrow> (DaemonError + json) \<times> 'k Application) \<Rightarrow> 'k Daemon \<Rightarrow> Fresh
     \<Rightarrow> uuid \<Rightarrow> ClientCommand \<Rightarrow> ClientContext \<Rightarrow> 'k Application \<Rightarrow> json Run \<times> 'k Application" where
  "dispatch_session export d f session_id command context a =
     (let rid = cc_request_id command in
      case cc_command command of
        SessionGet \<Rightarrow> finished (handle_get d session_id a)
      | SessionAttach p \<Rightarrow> finished (st_then (handle_attach d f session_id p a) (\<lambda>(v, _) a. (Ok v, a)))
      | SessionPrompt p \<Rightarrow> handle_prompt d f session_id rid p a
      | SessionPause \<Rightarrow> finished (handle_pause d f session_id rid context a)
      | SessionResume \<Rightarrow> handle_resume d f session_id rid context a
      | SessionRedirect p \<Rightarrow> finished (handle_redirect d f session_id rid context p a)
      | SessionCancel \<Rightarrow> finished (handle_cancel d f session_id rid context a)
      | SessionApprovalResolve p \<Rightarrow> finished (handle_approval d f session_id rid context p a)
      | SessionReconcile p \<Rightarrow> finished (handle_reconcile d f session_id rid p a)
      | SessionExport p \<Rightarrow> finished (export session_id rid p a)
      | SessionDelete p \<Rightarrow> finished (handle_delete d f session_id rid context p a)
      | _ \<Rightarrow> (Returned (Err (InvalidRequestError ''method is not valid for a session'')), a))"

definition reply_of :: "uuid \<Rightarrow> uuid \<Rightarrow> json Run \<Rightarrow> ServerReply Run" where
  "reply_of request_id correlation_id r =
     (case r of
        Returned (Ok v) \<Rightarrow> Returned (Ok (SuccessReply request_id v))
      | Returned (Err e) \<Rightarrow> Returned (Ok (FailureReply request_id (into_protocol correlation_id e)))
      | Panicked \<Rightarrow> Panicked
      | Blocked \<Rightarrow> Blocked)"

text \<open>\<open>Application::dispatch\<close>; \<open>status\<close> is the handler of \<open>status.get\<close>. A session whose lock is never released answers
  no command.\<close>

definition daemon_dispatch ::
  "('k Application \<Rightarrow> DaemonError + json)
     \<Rightarrow> (uuid \<Rightarrow> uuid \<Rightarrow> ExportParams \<Rightarrow> 'k Application \<Rightarrow> (DaemonError + json) \<times> 'k Application)
     \<Rightarrow> 'k Daemon \<Rightarrow> Fresh \<Rightarrow> ClientCommand \<Rightarrow> ClientContext \<Rightarrow> 'k Application \<Rightarrow> ServerReply Run \<times> 'k Application" where
  "daemon_dispatch status export d f command context a =
     (let request_id = cc_request_id command;
          (r, a) =
            (if dm_shutting_down a then (Returned (Err (InvalidRequestError ''daemon is shutting down'')), a)
             else case cc_session_id command of
               Some session_id \<Rightarrow>
                 if session_id \<in> dm_blocked a then (Blocked, a)
                 else dispatch_session export d (later 1 f) session_id command context a
             | None \<Rightarrow>
                 (case cc_command command of
                    Initialize p \<Rightarrow> (Returned (handle_initialize p), a)
                  | StatusGet \<Rightarrow> (Returned (status a), a)
                  | SessionCreate p \<Rightarrow> finished (handle_create d (later 1 f) request_id p a)
                  | SessionList p \<Rightarrow> (Returned (handle_list d p a), a)
                  | _ \<Rightarrow> (Returned (Err (InvalidRequestError ''session identifier is required'')), a))) in
      (reply_of request_id (fresh_id f 0) r, a))"

end
