(* ===== verification/Daemon_View.thy ===== *)
theory Daemon_View
  imports Daemon_Tasks Commands
begin

text \<open>
  The sessions of the daemon seen from outside: the state each history folds to, as long as the state column the
  handlers read agrees with it. The lemmas say how every way of writing events moves that view.
\<close>

section \<open>States of histories and columns\<close>

text \<open>A session that was asked to pause is still running in the column.\<close>

definition visible :: "WireState \<Rightarrow> WireState" where
  "visible s = (if s = PausingState then RunningState else s)"

definition kind_state :: "string \<Rightarrow> WireState \<Rightarrow> WireState" where
  "kind_state k s =
     (if k \<in> {''dispatch_started'', ''session_resumed''} then RunningState
      else if k = ''clarification_requested'' then AwaitingClarificationState
      else if k = ''approval_requested'' then AwaitingApprovalState
      else if k = ''pause_requested'' then PausingState
      else if k = ''session_paused'' then PausedState
      else if k = ''session_redirected'' \<and> s = AwaitingClarificationState then ReadyState
      else if k = ''cancel_requested'' then CancelRequestedState
      else if k = ''outcome_unknown'' then OutcomeUnknownState
      else if k = ''session_completed'' then CompletedState
      else if k = ''session_failed'' then FailedState
      else if k = ''session_cancelled'' then CancelledState
      else if k = ''session_abandoned'' then AbandonedState
      else if k = ''session_deletion_requested'' then DeletingState
      else s)"

definition recorded_decision :: "json \<Rightarrow> ApprovalDecision option" where
  "recorded_decision v = Option.bind (json_get ''decision'' v) decision_from"

definition event_state :: "EventInput \<Rightarrow> WireState \<Rightarrow> WireState" where
  "event_state e s =
     (if ei_kind e = ''approval_recorded''
      then (case recorded_decision (ei_payload e) of None \<Rightarrow> s | Some decision \<Rightarrow> granted_state decision)
      else kind_state (ei_kind e) s)"

definition event_folds :: "Externals \<Rightarrow> EventInput \<Rightarrow> bool" where
  "event_folds x e \<longleftrightarrow> ei_kind e = ''approval_recorded'' \<longrightarrow>
     value_uuid x (ei_payload e) ''approval_id'' \<noteq> None \<and> recorded_decision (ei_payload e) \<noteq> None"

definition column_step :: "EventInput \<Rightarrow> string \<Rightarrow> string" where
  "column_step e c =
     (if ei_kind e = ''session_redirected'' then (if c = ''awaiting_clarification'' then ''ready'' else c)
      else case state_for_kind (ei_kind e) of Some s \<Rightarrow> s | None \<Rightarrow> c)"

lemma kind_coherent:
  assumes "ei_kind e \<noteq> ''approval_recorded''" "ei_kind e \<noteq> ''session_deletion_requested''"
    and "ei_kind e = ''pause_requested'' \<Longrightarrow> visible s = RunningState"
  shows "column_step e (state_name (visible s)) = state_name (visible (event_state e s))"
proof (cases "ei_kind e = ''session_redirected''")
  case True
  then show ?thesis by (cases s) (simp_all add: column_step_def event_state_def kind_state_def visible_def)
next
  case False
  with assms show ?thesis
    by (simp add: column_step_def event_state_def kind_state_def state_for_kind_def visible_def)
qed

section \<open>Folding a batch\<close>

primrec stored_from :: "nat \<Rightarrow> EventInput list \<Rightarrow> StoredEvent list" where
  "stored_from n [] = []"
| "stored_from n (e # es) = stored_event e (Suc n) # stored_from (Suc n) es"

lemma fold_kind_input:
  assumes "event_folds x e"
  shows "\<exists>f'. fold_kind x (stored_event e n) f = Ok f' \<and> fs_state f' = event_state e (fs_state f) \<and>
    fs_last_sequence f' = fs_last_sequence f"
proof (cases "ei_kind e = ''approval_recorded''")
  case True
  with assms obtain i v c where "value_uuid x (ei_payload e) ''approval_id'' = Some i"
    "json_get ''decision'' (ei_payload e) = Some v" "decision_from v = Some c"
    by (auto simp: event_folds_def recorded_decision_def bind_eq_Some_conv)
  with True show ?thesis
    by (simp add: fold_kind_def stored_event_def event_state_def recorded_decision_def)
next
  case False
  then show ?thesis
    by (simp add: fold_kind_def stored_event_def event_state_def kind_state_def Let_def)
qed

lemma fold_stored:
  "\<forall>e \<in> set es. event_folds x e \<Longrightarrow> fs_last_sequence f = of_nat n \<Longrightarrow>
     \<exists>f'. fold_events x f (stored_from n es) = Ok f' \<and> fs_state f' = fold event_state es (fs_state f)"
proof (induction es arbitrary: f n)
  case (Cons e es)
  let ?f = "f\<lparr>fs_last_sequence := of_nat (Suc n)\<rparr>"
  from fold_kind_input [of x e "Suc n" ?f] Cons.prems obtain g where
    g: "fold_kind x (stored_event e (Suc n)) ?f = Ok g" "fs_state g = event_state e (fs_state f)"
      "fs_last_sequence g = of_nat (Suc n)" by auto
  with Cons.IH [of g "Suc n"] Cons.prems show ?case by (simp add: stored_event_def)
qed simp

lemma fold_events_append:
  "fold_events x f (es @ es') = and_then (fold_events x f es) (\<lambda>f. fold_events x f es')"
proof (induction es arbitrary: f)
  case (Cons e es)
  then show ?case
    by (cases "fold_kind x e (f\<lparr>fs_last_sequence := fs_last_sequence f + 1\<rparr>)") simp_all
qed simp

lemma fold_kind_sequence: "fold_kind x e f = Ok f' \<Longrightarrow> fs_last_sequence f' = fs_last_sequence f"
  by (auto simp: fold_kind_def Let_def and_then_Ok_iff split: if_splits)

lemma fold_events_sequence:
  "fold_events x f es = Ok f' \<Longrightarrow> fs_last_sequence f' = fs_last_sequence f + of_nat (length es)"
proof (induction es arbitrary: f)
  case (Cons e es)
  then obtain g where "se_sequence e = fs_last_sequence f + 1" "fold_kind x e (f\<lparr>fs_last_sequence := se_sequence e\<rparr>) = Ok g"
    "fold_events x g es = Ok f'" by (auto simp: and_then_Ok_iff split: if_splits)
  with Cons.IH [of g] fold_kind_sequence [of x e _ g] show ?case by (simp add: algebra_simps)
qed simp

lemma fold_session_extended:
  assumes "fold_session x evs = Ok f" "\<forall>e \<in> set es. event_folds x e"
  shows "\<exists>f'. fold_session x (evs @ stored_from (length evs) es) = Ok f' \<and> fs_state f' = fold event_state es (fs_state f)"
proof -
  from assms(1) have evs: "evs \<noteq> []" "se_kind (hd evs) = ''session_created''" "fold_events x folded_start evs = Ok f"
    by (auto simp: fold_session_def split: if_splits)
  have "fs_last_sequence f = of_nat (length evs)"
    using fold_events_sequence [OF evs(3)] by (simp add: folded_start_def)
  from fold_stored [OF assms(2) this] evs show ?thesis by (auto simp: fold_session_def fold_events_append)
qed

section \<open>What a batch writes\<close>

lemma map_of_updated_session:
  "map_of (map (\<lambda>(i, row). (i, if i = k then g row else row)) rows) j =
     (if j = k then map_option g (map_of rows j) else map_of rows j)"
  by (induction rows) auto

lemma load_update:
  "load_session_state (update_session k g d) j =
     (if j = k then and_then (ok_or SessionNotFound (map_of (sessions d) j)) (\<lambda>row. Ok (s_state (g row)))
      else load_session_state d j)"
  by (simp add: load_session_state_def update_session_def map_of_updated_session) (cases "map_of (sessions d) k"; simp)

lemma load_apply:
  "load_session_state (apply_state e d) j =
     (if j = ei_session_id e then and_then (load_session_state d j) (\<lambda>c. Ok (column_step e c)) else load_session_state d j)"
  by (cases "map_of (sessions d) (ei_session_id e)"; cases "state_for_kind (ei_kind e)")
    (auto simp: apply_state_def load_update Let_def column_step_def, auto simp: load_session_state_def)

lemma append_all_effect:
  assumes x: "externals_ok x"
  shows "append_all x nonces es key_id key d = Ok (ps, d') \<Longrightarrow> db_inv d \<Longrightarrow>
     \<forall>e \<in> set es. ei_session_id e = sid \<and> text_exact x (ei_payload e) \<Longrightarrow>
     ps = stored_from (length (session_rows d sid)) es \<and>
     load_session_state d' j =
       (if j = sid then and_then (load_session_state d j) (\<lambda>c. Ok (fold column_step es c)) else load_session_state d j)"
proof (induction es arbitrary: d ps)
  case Nil
  then show ?case by (cases "load_session_state d sid") auto
next
  case (Cons e es)
  then obtain p ps' d1 where one: "append_event_in_transaction x nonces e key_id key d = Ok (p, d1)"
      and rest: "append_all x nonces es key_id key d1 = Ok (ps', d')" and ps: "ps = p # ps'" by auto
  have e: "ei_session_id e = sid" "text_exact x (ei_payload e)" using Cons.prems(3) by simp_all
  from append_in_transaction_row [OF x e(2) Cons.prems(2) one] e(1) obtain row where
    row: "session_events d1 = session_events d @ [row]" "r_session_id row = sid"
      "p = stored_event e (Suc (length (session_rows d sid)))" by metis
  then have rows: "length (session_rows d1 sid) = Suc (length (session_rows d sid))" by (simp add: session_rows_def)
  from append_in_transaction_Ok [OF one Cons.prems(2)] obtain encrypted d2 where
    "insert_event e (Suc (length (session_rows d (ei_session_id e)))) key_id encrypted d = Ok d2" and d1: "d1 = apply_state e d2" .
  then have "load_session_state d2 = load_session_state d"
    by (auto simp: insert_event_def Let_def load_session_state_def split: if_splits)
  with d1 e(1) have "load_session_state d1 i =
      (if i = sid then and_then (load_session_state d i) (\<lambda>c. Ok (column_step e c)) else load_session_state d i)" for i
    by (simp add: load_apply)
  with Cons.IH [OF rest append_in_transaction_inv [OF one Cons.prems(2)]] Cons.prems(3) rows ps row(3) show ?case
    by (cases "load_session_state d sid") auto
qed

section \<open>The view\<close>

definition view :: "Externals \<Rightarrow> 'k KeyStore \<Rightarrow> 'k SqliteStorage \<Rightarrow> uuid \<Rightarrow> WireState option" where
  "view x ks st sid =
     (case event_log x ks st sid of
        Err _ \<Rightarrow> None
      | Ok evs \<Rightarrow>
          (case fold_session x evs of
             Err _ \<Rightarrow> None
           | Ok s \<Rightarrow>
               if load_session_state (db st) sid = Ok (state_name (visible (fs_state s))) then Some (fs_state s) else None))"

lemma view_Some:
  "view x ks st sid = Some s \<longleftrightarrow> (\<exists>evs f. event_log x ks st sid = Ok evs \<and> fold_session x evs = Ok f \<and> fs_state f = s \<and>
     load_session_state (db st) sid = Ok (state_name (visible s)))"
  by (auto simp: view_def split: sum.splits)

lemma view_cong:
  assumes "event_log x ks st' j = event_log x ks st j" "load_session_state (db st') j = load_session_state (db st) j"
  shows "view x ks st' j = view x ks st j"
  unfolding view_def assms ..

lemma view_unchanged:
  assumes "db_inv (db st)" "db st' = db st" "\<And>j. fst (session_key x ks j (km st')) = fst (session_key x ks j (km st))"
  shows "view x ks st' = view x ks st"
  using assms by (intro ext view_cong log_unchanged) auto

text \<open>A batch for one session whose events read back, fold, and leave the column with the folded state.\<close>

definition batch_ok :: "Externals \<Rightarrow> uuid \<Rightarrow> WireState \<Rightarrow> EventInput list \<Rightarrow> bool" where
  "batch_ok x sid s es \<longleftrightarrow>
     (\<forall>e \<in> set es. ei_session_id e = sid \<and> text_exact x (ei_payload e) \<and> event_folds x e) \<and>
     fold column_step es (state_name (visible s)) = state_name (visible (fold event_state es s))"

lemma view_appended:
  assumes x: "externals_ok x" and inv: "db_inv (db st)" "db_inv d'"
    and key: "session_key x ks sid (km st) = (Ok key, m)"
    and all: "append_all x nonces es key_id key (db st) = Ok (ps, d)"
    and same: "session_events d' = session_events d" "sessions d' = sessions d"
    and batch: "batch_ok x sid s es" "view x ks st sid = Some s"
  shows "view x ks (st\<lparr>km := m, db := d'\<rparr>) = (view x ks st)(sid \<mapsto> fold event_state es s)"
proof
  fix j
  let ?st = "st\<lparr>km := m, db := d'\<rparr>"
  have es: "\<forall>e \<in> set es. ei_session_id e = sid \<and> text_exact x (ei_payload e)" "\<forall>e \<in> set es. event_folds x e"
    using batch(1) by (auto simp: batch_ok_def)
  from append_all_rows [OF x all inv(1) es(1)] obtain rows where
    rows: "session_events d = session_events (db st) @ rows" "\<forall>r \<in> set rows. r_session_id r = sid"
      "try_map (decrypt_event x key sid) rows = Ok ps" by blast
  have effect: "ps = stored_from (length (session_rows (db st) sid)) es"
    "load_session_state d' i = (if i = sid then and_then (load_session_state (db st) i) (\<lambda>c. Ok (fold column_step es c))
        else load_session_state (db st) i)" for i
    using append_all_effect [OF x all inv(1) es(1), of i] same(2) by (simp_all add: load_session_state_def)
  note logs = log_extended [OF inv key, of rows ps, unfolded same(1), OF rows]
  show "view x ks ?st j = ((view x ks st)(sid \<mapsto> fold event_state es s)) j"
  proof (cases "j = sid")
    case True
    from batch(2) obtain evs f where f: "event_log x ks st sid = Ok evs" "fold_session x evs = Ok f" "fs_state f = s"
      "load_session_state (db st) sid = Ok (state_name (visible s))" by (auto simp: view_Some)
    have "length (session_rows (db st) sid) = length evs"
      using f(1) by (auto simp: event_log_rows inv(1) and_then_Ok_iff try_map_Ok_iff dest: list_all2_lengthD)
    with effect(1) logs(1) f(1) have "event_log x ks ?st sid = Ok (evs @ stored_from (length evs) es)" by simp
    with fold_session_extended [OF f(2) es(2)] f(3,4) effect(2) [of sid] batch(1)
    have "view x ks ?st sid = Some (fold event_state es s)" by (auto simp: view_Some batch_ok_def)
    with True show ?thesis by simp
  next
    case False
    then show ?thesis using view_cong [of x ks ?st j st] logs(2) effect(2) [of j] by simp
  qed
qed

section \<open>The operations of the store\<close>

lemma append_events_view:
  assumes x: "externals_ok x" and inv: "db_inv (db st)" and s: "view x ks st sid = Some s" and batch: "batch_ok x sid s es"
    and run: "append_events x ks nonces es st = (r, st')"
  shows "db_inv (db st') \<and>
    view x ks st' = (if is_ok r then (view x ks st)(sid \<mapsto> fold event_state es s) else view x ks st)"
proof (cases r)
  case (Inl e)
  with append_events_unchanged [of x ks nonces es] run
  have "db st' = db st" "\<And>j. fst (session_key x ks j (km st')) = fst (session_key x ks j (km st))"
    by (auto simp: unchanged_on_error_def)
  with inv view_unchanged [of st st' x ks] Inl show ?thesis by simp
next
  case (Inr ps)
  from run Inr have "es \<noteq> []" by (auto simp: append_events_def)
  then obtain first rest where es: "es = first # rest" by (cases es) auto
  with batch have first: "ei_session_id first = sid" "\<forall>e \<in> set es. ei_session_id e = sid" by (auto simp: batch_ok_def)
  with run es have "with_session_key x ks sid (\<lambda>key_id key st. commit (append_all x nonces es key_id key (db st)) st) st = (r, st')"
    by (auto simp: append_events_def)
  then show ?thesis
  proof (cases rule: with_session_key_cases)
    case (ran key_id key m)
    with Inr obtain d where all: "append_all x nonces es key_id key (db st) = Ok (ps, d)" and st': "st' = st\<lparr>km := m, db := d\<rparr>"
      unfolding commit_def by (auto simp del: append_all.simps split: sum.splits)
    have "db_inv d" using append_all_inv [OF all inv] .
    with view_appended [OF x inv _ ran(2) all _ _ batch s] st' Inr show ?thesis by simp
  qed (use Inr in simp)
qed

lemma append_event_view:
  assumes "externals_ok x" "db_inv (db st)" "view x ks st sid = Some s" "batch_ok x sid s [e]"
    and "append_event x ks nonces e st = (r, st')"
  shows "db_inv (db st') \<and> view x ks st' = (if is_ok r then (view x ks st)(sid \<mapsto> event_state e s) else view x ks st)"
proof -
  have "append_events x ks nonces [e] st = (case append_event x ks nonces e st of (r, st') \<Rightarrow> (and_then r (\<lambda>p. Ok [p]), st'))"
    by (auto simp: append_events_def append_event_def with_session_key_def commit_def and_then_def
        split: sum.splits prod.splits)
  with assms(5) append_events_view [OF assms(1-4), of nonces "and_then r (\<lambda>p. Ok [p])" st'] show ?thesis
    by (cases r) auto
qed

lemma commit_replay_unchanged:
  assumes "commit_command_events x ks nonces rid m ps out es st = (Ok (EventsReplay v), st')"
  shows "db st' = db st \<and> (\<forall>j. fst (session_key x ks j (km st')) = fst (session_key x ks j (km st)))"
proof -
  from assms obtain first rest where es: "es = first # rest" by (cases es) (auto simp: commit_command_events_def)
  let ?sid = "ei_session_id first" and ?r = "command_record x m (canonical_hash x ps) out"
  from assms es have "with_session_key x ks ?sid (\<lambda>key_id key st.
      case lookup_stored_command (db st) (command_scope x (Some ?sid)) rid of
        Some existing \<Rightarrow> (if same_command existing ?r
           then (and_then (outcome_value x existing) (\<lambda>v. Ok (EventsReplay v)), st) else (Err RequestConflict, st))
      | None \<Rightarrow> commit (and_then (append_all x nonces es key_id key (db st)) (\<lambda>(persisted, d).
          and_then (insert_port_command x (Some ?sid) rid ?r d) (\<lambda>d. Ok (EventsRecorded persisted out, d)))) st) st =
      (Ok (EventsReplay v), st')"
    by (auto simp: commit_command_events_def Let_def simp del: append_all.simps split: if_splits sum.splits)
  then show ?thesis
  proof (cases rule: with_session_key_cases)
    case (ran key_id key mgr)
    then have "st' = st\<lparr>km := mgr\<rparr>"
      unfolding commit_def
      by (auto simp del: append_all.simps simp: and_then_Ok_iff split: sum.splits option.splits if_splits)
    with session_key_stable [OF ran(2)] show ?thesis by simp
  qed simp
qed

lemma commit_events_view:
  assumes x: "externals_ok x" and inv: "db_inv (db st)" and s: "view x ks st sid = Some s" and batch: "batch_ok x sid s es"
    and run: "commit_command_events x ks nonces rid m ps out es st = (r, st')"
  shows "db_inv (db st') \<and>
    view x ks st' = (case r of Ok (EventsRecorded _ _) \<Rightarrow> (view x ks st)(sid \<mapsto> fold event_state es s) | _ \<Rightarrow> view x ks st)"
proof (cases "\<exists>stored v. r = Ok (EventsRecorded stored v)")
  case True
  then obtain stored v where r: "r = Ok (EventsRecorded stored v)" by blast
  from run r have "es \<noteq> []" by (auto simp: commit_command_events_def)
  then obtain first rest where es: "es = first # rest" by (cases es) auto
  with batch have first: "ei_session_id first = sid" by (auto simp: batch_ok_def)
  let ?r = "command_record x m (canonical_hash x ps) out"
  from run r es first have "with_session_key x ks sid (\<lambda>key_id key st.
      case lookup_stored_command (db st) (command_scope x (Some sid)) rid of
        Some existing \<Rightarrow> (if same_command existing ?r
           then (and_then (outcome_value x existing) (\<lambda>v. Ok (EventsReplay v)), st) else (Err RequestConflict, st))
      | None \<Rightarrow> commit (and_then (append_all x nonces es key_id key (db st)) (\<lambda>(persisted, d).
          and_then (insert_port_command x (Some sid) rid ?r d) (\<lambda>d. Ok (EventsRecorded persisted out, d)))) st) st = (r, st')"
    by (auto simp: commit_command_events_def Let_def simp del: append_all.simps split: if_splits sum.splits)
  then show ?thesis
  proof (cases rule: with_session_key_cases)
    case (ran key_id key mgr)
    with r obtain d d' where all: "append_all x nonces es key_id key (db st) = Ok (stored, d)"
        and ins: "insert_port_command x (Some sid) rid ?r d = Ok d'" and st': "st' = st\<lparr>km := mgr, db := d'\<rparr>"
      unfolding commit_def
      by (auto simp del: append_all.simps simp: and_then_Ok_iff split: sum.splits option.splits if_splits)
    have "db_inv d" using append_all_inv [OF all inv] .
    then have "db_inv d'" by (rule insert_port_command_inv [OF ins])
    with insert_port_command_row [OF ins] view_appended [OF x inv _ ran(2) all _ _ batch s] st' r show ?thesis by simp
  qed (use r in simp)
next
  case False
  then have "db st' = db st \<and> (\<forall>j. fst (session_key x ks j (km st')) = fst (session_key x ks j (km st)))"
    using commit_command_events_unchanged [of x ks nonces rid m ps out es] commit_replay_unchanged [of x ks nonces rid m ps out es st _ st'] run
    by (cases r; cases "projr r") (auto simp: unchanged_on_error_def)
  with inv view_unchanged [of st st' x ks] False show ?thesis
    by (auto split: sum.splits CommandEventsOutcome.splits)
qed

end
