(* ===== verification/Daemon_Laws.thy ===== *)
theory Daemon_Laws
  imports Daemon_View
begin

text \<open>
  The command handlers of the daemon refine an abstract machine of session states: whatever a command does to
  caches, queues, tasks and tables, the view of its session moves along the machine and every other session
  keeps its state.
\<close>

section \<open>States of the application\<close>

definition env_ok :: "'k Daemon \<Rightarrow> bool" where
  "env_ok d \<longleftrightarrow> externals_ok (de_externals d) \<and> (\<forall>v. json_plain v \<longrightarrow> text_exact (de_externals d) v)"

definition sessions_view :: "'k Daemon \<Rightarrow> 'k Application \<Rightarrow> uuid \<Rightarrow> WireState option" where
  "sessions_view d a = view (de_externals d) (de_keys d) (dm_storage a)"

text \<open>The session is in state \<open>s\<close>, every other one as in \<open>m\<close>.\<close>

definition in_state :: "'k Daemon \<Rightarrow> (uuid \<Rightarrow> WireState option) \<Rightarrow> uuid \<Rightarrow> WireState \<Rightarrow> 'k Application \<Rightarrow> bool" where
  "in_state d m sid s a \<longleftrightarrow> db_inv (db (dm_storage a)) \<and> sessions_view d a = m(sid \<mapsto> s)"

text \<open>A call that fails leaves the session in one of the states \<open>S\<close>; one that returns satisfies \<open>Q\<close>.\<close>

definition leads ::
  "'k Daemon \<Rightarrow> (uuid \<Rightarrow> WireState option) \<Rightarrow> uuid \<Rightarrow> WireState set \<Rightarrow> (DaemonError + 'a) \<times> 'k Application
     \<Rightarrow> ('a \<Rightarrow> 'k Application \<Rightarrow> bool) \<Rightarrow> bool" where
  "leads d m sid S p Q \<longleftrightarrow> (case p of (Err e, a) \<Rightarrow> \<exists>s \<in> S. in_state d m sid s a | (Ok v, a) \<Rightarrow> Q v a)"

lemma leads_simps [simp]:
  "leads d m sid S (Err e, a) Q \<longleftrightarrow> (\<exists>s \<in> S. in_state d m sid s a)"
  "leads d m sid S (Ok v, a) Q \<longleftrightarrow> Q v a"
  by (simp_all add: leads_def)

lemma leads_then:
  assumes "leads d m sid S p Q" "\<And>v a. Q v a \<Longrightarrow> leads d m sid S (g v a) R"
  shows "leads d m sid S (st_then p g) R"
proof (cases p)
  case (Pair r a)
  with assms show ?thesis by (cases r) (auto simp: leads_def)
qed

lemma leads_pure:
  assumes "in_state d m sid s a" "s \<in> S" "\<And>v. r = Ok v \<Longrightarrow> Q v a"
  shows "leads d m sid S (r, a) Q"
  using assms by (auto simp: leads_def split: sum.splits)

lemma leads_mono:
  assumes "leads d m sid S p Q" "\<And>v a. Q v a \<Longrightarrow> R v a"
  shows "leads d m sid S p R"
  using assms by (auto simp: leads_def split: prod.splits sum.splits)

lemma leads_snd:
  assumes "leads d m sid {s} p (\<lambda>_. in_state d m sid s)"
  shows "in_state d m sid s (snd p)"
  using assms by (auto simp: leads_def split: prod.splits sum.splits)

lemma at_storage: "dm_storage a' = dm_storage a \<Longrightarrow> in_state d m sid s a' = in_state d m sid s a"
  by (simp add: in_state_def sessions_view_def)

lemma at_simps [simp]:
  "in_state d m sid s (a\<lparr>dm_cache := c\<rparr>) = in_state d m sid s a" "in_state d m sid s (a\<lparr>dm_hub := h\<rparr>) = in_state d m sid s a"
  "in_state d m sid s (a\<lparr>dm_active := act\<rparr>) = in_state d m sid s a" "in_state d m sid s (a\<lparr>dm_tasks := t\<rparr>) = in_state d m sid s a"
  "in_state d m sid s (a\<lparr>dm_blocked := b\<rparr>) = in_state d m sid s a"
  by (simp_all add: in_state_def sessions_view_def)

lemma at_spawn [simp]:
  "in_state d m sid s (spawn t a) = in_state d m sid s a" "in_state d m sid s (activate i ax a) = in_state d m sid s a"
  "in_state d m sid s (remove_active i a) = in_state d m sid s a" "in_state d m sid s (remove_active_attempt i n a) = in_state d m sid s a"
  "in_state d m sid s (activate_fake_attempt i r n a) = in_state d m sid s a"
  by (simp_all add: spawn_def activate_def remove_active_def remove_active_attempt_def activate_fake_attempt_def)

lemma atD:
  assumes "in_state d m sid s a"
  obtains evs f where "event_log (de_externals d) (de_keys d) (dm_storage a) sid = Ok evs"
    "fold_session (de_externals d) evs = Ok f" "fs_state f = s"
    "load_session_state (db (dm_storage a)) sid = Ok (state_name (visible s))" "db_inv (db (dm_storage a))"
proof -
  from assms have "view (de_externals d) (de_keys d) (dm_storage a) sid = Some s" "db_inv (db (dm_storage a))"
    by (simp_all add: in_state_def sessions_view_def)
  with that show thesis by (auto simp: view_Some)
qed

section \<open>Reading\<close>

lemma at_unchanged:
  assumes "in_state d m sid s a" "db st' = db (dm_storage a)"
    and "\<And>j. fst (session_key (de_externals d) (de_keys d) j (km st')) =
      fst (session_key (de_externals d) (de_keys d) j (km (dm_storage a)))"
  shows "in_state d m sid s (a\<lparr>dm_storage := st'\<rparr>)"
  using assms view_unchanged [of "dm_storage a" st'] by (simp add: in_state_def sessions_view_def)

lemma replay_unchanged:
  assumes "replay x ks sid cursor st = (r, st')"
  shows "db st' = db st \<and> fst (session_key x ks j (km st')) = fst (session_key x ks j (km st))"
proof -
  from assms have "st' = st \<or> st' = st\<lparr>km := snd (session_key x ks sid (km st))\<rparr>"
    by (auto simp: replay_def split: if_splits prod.splits sum.splits)
  then show ?thesis using session_key_stable [of x ks sid "km st" _ _ j] by (cases "session_key x ks sid (km st)") auto
qed

lemma load_session_unchanged:
  assumes "load_session x ks sid st = (r, st')"
  shows "db st' = db st \<and> fst (session_key x ks j (km st')) = fst (session_key x ks j (km st))"
proof -
  from assms have "st' = st \<or> st' = st\<lparr>km := snd (session_key x ks sid (km st))\<rparr>"
    by (auto simp: load_session_def split: option.splits prod.splits sum.splits)
  then show ?thesis using session_key_stable [of x ks sid "km st" _ _ j] by (cases "session_key x ks sid (km st)") auto
qed

lemma leads_history:
  assumes "in_state d m sid s a" "s \<in> S"
  shows "leads d m sid S (history d sid a) (\<lambda>evs a'. in_state d m sid s a' \<and>
    (\<exists>f. fold_session (de_externals d) evs = Ok f \<and> fs_state f = s))"
proof -
  obtain r st' where run: "replay (de_externals d) (de_keys d) sid 0 (dm_storage a) = (r, st')" by fastforce
  from assms(1) obtain evs f where log: "event_log (de_externals d) (de_keys d) (dm_storage a) sid = Ok evs"
    "fold_session (de_externals d) evs = Ok f" "fs_state f = s" by (rule atD)
  have "in_state d m sid s (a\<lparr>dm_storage := st'\<rparr>)"
    using replay_unchanged [OF run] by (intro at_unchanged [OF assms(1)]) auto
  with log run show ?thesis
    by (auto simp: history_def on_storage_def event_log_def leads_def)
qed

lemma leads_folded:
  assumes "in_state d m sid s a" "s \<in> S"
  shows "leads d m sid S (folded d sid a) (\<lambda>f a'. in_state d m sid s a' \<and> fs_state f = s)"
  unfolding folded_def
  by (rule leads_then [OF leads_history [OF assms]]) (use assms(2) in \<open>auto intro: leads_pure\<close>)

lemma at_hydrate:
  assumes "in_state d m sid s a"
  shows "in_state d m sid s (snd (hydrate d stored a))"
proof -
  obtain evs st' where run: "replay (de_externals d) (de_keys d) (ss_session_id stored) 0 (dm_storage a) = (evs, st')" by fastforce
  have "in_state d m sid s (a\<lparr>dm_storage := st'\<rparr>)"
    using replay_unchanged [OF run] by (intro at_unchanged [OF assms]) auto
  with run assms show ?thesis
    by (auto simp: hydrate_def in_state_def sessions_view_def split: prod.splits)
qed

lemma leads_configuration:
  assumes "in_state d m sid s a" "s \<in> S"
  shows "leads d m sid S (session_configuration d i a) (\<lambda>c a'. in_state d m sid s a')"
proof (cases "sc_configs (dm_cache a) i")
  case None
  obtain r st' where run: "load_session (de_externals d) (de_keys d) i (dm_storage a) = (r, st')" by fastforce
  have pos: "in_state d m sid s (a\<lparr>dm_storage := st'\<rparr>)"
    using load_session_unchanged [OF run] by (intro at_unchanged [OF assms(1)]) auto
  show ?thesis
  proof (cases r)
    case (Inr stored)
    with at_hydrate [OF pos, of stored] assms(2) show ?thesis
      by (auto simp: session_configuration_def None on_storage_def run leads_def split: prod.splits sum.splits)
  qed (use pos assms(2) in \<open>auto simp: session_configuration_def None on_storage_def run leads_def\<close>)
qed (use assms in \<open>auto simp: session_configuration_def leads_def\<close>)

lemma parse_state_name: "parse_session_state (state_name s) = Ok s"
  by (cases s) (simp_all add: parse_session_state_def)

lemma current_state_at: "in_state d m sid s a \<Longrightarrow> current_session_state sid a = Ok (visible s)"
  by (erule atD) (simp add: current_session_state_def parse_state_name)

section \<open>Writing\<close>

lemma leads_publish:
  assumes "in_state d m sid s a" "s \<in> S"
  shows "leads d m sid S (publish_event d e a) (\<lambda>_ a'. in_state d m sid s a')"
  using assms by (auto simp: publish_event_def leads_def split: sum.splits)

lemma leads_publishes:
  assumes "s \<in> S"
  shows "in_state d m sid s a \<Longrightarrow> leads d m sid S (publish_events d es a) (\<lambda>_ a'. in_state d m sid s a')"
proof (induction es arbitrary: a)
  case (Cons e es)
  show ?case
    unfolding publish_events.simps by (rule leads_then [OF leads_publish [OF Cons.prems assms]]) (rule Cons.IH)
qed (simp add: leads_def)

lemma leads_append:
  assumes "env_ok d" "in_state d m sid s a" "s \<in> S" "event_state e s \<in> S"
    and "batch_ok (de_externals d) sid s [e]"
    and "e = \<lparr>ei_event_id = fresh_id f 0, ei_session_id = sid, ei_occurred_at = fresh_time f, ei_kind = wire_kind_name k,
      ei_causation_request_id = rid, ei_attempt_id = attempt, ei_effect_class = effect, ei_payload = payload\<rparr>"
  shows "leads d m sid S (daemon_append d f sid rid k payload attempt effect a) (\<lambda>_ a'. in_state d m sid (event_state e s) a')"
proof -
  obtain r st' where run: "append_event (de_externals d) (de_keys d) (fresh_nonce f) e (dm_storage a) = (r, st')" by fastforce
  have "db_inv (db st') \<and> view (de_externals d) (de_keys d) st' =
      (if is_ok r then (view (de_externals d) (de_keys d) (dm_storage a))(sid \<mapsto> event_state e s)
       else view (de_externals d) (de_keys d) (dm_storage a))"
    using assms(1,2) by (intro append_event_view [OF _ _ _ assms(5) run]) (auto simp: env_ok_def in_state_def sessions_view_def)
  then have "in_state d m sid (if is_ok r then event_state e s else s) (a\<lparr>dm_storage := st'\<rparr>)"
    using assms(2) by (auto simp: in_state_def sessions_view_def)
  then have "leads d m sid S (on_storage (append_event (de_externals d) (de_keys d) (fresh_nonce f) e) a)
      (\<lambda>_ a'. in_state d m sid (event_state e s) a')"
    using assms(3) by (cases r) (auto simp: on_storage_def run leads_def)
  then show ?thesis
    unfolding daemon_append_def assms(6) [symmetric] by (rule leads_then) (rule leads_publish [OF _ assms(4)])
qed

lemma leads_commit:
  assumes "env_ok d" "in_state d m sid s a" "s \<in> S" "fold event_state es s \<in> S" "batch_ok (de_externals d) sid s es"
  shows "leads d m sid S (daemon_commit_events d f rid method' ps out es a)
    (\<lambda>(v, replayed) a'. in_state d m sid (if replayed then s else fold event_state es s) a')"
proof -
  obtain r st' where run: "commit_command_events (de_externals d) (de_keys d) (fresh_nonce f) rid method' ps out es
      (dm_storage a) = (r, st')" by fastforce
  have "db_inv (db st') \<and> view (de_externals d) (de_keys d) st' =
      (case r of Ok (EventsRecorded _ _) \<Rightarrow> (view (de_externals d) (de_keys d) (dm_storage a))(sid \<mapsto> fold event_state es s)
       | _ \<Rightarrow> view (de_externals d) (de_keys d) (dm_storage a))"
    using assms(1,2) by (intro commit_events_view [OF _ _ _ assms(5) run]) (auto simp: env_ok_def in_state_def sessions_view_def)
  then have pos: "in_state d m sid (case r of Ok (EventsRecorded _ _) \<Rightarrow> fold event_state es s | _ \<Rightarrow> s) (a\<lparr>dm_storage := st'\<rparr>)"
    using assms(2) by (auto simp: in_state_def sessions_view_def split: sum.splits CommandEventsOutcome.splits)
  show ?thesis
  proof (cases "\<exists>stored v. r = Ok (EventsRecorded stored v)")
    case True
    then obtain stored v where r: "r = Ok (EventsRecorded stored v)" by blast
    with pos leads_publishes [OF assms(4), of d m sid "a\<lparr>dm_storage := st'\<rparr>" stored]
    have "leads d m sid S (publish_events d stored (a\<lparr>dm_storage := st'\<rparr>)) (\<lambda>_ a'. in_state d m sid (fold event_state es s) a')"
      by simp
    then have "leads d m sid S (st_then (publish_events d stored (a\<lparr>dm_storage := st'\<rparr>)) (\<lambda>_ a. (Ok (v, False), a)))
        (\<lambda>(v, replayed) a'. in_state d m sid (if replayed then s else fold event_state es s) a')"
      by (rule leads_then) (simp add: leads_def)
    then show ?thesis by (simp add: daemon_commit_events_def on_storage_def run r)
  next
    case False
    with pos assms(3) show ?thesis
      by (auto simp: daemon_commit_events_def on_storage_def run leads_def split: sum.splits CommandEventsOutcome.splits)
  qed
qed

lemma leads_commit_one:
  assumes "env_ok d" "in_state d m sid s a" "s \<in> S" "event_state e s \<in> S" "batch_ok (de_externals d) sid s [e]"
    and "e = command_event (fresh_id f 0) sid rid (fresh_time f) k payload None None"
  shows "leads d m sid S (daemon_commit_event d f sid rid method' ps out k payload a)
    (\<lambda>(v, replayed) a'. in_state d m sid (if replayed then s else event_state e s) a')"
proof -
  obtain r st' where run: "commit_command_events (de_externals d) (de_keys d) (fresh_nonce f) rid method' ps out [e]
      (dm_storage a) = (r, st')" by fastforce
  have "db_inv (db st') \<and> view (de_externals d) (de_keys d) st' =
      (case r of Ok (EventsRecorded _ _) \<Rightarrow> (view (de_externals d) (de_keys d) (dm_storage a))(sid \<mapsto> fold event_state [e] s)
       | _ \<Rightarrow> view (de_externals d) (de_keys d) (dm_storage a))"
    using assms(1,2) by (intro commit_events_view [OF _ _ _ assms(5) run]) (auto simp: env_ok_def in_state_def sessions_view_def)
  then have pos: "in_state d m sid (case r of Ok (EventsRecorded _ _) \<Rightarrow> event_state e s | _ \<Rightarrow> s) (a\<lparr>dm_storage := st'\<rparr>)"
    using assms(2) by (auto simp: in_state_def sessions_view_def split: sum.splits CommandEventsOutcome.splits)
  have publish: "leads d m sid S (st_then (publish_event d ev a1) (\<lambda>_ a. (Ok (v, False), a)))
      (\<lambda>(v, replayed) a'. in_state d m sid (if replayed then s else event_state e s) a')"
    if "in_state d m sid (event_state e s) a1" for ev v a1
    by (rule leads_then [OF leads_publish [OF that assms(4)]]) (simp add: leads_def)
  with pos assms(3,4) show ?thesis
    unfolding daemon_commit_event_def assms(6) [symmetric] commit_command_event_def on_storage_def run
    by (cases r) (auto split: CommandEventsOutcome.splits)
qed

lemma record_outcome_view:
  assumes "record_command_outcome x scope rid (Some sid) method' ps out st = (r, st')" "db_inv (db st)"
  shows "db_inv (db st') \<and> view x ks st' = view x ks st"
proof -
  from assms(1) have "st' = st \<or> (\<exists>c d. insert_command c (db st) = Ok d \<and> st' = st\<lparr>db := d\<rparr>)"
    unfolding record_command_outcome_def Let_def commit_def and_then_def
    by (fastforce split: if_split_asm option.split_asm sum.split_asm)
  then show ?thesis
  proof (elim disjE exE conjE)
    fix c d
    assume ins: "insert_command c (db st) = Ok d" and st': "st' = st\<lparr>db := d\<rparr>"
    then have same: "session_events d = session_events (db st)" "sessions d = sessions (db st)"
      by (auto simp: insert_command_def split: if_splits)
    note inv = insert_command_inv [OF ins assms(2)]
    have "event_log x ks st' j = event_log x ks st j" "load_session_state (db st') j = load_session_state (db st) j" for j
      using inv assms(2) same by (simp_all add: st' event_log_rows session_rows_def load_session_state_def)
    with inv st' show ?thesis by (auto intro!: ext view_cong)
  qed (use assms(2) in simp)
qed

lemma leads_record:
  assumes "in_state d m sid s a" "s \<in> S"
  shows "leads d m sid S (daemon_record_outcome d i rid method' ps out a) (\<lambda>_ a'. in_state d m sid s a')"
proof -
  obtain r st' where run: "record_command_outcome (de_externals d) (command_scope (de_externals d) (Some i)) rid (Some i)
      method' ps out (dm_storage a) = (r, st')" by fastforce
  with record_outcome_view [OF run] assms(1) have "in_state d m sid s (a\<lparr>dm_storage := st'\<rparr>)"
    by (auto simp: in_state_def sessions_view_def)
  with assms(2) run show ?thesis
    by (cases r) (auto simp: daemon_record_outcome_def on_storage_def leads_def)
qed

section \<open>Batches of events\<close>

lemma env_text: "env_ok d \<Longrightarrow> json_plain v \<Longrightarrow> text_exact (de_externals d) v"
  by (simp add: env_ok_def)

lemma plain_values [simp]:
  "json_plain (uuid_value x i)" "json_plain (strings_value ss)" "json_plain (uint_value n)" "json_plain (usize_value k)"
  "json_plain (option_value (uuid_value x) i')" "json_plain (option_value JString s)" "json_plain (option_value usize_value k')"
  "json_plain (decision_value a)" "json_plain (resolution_value r)" "json_plain (risk_value q)"
  "json_plain (selected_rule_value l)"
  by (simp_all add: uuid_value_def strings_value_def list_all_iff uint_value_def usize_value_def option_value_def
      split: option.splits)
    (cases a; cases r; cases q; cases l; simp)+

lemma plain_payloads [simp]:
  "json_plain (terminal_payload x i summary)" "json_plain (control_payload x i context instruction)"
  "json_plain (unknown_payload x i reason)" "json_plain (transition_payload run why)"
  by (simp_all add: terminal_payload_def control_payload_def unknown_payload_def transition_payload_def
      WorkflowRun_value_def skip_none_def split: option.splits)

lemma list_all_btree_insert: "P (k, v) \<Longrightarrow> list_all P m \<Longrightarrow> list_all P (btree_insert k v m)"
  by (induction k v m rule: btree_insert.induct) auto

lemma plain_routing:
  assumes "rp_confidence plan = Fin 1"
  shows "json_plain (JObject (routing_payload plan))" "json_plain (JObject (enrich_workflow_routing run (routing_payload plan)))"
  using assms
  by (simp_all add: enrich_workflow_routing_def list_all_btree_insert)
    (simp_all add: routing_payload_def f64_value_def)

text \<open>A batch that takes a session from one state to another.\<close>

definition moves_to :: "Externals \<Rightarrow> uuid \<Rightarrow> WireState \<Rightarrow> EventInput list \<Rightarrow> WireState \<Rightarrow> bool" where
  "moves_to x sid s es t \<longleftrightarrow> fold event_state es s = t \<and> batch_ok x sid s es"

lemma moves_to_append:
  "moves_to x sid s es t \<Longrightarrow> moves_to x sid t es' u \<Longrightarrow> moves_to x sid s (es @ es') u"
  by (auto simp: moves_to_def batch_ok_def)

lemmas batch_simps = moves_to_def batch_ok_def command_event_def dispatch_events_def event_state_def kind_state_def event_folds_def
  column_step_def state_for_kind_def visible_def recorded_decision_def json_get_def

section \<open>Ends\<close>

text \<open>Whatever the answer, the session is in one of the states \<open>S\<close>.\<close>

definition ends ::
  "'k Daemon \<Rightarrow> (uuid \<Rightarrow> WireState option) \<Rightarrow> uuid \<Rightarrow> WireState set \<Rightarrow> 'a \<times> 'k Application \<Rightarrow> bool" where
  "ends d m sid S p \<longleftrightarrow> (\<exists>s \<in> S. in_state d m sid s (snd p))"

lemma ends_pair: "in_state d m sid s a \<Longrightarrow> s \<in> S \<Longrightarrow> ends d m sid S (r, a)"
  by (auto simp: ends_def)

lemma ends_with_result: "in_state d m sid s a \<Longrightarrow> s \<in> S \<Longrightarrow> ends d m sid S (with_result r a)"
  by (auto simp: ends_def with_result_def)

lemma ends_finished: "ends d m sid S p \<Longrightarrow> ends d m sid S (finished p)"
  by (simp add: ends_def finished_def)

lemma ends_then:
  assumes "leads d m sid S p Q" "\<And>v a. Q v a \<Longrightarrow> ends d m sid S (g v a)"
  shows "ends d m sid S (st_then p g)"
proof (cases p)
  case (Pair r a)
  with assms show ?thesis by (cases r) (auto simp: ends_def)
qed

lemma ends_run_then:
  assumes "leads d m sid S p Q" "\<And>v a. Q v a \<Longrightarrow> ends d m sid S (g v a)"
  shows "ends d m sid S (run_then p g)"
proof (cases p)
  case (Pair r a)
  with assms show ?thesis by (cases r) (auto simp: ends_def run_then_def)
qed

lemma ends_leads: "ends d m sid S p \<longleftrightarrow> leads d m sid S p (\<lambda>_ a. \<exists>s \<in> S. in_state d m sid s a)"
  by (auto simp: ends_def leads_def split: prod.splits sum.splits)

lemma ends_cached:
  assumes "in_state d m sid s a" "s \<in> S" "\<And>v. ends d m sid S (g v)" "ends d m sid S h"
  shows "ends d m sid S (case c of Err e \<Rightarrow> (fail e, a) | Ok None \<Rightarrow> h | Ok (Some v) \<Rightarrow> g v)"
  using assms by (auto simp: ends_def split: sum.splits option.splits)

lemma ends_if: "(b \<Longrightarrow> ends d m sid S p) \<Longrightarrow> (\<not> b \<Longrightarrow> ends d m sid S q) \<Longrightarrow> ends d m sid S (if b then p else q)"
  by simp

text \<open>One rule per call, with the state of the session before it as the major premise.\<close>

lemma ends_pure:
  assumes "in_state d m sid s a" "s \<in> S" "\<And>v. r = Ok v \<Longrightarrow> in_state d m sid s a \<Longrightarrow> ends d m sid S (g v a)"
  shows "ends d m sid S (st_then (r, a) g)"
  using assms by (cases r) (auto intro: ends_pair)

lemma ends_run_pure:
  assumes "in_state d m sid s a" "s \<in> S" "\<And>v. r = Ok v \<Longrightarrow> in_state d m sid s a \<Longrightarrow> ends d m sid S (g v a)"
  shows "ends d m sid S (run_then (r, a) g)"
  using assms by (cases r) (auto simp: run_then_def intro: ends_pair)

lemma ends_history:
  assumes "in_state d m sid s a" "s \<in> S"
    and "\<And>evs f a'. in_state d m sid s a' \<Longrightarrow> fold_session (de_externals d) evs = Ok f \<Longrightarrow> fs_state f = s \<Longrightarrow>
      ends d m sid S (g evs a')"
  shows "ends d m sid S (st_then (history d sid a) g)"
  by (rule ends_then [OF leads_history [OF assms(1,2)]]) (use assms(3) in auto)

lemma ends_run_history:
  assumes "in_state d m sid s a" "s \<in> S"
    and "\<And>evs f a'. in_state d m sid s a' \<Longrightarrow> fold_session (de_externals d) evs = Ok f \<Longrightarrow> fs_state f = s \<Longrightarrow>
      ends d m sid S (g evs a')"
  shows "ends d m sid S (run_then (history d sid a) g)"
  by (rule ends_run_then [OF leads_history [OF assms(1,2)]]) (use assms(3) in auto)

lemma ends_folded:
  assumes "in_state d m sid s a" "s \<in> S"
    and "\<And>f a'. in_state d m sid s a' \<Longrightarrow> fs_state f = s \<Longrightarrow> ends d m sid S (g f a')"
  shows "ends d m sid S (st_then (folded d sid a) g)"
  by (rule ends_then [OF leads_folded [OF assms(1,2)]]) (use assms(3) in auto)

lemma ends_record:
  assumes "in_state d m sid s a" "s \<in> S"
  shows "ends d m sid S (daemon_record_outcome d i rid method' ps out a)"
  unfolding ends_leads by (rule leads_mono [OF leads_record [OF assms]]) (use assms(2) in auto)

lemma ends_commit:
  assumes "in_state d m sid s a" "env_ok d" "moves_to (de_externals d) sid s es t" "s \<in> S" "t \<in> S"
    and "\<And>v a'. in_state d m sid s a' \<Longrightarrow> ends d m sid S (g (v, True) a')"
    and "\<And>v a'. in_state d m sid t a' \<Longrightarrow> ends d m sid S (g (v, False) a')"
  shows "ends d m sid S (st_then (daemon_commit_events d f rid method' ps out es a) g)"
proof -
  from assms(3) have t: "fold event_state es s = t" and batch: "batch_ok (de_externals d) sid s es"
    by (simp_all add: moves_to_def)
  from assms(5) t have "fold event_state es s \<in> S" by simp
  from leads_commit [OF assms(2,1,4) this batch] show ?thesis
    by (rule ends_then) (use assms(6,7) t in \<open>auto split: if_splits\<close>)
qed

section \<open>The machine of session states\<close>

text \<open>A session whose attempt has started runs, or its provider has already refused or vanished.\<close>

definition attempted :: "WireState set" where
  "attempted = {RunningState, FailedState, OutcomeUnknownState}"

inductive session_moves :: "Command \<Rightarrow> WireState \<Rightarrow> WireState \<Rightarrow> bool" where
  stay: "session_moves c s s"
| ask: "session_moves (SessionPrompt p) ReadyState AwaitingClarificationState"
| propose: "session_moves (SessionPrompt p) ReadyState AwaitingApprovalState"
| pause: "s \<in> {RunningState, PausingState} \<Longrightarrow> session_moves SessionPause s PausedState"
| resume: "session_moves SessionResume PausedState RunningState"
| redirect: "session_moves (SessionRedirect r) AwaitingClarificationState ReadyState"
| cancel: "s \<notin> {CompletedState, FailedState, CancelledState, AbandonedState, DeletingState} \<Longrightarrow>
    s' \<in> {CancelRequestedState, CancelledState} \<Longrightarrow> session_moves SessionCancel s s'"
| grant: "app_decision q = Grant \<Longrightarrow> s \<in> {AwaitingApprovalState, RunningState} \<Longrightarrow> s' \<in> attempted \<Longrightarrow>
    session_moves (SessionApprovalResolve q) s s'"
| deny: "app_decision q = Deny \<Longrightarrow> session_moves (SessionApprovalResolve q) AwaitingApprovalState PausedState"
| retry: "rcp_resolution n = Retry \<Longrightarrow> s' \<in> attempted \<Longrightarrow> session_moves (SessionReconcile n) OutcomeUnknownState s'"
| accept: "rcp_resolution n = AcceptResult \<Longrightarrow> session_moves (SessionReconcile n) OutcomeUnknownState CompletedState"
| abandon: "rcp_resolution n = Abandon \<Longrightarrow> session_moves (SessionReconcile n) OutcomeUnknownState AbandonedState"

abbreviation after :: "Command \<Rightarrow> WireState \<Rightarrow> WireState set" where
  "after c s \<equiv> Collect (session_moves c s)"

lemma after_same [simp, intro]: "s \<in> after c s"
  by (simp add: session_moves.stay)

lemma ends_after [intro]:
  "in_state d m sid t a \<Longrightarrow> session_moves c s t \<Longrightarrow> ends d m sid (after c s) (r, a)"
  "in_state d m sid t a \<Longrightarrow> session_moves c s t \<Longrightarrow> ends d m sid (after c s) (with_result r' a)"
  by (auto intro: ends_pair ends_with_result)

declare session_moves.intros [intro]

section \<open>Attempts\<close>

lemma leads_provider_failure:
  assumes "env_ok d" "in_state d m sid RunningState a" "attempted \<subseteq> S"
  shows "leads d m sid S (record_provider_failure d f sid rid attempt failure a)
    (\<lambda>_ a'. \<exists>s \<in> attempted. in_state d m sid s a')"
proof -
  note env = env_text [OF assms(1)]
  have "leads d m sid S (daemon_append d f sid (Some rid) EventKind.SessionFailed
      (terminal_payload (de_externals d) i why) (Some attempt) (Some effect) a)
      (\<lambda>_ a'. \<exists>s \<in> attempted. in_state d m sid s a')" for i why effect
    by (rule leads_mono [OF leads_append [OF assms(1,2) _ _ _ refl]]) (use assms(3) env in \<open>auto simp: batch_simps attempted_def\<close>)
  moreover have "leads d m sid S (daemon_append d f sid (Some rid) EventKind.OutcomeUnknown
      (unknown_payload (de_externals d) attempt why) (Some attempt) (Some effect) a)
      (\<lambda>_ a'. \<exists>s \<in> attempted. in_state d m sid s a')" for why effect
    by (rule leads_mono [OF leads_append [OF assms(1,2) _ _ _ refl]]) (use assms(3) env in \<open>auto simp: batch_simps attempted_def\<close>)
  ultimately show ?thesis
    by (simp add: record_provider_failure_def current_state_at [OF assms(2)])
qed

lemma leads_activate:
  assumes "env_ok d" "in_state d m sid RunningState a" "attempted \<subseteq> S"
  shows "leads d m sid S (activate_attempt d f sid rid attempt provider model prompt a)
    (\<lambda>_ a'. \<exists>s \<in> attempted. in_state d m sid s a')"
proof -
  have S: "RunningState \<in> S" "RunningState \<in> attempted" using assms(3) by (auto simp: attempted_def)
  show ?thesis
    unfolding activate_attempt_def
    by (rule leads_then [OF leads_configuration [OF assms(2) S(1)]])
      (use S leads_provider_failure [OF assms(1) _ assms(3)] in \<open>auto simp: Let_def split: option.splits sum.splits\<close>)
qed

lemma leads_from_history:
  assumes "env_ok d" "in_state d m sid RunningState a" "attempted \<subseteq> S"
  shows "leads d m sid S (activate_from_history d f sid causation attempt past a)
    (\<lambda>_ a'. \<exists>s \<in> attempted. in_state d m sid s a')"
  unfolding activate_from_history_def
  by (rule leads_then [OF leads_pure [OF assms(2), where Q = "\<lambda>_. in_state d m sid RunningState"]])
    (use assms leads_activate [OF assms(1) _ assms(3)] in \<open>auto simp: attempted_def\<close>)

lemma ends_activate:
  assumes "in_state d m sid RunningState a" "env_ok d" "attempted \<subseteq> S"
    and "\<And>s a'. in_state d m sid s a' \<Longrightarrow> s \<in> S \<Longrightarrow> ends d m sid S (g () a')"
  shows "ends d m sid S (st_then (activate_from_history d f sid causation attempt past a) g)"
  by (rule ends_then [OF leads_from_history [OF assms(2,1,3)]]) (use assms(3,4) in auto)

section \<open>Handlers that only read\<close>

lemma handle_get_ends:
  assumes "in_state d m sid s a" "s \<in> S"
  shows "ends d m sid S (handle_get d sid a)"
  unfolding handle_get_def using assms by (auto intro: ends_folded ends_pair)

lemma handle_attach_ends:
  assumes "in_state d m sid s a" "s \<in> S"
  shows "ends d m sid S (handle_attach d f sid p a)"
  unfolding handle_attach_def
  apply (rule ends_history [OF assms])
  apply (erule ends_pure, rule assms(2))+
  using assms(2) by (auto simp: ends_def split: prod.splits sum.splits)

section \<open>Controls\<close>

lemma handle_redirect_ends:
  assumes "env_ok d" "in_state d m sid s a"
  shows "ends d m sid (after (SessionRedirect p) s) (handle_redirect d f sid rid context p a)"
  unfolding handle_redirect_def Let_def
  apply (rule ends_cached [OF assms(2) after_same])
   apply (rule ends_pair [OF assms(2) after_same])
  apply (rule ends_folded [OF assms(2) after_same])
  apply (rule ends_if)
   apply (erule ends_pair, rule after_same)
  apply (rule ends_then)
   apply (erule leads_commit_one [OF assms(1)])
      apply (rule after_same)
     prefer 3
     apply (rule refl)
    apply (auto simp: batch_simps env_text [OF assms(1)] split: if_splits)
     apply auto
  done

lemma leads_transition:
  assumes "env_ok d" "in_state d m sid t a" "t \<in> S"
  shows "leads d m sid S (daemon_append d f sid rid EventKind.WorkflowTransition (transition_payload run why) None None a)
    (\<lambda>_ a'. in_state d m sid t a')"
  by (rule leads_mono [OF leads_append [OF assms(1,2) _ _ _ refl]]) (use assms(3) env_text [OF assms(1)] in \<open>auto simp: batch_simps\<close>)

lemma in_state_transition:
  assumes "env_ok d" "in_state d m sid t a"
  shows "in_state d m sid t
    (snd (daemon_append d f sid rid EventKind.WorkflowTransition (transition_payload run why) None None a))"
  by (rule leads_snd [OF leads_transition [OF assms]]) simp

lemma handle_pause_ends:
  assumes "env_ok d" "in_state d m sid s a"
  shows "ends d m sid (after SessionPause s) (handle_pause d f sid rid context a)"
proof -
  have batch: "moves_to (de_externals d) sid s
      [command_event i sid rid now EventKind.PauseRequested (control_payload (de_externals d) c context None) None None,
       command_event j sid rid now EventKind.SessionPaused (control_payload (de_externals d) c context None) None None]
      PausedState" if "visible s = RunningState" for i j now c
    using that env_text [OF assms(1)] by (simp add: batch_simps split: if_splits)
  have paused: "PausedState \<in> after SessionPause s" if "visible s = RunningState"
    using that by (auto simp: visible_def split: if_splits)
  have tail: "ends d m sid (after SessionPause s) (st_then (if b then (Ok (), a1)
      else st_then (history d sid a1) (\<lambda>past a.
        case recover_run past of
          None \<Rightarrow> (Ok (), a)
        | Some run \<Rightarrow> if phase_is_terminal (phase run) then (Ok (), a)
            else (Ok (), snd (daemon_append d f' sid (Some rid) EventKind.WorkflowTransition
                   (transition_payload (g run) ''paused'') None None a)))) (\<lambda>_ a. with_result r a))"
    if "in_state d m sid t a1" "t \<in> after SessionPause s" for b t a1 g f' r
    by (rule ends_then [where Q = "\<lambda>_. in_state d m sid t"])
      (use that in_state_transition [OF assms(1)] in
        \<open>auto intro!: ends_with_result leads_then [OF leads_history [OF that]] split: option.splits\<close>)
  show ?thesis
    unfolding handle_pause_def Let_def
    apply (rule ends_cached [OF assms(2) after_same])
     apply (rule ends_pair [OF assms(2) after_same])
    apply (rule ends_pure [OF assms(2) after_same])
    apply (rule ends_if, erule ends_record, rule after_same)
    apply (rule ends_if, erule ends_pair, rule after_same)
    apply (rule ends_if, erule ends_pair, rule after_same)
    apply (simp only: current_state_at [OF assms(2)] sum.inject)
    apply (erule ends_commit [OF _ assms(1) batch after_same paused], simp_all only: prod.case not_not)
     apply (erule tail, rule after_same)
    apply (erule tail, erule paused)
    done
qed

lemma handle_cancel_ends:
  assumes "env_ok d" "in_state d m sid s a"
  shows "ends d m sid (after SessionCancel s) (handle_cancel d f sid rid context a)"
proof -
  have batch: "moves_to (de_externals d) sid s
      (command_event i sid rid now EventKind.CancelRequested (control_payload (de_externals d) c context None) None None #
       (if attempt = None then
         [command_event j sid rid now EventKind.CancelConfirmed (JObject [(''control_id'', uuid_value (de_externals d) c)]) None None,
          command_event k sid rid now EventKind.SessionCancelled (terminal_payload (de_externals d) n why) None None]
        else []))
      (if attempt = None then CancelledState else CancelRequestedState)" for i j k n now c why and attempt :: "uuid option"
    using env_text [OF assms(1)] by (cases attempt) (simp_all add: batch_simps)
  show ?thesis
    unfolding handle_cancel_def Let_def
    apply (rule ends_cached [OF assms(2) after_same])
     apply (rule ends_history [OF assms(2) after_same])
     apply (erule ends_pure, rule after_same)
     apply (rule ends_if)
      apply (erule ends_pure, rule after_same)
      apply (rule ends_with_result [where s = s], simp, rule after_same)
     apply (erule ends_pair, rule after_same)
    apply (rule ends_history [OF assms(2) after_same])
    apply (erule ends_pure, rule after_same)
    apply (rule ends_if, erule ends_pair, rule after_same)
    apply (erule ends_commit [OF _ assms(1) batch after_same])
      apply auto
    done
qed

section \<open>Human decisions\<close>

lemma approval_replayed_ends:
  assumes "env_ok d" "in_state d m sid s a"
  shows "ends d m sid (after (SessionApprovalResolve p) s) (approval_replayed d f sid rid p v a)"
proof -
  have grant: "attempted \<subseteq> after (SessionApprovalResolve p) RunningState" if "app_decision p = Grant"
    using that by auto
  show ?thesis
    unfolding approval_replayed_def Let_def
    apply (rule ends_if)
     apply (rule ends_pair [OF assms(2) after_same])
    apply (rule ends_history [OF assms(2) after_same])
    apply (erule ends_pure, rule after_same)
    apply (auto split: option.splits intro!: ends_activate [OF _ assms(1) grant] ends_with_result)
    done
qed

definition approval_payload :: "Externals \<Rightarrow> string \<Rightarrow> uuid \<Rightarrow> ApprovalDecision \<Rightarrow> json" where
  "approval_payload x who n c =
     JObject [(''actor'', JString who), (''approval_id'', uuid_value x n), (''decision'', decision_value c)]"

lemma approval_payload_reads:
  assumes "env_ok d"
  shows "json_plain (approval_payload x who n c)" "recorded_decision (approval_payload x who n c) = Some c"
    "value_uuid (de_externals d) (approval_payload (de_externals d) who n c) ''approval_id'' = Some n"
proof -
  from assms have "externals_ok (de_externals d)" by (simp add: env_ok_def)
  then show "value_uuid (de_externals d) (approval_payload (de_externals d) who n c) ''approval_id'' = Some n"
    by (simp add: approval_payload_def value_uuid_def get_str_def uuid_value_def externals_okD)
qed (cases c; simp add: approval_payload_def recorded_decision_def json_get_def decision_from_def enum_from_def variant_name_def)+

lemma granted_batch:
  assumes "env_ok d" "s = AwaitingApprovalState"
  shows "moves_to (de_externals d) sid s
    (command_event i sid rid now EventKind.ApprovalRecorded (approval_payload (de_externals d) who n Grant) None None #
     dispatch_events (de_externals d) j k sid causation now attempt predecessor) RunningState"
  using approval_payload_reads [OF assms(1)] env_text [OF assms(1)] by (simp add: assms(2) batch_simps granted_state_def)

lemma denied_batch:
  assumes "env_ok d" "s = AwaitingApprovalState"
  shows "moves_to (de_externals d) sid s
    [command_event i sid rid now EventKind.ApprovalRecorded (approval_payload (de_externals d) who n Deny) None None,
     command_event j sid rid now EventKind.SessionPaused (control_payload (de_externals d) c context None) None None] PausedState"
  using approval_payload_reads [OF assms(1)] env_text [OF assms(1)] by (simp add: assms(2) batch_simps granted_state_def)

lemma handle_approval_ends:
  assumes "env_ok d" "in_state d m sid s a"
  shows "ends d m sid (after (SessionApprovalResolve p) s) (handle_approval d f sid rid context p a)"
proof -
  have grant: "attempted \<subseteq> after (SessionApprovalResolve p) AwaitingApprovalState"
    "RunningState \<in> after (SessionApprovalResolve p) AwaitingApprovalState" if "app_decision p = Grant"
    using that by (auto simp: attempted_def)
  have deny: "PausedState \<in> after (SessionApprovalResolve p) AwaitingApprovalState" if "app_decision p = Deny"
    using that by auto
  show ?thesis
    unfolding handle_approval_def Let_def approval_payload_def [symmetric]
    apply (rule ends_cached [OF assms(2) after_same])
     apply (rule approval_replayed_ends [OF assms])
    apply (rule ends_folded [OF assms(2) after_same])
    subgoal for fs a'
      apply (cases "fs_approval_decisions fs (app_approval_id p)"; simp only: option.case)
       apply (rule ends_if, erule ends_pair, rule after_same)
       apply (cases "app_decision p"; simp only: ApprovalDecision.case de_Morgan_disj not_not)
        apply (erule ends_commit [OF _ assms(1) granted_batch [OF assms(1) refl] after_same])
          apply (simp only: grant)
         apply (simp only: prod.case if_True, erule ends_pair, rule after_same)
        apply (simp only: prod.case if_False)
        apply (erule ends_history, simp only: grant)
        apply (erule ends_activate [OF _ assms(1)], simp only: grant)
        apply (erule ends_with_result, assumption)
       apply (erule ends_commit [OF _ assms(1) denied_batch [OF assms(1) refl] after_same])
         apply (simp only: deny)
        apply (simp only: prod.case, erule ends_with_result, rule after_same)
       apply (simp only: prod.case, erule ends_with_result, simp only: deny)
      apply (rule ends_if, erule ends_pair, rule after_same)
      apply (erule ends_record, rule after_same)
      done
    done
qed

lemma reconciled_batch:
  assumes "env_ok d" "s = OutcomeUnknownState"
  shows "moves_to (de_externals d) sid s (reconciliation_events (de_externals d) f sid rid p)
    (reconciled_state (rcp_resolution p))"
  using env_text [OF assms(1)]
  by (cases "rcp_resolution p") (simp_all add: assms(2) batch_simps reconciliation_events_def Let_def)

lemma handle_reconcile_ends:
  assumes "env_ok d" "in_state d m sid s a"
  shows "ends d m sid (after (SessionReconcile p) s) (handle_reconcile d f sid rid p a)"
proof -
  have reconciled: "reconciled_state (rcp_resolution p) \<in> after (SessionReconcile p) OutcomeUnknownState"
    by (cases "rcp_resolution p") (auto simp: attempted_def)
  have retry: "attempted \<subseteq> after (SessionReconcile p) OutcomeUnknownState" if "rcp_resolution p = Retry"
    using that by auto
  show ?thesis
    unfolding handle_reconcile_def Let_def
    apply (rule ends_cached [OF assms(2) after_same])
     apply (rule ends_pair [OF assms(2) after_same])
    apply (rule ends_folded [OF assms(2) after_same])
    apply (rule ends_if, erule ends_pair, rule after_same)
    apply (simp only: de_Morgan_disj not_not)
    apply (erule ends_commit [OF _ assms(1) reconciled_batch [OF assms(1) refl] after_same reconciled], unfold prod.case)
     apply (simp only: simp_thms if_True, erule ends_pair, rule after_same)
    apply (rule ends_if, erule ends_pair, rule reconciled)
    apply (simp only: de_Morgan_disj not_not simp_thms reconciled_state.simps)
    apply (erule ends_history)
     apply (use reconciled in simp)
    apply (erule ends_activate [OF _ assms(1)], simp only: retry)
    apply (erule ends_with_result, assumption)
    done
qed

section \<open>Resumption\<close>

lemma ends_run_commit_one:
  assumes "in_state d m sid s a" "env_ok d"
    and "moves_to (de_externals d) sid s [command_event (fresh_id f 0) sid rid (fresh_time f) k payload None None] t"
    and "s \<in> S" "t \<in> S"
    and "\<And>v a'. in_state d m sid s a' \<Longrightarrow> ends d m sid S (g (v, True) a')"
    and "\<And>v a'. in_state d m sid t a' \<Longrightarrow> ends d m sid S (g (v, False) a')"
  shows "ends d m sid S (run_then (daemon_commit_event d f sid rid method' ps out k payload a) g)"
proof -
  let ?e = "command_event (fresh_id f 0) sid rid (fresh_time f) k payload None None"
  from assms(3) have t: "event_state ?e s = t" and batch: "batch_ok (de_externals d) sid s [?e]"
    by (simp_all add: moves_to_def)
  from assms(5) t have "event_state ?e s \<in> S" by simp
  from leads_commit_one [OF assms(2,1,4) this batch refl] show ?thesis
    by (rule ends_run_then) (use assms(6,7) t in \<open>auto split: if_splits\<close>)
qed

lemma handle_resume_ends:
  assumes "env_ok d" "in_state d m sid s a"
  shows "ends d m sid (after SessionResume s) (handle_resume d f sid rid context a)"
proof -
  have batch: "moves_to (de_externals d) sid PausedState
      [command_event i sid rid now EventKind.SessionResumed (control_payload (de_externals d) c context None) None None] RunningState"
    for i now c
    using env_text [OF assms(1)] by (simp add: batch_simps)
  have running: "RunningState \<in> after SessionResume PausedState" by auto
  have done_ends: "ends d m sid (after SessionResume PausedState) (r, if b then spawn (FakeCompletion i) a1 else a1)"
    if "in_state d m sid RunningState a1" for a1 b i and r :: "json Run"
    using that running by (auto simp: ends_def)
  have transition: "ends d m sid (after SessionResume PausedState)
      (run_then (daemon_append d f' sid (Some rid) EventKind.WorkflowTransition (transition_payload run why) None None a1) g)"
    if "in_state d m sid RunningState a1"
      "\<And>a'. in_state d m sid RunningState a' \<Longrightarrow> ends d m sid (after SessionResume PausedState) (g () a')"
    for a1 f' run why and g :: "unit \<Rightarrow> 'a Application \<Rightarrow> json Run \<times> 'a Application"
    by (rule ends_run_then [OF leads_transition [OF assms(1) that(1) running]]) (use that(2) in auto)
  show ?thesis
    unfolding handle_resume_def Let_def
    apply (rule ends_cached [OF assms(2) after_same])
     apply (rule ends_pair [OF assms(2) after_same])
    apply (rule ends_run_pure [OF assms(2) after_same])
    apply (rule ends_if, rule ends_finished, erule ends_record, rule after_same)
    apply (rule ends_if, erule ends_pair, rule after_same)
    subgoal premises prems for v
    proof -
      from prems have s: "s = PausedState"
        by (auto simp: current_state_at [OF assms(2)] visible_def split: if_splits)
      from prems(2) show ?thesis
        unfolding s
        apply (elim ends_run_commit_one [OF _ assms(1) batch after_same running]; unfold prod.case)
         apply (simp only: if_True, erule ends_pair, rule after_same)
        apply (simp only: if_False)
        apply (rule ends_if, erule done_ends)
        apply (erule ends_run_history, rule running)
        apply (auto split: option.splits intro!: done_ends transition ends_pair [OF _ running])
        done
    qed
    done
qed

section \<open>Prompts\<close>

lemma route_guarded:
  assumes "in_state d m sid s a"
  obtains r a' where "route d sid explicit role context a = (r, a')" "in_state d m sid s a'" "r \<noteq> Blocked"
    "\<forall>plan permission. r = Returned (Ok (SelectedRoute plan permission)) \<longrightarrow>
      permission \<noteq> DefaultReadOnly \<and> rp_confidence plan = Fin 1"
proof -
  obtain q a' where run: "session_configuration d sid a = (q, a')" by fastforce
  with leads_configuration [OF assms, of "{s}" sid] have pos: "in_state d m sid s a'"
    by (cases q) auto
  show thesis
  proof (cases q)
    case (Inl e)
    with run pos show ?thesis by (intro that) (auto simp: route_def run_then_def)
  next
    case (Inr c)
    have "permission \<noteq> DefaultReadOnly \<and> rp_confidence plan = Fin 1"
      if "plan_route (de_version d) (de_catalog d) c explicit role context = Some (Ok (SelectedRoute plan permission))"
      for plan permission
      using plan_route_selected [OF that] by (simp add: provider_permission)
    with Inr run pos show ?thesis
      by (intro that) (auto simp: route_def run_then_def split: option.splits)
  qed
qed

lemma leads_target:
  assumes "in_state d m sid s a" "s \<in> S"
  shows "leads d m sid S (route_target d run_id sid past a) (\<lambda>_ a'. in_state d m sid s a')"
  unfolding route_target_def
  by (auto simp: assms intro!: leads_then [OF leads_configuration [OF assms]] leads_pure [OF _ assms(2)])

lemma ends_commit_quiet:
  assumes "in_state d m sid s a" "env_ok d" "moves_to (de_externals d) sid s es t" "s \<in> S" "t \<in> S"
  shows "ends d m sid S (st_then (daemon_commit_events d f rid method' ps out es a) (\<lambda>(v, _) a. with_result (h v) a))"
  by (rule ends_commit [OF assms]) (use assms(4,5) in \<open>auto intro: ends_with_result\<close>)

lemma prompt_decided_ends:
  assumes env: "env_ok d" and pos: "in_state d m sid ReadyState a"
    and batch: "moves_to (de_externals d) sid ReadyState es ReadyState"
    and guard: "\<And>plan permission. decision = SelectedRoute plan permission \<Longrightarrow>
      permission \<noteq> DefaultReadOnly \<and> rp_confidence plan = Fin 1"
  shows "ends d m sid (after (SessionPrompt p) ReadyState) (prompt_decided d f sid rid p out past es target decision a)"
proof (cases decision)
  case (SelectedRoute plan permission)
  let ?routing = "command_event (fresh_id f 4) sid rid (fresh_time f) EventKind.RoutingPlanned
    (JObject (case target of None \<Rightarrow> routing_payload plan
      | Some t \<Rightarrow> enrich_workflow_routing (wrt_run t) (routing_payload plan))) None None"
  from guard SelectedRoute have permission: "permission \<noteq> DefaultReadOnly" and plain: "rp_confidence plan = Fin 1" by auto
  have routing: "moves_to (de_externals d) sid ReadyState [?routing] ReadyState"
    using env_text [OF env] plain_routing [OF plain] by (cases target) (simp_all add: batch_simps del: json_plain.simps)
  have approval: "moves_to (de_externals d) sid ReadyState [command_event i sid rid now EventKind.ApprovalRequested
      (JObject [(''action'', JString ''provider.prompt''), (''approval_id'', uuid_value (de_externals d) n),
                (''risk'', JString ''medium''), (''scope'', strings_value [''provider''])]) None None] AwaitingApprovalState" for i now n
    using env_text [OF env] by (simp add: batch_simps)
  note both = moves_to_append [OF routing approval, simplified append_Cons append_Nil]
  show ?thesis
  proof (cases "permission = DefaultDenied")
    case True
    then show ?thesis
      unfolding prompt_decided_def prompt_selected_def Let_def SelectedRoute RouteDecision.case
      by (simp only: if_True simp_thms) (rule ends_commit_quiet [OF pos env moves_to_append [OF batch routing]]; auto)
  next
    case False
    with permission have "permission = DefaultApprovalRequired" by (cases permission) auto
    then show ?thesis
      unfolding prompt_decided_def prompt_selected_def Let_def SelectedRoute RouteDecision.case
      by (simp only: if_True if_False simp_thms DefaultToolMode.distinct)
        (rule ends_commit_quiet [OF pos env moves_to_append [OF batch both]]; auto)
  qed
next
  case (ClarificationRoute reason rule)
  have "moves_to (de_externals d) sid ReadyState [command_event i sid rid now EventKind.ClarificationRequested
      (JObject [(''question'', JString ''Which configured role should execute this prompt?''), (''reason'', JString reason)])
      None None] AwaitingClarificationState" for i now
    using env_text [OF env] by (simp add: batch_simps)
  note clarification = moves_to_append [OF batch this]
  show ?thesis
    unfolding prompt_decided_def Let_def ClarificationRoute RouteDecision.case
    by (rule ends_commit_quiet [OF pos env clarification]) auto
next
  case (UnavailableRoute rule)
  show ?thesis
    unfolding prompt_decided_def Let_def UnavailableRoute RouteDecision.case
    by (rule ends_commit_quiet [OF pos env batch]) auto
qed

lemma handle_prompt_ends:
  assumes "env_ok d" "in_state d m sid s a"
  shows "ends d m sid (after (SessionPrompt p) s) (handle_prompt d f sid rid p a)"
proof -
  have batch: "moves_to (de_externals d) sid ReadyState
      (command_event i sid rid now EventKind.InputRecorded
        (JObject [(''content'', JString c), (''input_id'', uuid_value (de_externals d) n)]) None None #
       (case target of
          Some t \<Rightarrow> if recover_run past = None
            then [command_event j sid rid now EventKind.WorkflowTransition (transition_payload (wrt_run t) ''started'') None None]
            else []
        | None \<Rightarrow> [])) ReadyState" for i j now c n target past
    using env_text [OF assms(1)] by (auto simp: batch_simps split: option.splits)
  have routed: "ends d m sid (after (SessionPrompt p) ReadyState)
      (case route d sid explicit role ctx a1 of
         (Panicked, a) \<Rightarrow> (Panicked, a)
       | (Blocked, a) \<Rightarrow> (Blocked, a)
       | (Returned (Err e), a) \<Rightarrow> (Returned (Err e), a)
       | (Returned (Ok decision), a) \<Rightarrow> finished (prompt_decided d f sid rid p out past es target decision a))"
    if pos: "in_state d m sid ReadyState a1" and batch: "moves_to (de_externals d) sid ReadyState es ReadyState"
    for explicit role ctx a1 out past es target
  proof -
    obtain r a2 where r: "route d sid explicit role ctx a1 = (r, a2)" "in_state d m sid ReadyState a2" "r \<noteq> Blocked"
      "\<forall>plan permission. r = Returned (Ok (SelectedRoute plan permission)) \<longrightarrow>
        permission \<noteq> DefaultReadOnly \<and> rp_confidence plan = Fin 1"
      by (rule route_guarded [OF pos, of explicit role ctx])
    with prompt_decided_ends [OF assms(1) r(2) batch] show ?thesis
      by (auto intro!: ends_finished split: Run.splits sum.splits)
  qed
  show ?thesis
    unfolding handle_prompt_def Let_def
    apply (rule ends_cached [OF assms(2) after_same])
     apply (rule ends_pair [OF assms(2) after_same])
    apply (rule ends_run_history [OF assms(2) after_same])
    apply (erule ends_run_pure, rule after_same)
    apply (rule ends_if, erule ends_pair, rule after_same)
    apply (simp only: not_not sum.inject)
    apply (erule ends_run_pure, rule after_same)
    apply (rule ends_run_then, erule leads_target, rule after_same)
    apply (erule routed, rule batch)
    done
qed

section \<open>Uncertain attempts\<close>

text \<open>An attempt whose outcome was recorded as unknown is no longer a started one, so that \<^const>\<open>handle_cancel\<close> takes the
  branch of a session that never started any and records the session as cancelled.\<close>

lemma unknown_attempt_forgotten:
  assumes "past = before @ started # between @ [unknown]"
    and "se_kind started = ''dispatch_started''" "se_attempt_id started = Some n"
    and "\<forall>e \<in> set between. se_kind e \<noteq> ''dispatch_started''"
    and "se_kind unknown = ''outcome_unknown''" "se_attempt_id unknown = Some n" "se_sequence started < se_sequence unknown"
  shows "latest_started_attempt past = None"
proof -
  have none: "find (\<lambda>e. se_kind e = ''dispatch_started'') (rev between) = None"
    using assms(4) by (simp add: find_None_iff)
  have "find P (xs @ y # ys) = Some y" if "find P xs = None" "P y" for P xs ys and y :: StoredEvent
    using that by (induction xs) (auto split: if_splits)
  with none assms(2,5) have "find (\<lambda>e. se_kind e = ''dispatch_started'') (rev past) = Some started"
    by (simp add: assms(1))
  with assms show ?thesis by (simp add: latest_started_attempt_def)
qed

section \<open>The commands of a session\<close>

text \<open>The commands that leave a session in the store.\<close>

definition keeps_session :: "Command \<Rightarrow> bool" where
  "keeps_session c = (case c of SessionExport _ \<Rightarrow> False | SessionDelete _ \<Rightarrow> False | _ \<Rightarrow> True)"

lemma dispatch_session_ends:
  assumes "env_ok d" "in_state d m sid s a" "keeps_session (cc_command c)"
  shows "ends d m sid (after (cc_command c) s) (dispatch_session export d f sid c context a)"
proof -
  have unchanged: "ends d m sid (after (cc_command c) s) (r, a)" for r :: "json Run"
    by (rule ends_pair [OF assms(2) after_same])
  have attach: "ends d m sid S (st_then q (\<lambda>(v, _) a. (Ok v, a)))" if "ends d m sid S q"
    for S and q :: "(DaemonError + json \<times> uuid) \<times> 'a Application"
    using that by (cases q; cases "fst q") (auto simp: ends_def)
  show ?thesis
    using unchanged assms(3)
      ends_finished [OF handle_get_ends [OF assms(2) after_same]]
      ends_finished [OF attach [OF handle_attach_ends [OF assms(2) after_same]]]
      handle_prompt_ends [OF assms(1,2)] handle_resume_ends [OF assms(1,2)]
      ends_finished [OF handle_pause_ends [OF assms(1,2)]] ends_finished [OF handle_redirect_ends [OF assms(1,2)]]
      ends_finished [OF handle_cancel_ends [OF assms(1,2)]] ends_finished [OF handle_approval_ends [OF assms(1,2)]]
      ends_finished [OF handle_reconcile_ends [OF assms(1,2)]]
    unfolding dispatch_session_def Let_def by (cases "cc_command c") (simp_all add: keeps_session_def)
qed

text \<open>The machine of all sessions: a command moves its own session and no other.\<close>

definition sessions_move ::
  "uuid \<times> Command \<Rightarrow> (uuid \<Rightarrow> WireState option) \<Rightarrow> (uuid \<Rightarrow> WireState option) \<Rightarrow> bool" where
  "sessions_move l m m' \<longleftrightarrow>
     (case l of (sid, c) \<Rightarrow> \<exists>s s'. m sid = Some s \<and> m' = m(sid \<mapsto> s') \<and> session_moves c s s')"

lemma dispatch_session_moves:
  assumes "env_ok d" "db_inv (db (dm_storage a))" "sessions_view d a sid = Some s" "keeps_session (cc_command c)"
  shows "db_inv (db (dm_storage (snd (dispatch_session export d f sid c context a)))) \<and>
    (\<exists>s'. sessions_view d (snd (dispatch_session export d f sid c context a)) = (sessions_view d a)(sid \<mapsto> s') \<and>
      session_moves (cc_command c) s s')"
proof -
  from assms(2,3) have "in_state d (sessions_view d a) sid s a"
    by (simp add: in_state_def fun_upd_idem)
  from dispatch_session_ends [OF assms(1) this assms(4), of export f "context"] show ?thesis
    by (auto simp: ends_def in_state_def)
qed

section \<open>Simulation\<close>

text \<open>A machine that follows every step of a system follows every run of it.\<close>

locale simulation =
  fixes step :: "'l \<Rightarrow> 'c \<Rightarrow> 'c \<Rightarrow> bool" and sound :: "'c \<Rightarrow> bool"
    and abs :: "'c \<Rightarrow> 'a" and move :: "'l \<Rightarrow> 'a \<Rightarrow> 'a \<Rightarrow> bool"
  assumes simulates: "sound c \<Longrightarrow> step l c c' \<Longrightarrow> sound c' \<and> move l (abs c) (abs c')"
begin

lemma run_simulated:
  assumes "(\<lambda>c c'. \<exists>l \<in> L. step l c c')\<^sup>*\<^sup>* c c'" "sound c"
  shows "sound c' \<and> (\<lambda>x y. \<exists>l \<in> L. move l x y)\<^sup>*\<^sup>* (abs c) (abs c')"
  using assms
proof (induction rule: rtranclp_induct)
  case (step c' c'')
  then obtain l where l: "l \<in> L" "step l c' c''" by blast
  from simulates [OF _ l(2)] l(1) step show ?case by (auto intro: rtranclp.rtrancl_into_rtrancl)
qed simp

lemma run_invariant:
  assumes "(\<lambda>c c'. \<exists>l \<in> L. step l c c')\<^sup>*\<^sup>* c c'" "sound c" "P (abs c)"
    and "\<And>l x y. l \<in> L \<Longrightarrow> move l x y \<Longrightarrow> P x \<Longrightarrow> P y"
  shows "P (abs c')"
proof -
  have "(\<lambda>x y. \<exists>l \<in> L. move l x y)\<^sup>*\<^sup>* (abs c) (abs c')" using run_simulated [OF assms(1,2)] ..
  then show ?thesis by (induction rule: rtranclp_induct) (use assms(3,4) in blast)+
qed

end

definition command_step ::
  "(uuid \<Rightarrow> uuid \<Rightarrow> ExportParams \<Rightarrow> 'k Application \<Rightarrow> (DaemonError + json) \<times> 'k Application) \<Rightarrow> 'k Daemon
     \<Rightarrow> uuid \<times> Command \<Rightarrow> 'k Application \<Rightarrow> 'k Application \<Rightarrow> bool" where
  "command_step export d l a a' \<longleftrightarrow>
     (case l of (sid, k) \<Rightarrow> keeps_session k \<and> sessions_view d a sid \<noteq> None \<and>
        (\<exists>f c context. cc_command c = k \<and> a' = snd (dispatch_session export d f sid c context a)))"

definition sound_state :: "'k Daemon \<Rightarrow> 'k Application \<Rightarrow> bool" where
  "sound_state d a \<longleftrightarrow> env_ok d \<and> db_inv (db (dm_storage a))"

interpretation session_commands: simulation "command_step export d" "sound_state d" "sessions_view d" sessions_move
proof
  fix a a' :: "'a Application" and l
  assume "sound_state d a" "command_step export d l a a'"
  then show "sound_state d a' \<and> sessions_move l (sessions_view d a) (sessions_view d a')"
    by (fastforce simp: command_step_def sound_state_def sessions_move_def dest: dispatch_session_moves)
qed

section \<open>Properties\<close>

text \<open>The commands by which a human lets a session execute, and the states of a session that executes nothing.\<close>

definition consents :: "Command \<Rightarrow> bool" where
  "consents c =
     (case c of
        SessionApprovalResolve p \<Rightarrow> app_decision p = Grant
      | SessionReconcile p \<Rightarrow> rcp_resolution p = Retry
      | Command.SessionResume \<Rightarrow> True
      | _ \<Rightarrow> False)"

definition idle :: "WireState option \<Rightarrow> bool" where
  "idle s \<longleftrightarrow> s \<in> Some ` {ReadyState, AwaitingClarificationState, AwaitingApprovalState, PausedState, CancelRequestedState,
     CancelledState}"

lemma idle_moves: "session_moves c s s' \<Longrightarrow> \<not> consents c \<Longrightarrow> idle (Some s) \<Longrightarrow> idle (Some s')"
  by (induction rule: session_moves.induct) (auto simp: consents_def idle_def)

lemma idle_kept:
  assumes "l \<in> {l. \<not> (fst l = sid \<and> consents (snd l))}" "sessions_move l m m'" "idle (m sid)"
  shows "idle (m' sid)"
proof -
  obtain i c where l: "l = (i, c)" by fastforce
  with assms(2) obtain s s' where "m i = Some s" "m' = m(i \<mapsto> s')" "session_moves c s s'" by (auto simp: sessions_move_def)
  with l assms(1,3) idle_moves [of c s s'] show ?thesis by (cases "i = sid") auto
qed

definition demo_daemon :: "MemoryKeyStore Daemon" where
  "demo_daemon = \<lparr>de_externals = reference, de_keys = memory_key_store, de_event_text = (\<lambda>_. None), de_raw_text = (\<lambda>_. []),
     de_to_yaml = (\<lambda>_. None), de_from_yaml = (\<lambda>_. None), de_files = demo_files, de_startup = demo_startup, de_catalog = [],
     de_adapters = Map.empty, de_version = ''1'', de_fake = \<lparr>fb_confirms_cancellation = True, fb_report_findings = False\<rparr>\<rparr>"

definition demo_application :: "MemoryKeyStore Application" where
  "demo_application = \<lparr>dm_storage = demo_storage, dm_cache = cache_empty, dm_active = Map.empty, dm_hub = hub_default,
     dm_tasks = [], dm_shutting_down = False, dm_blocked = {}\<rparr>"

definition demo_draws :: Fresh where
  "demo_draws = \<lparr>fresh_id = (\<lambda>n. of_nat (n + 100)), fresh_time = 0, fresh_nonce = (\<lambda>_. demo_nonce),
     fresh_creation = \<lparr>f_root = demo_key, f_key = demo_key, f_envelope_nonce = demo_nonce, f_configuration_nonce = demo_nonce,
       f_lock_nonce = demo_nonce, f_event_nonce = demo_nonce, f_event_id = 50\<rparr>\<rparr>"

definition demo_cancel :: ClientCommand where
  "demo_cancel = \<lparr>cc_protocol = PROTOCOL_V1, cc_request_id = 7, cc_session_id = Some 1, cc_command = SessionCancel\<rparr>"

definition demo_outcome :: "MemoryKeyStore Application" where
  "demo_outcome = snd (dispatch_session (\<lambda>_ _ _ a. (Err InternalError, a)) demo_daemon demo_draws 1 demo_cancel
     \<lparr>ctx_uid = 0, ctx_client_name = ''cli''\<rparr> demo_application)"

lemma demo_env: "env_ok demo_daemon"
  using reference_ok read_put_plain by (simp add: env_ok_def demo_daemon_def text_exact_def) (simp add: reference_def)

lemma demo_sound: "sound_state demo_daemon demo_application"
  using demo_env demo_inv by (simp add: sound_state_def demo_application_def)

lemma demo_view: "sessions_view demo_daemon demo_application 1 = Some ReadyState"
proof -
  have "load_session_state (db demo_storage) 1 = Ok ''ready''"
    by (simp add: load_session_state_def demo_storage_def)
  then show ?thesis
    by (simp add: sessions_view_def view_def demo_daemon_def demo_application_def demo_log fold_session_def fold_kind_def folded_start_def
        visible_def Let_def)
qed

text \<open>C1: the handlers refine the machine of session states. Whatever a command of a session does to tables, caches,
  queues and tasks, and however it ends, the store keeps its invariant, the session moves as the machine allows for
  that command, and no other session moves.\<close>

theorem commands_refine_machine:
  assumes "env_ok d" "db_inv (db (dm_storage a))" "sessions_view d a sid = Some s" "keeps_session (cc_command c)"
    and "dispatch_session export d f sid c context a = (r, a')"
  shows "db_inv (db (dm_storage a')) \<and>
    (\<exists>s'. sessions_view d a' = (sessions_view d a)(sid \<mapsto> s') \<and> session_moves (cc_command c) s s')"
  using dispatch_session_moves [OF assms(1-4), of export f "context"] assms(5) by simp

theorem commands_refine_machine_witness:
  "db_inv (db (dm_storage demo_outcome)) \<and>
   (\<exists>s'. sessions_view demo_daemon demo_outcome = (sessions_view demo_daemon demo_application)(1 \<mapsto> s') \<and>
     session_moves SessionCancel ReadyState s')"
  using commands_refine_machine [OF demo_env _ demo_view, of demo_cancel "\<lambda>_ _ _ a. (Err InternalError, a)" demo_draws
      "\<lparr>ctx_uid = 0, ctx_client_name = ''cli''\<rparr>"] demo_sound
  by (simp add: demo_outcome_def demo_cancel_def keeps_session_def sound_state_def prod_eq_iff)



end
