(* ===== verification/Spec2Isabelle.thy ===== *)
theory Spec2Isabelle
  imports Prelude Values Attempts Policies Routing Events Sessions Workflows Orchestration
    Json Externals Keys Key_Rotation Storage Storage_Inv Reference Event_Log
    Commands Lifecycle Lifecycle_Laws Event_Json Adapter Execution
    Wire Serde Client_Protocol Delivery Subscriptions Budget Config Config_Validate Config_Merge
    Config_Lock Snapshot_Reload Responses Daemon_Base Workflow_Exec Startup
    Daemon_Routes Daemon Daemon_Handlers Daemon_Tasks Daemon_View Daemon_Laws
begin

text \<open>
A verification development of the multi-agent development workbench, a local daemon that
coordinates provider agents, tools and approvals over an encrypted, append-only event history.

\<^bold>\<open>The program and its model.\<close>
The crate \<^verbatim>\<open>workbench-core\<close> holds the domain: values and failures, attempts, policies and
approvals, the ordered router, events, the session state machine, workflow runs and the
orchestrator that persists an event before every effect.  The crate \<^verbatim>\<open>workbench-storage\<close>
keeps sessions, events, commands and journals in a database whose payloads are sealed under one
key per session; the session keys are themselves sealed under a root key of a key store.
The crates \<^verbatim>\<open>workbench-protocol\<close> and \<^verbatim>\<open>workbench-config\<close> hold the client protocol and the layered
configuration with its locks.  The crate \<^verbatim>\<open>workbench-daemon\<close> composes them: a client command is
framed, decoded and dispatched to a handler under the lock of its session; the handler reads the
history, commits events with the outcome of the command, publishes them to the subscribers, and
starts attempts that later tasks carry on.

  \<^item> \<^verbatim>\<open>Prelude\<close>: results and their sequencing (\<^term>\<open>and_then\<close>, \<^term>\<open>st_then\<close>), checked arithmetic,
    string and list operations of the Rust standard library.
  \<^item> \<^verbatim>\<open>Values\<close> (\<^verbatim>\<open>error.rs\<close>, \<^verbatim>\<open>value.rs\<close>, \<^verbatim>\<open>identity.rs\<close>): failure categories, error construction,
    sequences, identifiers and content hashes.
  \<^item> \<^verbatim>\<open>Attempts\<close> (\<^verbatim>\<open>attempt.rs\<close>): operation policies, attempt progress, recovery and reconciliation.
  \<^item> \<^verbatim>\<open>Policies\<close> (\<^verbatim>\<open>policy.rs\<close>): layered tool policies, effect protection, pending approvals.
  \<^item> \<^verbatim>\<open>Routing\<close> (\<^verbatim>\<open>routing.rs\<close>): the ordered router.
  \<^item> \<^verbatim>\<open>Events\<close> (\<^verbatim>\<open>event.rs\<close>) and \<^verbatim>\<open>Sessions\<close> (\<^verbatim>\<open>session.rs\<close>): the event language and the machine it
    drives, history folding and control decisions.
  \<^item> \<^verbatim>\<open>Workflows\<close> (\<^verbatim>\<open>workflow.rs\<close>): multi-step runs and their correction loop.
  \<^item> \<^verbatim>\<open>Orchestration\<close> (\<^verbatim>\<open>orchestrator.rs\<close>, \<^verbatim>\<open>ports.rs\<close>): planning, dispatch and streaming of an attempt
    over an event store and a provider adapter.
  \<^item> \<^verbatim>\<open>Json\<close>, \<^verbatim>\<open>Externals\<close>: JSON values as the storage crate uses them, and the record of third-party
    operations (AEAD cipher, BLAKE3, base64, JSON text) with their laws \<^term>\<open>externals_ok\<close>;
    \<^verbatim>\<open>Reference\<close> gives an instance that satisfies the laws.
  \<^item> \<^verbatim>\<open>Keys\<close>, \<^verbatim>\<open>Key_Rotation\<close> (\<^verbatim>\<open>crypto.rs\<close>, \<^verbatim>\<open>key_store.rs\<close>): payload encryption, the key manager
    and root rotation.
  \<^item> \<^verbatim>\<open>Storage\<close>, \<^verbatim>\<open>Storage_Inv\<close>, \<^verbatim>\<open>Event_Log\<close> (\<^verbatim>\<open>sqlite.rs\<close>): the database as a record of tables, every
    operation of the store, the invariant they keep, and the decrypted log of a session.
  \<^item> \<^verbatim>\<open>Commands\<close>, \<^verbatim>\<open>Lifecycle\<close>, \<^verbatim>\<open>Lifecycle_Laws\<close> (\<^verbatim>\<open>sqlite.rs\<close>): recorded commands and their
    replay; creation, recovery, deletion, retention and the listing of sessions.
  \<^item> \<^verbatim>\<open>Event_Json\<close> (\<^verbatim>\<open>event.rs\<close>), \<^verbatim>\<open>Adapter\<close> (storage \<^verbatim>\<open>ports.rs\<close>): the JSON form of an event and
    the adapter that makes the session store the event store of the core; it interprets the locale
    of event stores in \<^verbatim>\<open>Orchestration\<close>.
  \<^item> \<^verbatim>\<open>Execution\<close>: the orchestrator over that adapter.
  \<^item> \<^verbatim>\<open>Wire\<close>, \<^verbatim>\<open>Serde\<close>, \<^verbatim>\<open>Client_Protocol\<close>, \<^verbatim>\<open>Delivery\<close>, \<^verbatim>\<open>Responses\<close> (protocol \<^verbatim>\<open>codec.rs\<close>, \<^verbatim>\<open>command.rs\<close>,
    \<^verbatim>\<open>validation.rs\<close>, \<^verbatim>\<open>response.rs\<close>): frames, derived readers and writers of JSON, every command with its
    checks, replies and errors.
  \<^item> \<^verbatim>\<open>Subscriptions\<close> (\<^verbatim>\<open>subscription.rs\<close> of the protocol and of the daemon): bounded queues and the hub.
  \<^item> \<^verbatim>\<open>Budget\<close> (OpenRouter \<^verbatim>\<open>budget.rs\<close>, daemon \<^verbatim>\<open>spend_store.rs\<close>): the cost ledger over its durable store.
  \<^item> \<^verbatim>\<open>Config\<close>, \<^verbatim>\<open>Config_Validate\<close>, \<^verbatim>\<open>Config_Merge\<close>, \<^verbatim>\<open>Config_Lock\<close>, \<^verbatim>\<open>Snapshot_Reload\<close> (\<^verbatim>\<open>workbench-config\<close>): the
    configuration, its checks, layers, snapshots and locks.
  \<^item> \<^verbatim>\<open>Startup\<close> (\<^verbatim>\<open>startup.rs\<close>), \<^verbatim>\<open>Workflow_Exec\<close> (\<^verbatim>\<open>workflow_exec.rs\<close>): the configuration of a session, and
    the run of a configured workflow.
  \<^item> \<^verbatim>\<open>Daemon_Base\<close>, \<^verbatim>\<open>Daemon_Routes\<close>, \<^verbatim>\<open>Daemon\<close>, \<^verbatim>\<open>Daemon_Handlers\<close>, \<^verbatim>\<open>Daemon_Tasks\<close> (\<^verbatim>\<open>application.rs\<close>): folded
    sessions and payloads; the choice of an executor; the state of the application and what its
    handlers share; the handlers; the spawned tasks, recovery, maintenance, shutdown and dispatch.
  \<^item> \<^verbatim>\<open>Daemon_View\<close>, \<^verbatim>\<open>Daemon_Laws\<close>: the states of the sessions as a view of the store, the abstract machine
    \<^term>\<open>session_moves\<close>, and the refinement of that machine by the handlers.  The locale of simulations there
    carries it to every run of commands.

Enums are datatypes, structs are records with prefixed fields, a \<^verbatim>\<open>Result\<close> is a sum whose left
side is the error, and \<^verbatim>\<open>?\<close> is \<^term>\<open>and_then\<close>.  Random values (identifiers, keys, nonces) and times are
arguments.  Identifiers are 128-bit words.  The loop over a provider's
stream (\<^term>\<open>stream_loop\<close>) may run forever and takes the number of polls as fuel; it returns as soon as
the fuel reaches past a definite item of the stream.  Every other loop is structural.

\<^bold>\<open>What the lemmas show.\<close>
Attempts never change a definite outcome and are retried only when undispatched and harmless;
policies only ever restrict; the fold accepts exactly the legal histories; a run makes bounded
progress between human actions; a session key survives every rotation, outage and restart; the
store's invariant is kept by every operation, an append extends exactly one log, and a replay
from a cursor is the rest of the log.  A command is applied once and its outcome replayed; a failed
write changes nothing; creation is all or nothing, recovery settles every uncertain attempt, and
deletion erases one session with its key.  An execution persists before every provider call and
leaves a log that folds to the state of its outcome.  Commands arrive as they were sent, queues keep
their bounds and their subscribers miss nothing; spending exceeds a ceiling by at most one estimate
error; a session can only tighten the policy it starts from and runs the executables that were
locked.  A paid prompt always waits for a human, and whatever the handlers do, a session moves along
the abstract machine, so that nothing executes without a granted approval, a retry or a resumption.

\<^bold>\<open>Not modelled.\<close>
File-system work (database opening, permissions, exports, the sources of a configuration), processes,
sockets, HTTP and terminal input and output, and the crates that consist of them: the provider
adapters, the MCP gateway and its transports, the ACP server, the command line client.  In the daemon,
the handlers of exports and of the status are parameters, telemetry and logging are left out, and a
poisoned lock is not represented.  The refinement covers the commands; what the spawned tasks write is
modelled and not related to the machine.
\<close>

end
